(* ===== verification/Prelude.thy ===== *)
theory Prelude
  imports Main
begin

text \<open>
  Shared ground of the development. A Go function that may fail and has side effects is a
  function from a world to a result and the next world: \<open>Inl\<close> is a non-nil error, \<open>Inr\<close> the
  values returned with a nil error. The combinators below are the control flow of the source:
  \<open>bindE\<close> is \<open>x, err := m; if err != nil { return err }\<close>, \<open>tryE\<close> keeps the error as a value
  for the code to inspect, \<open>ignoreE\<close> is \<open>_ = m\<close>. The collections \<open>keep\<close> and \<open>run\<close> carry the
  rules that most component proofs use: invariants through the combinators, and inversion of
  successful runs.
\<close>

named_theorems keep \<open>introduction rules for invariants of monadic code\<close>
named_theorems run \<open>equations that invert a run of monadic code\<close>

section \<open>Errors\<close>

text \<open>
  The sentinel errors of the packages, one constructor each, and the errors made by
  \<open>fmt.Errorf\<close>: the format, its string arguments, and the error wrapped by the verb w, if any.
  \<open>DriverError\<close> is a failure reported by the database or another remote party, \<open>PanicError\<close> a
  run-time panic (a nil interface or a slice out of range).
\<close>

datatype gerr =
    ErrOrgNotFound | ErrNotMember | ErrUserNotFound | ErrLastActiveMember | ErrInvalidOrgName
  | ErrInviteNotFound | ErrInvalidInvite | ErrInvalidEmail
  | ErrEmailOTPDisabled | ErrMobileOTPDisabled | ErrSignupDisabled | ErrPasswordRequired
  | ErrInvalidOTPCode | ErrTooManyOTPAttempts
  | ErrInvalidCredentials | ErrUserDisabled | ErrInvalidToken | ErrInvalidRefresh
  | ErrOrgRequired | ErrOrgMalformed
  | ErrNoRows
  | Errorf string "string list" "gerr option"
  | DriverError string
  | PanicError

text \<open>\<open>errors.Is\<close>: the error itself or one it wraps.\<close>

fun errors_Is :: "gerr \<Rightarrow> gerr \<Rightarrow> bool" where
  "errors_Is (Errorf f as (Some e)) t = (Errorf f as (Some e) = t \<or> errors_Is e t)"
| "errors_Is e t = (e = t)"

section \<open>Effects\<close>

type_synonym ('w, 'a) M = "'w \<Rightarrow> (gerr + 'a) \<times> 'w"

definition ret :: "'a \<Rightarrow> ('w, 'a) M" where
  "ret a w = (Inr a, w)"

definition fail :: "gerr \<Rightarrow> ('w, 'a) M" where
  "fail e w = (Inl e, w)"

definition bindE :: "('w, 'a) M \<Rightarrow> ('a \<Rightarrow> ('w, 'b) M) \<Rightarrow> ('w, 'b) M" where
  "bindE m f w = (case m w of (Inl e, w') \<Rightarrow> (Inl e, w') | (Inr a, w') \<Rightarrow> f a w')"

definition tryE :: "('w, 'a) M \<Rightarrow> ('w, gerr + 'a) M" where
  "tryE m w = (case m w of (r, w') \<Rightarrow> (Inr r, w'))"

definition ignoreE :: "('w, 'a) M \<Rightarrow> ('w, unit) M" where
  "ignoreE m w = (Inr (), snd (m w))"

text \<open>A call that replaces every error of \<open>m\<close> by what \<open>h\<close> makes of it.\<close>

definition mapErr :: "(gerr \<Rightarrow> gerr) \<Rightarrow> ('w, 'a) M \<Rightarrow> ('w, 'a) M" where
  "mapErr h m w = (case m w of (Inl e, w') \<Rightarrow> (Inl (h e), w') | (Inr a, w') \<Rightarrow> (Inr a, w'))"

text \<open>A method call on an interface value that may be nil.\<close>

definition use :: "'p option \<Rightarrow> ('p \<Rightarrow> ('w, 'a) M) \<Rightarrow> ('w, 'a) M" where
  "use p f = (case p of None \<Rightarrow> fail PanicError | Some q \<Rightarrow> f q)"

lemmas effect_defs = ret_def fail_def bindE_def tryE_def ignoreE_def mapErr_def use_def

lemma bindE_simps [simp]:
  "bindE (ret a) f = f a"
  "bindE (fail e) f = fail e"
  "bindE m ret = m"
  by (auto simp: fun_eq_iff effect_defs split: prod.splits sum.splits)

lemma bindE_assoc: "bindE (bindE m f) g = bindE m (\<lambda>a. bindE (f a) g)"
  by (auto simp: fun_eq_iff effect_defs split: prod.splits sum.splits)

lemma use_simps [simp]: "use (Some p) f = f p" "use None f = fail PanicError"
  by (simp_all add: use_def)

subsection \<open>Inverting a run\<close>

lemma run_ret [run]: "ret a w = (r, w') \<longleftrightarrow> r = Inr a \<and> w' = w"
  by (auto simp: ret_def)

lemma run_fail [run]: "fail e w = (r, w') \<longleftrightarrow> r = Inl e \<and> w' = w"
  by (auto simp: fail_def)

lemma run_bindE_Inr [run]:
  "bindE m f w = (Inr b, w'') \<longleftrightarrow> (\<exists>a w'. m w = (Inr a, w') \<and> f a w' = (Inr b, w''))"
  by (auto simp: bindE_def split: prod.splits sum.splits)

lemma run_bindE_Inl [run]:
  "bindE m f w = (Inl e, w'') \<longleftrightarrow>
     m w = (Inl e, w'') \<or> (\<exists>a w'. m w = (Inr a, w') \<and> f a w' = (Inl e, w''))"
  by (auto simp: bindE_def split: prod.splits sum.splits)

lemma run_tryE [run]: "tryE m w = (r, w') \<longleftrightarrow> (\<exists>x. m w = (x, w') \<and> r = Inr x)"
  by (auto simp: tryE_def split: prod.splits)

lemma run_ignoreE [run]: "ignoreE m w = (r, w') \<longleftrightarrow> r = Inr () \<and> w' = snd (m w)"
  by (auto simp: ignoreE_def)

lemma run_mapErr_Inr [run]: "mapErr h m w = (Inr a, w') \<longleftrightarrow> m w = (Inr a, w')"
  by (auto simp: mapErr_def split: prod.splits sum.splits)

lemma run_mapErr_Inl [run]: "mapErr h m w = (Inl e, w') \<longleftrightarrow> (\<exists>e'. m w = (Inl e', w') \<and> e = h e')"
  by (auto simp: mapErr_def split: prod.splits sum.splits)

subsection \<open>Invariants of code\<close>

definition keeps :: "('w \<Rightarrow> bool) \<Rightarrow> ('w, 'a) M \<Rightarrow> bool" where
  "keeps I m \<longleftrightarrow> (\<forall>w. I w \<longrightarrow> I (snd (m w)))"

lemma keepsI: "(\<And>w r w'. I w \<Longrightarrow> m w = (r, w') \<Longrightarrow> I w') \<Longrightarrow> keeps I m"
  unfolding keeps_def by (metis prod.collapse)

lemma keepsD: "keeps I m \<Longrightarrow> I w \<Longrightarrow> m w = (r, w') \<Longrightarrow> I w'"
  unfolding keeps_def by (metis snd_conv)

lemma keeps_ret [keep]: "keeps I (ret a)"
  by (simp add: keeps_def ret_def)

lemma keeps_fail [keep]: "keeps I (fail e)"
  by (simp add: keeps_def fail_def)

lemma keeps_bindE [keep]: "keeps I m \<Longrightarrow> (\<And>a. keeps I (f a)) \<Longrightarrow> keeps I (bindE m f)"
  unfolding keeps_def bindE_def by (fastforce split: prod.splits sum.splits)

lemma keeps_tryE [keep]: "keeps I m \<Longrightarrow> keeps I (tryE m)"
  unfolding keeps_def tryE_def by (fastforce split: prod.splits)

lemma keeps_ignoreE [keep]: "keeps I m \<Longrightarrow> keeps I (ignoreE m)"
  by (auto simp: keeps_def ignoreE_def)

lemma keeps_mapErr [keep]: "keeps I m \<Longrightarrow> keeps I (mapErr h m)"
  unfolding keeps_def mapErr_def by (fastforce split: prod.splits sum.splits)

lemma keeps_use [keep]: "(\<And>q. p = Some q \<Longrightarrow> keeps I (f q)) \<Longrightarrow> keeps I (use p f)"
  by (cases p) (auto simp: keeps_fail)

lemma keeps_if [keep]: "(b \<Longrightarrow> keeps I m) \<Longrightarrow> (\<not> b \<Longrightarrow> keeps I n) \<Longrightarrow> keeps I (if b then m else n)"
  by simp

lemma keeps_case_option [keep]:
  "(x = None \<Longrightarrow> keeps I m) \<Longrightarrow> (\<And>a. x = Some a \<Longrightarrow> keeps I (f a)) \<Longrightarrow>
   keeps I (case x of None \<Rightarrow> m | Some a \<Rightarrow> f a)"
  by (cases x) auto

lemma keeps_case_sum [keep]:
  "(\<And>a. x = Inl a \<Longrightarrow> keeps I (f a)) \<Longrightarrow> (\<And>b. x = Inr b \<Longrightarrow> keeps I (g b)) \<Longrightarrow>
   keeps I (case x of Inl a \<Rightarrow> f a | Inr b \<Rightarrow> g b)"
  by (cases x) auto

lemma keeps_case_prod [keep]:
  "(\<And>a b. x = (a, b) \<Longrightarrow> keeps I (f a b)) \<Longrightarrow> keeps I (case x of (a, b) \<Rightarrow> f a b)"
  by (cases x) auto

lemma keeps_case_list [keep]:
  "(xs = [] \<Longrightarrow> keeps I m) \<Longrightarrow> (\<And>y ys. xs = y # ys \<Longrightarrow> keeps I (f y ys)) \<Longrightarrow>
   keeps I (case xs of [] \<Rightarrow> m | y # ys \<Rightarrow> f y ys)"
  by (cases xs) auto

lemma keeps_Let [keep]: "(\<And>a. keeps I (f a)) \<Longrightarrow> keeps I (let a = x in f a)"
  by simp

section \<open>Lists of rows\<close>

text \<open>
  Tables are lists of rows. The statements of the database filter, map and append; the facts
  below are what the uniqueness and reference invariants need of those.
\<close>

lemma distinct_map_filter_keep [simp]: "distinct (map f xs) \<Longrightarrow> distinct (map f (filter P xs))"
  by (induction xs) auto

lemma map_upd_keep:
  "(\<And>x. P x \<Longrightarrow> f (g x) = f x) \<Longrightarrow> map f (map (\<lambda>x. if P x then g x else x) xs) = map f xs"
  by (induction xs) auto

lemma distinct_map_unique:
  "distinct (map f xs) \<Longrightarrow> x \<in> set xs \<Longrightarrow> y \<in> set xs \<Longrightarrow> f x = f y \<Longrightarrow> x = y"
  by (induction xs) (auto simp: rev_image_eqI)

lemma find_unique:
  assumes "distinct (map f xs)" and "x \<in> set xs" and "f x = k"
  shows "find (\<lambda>y. f y = k) xs = Some x"
  using assms by (induction xs) (auto simp: rev_image_eqI)

end
