(* ===== verification/GoStrings.thy ===== *)
theory GoStrings
  imports Prelude "HOL-Library.Char_ord" "HOL-Library.List_Lexorder"
begin

text \<open>
  The parts of Go's standard library that the sources use on strings. A Go string is a sequence
  of bytes, here a \<open>char list\<close>; \<open>char\<close> is a byte, and the lexicographic order of
  \<open>List_Lexorder\<close> over \<open>Char_ord\<close> is Go's order of strings. \<open>strings.TrimSpace\<close> is modelled with
  the UTF-8 encodings of every Unicode space. Lower-casing and case folding of ASCII text are
  written out; the Unicode tables they need on other text are a parameter.
\<close>

section \<open>Bytes\<close>

definition byte :: "char \<Rightarrow> nat" where
  "byte c = of_char c"

definition is_ascii :: "char \<Rightarrow> bool" where
  "is_ascii c \<longleftrightarrow> byte c < 128"

text \<open>Visible ASCII: neither a space nor a byte of a multi-byte encoding.\<close>

definition visible :: "char \<Rightarrow> bool" where
  "visible c \<longleftrightarrow> 33 \<le> byte c \<and> byte c \<le> 126"

lemma byte_less [simp]: "byte c < 256"
  using of_char_mod_256 [of c, where 'a = nat] by (simp add: byte_def)

lemma byte_inject [simp]: "byte c = byte d \<longleftrightarrow> c = d"
  by (simp add: byte_def)

lemma byte_char_of [simp]: "byte (char_of (n::nat)) = n mod 256"
  by (simp add: byte_def)

section \<open>strings.TrimSpace\<close>

definition has_prefix :: "string \<Rightarrow> string \<Rightarrow> bool" where
  "has_prefix p s \<longleftrightarrow> take (length p) s = p"

function strip :: "string list \<Rightarrow> string \<Rightarrow> string" where
  "strip ws s = (case find (\<lambda>w. w \<noteq> [] \<and> has_prefix w s) ws of
     None \<Rightarrow> s
   | Some w \<Rightarrow> strip ws (drop (length w) s))"
  by pat_completeness auto
termination
proof (relation "measure (\<lambda>(ws, s). length s)")
  fix ws s w
  assume "find (\<lambda>w. w \<noteq> [] \<and> has_prefix w s) ws = Some w"
  then have "w \<noteq> []" and "take (length w) s = w"
    by (auto simp: find_Some_iff has_prefix_def)
  then have "s \<noteq> []" by auto
  with \<open>w \<noteq> []\<close> show "((ws, drop (length w) s), ws, s) \<in> measure (\<lambda>(ws, s). length s)"
    by simp
qed simp

declare strip.simps [simp del]

definition spaces :: "string list" where
  "spaces =
     [[CHR 0x09], [CHR 0x0A], [CHR 0x0B], [CHR 0x0C], [CHR 0x0D], [CHR 0x20],
      [CHR 0xC2, CHR 0x85], [CHR 0xC2, CHR 0xA0], [CHR 0xE1, CHR 0x9A, CHR 0x80],
      [CHR 0xE2, CHR 0x80, CHR 0x80], [CHR 0xE2, CHR 0x80, CHR 0x81],
      [CHR 0xE2, CHR 0x80, CHR 0x82], [CHR 0xE2, CHR 0x80, CHR 0x83],
      [CHR 0xE2, CHR 0x80, CHR 0x84], [CHR 0xE2, CHR 0x80, CHR 0x85],
      [CHR 0xE2, CHR 0x80, CHR 0x86], [CHR 0xE2, CHR 0x80, CHR 0x87],
      [CHR 0xE2, CHR 0x80, CHR 0x88], [CHR 0xE2, CHR 0x80, CHR 0x89],
      [CHR 0xE2, CHR 0x80, CHR 0x8A], [CHR 0xE2, CHR 0x80, CHR 0xA8],
      [CHR 0xE2, CHR 0x80, CHR 0xA9], [CHR 0xE2, CHR 0x80, CHR 0xAF],
      [CHR 0xE2, CHR 0x81, CHR 0x9F], [CHR 0xE3, CHR 0x80, CHR 0x80]]"

definition TrimSpace :: "string \<Rightarrow> string" where
  "TrimSpace s = rev (strip (map rev spaces) (rev (strip spaces s)))"

section \<open>Case\<close>

record unicode =
  ulower :: "string \<Rightarrow> string"
  ufold :: "string \<Rightarrow> string \<Rightarrow> bool"

definition ascii_lower :: "char \<Rightarrow> char" where
  "ascii_lower c = (if 65 \<le> byte c \<and> byte c \<le> 90 then char_of (byte c + 32) else c)"

definition ToLower :: "unicode \<Rightarrow> string \<Rightarrow> string" where
  "ToLower u s = (if list_all is_ascii s then map ascii_lower s else ulower u s)"

definition EqualFold :: "unicode \<Rightarrow> string \<Rightarrow> string \<Rightarrow> bool" where
  "EqualFold u s t =
     (if list_all is_ascii s \<and> list_all is_ascii t
      then map ascii_lower s = map ascii_lower t else ufold u s t)"

section \<open>Cutting strings\<close>

definition TrimPrefix :: "string \<Rightarrow> string \<Rightarrow> string" where
  "TrimPrefix s p = (if has_prefix p s then drop (length p) s else s)"

definition HasPrefix :: "string \<Rightarrow> string \<Rightarrow> bool" where
  "HasPrefix s p = has_prefix p s"

text \<open>\<open>strings.SplitN(s, sep, 2)\<close> for a one-byte separator.\<close>

definition SplitN2 :: "string \<Rightarrow> char \<Rightarrow> string list" where
  "SplitN2 s c =
     (if c \<in> set s then [takeWhile (\<lambda>d. d \<noteq> c) s, tl (dropWhile (\<lambda>d. d \<noteq> c) s)] else [s])"

section \<open>Encodings\<close>

definition hex_digits :: string where
  "hex_digits = ''0123456789abcdef''"

definition EncodeHex :: "string \<Rightarrow> string" where
  "EncodeHex bs = concat (map (\<lambda>c. [hex_digits ! (byte c div 16), hex_digits ! (byte c mod 16)]) bs)"

definition b64_alphabet :: string where
  "b64_alphabet = ''ABCDEFGHIJKLMNOPQRSTUVWXYZabcdefghijklmnopqrstuvwxyz0123456789-_''"

fun b64_sextets :: "nat list \<Rightarrow> nat list" where
  "b64_sextets [] = []"
| "b64_sextets [a] = [a div 4, (a mod 4) * 16]"
| "b64_sextets [a, b] = [a div 4, (a mod 4) * 16 + b div 16, (b mod 16) * 4]"
| "b64_sextets (a # b # c # xs) =
     a div 4 # ((a mod 4) * 16 + b div 16) # ((b mod 16) * 4 + c div 64) # (c mod 64) # b64_sextets xs"

text \<open>\<open>base64.RawURLEncoding.EncodeToString\<close>.\<close>

definition EncodeRawURL :: "string \<Rightarrow> string" where
  "EncodeRawURL bs = map (\<lambda>n. b64_alphabet ! n) (b64_sextets (map byte bs))"

section \<open>Facts\<close>

definition stripped :: "string list \<Rightarrow> string \<Rightarrow> bool" where
  "stripped ws s \<longleftrightarrow> (\<forall>w \<in> set ws. w \<noteq> [] \<longrightarrow> \<not> has_prefix w s)"

lemma strip_id: "stripped ws s \<Longrightarrow> strip ws s = s"
proof -
  assume "stripped ws s"
  then have "find (\<lambda>w. w \<noteq> [] \<and> has_prefix w s) ws = None"
    by (auto simp: find_None_iff stripped_def)
  then show ?thesis by (simp add: strip.simps)
qed

lemma strip_stripped: "stripped ws (strip ws s)"
proof (induction ws s rule: strip.induct)
  case (1 ws s)
  show ?case
  proof (cases "find (\<lambda>w. w \<noteq> [] \<and> has_prefix w s) ws")
    case None
    then have "stripped ws s" by (auto simp: stripped_def find_None_iff)
    with None show ?thesis by (simp add: strip_id)
  next
    case (Some w)
    with "1.IH" [OF Some] show ?thesis by (simp add: strip.simps [of ws s])
  qed
qed

lemma strip_suffix: "\<exists>p. s = p @ strip ws s"
proof (induction ws s rule: strip.induct)
  case (1 ws s)
  show ?case
  proof (cases "find (\<lambda>w. w \<noteq> [] \<and> has_prefix w s) ws")
    case None
    then show ?thesis by (simp add: strip.simps [of ws s])
  next
    case (Some w)
    from "1.IH" [OF Some] obtain p where "drop (length w) s = p @ strip ws (drop (length w) s)"
      by blast
    then have "s = (take (length w) s @ p) @ strip ws (drop (length w) s)"
      by (metis append_assoc append_take_drop_id)
    then have "s = (take (length w) s @ p) @ strip ws s"
      using Some by (simp add: strip.simps [of ws s])
    then show ?thesis ..
  qed
qed

lemma stripped_prefix: "stripped ws (s @ t) \<Longrightarrow> stripped ws s"
  by (auto simp: stripped_def has_prefix_def)

lemma TrimSpace_ends: "stripped spaces (TrimSpace s) \<and> stripped (map rev spaces) (rev (TrimSpace s))"
proof
  let ?l = "strip spaces s"
  obtain p where "rev ?l = p @ strip (map rev spaces) (rev ?l)"
    using strip_suffix by blast
  then have "?l = TrimSpace s @ rev p"
    unfolding TrimSpace_def by (metis rev_append rev_rev_ident)
  then show "stripped spaces (TrimSpace s)"
    using strip_stripped [of spaces s] by (metis stripped_prefix)
  show "stripped (map rev spaces) (rev (TrimSpace s))"
    by (simp add: TrimSpace_def strip_stripped)
qed

lemma TrimSpace_id: "stripped spaces s \<Longrightarrow> stripped (map rev spaces) (rev s) \<Longrightarrow> TrimSpace s = s"
  by (simp add: TrimSpace_def strip_id)

lemma TrimSpace_idem [simp]: "TrimSpace (TrimSpace s) = TrimSpace s"
  using TrimSpace_ends by (blast intro: TrimSpace_id)

lemma stripped_visible: "list_all visible s \<Longrightarrow> \<forall>w \<in> set ws. w \<noteq> [] \<longrightarrow> \<not> visible (hd w) \<Longrightarrow> stripped ws s"
  unfolding stripped_def has_prefix_def
  by (metis hd_in_set in_set_takeD list_all_iff)

lemma spaces_invisible:
  "\<forall>w \<in> set spaces. w \<noteq> [] \<longrightarrow> \<not> visible (hd w)"
  "\<forall>w \<in> set (map rev spaces). w \<noteq> [] \<longrightarrow> \<not> visible (hd w)"
  by (simp_all add: spaces_def visible_def byte_def)

lemma TrimSpace_visible: "list_all visible s \<Longrightarrow> TrimSpace s = s"
  by (intro TrimSpace_id stripped_visible spaces_invisible) simp_all

lemma TrimSpace_Nil [simp]: "TrimSpace [] = []"
  by (simp add: TrimSpace_visible)

lemma ascii_lower_idem [simp]: "ascii_lower (ascii_lower c) = ascii_lower c"
  by (auto simp: ascii_lower_def)

lemma is_ascii_lower: "is_ascii c \<Longrightarrow> is_ascii (ascii_lower c)"
  by (auto simp: ascii_lower_def is_ascii_def)

lemma ToLower_ascii_idem: "list_all is_ascii s \<Longrightarrow> ToLower u (ToLower u s) = ToLower u s"
  by (simp add: ToLower_def list_all_iff is_ascii_lower)

lemma EqualFold_ascii_refl: "list_all is_ascii s \<Longrightarrow> EqualFold u s s"
  by (simp add: EqualFold_def)

lemma length_b64_sextets: "length (b64_sextets xs) = (4 * length xs + 2) div 3"
  by (induction xs rule: b64_sextets.induct) auto

lemma b64_sextets_bound: "list_all (\<lambda>n. n < 256) xs \<Longrightarrow> list_all (\<lambda>n. n < 64) (b64_sextets xs)"
proof (induction xs rule: b64_sextets.induct)
  case (4 a b c xs)
  then have "a < 256" "b < 256" "c < 256" by auto
  then have "a div 4 < 64" "(a mod 4) * 16 + b div 16 < 64" "(b mod 16) * 4 + c div 64 < 64" "c mod 64 < 64"
    by auto
  with 4 show ?case by simp
qed auto

lemma length_EncodeRawURL: "length (EncodeRawURL bs) = (4 * length bs + 2) div 3"
  by (simp add: EncodeRawURL_def length_b64_sextets)

lemma set_b64_alphabet: "c \<in> set b64_alphabet \<Longrightarrow> visible c \<and> c \<noteq> CHR ''.''"
  by (auto simp: b64_alphabet_def visible_def byte_def)

lemma set_EncodeRawURL: "c \<in> set (EncodeRawURL bs) \<Longrightarrow> c \<in> set b64_alphabet"
proof -
  assume "c \<in> set (EncodeRawURL bs)"
  then obtain n where n: "n \<in> set (b64_sextets (map byte bs))" and c: "c = b64_alphabet ! n"
    by (auto simp: EncodeRawURL_def)
  have "list_all (\<lambda>n. n < 64) (b64_sextets (map byte bs))"
    by (intro b64_sextets_bound) (simp add: list_all_iff)
  with n have "n < length b64_alphabet" by (auto simp: list_all_iff b64_alphabet_def)
  with c show ?thesis by simp
qed

lemma SplitN2_append: "c \<notin> set p \<Longrightarrow> SplitN2 (p @ c # q) c = [p, q]"
  by (auto simp: SplitN2_def takeWhile_append dropWhile_append)

end
