(* ===== verification/Policy.thy ===== *)
theory Policy
  imports GoStrings "HOL-Library.Mapping" "HOL-Library.AList_Mapping"
begin

text \<open>
  \<open>authorization/policy.go\<close> and \<open>authorization/catalog.go\<close>: identifiers, the static role policy
  (\<open>Evaluator\<close>) and the permission catalog. A Go map that is ranged over is the list of its
  entries in the order of that iteration, so a statement for every list is a statement for every
  iteration order; a \<open>map[K]struct{}\<close> is a finite set.
\<close>

type_synonym Role = string
type_synonym Permission = string

definition lower_letters :: string where
  "lower_letters = ''abcdefghijklmnopqrstuvwxyz''"

definition identifier_chars :: string where
  "identifier_chars = lower_letters @ ''0123456789_.-''"

text \<open>The pattern \<open>[a-z][a-z0-9_.-]*\<close>, anchored at both ends.\<close>

fun identifierPattern :: "string \<Rightarrow> bool" where
  "identifierPattern [] = False"
| "identifierPattern (c # cs) = (c \<in> set lower_letters \<and> set cs \<subseteq> set identifier_chars)"

definition validateIdentifier :: "string \<Rightarrow> string \<Rightarrow> gerr option" where
  "validateIdentifier kind val =
     (if val \<noteq> TrimSpace val \<or> \<not> identifierPattern val
      then Some (Errorf ''invalid %s identifier %q'' [kind, val] None) else None)"

section \<open>The static policy\<close>

type_synonym PolicyMap = "(Role \<times> Permission list) list"

record Evaluator =
  Evaluator_permissions :: "Role \<rightharpoonup> Permission set"

fun copyGrants :: "Permission list \<Rightarrow> Permission set \<Rightarrow> gerr + Permission set" where
  "copyGrants [] acc = Inr acc"
| "copyGrants (p # ps) acc =
     (case validateIdentifier ''permission'' p of
        Some err \<Rightarrow> Inl err
      | None \<Rightarrow> copyGrants ps (insert p acc))"

fun copyPolicy :: "PolicyMap \<Rightarrow> (Role \<rightharpoonup> Permission set) \<Rightarrow> gerr + (Role \<rightharpoonup> Permission set)" where
  "copyPolicy [] acc = Inr acc"
| "copyPolicy ((role, grants) # rest) acc =
     (case validateIdentifier ''role'' role of
        Some err \<Rightarrow> Inl err
      | None \<Rightarrow>
          if grants = [] then Inl (Errorf ''role %q must grant at least one permission'' [role] None)
          else (case copyGrants grants {} of
                  Inl err \<Rightarrow> Inl err
                | Inr rolePermissions \<Rightarrow> copyPolicy rest (acc(role \<mapsto> rolePermissions))))"

definition NewEvaluator :: "PolicyMap \<Rightarrow> gerr + Evaluator" where
  "NewEvaluator policy =
     (if policy = [] then Inl (Errorf ''authorization policy must define at least one role'' [] None)
      else (case copyPolicy policy Map.empty of
              Inl err \<Rightarrow> Inl err
            | Inr permissions \<Rightarrow> Inr \<lparr>Evaluator_permissions = permissions\<rparr>))"

fun allows_loop :: "Evaluator \<Rightarrow> Role list \<Rightarrow> Permission \<Rightarrow> bool" where
  "allows_loop e [] p = False"
| "allows_loop e (role # roles) p =
     (if p \<in> (case Evaluator_permissions e role of None \<Rightarrow> {} | Some s \<Rightarrow> s) then True
      else allows_loop e roles p)"

definition Allows :: "Evaluator option \<Rightarrow> Role list \<Rightarrow> Permission \<Rightarrow> bool" where
  "Allows e roles p =
     (case e of None \<Rightarrow> False | Some ev \<Rightarrow> if p = [] then False else allows_loop ev roles p)"

fun granted_set :: "Evaluator \<Rightarrow> Role list \<Rightarrow> Permission set" where
  "granted_set e [] = {}"
| "granted_set e (role # roles) =
     (case Evaluator_permissions e role of None \<Rightarrow> {} | Some s \<Rightarrow> s) \<union> granted_set e roles"

definition Permissions :: "Evaluator option \<Rightarrow> Role list \<Rightarrow> Permission list" where
  "Permissions e roles =
     (case e of None \<Rightarrow> [] | Some ev \<Rightarrow> sorted_list_of_set (granted_set ev roles))"

section \<open>The catalog\<close>

record PermissionSpec =
  PermissionSpec_Key :: Permission
  PermissionSpec_Description :: string

record Catalog =
  Catalog_specs :: "(Permission, PermissionSpec) mapping"

fun catalog_loop :: "PermissionSpec list \<Rightarrow> Catalog \<Rightarrow> gerr + Catalog" where
  "catalog_loop [] c = Inr c"
| "catalog_loop (spec # specs) c =
     (case validateIdentifier ''permission'' (PermissionSpec_Key spec) of
        Some err \<Rightarrow> Inl err
      | None \<Rightarrow>
          if Mapping.lookup (Catalog_specs c) (PermissionSpec_Key spec) \<noteq> None
          then Inl (Errorf ''duplicate permission %q'' [PermissionSpec_Key spec] None)
          else catalog_loop specs
                 (c\<lparr>Catalog_specs := Mapping.update (PermissionSpec_Key spec) spec (Catalog_specs c)\<rparr>))"

definition NewCatalog :: "PermissionSpec list \<Rightarrow> gerr + Catalog" where
  "NewCatalog perms = catalog_loop perms \<lparr>Catalog_specs = Mapping.empty\<rparr>"

definition Has :: "Catalog option \<Rightarrow> Permission \<Rightarrow> bool" where
  "Has c p = (case c of None \<Rightarrow> False | Some cat \<Rightarrow> Mapping.lookup (Catalog_specs cat) p \<noteq> None)"

definition All :: "Catalog option \<Rightarrow> PermissionSpec list" where
  "All c = (case c of None \<Rightarrow> []
            | Some cat \<Rightarrow> map (\<lambda>k. the (Mapping.lookup (Catalog_specs cat) k))
                              (Mapping.ordered_keys (Catalog_specs cat)))"

section \<open>Roles against the catalog\<close>

record RoleDef =
  RoleDef_Key :: string
  RoleDef_Permissions :: "Permission list"
  RoleDef_System :: bool

fun role_permissions_loop :: "Catalog \<Rightarrow> string \<Rightarrow> Permission list \<Rightarrow> gerr option" where
  "role_permissions_loop c key [] = None"
| "role_permissions_loop c key (p # ps) =
     (case validateIdentifier ''permission'' p of
        Some err \<Rightarrow> Some err
      | None \<Rightarrow>
          if \<not> Has (Some c) p then Some (Errorf ''role %q references unknown permission %q'' [key, p] None)
          else role_permissions_loop c key ps)"

fun validate_roles_loop :: "Catalog \<Rightarrow> RoleDef list \<Rightarrow> string set \<Rightarrow> gerr option" where
  "validate_roles_loop c [] seen = None"
| "validate_roles_loop c (r # rs) seen =
     (case validateIdentifier ''role'' (RoleDef_Key r) of
        Some err \<Rightarrow> Some err
      | None \<Rightarrow>
          if RoleDef_Key r \<in> seen then Some (Errorf ''duplicate role %q'' [RoleDef_Key r] None)
          else (case role_permissions_loop c (RoleDef_Key r) (RoleDef_Permissions r) of
                  Some err \<Rightarrow> Some err
                | None \<Rightarrow> validate_roles_loop c rs (insert (RoleDef_Key r) seen)))"

definition ValidateRoles :: "Catalog option \<Rightarrow> RoleDef list \<Rightarrow> gerr option" where
  "ValidateRoles c roles =
     (case c of None \<Rightarrow> Some (Errorf ''authorization catalog is required'' [] None)
      | Some cat \<Rightarrow> validate_roles_loop cat roles {})"

section \<open>Identifiers\<close>

lemma identifier_chars_visible: "c \<in> set identifier_chars \<Longrightarrow> visible c"
  by (auto simp: identifier_chars_def lower_letters_def visible_def byte_def)

lemma identifierPattern_visible: "identifierPattern s \<Longrightarrow> list_all visible s"
  by (cases s) (auto simp: list_all_iff identifier_chars_def intro!: identifier_chars_visible)

text \<open>The trimming test adds nothing: no string that matches the pattern has outer spaces.\<close>

lemma validateIdentifier_None: "validateIdentifier kind v = None \<longleftrightarrow> identifierPattern v"
  by (auto simp: validateIdentifier_def TrimSpace_visible identifierPattern_visible)

lemma validateIdentifier_eq:
  "validateIdentifier kind v =
     (if identifierPattern v then None else Some (Errorf ''invalid %s identifier %q'' [kind, v] None))"
  by (auto simp: validateIdentifier_def TrimSpace_visible identifierPattern_visible)

section \<open>Properties of the static policy\<close>

lemma copyGrants_Inr: "copyGrants ps acc = Inr s \<longleftrightarrow> (\<forall>p \<in> set ps. identifierPattern p) \<and> s = acc \<union> set ps"
  by (induction ps acc rule: copyGrants.induct) (auto simp: validateIdentifier_eq)

definition valid_entry :: "Role \<times> Permission list \<Rightarrow> bool" where
  "valid_entry e \<longleftrightarrow> identifierPattern (fst e) \<and> snd e \<noteq> [] \<and> (\<forall>p \<in> set (snd e). identifierPattern p)"

lemma copyPolicy_Cons:
  "copyPolicy ((role, grants) # rest) acc = Inr m \<longleftrightarrow>
     valid_entry (role, grants) \<and> copyPolicy rest (acc(role \<mapsto> set grants)) = Inr m"
proof (cases "copyGrants grants {}")
  case (Inl e)
  then have "\<not> (\<forall>p \<in> set grants. identifierPattern p)"
    using copyGrants_Inr [of grants "{}" "set grants"] by auto
  with Inl show ?thesis by (auto simp: valid_entry_def validateIdentifier_eq)
next
  case (Inr s)
  then have "(\<forall>p \<in> set grants. identifierPattern p) \<and> s = set grants"
    by (simp add: copyGrants_Inr)
  with Inr show ?thesis by (auto simp: valid_entry_def validateIdentifier_eq)
qed

lemma copyPolicy_ok: "(\<exists>m. copyPolicy pol acc = Inr m) \<longleftrightarrow> (\<forall>e \<in> set pol. valid_entry e)"
proof (induction pol arbitrary: acc)
  case (Cons e rest)
  obtain role grants where "e = (role, grants)" by force
  with Cons show ?case by (simp del: copyPolicy.simps(2) add: copyPolicy_Cons)
qed simp

lemma copyPolicy_lookup:
  "distinct (map fst pol) \<Longrightarrow> copyPolicy pol acc = Inr m \<Longrightarrow>
   m r = (case map_of pol r of None \<Rightarrow> acc r | Some g \<Rightarrow> Some (set g))"
proof (induction pol arbitrary: acc)
  case (Cons e rest)
  obtain role grants where e: "e = (role, grants)" by force
  then have "m r = (case map_of rest r of None \<Rightarrow> (acc(role \<mapsto> set grants)) r | Some g \<Rightarrow> Some (set g))"
    using Cons by (simp del: copyPolicy.simps(2) add: copyPolicy_Cons)
  moreover have "map_of rest role = None" using Cons.prems(1) e by (simp add: map_of_eq_None_iff)
  ultimately show ?case using e by (auto split: option.splits)
qed simp

lemma allows_loop_iff: "allows_loop e roles p \<longleftrightarrow> p \<in> granted_set e roles"
  by (induction roles) auto

lemma granted_set_iff:
  "p \<in> granted_set e roles \<longleftrightarrow> (\<exists>r \<in> set roles. \<exists>s. Evaluator_permissions e r = Some s \<and> p \<in> s)"
  by (induction roles) (auto split: option.splits)

lemma NewEvaluator_lookup:
  assumes "distinct (map fst pol)" and "NewEvaluator pol = Inr e"
  shows "Evaluator_permissions e r = map_option set (map_of pol r)"
proof -
  from assms(2) obtain m where "copyPolicy pol Map.empty = Inr m" and "e = \<lparr>Evaluator_permissions = m\<rparr>"
    by (auto simp: NewEvaluator_def split: if_splits sum.splits)
  with copyPolicy_lookup [OF assms(1), of Map.empty m r] show ?thesis
    by (auto split: option.splits)
qed

lemma NewEvaluator_valid:
  assumes "NewEvaluator pol = Inr e" and "(r, g) \<in> set pol"
  shows "valid_entry (r, g)"
  using assms copyPolicy_ok [of pol Map.empty]
  by (auto simp: NewEvaluator_def split: if_splits sum.splits)

lemma finite_granted_set:
  assumes "distinct (map fst pol)" and "NewEvaluator pol = Inr e"
  shows "finite (granted_set e roles)"
  by (induction roles) (auto simp: NewEvaluator_lookup [OF assms] split: option.splits)

lemma NewEvaluator_ok:
  "(\<exists>e. NewEvaluator pol = Inr e) \<longleftrightarrow> pol \<noteq> [] \<and> (\<forall>e \<in> set pol. valid_entry e)"
  using copyPolicy_ok [of pol Map.empty] by (auto simp: NewEvaluator_def split: sum.splits)

lemma Allows_policy:
  assumes "distinct (map fst pol)" and "NewEvaluator pol = Inr e"
  shows "Allows (Some e) roles p \<longleftrightarrow> (\<exists>r \<in> set roles. \<exists>g. (r, g) \<in> set pol \<and> p \<in> set g)"
proof (cases "p = []")
  case True
  have "p \<notin> set g" if "(r, g) \<in> set pol" for r g
    using NewEvaluator_valid [OF assms(2) that] True by (auto simp: valid_entry_def)
  with True show ?thesis by (auto simp: Allows_def)
next
  case False
  then show ?thesis
    using assms(1) by (auto simp: Allows_def allows_loop_iff granted_set_iff NewEvaluator_lookup [OF assms]
        dest: map_of_SomeD intro!: bexI)
qed

lemma Permissions_Allows:
  assumes "distinct (map fst pol)" and "NewEvaluator pol = Inr e"
  shows "set (Permissions (Some e) roles) = {p. Allows (Some e) roles p}"
proof -
  have "[] \<notin> set g" if "(r, g) \<in> set pol" for r g
    using NewEvaluator_valid [OF assms(2) that] by (auto simp: valid_entry_def)
  then have "[] \<notin> granted_set e roles"
    by (auto simp: granted_set_iff NewEvaluator_lookup [OF assms] dest!: map_of_SomeD)
  then show ?thesis
    by (auto simp: Permissions_def Allows_def allows_loop_iff finite_granted_set [OF assms])
qed

section \<open>Properties of the catalog\<close>

abbreviation entries :: "PermissionSpec list \<Rightarrow> (Permission \<times> PermissionSpec) list" where
  "entries specs \<equiv> map (\<lambda>s. (PermissionSpec_Key s, s)) specs"

abbreviation specs_of :: "Catalog \<Rightarrow> Permission \<Rightarrow> PermissionSpec option" where
  "specs_of c \<equiv> Mapping.lookup (Catalog_specs c)"

lemma catalog_loop_Cons:
  "catalog_loop (spec # specs) c = Inr c' \<longleftrightarrow>
     identifierPattern (PermissionSpec_Key spec) \<and> specs_of c (PermissionSpec_Key spec) = None \<and>
     catalog_loop specs
       (c\<lparr>Catalog_specs := Mapping.update (PermissionSpec_Key spec) spec (Catalog_specs c)\<rparr>) = Inr c'"
  by (simp add: validateIdentifier_eq)

lemma catalog_loop_ok:
  "(\<exists>c'. catalog_loop specs c = Inr c') \<longleftrightarrow>
     (\<forall>s \<in> set specs. identifierPattern (PermissionSpec_Key s) \<and> specs_of c (PermissionSpec_Key s) = None) \<and>
     distinct (map PermissionSpec_Key specs)"
proof (induction specs arbitrary: c)
  case (Cons spec specs)
  show ?case
    by (simp del: catalog_loop.simps(2) add: catalog_loop_Cons Cons lookup_update') (auto split: if_splits)
qed simp

lemma catalog_loop_lookup:
  "catalog_loop specs c = Inr c' \<Longrightarrow> specs_of c' = specs_of c ++ map_of (entries specs)"
proof (induction specs arbitrary: c)
  case (Cons spec specs)
  let ?k = "PermissionSpec_Key spec"
  let ?c = "c\<lparr>Catalog_specs := Mapping.update ?k spec (Catalog_specs c)\<rparr>"
  from Cons.prems have step: "catalog_loop specs ?c = Inr c'" by (simp only: catalog_loop_Cons)
  then have "\<forall>s \<in> set specs. specs_of ?c (PermissionSpec_Key s) = None"
    using catalog_loop_ok [of specs ?c] by blast
  then have "?k \<notin> PermissionSpec_Key ` set specs" by (auto simp: lookup_update')
  then have "map_of (entries specs) ?k = None" by (auto simp: map_of_eq_None_iff)
  then show ?case
    unfolding Cons.IH [OF step] by (auto simp: fun_eq_iff map_add_def lookup_update' split: option.splits)
qed simp

lemma NewCatalog_ok:
  "(\<exists>c. NewCatalog perms = Inr c) \<longleftrightarrow>
     (\<forall>s \<in> set perms. identifierPattern (PermissionSpec_Key s)) \<and> distinct (map PermissionSpec_Key perms)"
  by (auto simp: NewCatalog_def catalog_loop_ok Mapping.lookup_empty)

lemma NewCatalog_lookup:
  assumes "NewCatalog perms = Inr c"
  shows "specs_of c = map_of (entries perms)"
  using catalog_loop_lookup [OF assms [unfolded NewCatalog_def]]
  by (auto simp: fun_eq_iff Mapping.lookup_empty map_add_def split: option.splits)

lemma Has_NewCatalog:
  assumes "NewCatalog perms = Inr c"
  shows "Has (Some c) p \<longleftrightarrow> p \<in> PermissionSpec_Key ` set perms"
  by (auto simp: Has_def NewCatalog_lookup [OF assms] map_of_eq_None_iff image_image)

lemma All_NewCatalog:
  assumes "NewCatalog perms = Inr c"
  shows "set (All (Some c)) = set perms" and "sorted (map PermissionSpec_Key (All (Some c)))"
    and "distinct (map PermissionSpec_Key (All (Some c)))"
proof -
  let ?l = "Mapping.lookup (Catalog_specs c)"
  have d: "distinct (map PermissionSpec_Key perms)"
    using assms NewCatalog_ok by blast
  have l: "?l = map_of (map (\<lambda>s. (PermissionSpec_Key s, s)) perms)"
    by (rule NewCatalog_lookup [OF assms])
  have dom: "Mapping.keys (Catalog_specs c) = PermissionSpec_Key ` set perms"
    by (auto simp: keys_dom_lookup l dom_map_of_conv_image_fst image_image)
  have val: "?l (PermissionSpec_Key s) = Some s" if "s \<in> set perms" for s
    using d that by (simp add: l map_of_eq_Some_iff comp_def distinct_map)
  have ks: "Mapping.ordered_keys (Catalog_specs c) = sorted_list_of_set (PermissionSpec_Key ` set perms)"
    by (simp add: Mapping.ordered_keys_def dom)
  have keys: "map PermissionSpec_Key (All (Some c)) = sorted_list_of_set (PermissionSpec_Key ` set perms)"
    by (auto simp: All_def ks val intro!: map_idI)
  show "sorted (map PermissionSpec_Key (All (Some c)))" "distinct (map PermissionSpec_Key (All (Some c)))"
    by (simp_all add: keys)
  show "set (All (Some c)) = set perms"
    by (auto simp: All_def ks val image_image)
qed

lemma role_permissions_loop_None:
  "role_permissions_loop c key ps = None \<longleftrightarrow> (\<forall>p \<in> set ps. identifierPattern p \<and> Has (Some c) p)"
  by (induction c key ps rule: role_permissions_loop.induct) (auto simp: validateIdentifier_eq)

lemma validate_roles_loop_None:
  "validate_roles_loop c rs seen = None \<longleftrightarrow>
     (\<forall>r \<in> set rs. identifierPattern (RoleDef_Key r) \<and> RoleDef_Key r \<notin> seen \<and>
        (\<forall>p \<in> set (RoleDef_Permissions r). identifierPattern p \<and> Has (Some c) p)) \<and>
     distinct (map RoleDef_Key rs)"
proof (induction rs arbitrary: seen)
  case (Cons r rs)
  have "validate_roles_loop c (r # rs) seen = None \<longleftrightarrow>
     identifierPattern (RoleDef_Key r) \<and> RoleDef_Key r \<notin> seen \<and>
     role_permissions_loop c (RoleDef_Key r) (RoleDef_Permissions r) = None \<and>
     validate_roles_loop c rs (insert (RoleDef_Key r) seen) = None"
    by (simp add: validateIdentifier_eq split: option.split)
  moreover have "RoleDef_Key r \<notin> RoleDef_Key ` set rs \<longleftrightarrow> (\<forall>x \<in> set rs. RoleDef_Key x \<noteq> RoleDef_Key r)"
    by (metis image_iff)
  ultimately show ?case
    unfolding Cons.IH role_permissions_loop_None
    by (simp del: validate_roles_loop.simps) blast
qed simp

end
