(* ===== verification/GoContext.thy ===== *)
theory GoContext
  imports GoStrings "HOL-Library.Word"
begin

text \<open>
  \<open>context.Context\<close> as the packages use it: the error of a cancelled or expired context, and the
  values stored under the three private keys of the repository (the active organization of
  package tenancy, the authenticated caller of package grpc, and the incoming gRPC metadata); and the
  status errors of gRPC.
  A UUID is its 16 bytes, a 128-bit word; \<open>uuid.Nil\<close> is 0.
\<close>

type_synonym uuid = "128 word"

record Context =
  Ctx_Err :: "gerr option"
  Ctx_Org :: "uuid option"
  Ctx_CallerID :: "string option"
  Ctx_Metadata :: "(string \<times> string list) list option"

definition Background :: Context where
  "Background = \<lparr>Ctx_Err = None, Ctx_Org = None, Ctx_CallerID = None, Ctx_Metadata = None\<rparr>"

text \<open>
  The errors of a gRPC call: a status with its code and message, the message given or the text of an
  error, or an error that is returned as it is (which gRPC reports as \<open>Unknown\<close>).
\<close>

datatype code = Unauthenticated | PermissionDenied | NotFound | InvalidArgument | FailedPrecondition | Internal

datatype status_message = Msg string | ErrorText gerr

datatype rpc_error = Status code status_message | Plain gerr

end
