(* ===== verification/Rbac.thy ===== *)
theory Rbac
  imports Policy GoContext
begin

text \<open>
  \<open>authorization/rbac.go\<close>: organization-scoped role based access control. \<open>Check\<close> answers one
  question, \<open>AllowedScopes\<close> lists the scopes where a permission is held, \<open>CanGrant\<close> decides who
  may hand out a role. The product's store is the interface \<open>Store\<close>, a record of the two methods;
  its contract is the locale \<open>authz_store\<close>. The declarative relation \<open>holds\<close> is what the three
  functions are proved against.
\<close>

record Scope =
  Scope_Type :: string
  Scope_ID :: string

record Resource =
  Resource_OrgID :: string
  Resource_Scopes :: "Scope list"

record Assignment =
  Assignment_OrgID :: string
  Assignment_Subject :: string
  Assignment_RoleKey :: string
  Assignment_Scope :: Scope

record Principal =
  Principal_Subject :: string
  Principal_OrgID :: string

record Decision =
  Decision_Allowed :: bool
  Decision_Reason :: string

record Store =
  Store_Roles :: "Context \<Rightarrow> string \<Rightarrow> gerr + RoleDef list"
  Store_Assignments :: "Context \<Rightarrow> string \<Rightarrow> string \<Rightarrow> gerr + Assignment list"

record rbac =
  rbac_catalog :: "Catalog option"
  rbac_store :: "Store option"

definition NewRBAC :: "Catalog option \<Rightarrow> Store option \<Rightarrow> rbac option" where
  "NewRBAC catalog store = Some \<lparr>rbac_catalog = catalog, rbac_store = store\<rparr>"

definition reasonNoOrg :: string where "reasonNoOrg = ''no_org''"
definition reasonOrgMismatch :: string where "reasonOrgMismatch = ''org_mismatch''"
definition reasonUnknownPermission :: string where "reasonUnknownPermission = ''unknown_permission''"
definition reasonNoGrant :: string where "reasonNoGrant = ''no_grant''"
definition reasonGranted :: string where "reasonGranted = ''granted''"

definition deny :: "string \<Rightarrow> Decision" where
  "deny reason = \<lparr>Decision_Allowed = False, Decision_Reason = reason\<rparr>"

definition hasPermission :: "rbac option \<Rightarrow> Permission \<Rightarrow> bool" where
  "hasPermission r p =
     (case r of None \<Rightarrow> False | Some rb \<Rightarrow> rbac_catalog rb \<noteq> None \<and> Has (rbac_catalog rb) p)"

fun assignmentApplies_loop :: "Scope \<Rightarrow> Scope list \<Rightarrow> bool" where
  "assignmentApplies_loop s [] = False"
| "assignmentApplies_loop s (t # ts) = (if t = s then True else assignmentApplies_loop s ts)"

definition assignmentApplies :: "Scope \<Rightarrow> Scope list \<Rightarrow> bool" where
  "assignmentApplies scope scopes =
     (if Scope_Type scope = [] then True else assignmentApplies_loop scope scopes)"

fun permissionsByRole_loop ::
  "RoleDef list \<Rightarrow> (string \<rightharpoonup> Permission set) \<Rightarrow> (string \<rightharpoonup> Permission set)" where
  "permissionsByRole_loop [] byRole = byRole"
| "permissionsByRole_loop (role # roles) byRole =
     permissionsByRole_loop roles
       (byRole(RoleDef_Key role \<mapsto>
          (case byRole (RoleDef_Key role) of None \<Rightarrow> {} | Some ps \<Rightarrow> ps) \<union> set (RoleDef_Permissions role)))"

definition permissionsByRole :: "RoleDef list \<Rightarrow> (string \<rightharpoonup> Permission set)" where
  "permissionsByRole roles = permissionsByRole_loop roles Map.empty"

fun check_loop ::
  "(string \<rightharpoonup> Permission set) \<Rightarrow> Principal \<Rightarrow> Permission \<Rightarrow> Scope list \<Rightarrow> Assignment list \<Rightarrow> Decision" where
  "check_loop byRole p perm scopes [] = deny reasonNoGrant"
| "check_loop byRole p perm scopes (a # as) =
     (if Assignment_OrgID a \<noteq> Principal_OrgID p \<or> Assignment_Subject a \<noteq> Principal_Subject p
      then check_loop byRole p perm scopes as
      else (case byRole (Assignment_RoleKey a) of
              None \<Rightarrow> check_loop byRole p perm scopes as
            | Some permissions \<Rightarrow>
                if perm \<notin> permissions then check_loop byRole p perm scopes as
                else if assignmentApplies (Assignment_Scope a) scopes
                then \<lparr>Decision_Allowed = True, Decision_Reason = reasonGranted\<rparr>
                else check_loop byRole p perm scopes as))"

definition Check ::
  "rbac option \<Rightarrow> Context \<Rightarrow> Principal \<Rightarrow> Permission \<Rightarrow> Resource \<Rightarrow> Decision \<times> gerr option" where
  "Check r ctx p perm resource =
     (if Principal_OrgID p = [] then (deny reasonNoOrg, None)
      else if Resource_OrgID resource \<noteq> Principal_OrgID p then (deny reasonOrgMismatch, None)
      else if Principal_Subject p = [] then (deny reasonNoGrant, None)
      else if \<not> hasPermission r perm then (deny reasonUnknownPermission, None)
      else (case Option.bind r rbac_store of
              None \<Rightarrow> (deny reasonNoGrant, None)
            | Some store \<Rightarrow>
                (case Store_Roles store ctx (Principal_OrgID p) of
                   Inl err \<Rightarrow>
                     (deny reasonNoGrant,
                      Some (Errorf ''authorization: list roles for org %q: %w'' [Principal_OrgID p] (Some err)))
                 | Inr roles \<Rightarrow>
                     (case Store_Assignments store ctx (Principal_OrgID p) (Principal_Subject p) of
                        Inl err \<Rightarrow>
                          (deny reasonNoGrant,
                           Some (Errorf ''authorization: list assignments for subject %q in org %q: %w''
                                   [Principal_Subject p, Principal_OrgID p] (Some err)))
                      | Inr assignments \<Rightarrow>
                          (check_loop (permissionsByRole roles) p perm (Resource_Scopes resource) assignments,
                           None)))))"

fun allowed_loop ::
  "(string \<rightharpoonup> Permission set) \<Rightarrow> Principal \<Rightarrow> Permission \<Rightarrow> string \<Rightarrow> Assignment list \<Rightarrow> string set \<Rightarrow>
   bool \<times> string list" where
  "allowed_loop byRole p perm scopeType [] ids = (False, sorted_list_of_set ids)"
| "allowed_loop byRole p perm scopeType (a # as) ids =
     (if Assignment_OrgID a \<noteq> Principal_OrgID p \<or> Assignment_Subject a \<noteq> Principal_Subject p
      then allowed_loop byRole p perm scopeType as ids
      else (case byRole (Assignment_RoleKey a) of
              None \<Rightarrow> allowed_loop byRole p perm scopeType as ids
            | Some permissions \<Rightarrow>
                if perm \<notin> permissions then allowed_loop byRole p perm scopeType as ids
                else if Scope_Type (Assignment_Scope a) = [] then (True, [])
                else if Scope_Type (Assignment_Scope a) = scopeType \<and> Scope_ID (Assignment_Scope a) \<noteq> []
                then allowed_loop byRole p perm scopeType as (insert (Scope_ID (Assignment_Scope a)) ids)
                else allowed_loop byRole p perm scopeType as ids))"

definition AllowedScopes ::
  "rbac option \<Rightarrow> Context \<Rightarrow> Principal \<Rightarrow> Permission \<Rightarrow> string \<Rightarrow> bool \<times> string list \<times> gerr option" where
  "AllowedScopes r ctx p perm scopeType =
     (if Principal_OrgID p = [] \<or> Principal_Subject p = [] then (False, [], None)
      else if \<not> hasPermission r perm then (False, [], None)
      else (case Option.bind r rbac_store of
              None \<Rightarrow> (False, [], None)
            | Some store \<Rightarrow>
                (case Store_Roles store ctx (Principal_OrgID p) of
                   Inl err \<Rightarrow>
                     (False, [],
                      Some (Errorf ''authorization: list roles for org %q: %w'' [Principal_OrgID p] (Some err)))
                 | Inr roles \<Rightarrow>
                     (case Store_Assignments store ctx (Principal_OrgID p) (Principal_Subject p) of
                        Inl err \<Rightarrow>
                          (False, [],
                           Some (Errorf ''authorization: list assignments for subject %q in org %q: %w''
                                   [Principal_Subject p, Principal_OrgID p] (Some err)))
                      | Inr assignments \<Rightarrow>
                          (case allowed_loop (permissionsByRole roles) p perm scopeType assignments {} of
                             (al, ids) \<Rightarrow> (al, ids, None))))))"

fun held_loop :: "(string \<rightharpoonup> Permission set) \<Rightarrow> Assignment list \<Rightarrow> Assignment \<Rightarrow> Permission \<Rightarrow> bool" where
  "held_loop byRole [] target perm = False"
| "held_loop byRole (a # as) target perm =
     (if Assignment_OrgID a \<noteq> Assignment_OrgID target then held_loop byRole as target perm
      else (case byRole (Assignment_RoleKey a) of
              None \<Rightarrow> held_loop byRole as target perm
            | Some permissions \<Rightarrow>
                if perm \<notin> permissions then held_loop byRole as target perm
                else if Scope_Type (Assignment_Scope a) = [] \<or> Assignment_Scope a = Assignment_Scope target
                then True
                else held_loop byRole as target perm))"

definition CanGrant :: "Assignment list \<Rightarrow> RoleDef list \<Rightarrow> Assignment \<Rightarrow> bool" where
  "CanGrant granter roles target =
     (if Assignment_OrgID target = [] then False
      else (case permissionsByRole roles (Assignment_RoleKey target) of
              None \<Rightarrow> False
            | Some targetPermissions \<Rightarrow>
                \<forall>perm \<in> targetPermissions. held_loop (permissionsByRole roles) granter target perm))"

section \<open>What it means to hold a permission\<close>

definition role_grants :: "RoleDef list \<Rightarrow> string \<Rightarrow> Permission \<Rightarrow> bool" where
  "role_grants roles key perm \<longleftrightarrow>
     (\<exists>r \<in> set roles. RoleDef_Key r = key \<and> perm \<in> set (RoleDef_Permissions r))"

definition scope_covers :: "Scope \<Rightarrow> Scope list \<Rightarrow> bool" where
  "scope_covers s scopes \<longleftrightarrow> Scope_Type s = [] \<or> s \<in> set scopes"

definition holds ::
  "RoleDef list \<Rightarrow> Assignment list \<Rightarrow> Principal \<Rightarrow> Permission \<Rightarrow> Scope list \<Rightarrow> bool" where
  "holds roles as p perm scopes \<longleftrightarrow>
     (\<exists>a \<in> set as. Assignment_OrgID a = Principal_OrgID p \<and> Assignment_Subject a = Principal_Subject p \<and>
        role_grants roles (Assignment_RoleKey a) perm \<and> scope_covers (Assignment_Scope a) scopes)"

section \<open>The loops compute it\<close>

lemma reasons_distinct [simp]: "reasonNoGrant \<noteq> reasonGranted"
  by (simp add: reasonNoGrant_def reasonGranted_def)

lemma deny_simps [simp]: "Decision_Allowed (deny r) = False" "Decision_Reason (deny r) = r"
  by (simp_all add: deny_def)

lemma assignmentApplies_iff: "assignmentApplies s scopes \<longleftrightarrow> scope_covers s scopes"
proof -
  have "assignmentApplies_loop s scopes \<longleftrightarrow> s \<in> set scopes" by (induction scopes) auto
  then show ?thesis by (simp add: assignmentApplies_def scope_covers_def)
qed

lemma permissionsByRole_loop_eq:
  "permissionsByRole_loop roles m k =
     (if \<exists>r \<in> set roles. RoleDef_Key r = k
      then Some ((case m k of None \<Rightarrow> {} | Some s \<Rightarrow> s) \<union> {p. role_grants roles k p}) else m k)"
proof (induction roles arbitrary: m)
  case (Cons r roles)
  show ?case
    unfolding permissionsByRole_loop.simps Cons.IH
    by (cases "RoleDef_Key r = k") (auto simp: role_grants_def split: option.splits)
qed (simp add: role_grants_def)

lemma permissionsByRole_None: "permissionsByRole roles k = None \<Longrightarrow> \<not> role_grants roles k perm"
  by (auto simp: permissionsByRole_def permissionsByRole_loop_eq role_grants_def split: if_splits)

lemma permissionsByRole_Some: "permissionsByRole roles k = Some s \<Longrightarrow> perm \<in> s \<longleftrightarrow> role_grants roles k perm"
  by (auto simp: permissionsByRole_def permissionsByRole_loop_eq split: if_splits)

lemma check_loop_eq:
  "check_loop (permissionsByRole roles) p perm scopes as =
     (if holds roles as p perm scopes
      then \<lparr>Decision_Allowed = True, Decision_Reason = reasonGranted\<rparr> else deny reasonNoGrant)"
proof (induction as)
  case (Cons a as)
  then show ?case
    by (cases "permissionsByRole roles (Assignment_RoleKey a)")
       (auto simp: holds_def assignmentApplies_iff permissionsByRole_None permissionsByRole_Some)
qed (simp add: holds_def)

text \<open>The identifiers of one scope type at which the permission is held by a scoped assignment.\<close>

definition scoped_ids ::
  "RoleDef list \<Rightarrow> Assignment list \<Rightarrow> Principal \<Rightarrow> Permission \<Rightarrow> string \<Rightarrow> string set" where
  "scoped_ids roles as p perm t =
     {Scope_ID (Assignment_Scope a) | a. a \<in> set as \<and> Assignment_OrgID a = Principal_OrgID p \<and>
        Assignment_Subject a = Principal_Subject p \<and> role_grants roles (Assignment_RoleKey a) perm \<and>
        Scope_Type (Assignment_Scope a) = t \<and> Scope_Type (Assignment_Scope a) \<noteq> [] \<and>
        Scope_ID (Assignment_Scope a) \<noteq> []}"

lemma allowed_loop_eq:
  "allowed_loop (permissionsByRole roles) p perm t as ids =
     (if holds roles as p perm [] then (True, [])
      else (False, sorted_list_of_set (ids \<union> scoped_ids roles as p perm t)))"
proof (induction as arbitrary: ids t)
  case (Cons a as)
  let ?mine = "Assignment_OrgID a = Principal_OrgID p \<and> Assignment_Subject a = Principal_Subject p"
  let ?key = "Assignment_RoleKey a"
  have h: "holds roles (a # as) p perm [] \<longleftrightarrow>
      (?mine \<and> role_grants roles ?key perm \<and> Scope_Type (Assignment_Scope a) = []) \<or> holds roles as p perm []"
    by (auto simp: holds_def scope_covers_def)
  have s: "\<And>t. scoped_ids roles (a # as) p perm t =
      (if ?mine \<and> role_grants roles ?key perm \<and> Scope_Type (Assignment_Scope a) = t \<and>
          Scope_Type (Assignment_Scope a) \<noteq> [] \<and> Scope_ID (Assignment_Scope a) \<noteq> []
       then insert (Scope_ID (Assignment_Scope a)) (scoped_ids roles as p perm t)
       else scoped_ids roles as p perm t)"
    by (auto simp: scoped_ids_def)
  show ?case
    by (cases "permissionsByRole roles ?key")
       (auto simp: h s Cons.IH permissionsByRole_None permissionsByRole_Some)
qed (simp add: holds_def scoped_ids_def)

lemma finite_scoped_ids [simp]: "finite (scoped_ids roles as p perm t)"
  by (rule finite_subset [of _ "(\<lambda>a. Scope_ID (Assignment_Scope a)) ` set as"]) (auto simp: scoped_ids_def)

lemma held_loop_iff:
  "held_loop (permissionsByRole roles) as target perm \<longleftrightarrow>
     (\<exists>a \<in> set as. Assignment_OrgID a = Assignment_OrgID target \<and>
        role_grants roles (Assignment_RoleKey a) perm \<and>
        (Scope_Type (Assignment_Scope a) = [] \<or> Assignment_Scope a = Assignment_Scope target))"
proof (induction as)
  case (Cons a as)
  then show ?case
    by (cases "permissionsByRole roles (Assignment_RoleKey a)")
       (auto simp: permissionsByRole_None permissionsByRole_Some)
qed simp

lemma CanGrant_iff:
  "CanGrant granter roles target \<longleftrightarrow>
     Assignment_OrgID target \<noteq> [] \<and> (\<exists>r \<in> set roles. RoleDef_Key r = Assignment_RoleKey target) \<and>
     (\<forall>perm. role_grants roles (Assignment_RoleKey target) perm \<longrightarrow>
        held_loop (permissionsByRole roles) granter target perm)"
proof (cases "permissionsByRole roles (Assignment_RoleKey target)")
  case None
  then show ?thesis
    by (auto simp: CanGrant_def permissionsByRole_def permissionsByRole_loop_eq split: if_splits)
next
  case (Some ps)
  moreover from this have "\<exists>r \<in> set roles. RoleDef_Key r = Assignment_RoleKey target"
    by (auto simp: permissionsByRole_def permissionsByRole_loop_eq split: if_splits)
  ultimately show ?thesis
    by (auto simp: CanGrant_def permissionsByRole_Some)
qed

section \<open>The decisions\<close>

text \<open>The rows \<open>Check\<close> and \<open>AllowedScopes\<close> read from the store, when both reads succeed.\<close>

definition read_store :: "rbac option \<Rightarrow> Context \<Rightarrow> Principal \<Rightarrow> (RoleDef list \<times> Assignment list) option" where
  "read_store r ctx p =
     (case Option.bind r rbac_store of
        None \<Rightarrow> None
      | Some store \<Rightarrow>
          (case (Store_Roles store ctx (Principal_OrgID p),
                 Store_Assignments store ctx (Principal_OrgID p) (Principal_Subject p)) of
             (Inr roles, Inr as) \<Rightarrow> Some (roles, as)
           | _ \<Rightarrow> None))"

lemma Check_allowed_iff:
  "Decision_Allowed (fst (Check r ctx p perm res)) \<longleftrightarrow>
     Principal_OrgID p \<noteq> [] \<and> Principal_Subject p \<noteq> [] \<and> Resource_OrgID res = Principal_OrgID p \<and>
     hasPermission r perm \<and>
     (\<exists>roles as. read_store r ctx p = Some (roles, as) \<and> holds roles as p perm (Resource_Scopes res))"
  by (auto simp: Check_def read_store_def check_loop_eq split: option.splits sum.splits)

lemma Check_reason: "Decision_Reason (fst (Check r ctx p perm res)) =
    (if Decision_Allowed (fst (Check r ctx p perm res)) then ''granted''
     else if Principal_OrgID p = [] then ''no_org''
     else if Resource_OrgID res \<noteq> Principal_OrgID p then ''org_mismatch''
     else if Principal_Subject p \<noteq> [] \<and> \<not> hasPermission r perm then ''unknown_permission''
     else ''no_grant'')"
  by (auto simp: Check_def check_loop_eq reasonNoOrg_def reasonOrgMismatch_def reasonUnknownPermission_def
                 reasonNoGrant_def reasonGranted_def deny_def split: option.splits sum.splits)

lemma Check_error: "snd (Check r ctx p perm res) = Some e \<Longrightarrow> \<not> Decision_Allowed (fst (Check r ctx p perm res))"
  by (auto simp: Check_def split: option.splits sum.splits if_splits)

lemma AllowedScopes_all:
  "fst (AllowedScopes r ctx p perm t) \<longleftrightarrow>
     Principal_OrgID p \<noteq> [] \<and> Principal_Subject p \<noteq> [] \<and> hasPermission r perm \<and>
     (\<exists>roles as. read_store r ctx p = Some (roles, as) \<and> holds roles as p perm [])"
  by (auto simp: AllowedScopes_def read_store_def allowed_loop_eq split: option.splits sum.splits)

lemma AllowedScopes_ids:
  "fst (snd (AllowedScopes r ctx p perm t)) =
     (if Principal_OrgID p = [] \<or> Principal_Subject p = [] \<or> \<not> hasPermission r perm then []
      else case read_store r ctx p of
             None \<Rightarrow> []
           | Some (roles, as) \<Rightarrow>
               if holds roles as p perm [] then [] else sorted_list_of_set (scoped_ids roles as p perm t))"
  by (auto simp: AllowedScopes_def read_store_def allowed_loop_eq split: option.splits sum.splits)

lemma holds_org_wide: "holds roles as p perm [] \<Longrightarrow> holds roles as p perm scopes"
  by (auto simp: holds_def scope_covers_def)

lemma holds_one_scope:
  assumes "t \<noteq> []" and "i \<noteq> []"
  shows "holds roles as p perm [\<lparr>Scope_Type = t, Scope_ID = i\<rparr>] \<longleftrightarrow>
         holds roles as p perm [] \<or> i \<in> scoped_ids roles as p perm t"
proof -
  have eq: "s = \<lparr>Scope_Type = t, Scope_ID = i\<rparr> \<longleftrightarrow> Scope_Type s = t \<and> Scope_ID s = i" for s :: Scope
    by (cases s) simp
  show ?thesis
    using assms unfolding holds_def scope_covers_def scoped_ids_def by (auto simp: eq)
qed

lemma AllowedScopes_covers:
  assumes "t \<noteq> []" and "i \<noteq> []"
  shows "Decision_Allowed (fst (Check r ctx p perm
           \<lparr>Resource_OrgID = Principal_OrgID p, Resource_Scopes = [\<lparr>Scope_Type = t, Scope_ID = i\<rparr>]\<rparr>)) \<longleftrightarrow>
         fst (AllowedScopes r ctx p perm t) \<or> i \<in> set (fst (snd (AllowedScopes r ctx p perm t)))"
  unfolding AllowedScopes_all AllowedScopes_ids Check_allowed_iff
  by (cases "read_store r ctx p") (auto simp: holds_one_scope [OF assms])

section \<open>The contract of a product's store\<close>

text \<open>
  What the interface asks of a provider: both methods are already scoped by the organization and the
  subject. For such a store a decision depends on the rows of that one subject only.
\<close>

locale authz_store =
  fixes invar :: "'s \<Rightarrow> bool"
    and roles_of :: "'s \<Rightarrow> Context \<Rightarrow> string \<Rightarrow> gerr + RoleDef list"
    and assignments_of :: "'s \<Rightarrow> Context \<Rightarrow> string \<Rightarrow> string \<Rightarrow> gerr + Assignment list"
  assumes assignments_scoped: "invar s \<Longrightarrow> assignments_of s ctx org sub = Inr as \<Longrightarrow> a \<in> set as \<Longrightarrow>
      Assignment_OrgID a = org \<and> Assignment_Subject a = sub"
begin

lemma holds_scoped:
  assumes "invar s" and "assignments_of s ctx (Principal_OrgID p) (Principal_Subject p) = Inr as"
  shows "holds roles as p perm scopes \<longleftrightarrow>
    (\<exists>a \<in> set as. role_grants roles (Assignment_RoleKey a) perm \<and> scope_covers (Assignment_Scope a) scopes)"
  using assignments_scoped [OF assms] by (auto simp: holds_def)

lemma check_store:
  assumes "invar s" and "roles_of s ctx (Principal_OrgID p) = Inr roles"
    and "assignments_of s ctx (Principal_OrgID p) (Principal_Subject p) = Inr as"
  shows "Decision_Allowed (fst (Check (NewRBAC cat (Some \<lparr>Store_Roles = roles_of s,
            Store_Assignments = assignments_of s\<rparr>)) ctx p perm res)) \<longleftrightarrow>
     Principal_OrgID p \<noteq> [] \<and> Principal_Subject p \<noteq> [] \<and> Resource_OrgID res = Principal_OrgID p \<and>
     (cat \<noteq> None \<and> Has cat perm) \<and>
     (\<exists>a \<in> set as. role_grants roles (Assignment_RoleKey a) perm \<and>
        scope_covers (Assignment_Scope a) (Resource_Scopes res))"
  using assms(2,3) holds_scoped [OF assms(1,3)]
  by (auto simp: Check_allowed_iff NewRBAC_def hasPermission_def read_store_def)

end

text \<open>
  A store that can also be written: what each read returns after each write. \<open>live\<close> is a context
  whose deadline has not passed, so that the reads succeed.
\<close>

locale authz_updates = authz_store invar roles_of assignments_of
  for invar :: "'s \<Rightarrow> bool" and roles_of assignments_of +
  fixes set_assignments :: "'s \<Rightarrow> string \<Rightarrow> string \<Rightarrow> Assignment list \<Rightarrow> 's"
    and add_assignment :: "'s \<Rightarrow> Assignment \<Rightarrow> 's"
    and add_role :: "'s \<Rightarrow> string \<Rightarrow> RoleDef \<Rightarrow> 's"
    and live :: "Context \<Rightarrow> bool"
  assumes invar_set_assignments: "invar s \<Longrightarrow> invar (set_assignments s org sub as)"
    and invar_add_assignment: "invar s \<Longrightarrow> invar (add_assignment s a)"
    and invar_add_role: "invar s \<Longrightarrow> invar (add_role s org r)"
    and roles_live: "live ctx \<Longrightarrow> \<exists>rs. roles_of s ctx org = Inr rs"
    and assignments_live: "live ctx \<Longrightarrow> \<exists>as. assignments_of s ctx org sub = Inr as"
    and roles_set_assignments: "roles_of (set_assignments s org sub as) ctx org' = roles_of s ctx org'"
    and roles_add_assignment: "roles_of (add_assignment s a) ctx org' = roles_of s ctx org'"
    and assignments_set_assignments: "live ctx \<Longrightarrow> assignments_of (set_assignments s org sub as) ctx org' sub' =
      (if org' = org \<and> sub' = sub
       then Inr (map (\<lambda>a. a\<lparr>Assignment_OrgID := org, Assignment_Subject := sub\<rparr>) as)
       else assignments_of s ctx org' sub')"
    and assignments_add_assignment: "assignments_of s ctx org' sub' = Inr as \<Longrightarrow>
      assignments_of (add_assignment s a) ctx org' sub' =
        Inr (if Assignment_OrgID a = org' \<and> Assignment_Subject a = sub' then as @ [a] else as)"
begin

lemma revoke_all:
  assumes "invar s" and "live ctx"
  shows "\<not> Decision_Allowed (fst (Check (NewRBAC cat (Some
      \<lparr>Store_Roles = roles_of (set_assignments s (Principal_OrgID p) (Principal_Subject p) []),
       Store_Assignments = assignments_of (set_assignments s (Principal_OrgID p) (Principal_Subject p) [])\<rparr>))
      ctx p perm res))"
proof -
  obtain rs where "roles_of s ctx (Principal_OrgID p) = Inr rs" using roles_live [OF assms(2)] by blast
  then show ?thesis
    by (simp add: check_store [OF invar_set_assignments [OF assms(1)]] roles_set_assignments
                  assignments_set_assignments [OF assms(2)])
qed

lemma grant_one:
  assumes "invar s" and "live ctx" and "roles_of s ctx (Principal_OrgID p) = Inr rs"
  shows "Decision_Allowed (fst (Check (NewRBAC cat (Some
      \<lparr>Store_Roles = roles_of (add_assignment s a), Store_Assignments = assignments_of (add_assignment s a)\<rparr>))
      ctx p perm res)) \<longleftrightarrow>
    Decision_Allowed (fst (Check (NewRBAC cat (Some
      \<lparr>Store_Roles = roles_of s, Store_Assignments = assignments_of s\<rparr>)) ctx p perm res)) \<or>
    (Principal_OrgID p \<noteq> [] \<and> Principal_Subject p \<noteq> [] \<and> Resource_OrgID res = Principal_OrgID p \<and>
     (cat \<noteq> None \<and> Has cat perm) \<and>
     Assignment_OrgID a = Principal_OrgID p \<and> Assignment_Subject a = Principal_Subject p \<and>
     role_grants rs (Assignment_RoleKey a) perm \<and> scope_covers (Assignment_Scope a) (Resource_Scopes res))"
proof -
  obtain as where as: "assignments_of s ctx (Principal_OrgID p) (Principal_Subject p) = Inr as"
    using assignments_live [OF assms(2)] by blast
  have r': "roles_of (add_assignment s a) ctx (Principal_OrgID p) = Inr rs"
    using assms(3) by (simp add: roles_add_assignment)
  show ?thesis
    unfolding check_store [OF assms(1,3) as]
      check_store [OF invar_add_assignment [OF assms(1)] r' assignments_add_assignment [OF as]]
    by auto
qed

end

section \<open>Properties\<close>

text \<open>
  C3. \<open>Check\<close> allows exactly when the principal names an organization and a subject, the resource
  belongs to that organization, the permission is in the catalog, the store could be read, and some
  assignment of that subject in that organization carries a role that grants the permission on a scope
  covering the resource. A denial carries the reason of the first guard that fails, in this order: \<open>no_org\<close> without an
  organization, \<open>org_mismatch\<close> for the resource of another one, \<open>no_grant\<close> without a subject,
  \<open>unknown_permission\<close> outside the catalog, and \<open>no_grant\<close> when no assignment is found. There is an error exactly when a
  store that is there could not be read, and it never comes with a grant.
\<close>

theorem Check_correct:
  "(Decision_Allowed (fst (Check r ctx p perm res)) \<longleftrightarrow>
     Principal_OrgID p \<noteq> [] \<and> Principal_Subject p \<noteq> [] \<and> Resource_OrgID res = Principal_OrgID p \<and>
     hasPermission r perm \<and>
     (\<exists>roles as. read_store r ctx p = Some (roles, as) \<and> holds roles as p perm (Resource_Scopes res))) \<and>
   Decision_Reason (fst (Check r ctx p perm res)) =
     (if Decision_Allowed (fst (Check r ctx p perm res)) then ''granted''
      else if Principal_OrgID p = [] then ''no_org''
      else if Resource_OrgID res \<noteq> Principal_OrgID p then ''org_mismatch''
      else if Principal_Subject p \<noteq> [] \<and> \<not> hasPermission r perm then ''unknown_permission''
      else ''no_grant'') \<and>
   (snd (Check r ctx p perm res) \<noteq> None \<longleftrightarrow>
     Principal_OrgID p \<noteq> [] \<and> Principal_Subject p \<noteq> [] \<and> Resource_OrgID res = Principal_OrgID p \<and>
     hasPermission r perm \<and> Option.bind r rbac_store \<noteq> None \<and> read_store r ctx p = None)"
proof (intro conjI)
  show "snd (Check r ctx p perm res) \<noteq> None \<longleftrightarrow>
     Principal_OrgID p \<noteq> [] \<and> Principal_Subject p \<noteq> [] \<and> Resource_OrgID res = Principal_OrgID p \<and>
     hasPermission r perm \<and> Option.bind r rbac_store \<noteq> None \<and> read_store r ctx p = None"
    by (auto simp: Check_def read_store_def split: option.splits sum.splits)
qed (rule Check_allowed_iff Check_reason)+

text \<open>
  C10. \<open>AllowedScopes\<close> and \<open>Check\<close> agree: for a scope with a type and an identifier, \<open>Check\<close> on a
  resource carrying that scope allows exactly when \<open>AllowedScopes\<close> reports \<open>all\<close> or lists the
  identifier; and the list is sorted and free of duplicates.
\<close>

theorem AllowedScopes_agrees:
  assumes "t \<noteq> []" and "i \<noteq> []"
  shows "(Decision_Allowed (fst (Check r ctx p perm
           \<lparr>Resource_OrgID = Principal_OrgID p, Resource_Scopes = [\<lparr>Scope_Type = t, Scope_ID = i\<rparr>]\<rparr>)) \<longleftrightarrow>
          fst (AllowedScopes r ctx p perm t) \<or> i \<in> set (fst (snd (AllowedScopes r ctx p perm t)))) \<and>
         sorted (fst (snd (AllowedScopes r ctx p perm t))) \<and> distinct (fst (snd (AllowedScopes r ctx p perm t)))"
proof -
  have "sorted (fst (snd (AllowedScopes r ctx p perm t))) \<and> distinct (fst (snd (AllowedScopes r ctx p perm t)))"
    unfolding AllowedScopes_ids by (auto split: option.splits)
  then show ?thesis using AllowedScopes_covers [OF assms] by blast
qed

text \<open>
  C8. \<open>CanGrant\<close> admits no escalation: when a granter, all of whose assignments are one subject's,
  may grant \<open>target\<close>, then every permission the grantee gets from \<open>target\<close> on any resource is one
  the granter holds on that same resource; and a granter with no assignment in the target's
  organization can only hand out roles without permissions.
\<close>

theorem CanGrant_no_escalation:
  assumes "CanGrant granter roles target"
    and "\<forall>a \<in> set granter. Assignment_Subject a = g"
  shows "(holds roles [target] \<lparr>Principal_Subject = Assignment_Subject target,
                               Principal_OrgID = Assignment_OrgID target\<rparr> perm scopes \<longrightarrow>
          holds roles granter \<lparr>Principal_Subject = g, Principal_OrgID = Assignment_OrgID target\<rparr> perm scopes) \<and>
         ((\<forall>a \<in> set granter. Assignment_OrgID a \<noteq> Assignment_OrgID target) \<longrightarrow>
          \<not> role_grants roles (Assignment_RoleKey target) perm)"
  using assms unfolding CanGrant_iff held_loop_iff by (fastforce simp: holds_def scope_covers_def)

section \<open>Witnesses\<close>

text \<open>
  A product with one role over two permissions: the manager holds it at one location, the owner across
  the organization.
\<close>

definition demo_roles :: "RoleDef list" where
  "demo_roles = [\<lparr>RoleDef_Key = ''manager'', RoleDef_Permissions = [''stock.read'', ''stock.write''],
                  RoleDef_System = True\<rparr>]"

definition demo_assignment :: "string \<Rightarrow> Scope \<Rightarrow> Assignment" where
  "demo_assignment sub sc =
     \<lparr>Assignment_OrgID = ''acme'', Assignment_Subject = sub, Assignment_RoleKey = ''manager'',
      Assignment_Scope = sc\<rparr>"

definition demo_store :: Store where
  "demo_store =
     \<lparr>Store_Roles = (\<lambda>ctx org. Inr demo_roles),
      Store_Assignments = (\<lambda>ctx org sub. Inr [demo_assignment ''ann'' \<lparr>Scope_Type = ''location'', Scope_ID = ''b''\<rparr>,
                                         demo_assignment ''ann'' \<lparr>Scope_Type = ''location'', Scope_ID = ''a''\<rparr>])\<rparr>"

definition demo_catalog :: "Catalog option" where
  "demo_catalog =
     (case NewCatalog [\<lparr>PermissionSpec_Key = ''stock.read'', PermissionSpec_Description = ''read''\<rparr>] of
        Inr c \<Rightarrow> Some c | Inl _ \<Rightarrow> None)"

definition demo_rbac :: "rbac option" where
  "demo_rbac = NewRBAC demo_catalog (Some demo_store)"

lemma demo_catalog_Has: "(\<exists>c. demo_catalog = Some c) \<and> Has demo_catalog ''stock.read''"
proof -
  have "\<not> Option.is_none demo_catalog" by code_simp
  moreover have "Has demo_catalog ''stock.read''" by code_simp
  ultimately show ?thesis by (cases demo_catalog) auto
qed

text \<open>Witness of C10: a manager with two locations is allowed at each and listed with both, sorted.\<close>

theorem AllowedScopes_agrees_witness:
  "Decision_Allowed (fst (Check demo_rbac Background \<lparr>Principal_Subject = ''ann'', Principal_OrgID = ''acme''\<rparr>
      ''stock.read'' \<lparr>Resource_OrgID = ''acme'', Resource_Scopes = [\<lparr>Scope_Type = ''location'', Scope_ID = ''a''\<rparr>]\<rparr>)) \<and>
   fst (snd (AllowedScopes demo_rbac Background \<lparr>Principal_Subject = ''ann'', Principal_OrgID = ''acme''\<rparr>
      ''stock.read'' ''location'')) = [''a'', ''b'']"
proof -
  let ?p = "\<lparr>Principal_Subject = ''ann'', Principal_OrgID = ''acme''\<rparr>"
  have ids: "fst (snd (AllowedScopes demo_rbac Background ?p ''stock.read'' ''location'')) = [''a'', ''b'']"
    by code_simp
  then show ?thesis
    using AllowedScopes_agrees [of "''location''" "''a''" demo_rbac Background ?p "''stock.read''"]
    by (simp add: ids)
qed

text \<open>Witness of C8: the owner may hand out the manager role at a location.\<close>

theorem CanGrant_no_escalation_witness:
  "CanGrant [demo_assignment ''owner'' \<lparr>Scope_Type = [], Scope_ID = []\<rparr>] demo_roles
     (demo_assignment ''bob'' \<lparr>Scope_Type = ''location'', Scope_ID = ''a''\<rparr>) \<and>
   holds demo_roles [demo_assignment ''owner'' \<lparr>Scope_Type = [], Scope_ID = []\<rparr>]
     \<lparr>Principal_Subject = ''owner'', Principal_OrgID = ''acme''\<rparr> ''stock.write''
     [\<lparr>Scope_Type = ''location'', Scope_ID = ''a''\<rparr>]"
proof -
  let ?o = "[demo_assignment ''owner'' \<lparr>Scope_Type = [], Scope_ID = []\<rparr>]"
  let ?t = "demo_assignment ''bob'' \<lparr>Scope_Type = ''location'', Scope_ID = ''a''\<rparr>"
  have g: "CanGrant ?o demo_roles ?t" by code_simp
  have o: "\<forall>a \<in> set ?o. Assignment_Subject a = ''owner''" by (simp add: demo_assignment_def)
  have h: "holds demo_roles [?t] \<lparr>Principal_Subject = Assignment_Subject ?t, Principal_OrgID = Assignment_OrgID ?t\<rparr>
      ''stock.write'' [\<lparr>Scope_Type = ''location'', Scope_ID = ''a''\<rparr>]" by code_simp
  have "Assignment_OrgID ?t = ''acme''" by (simp add: demo_assignment_def)
  with g mp [OF conjunct1 [OF CanGrant_no_escalation [OF g o]] h] show ?thesis by simp
qed

end
