(* ===== verification/Memstore.thy ===== *)
theory Memstore
  imports Rbac
begin

text \<open>
  \<open>authorization/memstore/memstore.go\<close>: the in-memory \<open>authorization.Store\<close>. A nil Go map is \<open>None\<close>;
  the read-write mutex makes every method one step, so a method is a function on the state. The values
  are copied in and out, which is what a functional value already is.
\<close>

record MemStore =
  Store_roles :: "(string \<rightharpoonup> RoleDef list) option"
  Store_assignments :: "(string \<rightharpoonup> (string \<rightharpoonup> Assignment list)) option"

definition New :: MemStore where
  "New = \<lparr>Store_roles = Some Map.empty, Store_assignments = Some Map.empty\<rparr>"

text \<open>Reading a Go map: a nil map is empty, a missing key gives the zero value (here the nil slice).\<close>

definition map_make :: "('k \<rightharpoonup> 'v) option \<Rightarrow> ('k \<rightharpoonup> 'v)" where
  "map_make m = (case m of None \<Rightarrow> Map.empty | Some f \<Rightarrow> f)"

definition slice_at :: "('k \<rightharpoonup> 'v list) \<Rightarrow> 'k \<Rightarrow> 'v list" where
  "slice_at m k = (case m k of None \<Rightarrow> [] | Some xs \<Rightarrow> xs)"

definition cloneRole :: "RoleDef \<Rightarrow> RoleDef" where
  "cloneRole role = role\<lparr>RoleDef_Permissions := [] @ RoleDef_Permissions role\<rparr>"

definition cloneRoles :: "RoleDef list \<Rightarrow> RoleDef list" where
  "cloneRoles roles = map cloneRole roles"

definition SetRoles :: "MemStore \<Rightarrow> string \<Rightarrow> RoleDef list \<Rightarrow> MemStore" where
  "SetRoles s orgID roles = s\<lparr>Store_roles := Some ((map_make (Store_roles s))(orgID \<mapsto> cloneRoles roles))\<rparr>"

fun replace_role :: "RoleDef \<Rightarrow> RoleDef list \<Rightarrow> RoleDef list option" where
  "replace_role role [] = None"
| "replace_role role (r # rs) =
     (if RoleDef_Key r = RoleDef_Key role then Some (cloneRole role # rs)
      else map_option ((#) r) (replace_role role rs))"

definition upsert_role :: "RoleDef \<Rightarrow> RoleDef list \<Rightarrow> RoleDef list" where
  "upsert_role role roles =
     (case replace_role role roles of None \<Rightarrow> roles @ [cloneRole role] | Some rs \<Rightarrow> rs)"

definition AddRole :: "MemStore \<Rightarrow> string \<Rightarrow> RoleDef \<Rightarrow> MemStore" where
  "AddRole s orgID role =
     (let m = map_make (Store_roles s)
      in s\<lparr>Store_roles := Some (m(orgID \<mapsto> upsert_role role (slice_at m orgID)))\<rparr>)"

definition SetAssignments :: "MemStore \<Rightarrow> string \<Rightarrow> string \<Rightarrow> Assignment list \<Rightarrow> MemStore" where
  "SetAssignments s orgID subject assignments =
     (let copied = map (\<lambda>a. a\<lparr>Assignment_OrgID := orgID, Assignment_Subject := subject\<rparr>) assignments;
          m = map_make (Store_assignments s)
      in s\<lparr>Store_assignments := Some (m(orgID \<mapsto> (map_make (m orgID))(subject \<mapsto> copied)))\<rparr>)"

definition AddAssignment :: "MemStore \<Rightarrow> Assignment \<Rightarrow> MemStore" where
  "AddAssignment s a =
     (let m = map_make (Store_assignments s); inner = map_make (m (Assignment_OrgID a))
      in s\<lparr>Store_assignments := Some (m(Assignment_OrgID a \<mapsto>
             inner(Assignment_Subject a \<mapsto> slice_at inner (Assignment_Subject a) @ [a])))\<rparr>)"

definition Roles :: "MemStore \<Rightarrow> Context \<Rightarrow> string \<Rightarrow> gerr + RoleDef list" where
  "Roles s ctx orgID =
     (case Ctx_Err ctx of
        Some err \<Rightarrow> Inl err
      | None \<Rightarrow> Inr (cloneRoles (slice_at (map_make (Store_roles s)) orgID)))"

definition Assignments :: "MemStore \<Rightarrow> Context \<Rightarrow> string \<Rightarrow> string \<Rightarrow> gerr + Assignment list" where
  "Assignments s ctx orgID subject =
     (case Ctx_Err ctx of
        Some err \<Rightarrow> Inl err
      | None \<Rightarrow> Inr (slice_at (map_make (map_make (Store_assignments s) orgID)) subject))"

section \<open>The store keeps its interface's contract\<close>

definition mem_invar :: "MemStore \<Rightarrow> bool" where
  "mem_invar s \<longleftrightarrow>
     (\<forall>org sub a. a \<in> set (slice_at (map_make (map_make (Store_assignments s) org)) sub) \<longrightarrow>
        Assignment_OrgID a = org \<and> Assignment_Subject a = sub)"

lemma cloneRole_id [simp]: "cloneRole r = r"
  by (simp add: cloneRole_def)

lemma cloneRoles_id [simp]: "cloneRoles rs = rs"
  by (simp add: cloneRoles_def map_idI)

lemma map_make_simps [simp]: "map_make (Some f) = f" "map_make None = Map.empty"
  by (simp_all add: map_make_def)

lemma slice_at_simps [simp]: "slice_at Map.empty k = []" "slice_at (m(k \<mapsto> v)) k' = (if k' = k then v else slice_at m k')"
  by (simp_all add: slice_at_def)

lemma mem_invar_New: "mem_invar New"
  by (simp add: mem_invar_def New_def)

lemma mem_invar_roles: "mem_invar s \<Longrightarrow> mem_invar (SetRoles s org rs) \<and> mem_invar (AddRole s org r)"
  by (simp add: mem_invar_def SetRoles_def AddRole_def Let_def)

lemma mem_invar_SetAssignments: "mem_invar s \<Longrightarrow> mem_invar (SetAssignments s org sub as)"
  by (auto simp: mem_invar_def SetAssignments_def Let_def split: if_splits)

lemma mem_invar_AddAssignment: "mem_invar s \<Longrightarrow> mem_invar (AddAssignment s a)"
  by (auto simp: mem_invar_def AddAssignment_def Let_def split: if_splits)

interpretation mem: authz_store mem_invar Roles Assignments
  by unfold_locales (auto simp: mem_invar_def Assignments_def split: option.splits)

interpretation mem: authz_updates mem_invar Roles Assignments SetAssignments AddAssignment AddRole
  "\<lambda>ctx. Ctx_Err ctx = None"
proof (unfold_locales, goal_cases)
  case 1 then show ?case by (rule mem_invar_SetAssignments)
next
  case 2 then show ?case by (rule mem_invar_AddAssignment)
next
  case 3 then show ?case using mem_invar_roles by blast
next
  case 4 then show ?case by (simp add: Roles_def)
next
  case 5 then show ?case by (simp add: Assignments_def)
next
  case 6 then show ?case by (simp add: Roles_def SetAssignments_def Let_def split: option.split)
next
  case 7 then show ?case by (simp add: Roles_def AddAssignment_def Let_def split: option.split)
next
  case 8 then show ?case by (auto simp: Assignments_def SetAssignments_def Let_def)
next
  case 9 then show ?case by (auto simp: Assignments_def AddAssignment_def Let_def split: option.splits)
qed

abbreviation mem_port :: "MemStore \<Rightarrow> Store" where
  "mem_port s \<equiv> \<lparr>Store_Roles = Roles s, Store_Assignments = Assignments s\<rparr>"

lemma set_upsert_role:
  assumes "distinct (map RoleDef_Key rs)"
  shows "set (upsert_role r rs) = insert r {q \<in> set rs. RoleDef_Key q \<noteq> RoleDef_Key r}"
  using assms unfolding upsert_role_def
proof (induction rs)
  case (Cons q rs)
  then show ?case by (cases "replace_role r rs") (auto simp: image_iff)
qed simp

section \<open>Sequences of calls\<close>

datatype mem_op =
    OpSetRoles string "RoleDef list"
  | OpAddRole string RoleDef
  | OpSetAssignments string string "Assignment list"
  | OpAddAssignment Assignment

fun mem_apply :: "MemStore \<Rightarrow> mem_op \<Rightarrow> MemStore" where
  "mem_apply s (OpSetRoles org rs) = SetRoles s org rs"
| "mem_apply s (OpAddRole org r) = AddRole s org r"
| "mem_apply s (OpSetAssignments org sub as) = SetAssignments s org sub as"
| "mem_apply s (OpAddAssignment a) = AddAssignment s a"

fun op_org :: "mem_op \<Rightarrow> string" where
  "op_org (OpSetRoles org rs) = org"
| "op_org (OpAddRole org r) = org"
| "op_org (OpSetAssignments org sub as) = org"
| "op_org (OpAddAssignment a) = Assignment_OrgID a"

definition run_ops :: "mem_op list \<Rightarrow> MemStore" where
  "run_ops ops = foldl mem_apply New ops"

lemma mem_invar_apply: "mem_invar s \<Longrightarrow> mem_invar (mem_apply s oper)"
  by (cases oper) (simp_all add: mem_invar_roles mem_invar_SetAssignments mem_invar_AddAssignment)

lemma mem_invar_run_ops: "mem_invar (run_ops ops)"
  unfolding run_ops_def
  by (induction ops rule: rev_induct) (simp_all add: mem_invar_New mem_invar_apply)

text \<open>What one organization can see of the store.\<close>

definition view :: "string \<Rightarrow> MemStore \<Rightarrow> RoleDef list \<times> (string \<Rightarrow> Assignment list)" where
  "view org s = (slice_at (map_make (Store_roles s)) org,
                 \<lambda>sub. slice_at (map_make (map_make (Store_assignments s) org)) sub)"

lemma view_other: "op_org oper \<noteq> org \<Longrightarrow> view org (mem_apply s oper) = view org s"
  by (cases oper) (auto simp: view_def SetRoles_def AddRole_def SetAssignments_def AddAssignment_def Let_def)

lemma view_eqD:
  assumes "view org s = view org t"
  shows "slice_at (map_make (Store_roles s)) org = slice_at (map_make (Store_roles t)) org"
    and "slice_at (map_make (map_make (Store_assignments s) org)) sub =
         slice_at (map_make (map_make (Store_assignments t) org)) sub"
  using assms by (simp_all add: view_def fun_eq_iff)

lemma view_same:
  assumes "view org s = view org t" and "op_org oper = org"
  shows "view org (mem_apply s oper) = view org (mem_apply t oper)"
  using assms(2)
  by (cases oper)
     (simp_all add: view_def SetRoles_def AddRole_def SetAssignments_def AddAssignment_def Let_def
                    view_eqD [OF assms(1)] cong: if_cong)

lemma view_ops:
  "view org s = view org t \<Longrightarrow>
   view org (foldl mem_apply s ops) = view org (foldl mem_apply t (filter (\<lambda>oper. op_org oper = org) ops))"
proof (induction ops arbitrary: s t)
  case (Cons oper ops)
  have "view org (mem_apply s oper) = view org (if op_org oper = org then mem_apply t oper else t)"
    using view_same [OF Cons.prems] view_other Cons.prems by simp
  from Cons.IH [OF this] show ?case by simp
qed simp

lemma Check_view:
  assumes "view (Principal_OrgID p) s = view (Principal_OrgID p) t"
  shows "Check (NewRBAC cat (Some (mem_port s))) ctx p perm res = Check (NewRBAC cat (Some (mem_port t))) ctx p perm res"
proof -
  have r: "Roles s ctx (Principal_OrgID p) = Roles t ctx (Principal_OrgID p)"
    by (simp add: Roles_def view_eqD [OF assms] cong: option.case_cong)
  have a: "Assignments s ctx (Principal_OrgID p) sub = Assignments t ctx (Principal_OrgID p) sub" for sub
    by (simp add: Assignments_def view_eqD [OF assms] cong: option.case_cong)
  show ?thesis
    by (simp only: Check_def NewRBAC_def hasPermission_def Option.bind.bind_lunit option.case Store.simps rbac.simps r a)
qed

section \<open>Properties\<close>

text \<open>
  C21. Tenants do not interfere: after any sequence of calls, the answer to any \<open>Check\<close> of a principal
  is the one the store gives when only the calls of that principal's own organization are made.
\<close>

theorem memstore_tenant_isolation:
  "Check (NewRBAC cat (Some (mem_port (run_ops ops)))) ctx p perm res =
   Check (NewRBAC cat (Some (mem_port (run_ops (filter (\<lambda>oper. op_org oper = Principal_OrgID p) ops))))) ctx p perm res"
  unfolding run_ops_def by (rule Check_view, rule view_ops, rule refl)

text \<open>
  C37. Grant and revoke: after any sequence of calls, on a live context, adding an assignment allows
  exactly what was allowed before and what that assignment's role grants its subject on a covered
  resource; and setting a subject's assignments to none denies everything to the subject.
\<close>

theorem memstore_grant_revoke:
  assumes "Ctx_Err ctx = None" and "Roles (run_ops ops) ctx (Principal_OrgID p) = Inr rs"
  shows "(Decision_Allowed (fst (Check (NewRBAC cat (Some (mem_port (AddAssignment (run_ops ops) a)))) ctx p perm res)) \<longleftrightarrow>
           Decision_Allowed (fst (Check (NewRBAC cat (Some (mem_port (run_ops ops)))) ctx p perm res)) \<or>
           (Principal_OrgID p \<noteq> [] \<and> Principal_Subject p \<noteq> [] \<and> Resource_OrgID res = Principal_OrgID p \<and>
            (cat \<noteq> None \<and> Has cat perm) \<and>
            Assignment_OrgID a = Principal_OrgID p \<and> Assignment_Subject a = Principal_Subject p \<and>
            role_grants rs (Assignment_RoleKey a) perm \<and> scope_covers (Assignment_Scope a) (Resource_Scopes res))) \<and>
         \<not> Decision_Allowed (fst (Check (NewRBAC cat (Some (mem_port
             (SetAssignments (run_ops ops) (Principal_OrgID p) (Principal_Subject p) [])))) ctx p perm res))"
  by (rule conjI [OF mem.grant_one [OF mem_invar_run_ops assms] mem.revoke_all [OF mem_invar_run_ops assms(1)]])

text \<open>Witness of C37: the first assignment of a subject.\<close>

theorem memstore_grant_revoke_witness:
  "Decision_Allowed (fst (Check (NewRBAC demo_catalog (Some (mem_port
        (AddAssignment (run_ops [OpSetRoles ''acme'' demo_roles])
           (demo_assignment ''ann'' \<lparr>Scope_Type = [], Scope_ID = []\<rparr>))))) Background
        \<lparr>Principal_Subject = ''ann'', Principal_OrgID = ''acme''\<rparr> ''stock.read''
        \<lparr>Resource_OrgID = ''acme'', Resource_Scopes = []\<rparr>))"
proof -
  let ?p = "\<lparr>Principal_Subject = ''ann'', Principal_OrgID = ''acme''\<rparr>"
  have r: "Roles (run_ops [OpSetRoles ''acme'' demo_roles]) Background (Principal_OrgID ?p) = Inr demo_roles"
    by (simp add: run_ops_def Roles_def SetRoles_def New_def Background_def)
  have c: "demo_catalog \<noteq> None \<and> Has demo_catalog ''stock.read''"
    by (simp add: demo_catalog_Has)
  have g: "role_grants demo_roles ''manager'' ''stock.read''"
    by (simp add: role_grants_def demo_roles_def)
  have "Ctx_Err Background = None" by (simp add: Background_def)
  from memstore_grant_revoke [OF this r, of demo_catalog "demo_assignment ''ann'' \<lparr>Scope_Type = [], Scope_ID = []\<rparr>"
        "''stock.read''" "\<lparr>Resource_OrgID = ''acme'', Resource_Scopes = []\<rparr>"]
  show ?thesis
    using c g by (auto simp: demo_assignment_def scope_covers_def)
qed

end
