(* ===== verification/Sha256.thy ===== *)
theory Sha256
  imports GoStrings "HOL-Library.Word"
begin

unbundle bit_operations_syntax

text \<open>
  \<open>crypto/sha256\<close> of Go's standard library, as FIPS 180-4 defines it: strings are byte strings and
  \<open>Sum256\<close> returns the 32 bytes of the digest. The refresh tokens and the invitation tokens are stored
  as the hexadecimal text of this digest.
\<close>

text \<open>
  The constants are the first 32 bits of the fractional parts of square and cube roots of primes:
  \<open>iroot b k n\<close> is the largest integer below \<open>2 ^ b\<close> whose power \<open>k\<close> does not exceed \<open>n\<close>.
\<close>

definition primes_below :: "nat \<Rightarrow> nat list" where
  "primes_below n = filter (\<lambda>p. \<forall>d \<in> set [2..<p]. p mod d \<noteq> 0) [2..<n]"

fun iroot_from :: "int \<Rightarrow> nat \<Rightarrow> nat \<Rightarrow> int \<Rightarrow> int" where
  "iroot_from r 0 k n = r"
| "iroot_from r (Suc b) k n = (if (r + 2 ^ b) ^ k \<le> n then iroot_from (r + 2 ^ b) b k n else iroot_from r b k n)"

definition frac_root :: "nat \<Rightarrow> nat \<Rightarrow> 32 word" where
  "frac_root k p = of_int (iroot_from 0 40 k (int p * (2 ^ 32) ^ k))"

definition sha_H0 :: "32 word list" where
  "sha_H0 = map (frac_root 2) (primes_below 20)"

definition sha_K :: "32 word list" where
  "sha_K = map (frac_root 3) (primes_below 312)"

lemma length_primes_below_20: "length (primes_below 20) = 8"
  by code_simp

definition be_bytes :: "nat \<Rightarrow> int \<Rightarrow> int list" where
  "be_bytes k n = rev (map (\<lambda>i. n div 256 ^ i mod 256) [0..<k])"

fun be_words :: "int list \<Rightarrow> 32 word list" where
  "be_words (a # b # c # d # bs) = of_int (((a * 256 + b) * 256 + c) * 256 + d) # be_words bs"
| "be_words _ = []"

definition sha_pad :: "int list \<Rightarrow> int list" where
  "sha_pad bs = bs @ [128] @ replicate ((119 - length bs mod 64) mod 64) 0 @ be_bytes 8 (8 * int (length bs) mod 2 ^ 64)"

fun sha_blocks :: "nat \<Rightarrow> 32 word list \<Rightarrow> 32 word list list" where
  "sha_blocks 0 ws = []"
| "sha_blocks (Suc n) ws = take 16 ws # sha_blocks n (drop 16 ws)"

definition small_sigma0 :: "32 word \<Rightarrow> 32 word" where
  "small_sigma0 x = (word_rotr 7 x XOR word_rotr 18 x) XOR drop_bit 3 x"

definition small_sigma1 :: "32 word \<Rightarrow> 32 word" where
  "small_sigma1 x = (word_rotr 17 x XOR word_rotr 19 x) XOR drop_bit 10 x"

definition big_sigma0 :: "32 word \<Rightarrow> 32 word" where
  "big_sigma0 x = (word_rotr 2 x XOR word_rotr 13 x) XOR word_rotr 22 x"

definition big_sigma1 :: "32 word \<Rightarrow> 32 word" where
  "big_sigma1 x = (word_rotr 6 x XOR word_rotr 11 x) XOR word_rotr 25 x"

text \<open>The message schedule, kept with its newest word first.\<close>

fun sha_schedule :: "nat \<Rightarrow> 32 word list \<Rightarrow> 32 word list" where
  "sha_schedule 0 rws = rws"
| "sha_schedule (Suc n) rws =
     sha_schedule n ((small_sigma1 (rws ! 1) + rws ! 6 + small_sigma0 (rws ! 14) + rws ! 15) # rws)"

fun sha_round :: "32 word list \<Rightarrow> 32 word \<times> 32 word \<Rightarrow> 32 word list" where
  "sha_round [a, b, c, d, e, f, g, h] (k, w) =
     (let t1 = h + big_sigma1 e + ((e AND f) XOR (NOT e AND g)) + k + w;
          t2 = big_sigma0 a + ((a AND b) XOR (a AND c) XOR (b AND c))
      in [t1 + t2, a, b, c, d + t1, e, f, g])"
| "sha_round hs kw = hs"

definition sha_compress :: "32 word list \<Rightarrow> 32 word list \<Rightarrow> 32 word list" where
  "sha_compress hs block =
     map2 (+) hs (foldl sha_round hs (zip sha_K (rev (sha_schedule 48 (rev block)))))"

definition Sum256 :: "string \<Rightarrow> string" where
  "Sum256 s =
     (let ws = be_words (sha_pad (map (\<lambda>c. int (byte c)) s))
      in map char_of (concat (map (\<lambda>w. be_bytes 4 (uint w))
           (foldl sha_compress sha_H0 (sha_blocks (length ws div 16) ws)))))"

lemma length_be_bytes [simp]: "length (be_bytes k n) = k"
  by (simp add: be_bytes_def)

lemma length_sha_round [simp]: "length (sha_round hs kw) = length hs"
  by (induction hs kw rule: sha_round.induct) (simp_all add: Let_def)

lemma length_foldl_sha_round [simp]: "length (foldl sha_round hs kws) = length hs"
  by (induction kws arbitrary: hs) simp_all

lemma length_sha_compress [simp]: "length (sha_compress hs b) = length hs"
  by (simp add: sha_compress_def)

lemma length_foldl_sha_compress: "length (foldl sha_compress hs bs) = length hs"
  by (induction bs arbitrary: hs) simp_all

text \<open>The digest has 32 bytes, whatever the message.\<close>

lemma length_Sum256 [simp]: "length (Sum256 s) = 32"
proof -
  have "length (concat (map (\<lambda>w. be_bytes 4 (uint w)) hs)) = 4 * length hs" for hs :: "32 word list"
    by (induction hs) simp_all
  then show ?thesis
    by (simp add: Sum256_def Let_def length_foldl_sha_compress sha_H0_def length_primes_below_20)
qed

end
