(* ===== verification/Domain.thy ===== *)
theory Domain
  imports Sha256 GoContext
begin

text \<open>
  \<open>internal/domain\<close>: the entities, the rules that need no port, the lifecycle events, and the ports. A
  Go interface is a record of its methods over an arbitrary world \<open>'w\<close>; the adapters of
  \<open>internal/infrastructure\<close> provide the values of these records. A time is the number of nanoseconds
  since the zero \<open>time.Time\<close>, so \<open>IsZero\<close> is equality with 0 and \<open>Add\<close> is addition. Enumerations that
  are Go strings stay strings, because a caller may pass any string.
\<close>

type_synonym Time = int

definition IsZero :: "Time \<Rightarrow> bool" where
  "IsZero t \<longleftrightarrow> t = 0"

definition Second :: int where "Second = 1000000000"
definition Minute :: int where "Minute = 60 * Second"
definition Hour :: int where "Hour = 60 * Minute"

section \<open>auth.go\<close>

definition ChannelEmail :: string where "ChannelEmail = ''email''"
definition ChannelSMS :: string where "ChannelSMS = ''sms''"
definition UserActive :: string where "UserActive = ''active''"
definition UserDisabled :: string where "UserDisabled = ''disabled''"
definition UserSignupPending :: string where "UserSignupPending = ''signup_pending''"
definition OTPTTL :: int where "OTPTTL = 10 * Minute"
definition MaxOTPAttempts :: int where "MaxOTPAttempts = 5"
definition AccessTokenTTL :: int where "AccessTokenTTL = 15 * Minute"
definition RefreshTokenTTL :: int where "RefreshTokenTTL = 30 * 24 * Hour"
definition APITokenPrefixLength :: nat where "APITokenPrefixLength = 8"
definition APITokenScheme :: string where "APITokenScheme = ''oat_''"

lemmas status_defs = UserActive_def UserDisabled_def UserSignupPending_def

text \<open>The regular expression \<open>^\+[1-9]\d{6,14}$\<close>: a plus sign, a digit that is not zero, six to fourteen digits.\<close>

definition is_digit :: "char \<Rightarrow> bool" where
  "is_digit c \<longleftrightarrow> 48 \<le> byte c \<and> byte c \<le> 57"

definition IsE164 :: "string \<Rightarrow> bool" where
  "IsE164 value =
     (case value of
        p # d # ds \<Rightarrow> p = CHR ''+'' \<and> is_digit d \<and> d \<noteq> CHR ''0'' \<and> 6 \<le> length ds \<and> length ds \<le> 14 \<and>
                       list_all is_digit ds
      | _ \<Rightarrow> False)"

definition HashRefreshToken :: "string \<Rightarrow> string" where
  "HashRefreshToken token = EncodeHex (Sum256 token)"

definition HashIdentifier :: "string \<Rightarrow> string" where
  "HashIdentifier identifier = EncodeHex (take 8 (Sum256 identifier))"

record User =
  User_ID :: string
  User_Email :: string
  User_Mobile :: string
  User_PasswordHash :: string
  User_DisplayName :: string
  User_Status :: string
  User_EmailVerified :: bool

record OTPChallenge =
  OTPChallenge_ID :: string
  OTPChallenge_Identifier :: string
  OTPChallenge_Channel :: string
  OTPChallenge_CodeHash :: string
  OTPChallenge_ExpiresAt :: Time
  OTPChallenge_CreatedAt :: Time
  OTPChallenge_Attempts :: int

text \<open>A nil \<open>*time.Time\<close> and a nil slice are \<open>None\<close>: the database tells a nil slice from an empty one.\<close>

record APIToken =
  APIToken_ID :: string
  APIToken_UserID :: string
  APIToken_Name :: string
  APIToken_Prefix :: string
  APIToken_TokenHash :: string
  APIToken_Scopes :: "string list option"
  APIToken_ExpiresAt :: "Time option"
  APIToken_RevokedAt :: "Time option"
  APIToken_CreatedAt :: Time

record APITokenInfo =
  APITokenInfo_ID :: string
  APITokenInfo_Name :: string
  APITokenInfo_Prefix :: string
  APITokenInfo_Scopes :: "string list option"
  APITokenInfo_ExpiresAt :: "Time option"
  APITokenInfo_CreatedAt :: Time

record DemoUser =
  DemoUser_Email :: string
  DemoUser_Mobile :: string
  DemoUser_Password :: string
  DemoUser_DisplayName :: string

section \<open>organization.go\<close>

type_synonym MembershipStatus = string

definition MembershipActive :: MembershipStatus where "MembershipActive = ''active''"
definition MembershipInvited :: MembershipStatus where "MembershipInvited = ''invited''"
definition MembershipSuspended :: MembershipStatus where "MembershipSuspended = ''suspended''"

lemmas membership_defs = MembershipActive_def MembershipInvited_def MembershipSuspended_def

record Organization =
  Organization_ID :: string
  Organization_Name :: string
  Organization_CreatedAt :: Time
  Organization_UpdatedAt :: Time

record Membership =
  Membership_OrgID :: string
  Membership_UserID :: string
  Membership_Status :: MembershipStatus
  Membership_CreatedAt :: Time
  Membership_UpdatedAt :: Time

section \<open>invite.go\<close>

type_synonym InviteStatus = string

definition InvitePending :: InviteStatus where "InvitePending = ''pending''"
definition InviteAccepted :: InviteStatus where "InviteAccepted = ''accepted''"
definition InviteRevoked :: InviteStatus where "InviteRevoked = ''revoked''"
definition InviteTTL :: int where "InviteTTL = 7 * 24 * Hour"

lemmas invite_defs = InvitePending_def InviteAccepted_def InviteRevoked_def

definition NormalizeEmail :: "unicode \<Rightarrow> string \<Rightarrow> string" where
  "NormalizeEmail u email = ToLower u (TrimSpace email)"

text \<open>
  The regular expression \<open>^[^@\s]+@[^@\s]+\.[^@\s]+$\<close>. Bytes above 127 belong to runes outside the
  negated class, so the match can be read off the bytes: no white space, exactly one at sign with text
  before it, and a dot strictly inside the text after it.
\<close>

definition email_char :: "char \<Rightarrow> bool" where
  "email_char c \<longleftrightarrow> c \<noteq> CHR ''@'' \<and> byte c \<notin> {9, 10, 12, 13, 32}"

definition IsEmail :: "string \<Rightarrow> bool" where
  "IsEmail value =
     (let l = takeWhile (\<lambda>c. c \<noteq> CHR ''@'') value; r = dropWhile (\<lambda>c. c \<noteq> CHR ''@'') value in
      l \<noteq> [] \<and> list_all email_char l \<and>
      (case r of [] \<Rightarrow> False | a # d \<Rightarrow> list_all email_char d \<and> CHR ''.'' \<in> set (butlast (tl d))))"

definition HashInviteToken :: "string \<Rightarrow> string" where
  "HashInviteToken token = HashRefreshToken token"

record Invite =
  Invite_ID :: string
  Invite_OrgID :: string
  Invite_Email :: string
  Invite_TokenHash :: string
  Invite_InviterID :: string
  Invite_Status :: InviteStatus
  Invite_ExpiresAt :: Time
  Invite_AcceptedAt :: "Time option"
  Invite_CreatedAt :: Time

record InviteNotification =
  InviteNotification_Recipient :: string
  InviteNotification_OrgName :: string
  InviteNotification_InviterName :: string
  InviteNotification_AcceptToken :: string
  InviteNotification_ExpiresAt :: Time
  InviteNotification_Locale :: string
  InviteNotification_CorrelationID :: string

section \<open>feature_flag.go\<close>

record FeatureFlag =
  FeatureFlag_Name :: string
  FeatureFlag_Enabled :: bool
  FeatureFlag_Description :: string
  FeatureFlag_UpdatedAt :: Time

section \<open>events.go\<close>

definition SubjectUserCreated :: string where "SubjectUserCreated = ''auth.user.created''"
definition SubjectOrgCreated :: string where "SubjectOrgCreated = ''auth.org.created''"
definition SubjectMembershipAdded :: string where "SubjectMembershipAdded = ''auth.membership.added''"
definition SubjectMembershipRemoved :: string where "SubjectMembershipRemoved = ''auth.membership.removed''"
definition SubjectMembershipSuspended :: string where "SubjectMembershipSuspended = ''auth.membership.suspended''"
definition EventSource :: string where "EventSource = ''orbit-auth''"
definition EventVersion :: string where "EventVersion = ''1''"

text \<open>The payload structs, as the values the field \<open>Payload any\<close> takes.\<close>

datatype EventPayload =
    UserCreatedPayload string Time
  | OrgCreatedPayload string string Time
  | MembershipAddedPayload string string MembershipStatus Time
  | MembershipRemovedPayload string string MembershipStatus Time
  | MembershipSuspendedPayload string string MembershipStatus Time

record Event =
  Event_Subject :: string
  Event_Payload :: EventPayload
  Event_OccurredAt :: Time

definition NewUserCreatedEvent :: "string \<Rightarrow> Time \<Rightarrow> Event" where
  "NewUserCreatedEvent userID at =
     \<lparr>Event_Subject = SubjectUserCreated, Event_Payload = UserCreatedPayload userID at, Event_OccurredAt = at\<rparr>"

definition NewOrgCreatedEvent :: "string \<Rightarrow> string \<Rightarrow> Time \<Rightarrow> Event" where
  "NewOrgCreatedEvent orgID name at =
     \<lparr>Event_Subject = SubjectOrgCreated, Event_Payload = OrgCreatedPayload orgID name at, Event_OccurredAt = at\<rparr>"

definition NewMembershipAddedEvent :: "string \<Rightarrow> string \<Rightarrow> MembershipStatus \<Rightarrow> Time \<Rightarrow> Event" where
  "NewMembershipAddedEvent orgID userID status at =
     \<lparr>Event_Subject = SubjectMembershipAdded, Event_Payload = MembershipAddedPayload orgID userID status at,
      Event_OccurredAt = at\<rparr>"

definition NewMembershipRemovedEvent :: "string \<Rightarrow> string \<Rightarrow> MembershipStatus \<Rightarrow> Time \<Rightarrow> Event" where
  "NewMembershipRemovedEvent orgID userID status at =
     \<lparr>Event_Subject = SubjectMembershipRemoved, Event_Payload = MembershipRemovedPayload orgID userID status at,
      Event_OccurredAt = at\<rparr>"

definition NewMembershipSuspendedEvent :: "string \<Rightarrow> string \<Rightarrow> MembershipStatus \<Rightarrow> Time \<Rightarrow> Event" where
  "NewMembershipSuspendedEvent orgID userID status at =
     \<lparr>Event_Subject = SubjectMembershipSuspended, Event_Payload = MembershipSuspendedPayload orgID userID status at,
      Event_OccurredAt = at\<rparr>"

lemmas event_defs = NewUserCreatedEvent_def NewOrgCreatedEvent_def NewMembershipAddedEvent_def
  NewMembershipRemovedEvent_def NewMembershipSuspendedEvent_def

section \<open>ports.go\<close>

record 'w OTPStore =
  otp_UpsertChallenge :: "OTPChallenge \<Rightarrow> ('w, unit) M"
  otp_GetLatestChallenge :: "string \<Rightarrow> string \<Rightarrow> ('w, OTPChallenge) M"
  otp_IncrementAttempts :: "string \<Rightarrow> ('w, unit) M"
  otp_ConsumeChallenge :: "string \<Rightarrow> ('w, unit) M"
  otp_DeleteExpiredChallenges :: "('w, unit) M"

record 'w UserStore =
  users_FindOrCreateByEmail :: "string \<Rightarrow> ('w, User) M"
  users_FindOrCreateByMobile :: "string \<Rightarrow> ('w, User) M"
  users_FindByEmail :: "string \<Rightarrow> ('w, User) M"
  users_FindByMobile :: "string \<Rightarrow> ('w, User) M"
  users_FindByID :: "string \<Rightarrow> ('w, User) M"
  users_UpdateLastLogin :: "string \<Rightarrow> ('w, unit) M"
  users_UpsertDemoUser :: "string \<Rightarrow> string \<Rightarrow> string \<Rightarrow> string \<Rightarrow> ('w, unit) M"

record 'w SignupStore =
  signup_CreateSignupUser ::
    "User \<Rightarrow> Organization option \<Rightarrow> Invite option \<Rightarrow> Time \<Rightarrow> ('w, bool) M"
  signup_ReissuePendingSignup ::
    "User \<Rightarrow> OTPChallenge option \<Rightarrow> Invite option \<Rightarrow> Time \<Rightarrow> ('w, string \<times> bool) M"
  signup_VerifySignup :: "string \<Rightarrow> Time \<Rightarrow> ('w, unit) M"
  signup_PurgeUnverifiedSignups :: "Time \<Rightarrow> ('w, int) M"

record 'w RefreshTokenStore =
  refresh_Store :: "string \<Rightarrow> string \<Rightarrow> string \<Rightarrow> Time \<Rightarrow> ('w, unit) M"
  refresh_FindValid :: "string \<Rightarrow> ('w, string \<times> string) M"
  refresh_Revoke :: "string \<Rightarrow> ('w, unit) M"

record 'w APITokenStore =
  tokens_Create :: "APIToken \<Rightarrow> ('w, unit) M"
  tokens_ListByUser :: "string \<Rightarrow> ('w, APITokenInfo list) M"
  tokens_RevokeToken :: "string \<Rightarrow> string \<Rightarrow> ('w, unit) M"
  tokens_FindByPrefix :: "string \<Rightarrow> ('w, APIToken) M"

record 'w OrgStore =
  orgs_CreateOrg :: "Organization \<Rightarrow> string \<Rightarrow> ('w, unit) M"
  orgs_GetOrg :: "string \<Rightarrow> ('w, Organization) M"
  orgs_ListOrgsForUser :: "string \<Rightarrow> ('w, Organization list) M"
  orgs_ListMembers :: "string \<Rightarrow> ('w, Membership list) M"
  orgs_AddMember :: "string \<Rightarrow> string \<Rightarrow> MembershipStatus \<Rightarrow> ('w, unit) M"
  orgs_UpdateMemberStatus :: "string \<Rightarrow> string \<Rightarrow> MembershipStatus \<Rightarrow> ('w, unit) M"
  orgs_RemoveMember :: "string \<Rightarrow> string \<Rightarrow> ('w, unit) M"
  orgs_GetMembership :: "string \<Rightarrow> string \<Rightarrow> ('w, Membership) M"

record 'w InviteStore =
  invites_CreateInvite :: "Invite \<Rightarrow> ('w, unit) M"
  invites_FindInviteByTokenHash :: "string \<Rightarrow> ('w, Invite) M"
  invites_ListInvites :: "string \<Rightarrow> ('w, Invite list) M"
  invites_RevokeInvite :: "string \<Rightarrow> string \<Rightarrow> ('w, unit) M"
  invites_AcceptInvite :: "string \<Rightarrow> string \<Rightarrow> string \<Rightarrow> Time \<Rightarrow> ('w, unit) M"

record 'w FeatureFlagStore =
  flags_ListFeatureFlags :: "('w, FeatureFlag list) M"

record 'w Notifier =
  notifier_SendOTP :: "string \<Rightarrow> string \<Rightarrow> string \<Rightarrow> string \<Rightarrow> ('w, unit) M"
  notifier_SendSignupVerification :: "string \<Rightarrow> string \<Rightarrow> int \<Rightarrow> string \<Rightarrow> string \<Rightarrow> ('w, unit) M"
  notifier_SendOrgInvite :: "InviteNotification \<Rightarrow> ('w, unit) M"

text \<open>
  \<open>Flags.Bool\<close>, \<open>Clock.Now\<close>, \<open>IDGenerator.NewID\<close> and \<open>Hasher.Compare\<close> have no error result; their
  values never are \<open>Inl\<close> in the adapters.
\<close>

record 'w Flags =
  flags_Bool :: "string \<Rightarrow> bool \<Rightarrow> ('w, bool) M"

record 'w Clock =
  clock_Now :: "('w, Time) M"

record 'w IDGenerator =
  ids_NewID :: "('w, string) M"

record 'w TokenSigner =
  signer_SignAccessToken :: "string \<Rightarrow> Time \<Rightarrow> ('w, string) M"
  signer_SignAccessTokenWithOrg :: "string \<Rightarrow> string \<Rightarrow> Time \<Rightarrow> ('w, string) M"

record 'w Hasher =
  hasher_Hash :: "string \<Rightarrow> ('w, string) M"
  hasher_Compare :: "string \<Rightarrow> string \<Rightarrow> bool"

record 'w CodeGenerator =
  codes_NewCode :: "('w, string) M"

record 'w SecretGenerator =
  secrets_NewSecret :: "('w, string) M"

section \<open>The rules of the domain\<close>

lemma IsE164_shape:
  "IsE164 s \<longleftrightarrow>
     (\<exists>d ds. s = CHR ''+'' # d # ds \<and> is_digit d \<and> d \<noteq> CHR ''0'' \<and> 6 \<le> length ds \<and> length ds \<le> 14 \<and>
             (\<forall>c \<in> set ds. is_digit c))"
  by (auto simp: IsE164_def list_all_iff split: list.splits)

lemma dot_inside: "CHR ''.'' \<in> set (butlast (tl d)) \<longleftrightarrow> (\<exists>a b. d = a @ CHR ''.'' # b \<and> a \<noteq> [] \<and> b \<noteq> [])"
proof
  assume "CHR ''.'' \<in> set (butlast (tl d))"
  then obtain x y where xy: "butlast (tl d) = x @ CHR ''.'' # y" by (meson split_list)
  then have "tl d \<noteq> []" and "d \<noteq> []" by auto
  then have "d = (hd d # x) @ CHR ''.'' # (y @ [last (tl d)])"
    using xy append_butlast_last_id [of "tl d"] by simp
  then show "\<exists>a b. d = a @ CHR ''.'' # b \<and> a \<noteq> [] \<and> b \<noteq> []" by blast
next
  assume "\<exists>a b. d = a @ CHR ''.'' # b \<and> a \<noteq> [] \<and> b \<noteq> []"
  then show "CHR ''.'' \<in> set (butlast (tl d))" by (auto simp: butlast_append neq_Nil_conv)
qed

text \<open>\<open>IsEmail\<close> accepts exactly the strings the regular expression describes.\<close>

lemma IsEmail_shape:
  "IsEmail s \<longleftrightarrow>
     (\<exists>l a b. s = l @ CHR ''@'' # a @ CHR ''.'' # b \<and> l \<noteq> [] \<and> a \<noteq> [] \<and> b \<noteq> [] \<and>
              (\<forall>c \<in> set (l @ a @ b). email_char c))"
proof
  assume e: "IsEmail s"
  let ?l = "takeWhile (\<lambda>c. c \<noteq> CHR ''@'') s" and ?r = "dropWhile (\<lambda>c. c \<noteq> CHR ''@'') s"
  from e obtain c d where r: "?r = c # d" and l: "?l \<noteq> []" "list_all email_char ?l"
    and d: "list_all email_char d" "CHR ''.'' \<in> set (butlast (tl d))"
    by (auto simp: IsEmail_def Let_def split: list.splits)
  from r have c: "c = CHR ''@''" using hd_dropWhile [of "\<lambda>c. c \<noteq> CHR ''@''" s] by simp
  from d(2) obtain a b where ab: "d = a @ CHR ''.'' # b" "a \<noteq> []" "b \<noteq> []" unfolding dot_inside by blast
  have "s = ?l @ CHR ''@'' # a @ CHR ''.'' # b"
    using takeWhile_dropWhile_id [of "\<lambda>c. c \<noteq> CHR ''@''" s] r c ab(1) by simp
  with l d(1) ab show "\<exists>l a b. s = l @ CHR ''@'' # a @ CHR ''.'' # b \<and> l \<noteq> [] \<and> a \<noteq> [] \<and> b \<noteq> [] \<and>
      (\<forall>c \<in> set (l @ a @ b). email_char c)"
    unfolding list_all_iff by (intro exI [of _ ?l] exI [of _ a] exI [of _ b]) auto
next
  assume "\<exists>l a b. s = l @ CHR ''@'' # a @ CHR ''.'' # b \<and> l \<noteq> [] \<and> a \<noteq> [] \<and> b \<noteq> [] \<and>
      (\<forall>c \<in> set (l @ a @ b). email_char c)"
  then obtain l a b where s: "s = l @ CHR ''@'' # a @ CHR ''.'' # b" "l \<noteq> []" "a \<noteq> []" "b \<noteq> []"
    and ok: "\<forall>c \<in> set (l @ a @ b). email_char c" by blast
  have "\<forall>c \<in> set l. c \<noteq> CHR ''@''" using ok by (auto simp: email_char_def)
  then have "takeWhile (\<lambda>c. c \<noteq> CHR ''@'') s = l"
    and "dropWhile (\<lambda>c. c \<noteq> CHR ''@'') s = CHR ''@'' # a @ CHR ''.'' # b"
    using s(1) by (simp_all add: takeWhile_tail dropWhile_append3)
  then show "IsEmail s"
    using s ok dot_inside [of "a @ CHR ''.'' # b"]
    by (auto simp: IsEmail_def list_all_iff email_char_def byte_def)
qed

lemma IsE164_not_Nil [simp]: "\<not> IsE164 []"
  by (simp add: IsE164_def)

lemma IsEmail_not_Nil [simp]: "\<not> IsEmail []"
  by (simp add: IsEmail_def)

end
