(* ===== verification/Database.thy ===== *)
theory Database
  imports Domain "HOL-Library.Multiset"
begin

text \<open>
  The outside world and the database. \<open>env\<close> collects what the repository only calls: the packages
  \<open>google/uuid\<close>, \<open>bcrypt\<close>, \<open>orbit-message-bus\<close>, the random source, the clocks, and everything about
  Postgres that the SQL text does not fix (which statements fail, whether a failed statement took
  effect, the order in which a scan meets the rows, the collation). Every request to the outside takes a
  \<^emph>\<open>tick\<close>, so a parameter indexed by ticks is an arbitrary stream of answers. \<open>world\<close> is the state: the
  tables of migrations 001 to 009, the tick, the start time of the open transaction, and the messages
  handed to the notification service. Transactions are run one after another: \<open>in_tx\<close> is Begin, the
  body, and Commit or the deferred Rollback; the theory \<open>Locking\<close> interleaves the two for which that matters.
\<close>

section \<open>The outside world\<close>

text \<open>
  An event envelope of the message bus. \<open>json.Marshal\<close> of a payload is represented by the payload
  itself; it fails exactly when the year of a time is outside 0 to 9999.
\<close>

record Envelope =
  Envelope_Subject :: string
  Envelope_Payload :: EventPayload
  Envelope_Source :: string
  Envelope_Version :: string
  Envelope_Timestamp :: Time

record OutboxEvent =
  OutboxEvent_Subject :: string
  OutboxEvent_Envelope :: Envelope
  OutboxEvent_CreatedAt :: Time
  OutboxEvent_PublishedAt :: "Time option"
  OutboxEvent_Attempts :: int
  OutboxEvent_LastError :: "string option"

record SendRequest =
  SendRequest_Template :: string
  SendRequest_Channel :: string
  SendRequest_Recipient :: string
  SendRequest_CorrelationId :: string
  SendRequest_Vars :: "(string \<times> string) list"

record env =
  uuid_Parse :: "string \<Rightarrow> gerr + uuid"
  uuid_String :: "uuid \<Rightarrow> string"
  uuid_New :: "nat \<Rightarrow> uuid"
  env_unicode :: unicode
  app_clock :: "nat \<Rightarrow> Time"
  db_clock :: "nat \<Rightarrow> Time"
  fault :: "nat \<Rightarrow> string option"
  lands :: "nat \<Rightarrow> bool"
  scan_rank :: "nat \<Rightarrow> nat \<Rightarrow> nat"
  pg_lower :: "string \<Rightarrow> string"
  pg_collate :: "string \<Rightarrow> nat list"
  rand_Int :: "nat \<Rightarrow> gerr + nat"
  rand_Read :: "nat \<Rightarrow> gerr + string"
  bcrypt_Generate :: "nat \<Rightarrow> string \<Rightarrow> gerr + string"
  bcrypt_Compare :: "string \<Rightarrow> string \<Rightarrow> bool"
  NewEnvelope :: "nat \<Rightarrow> string \<Rightarrow> EventPayload \<Rightarrow> string \<Rightarrow> string \<Rightarrow> gerr + Envelope"
  Envelope_Validate :: "Envelope \<Rightarrow> gerr option"
  outbox_Insert :: "string \<Rightarrow> Envelope \<Rightarrow> Time \<Rightarrow> OutboxEvent list \<Rightarrow> gerr + OutboxEvent list"
  notifications_Send :: "nat \<Rightarrow> SendRequest \<Rightarrow> gerr option"

text \<open>The canonical text of a UUID: 32 hexadecimal digits in groups of 8, 4, 4, 4 and 12.\<close>

definition uuid_hex :: "uuid \<Rightarrow> string" where
  "uuid_hex u = map (\<lambda>i. hex_digits ! (nat (uint u div 16 ^ i mod 16))) (rev [0..<32])"

definition uuid_text :: "uuid \<Rightarrow> string" where
  "uuid_text u =
     (let h = uuid_hex u in
      take 8 h @ ''-'' @ take 4 (drop 8 h) @ ''-'' @ take 4 (drop 12 h) @ ''-'' @ take 4 (drop 16 h) @ ''-'' @ drop 20 h)"

text \<open>
  What the code relies on, as named hypotheses. \<open>uuid_laws\<close>: the package prints a UUID in its canonical
  text and parses that text back. \<open>outbox_laws\<close>: the outbox package appends one unpublished row with
  the given subject and envelope, and a new envelope carries the subject and payload it was made of.
  \<open>bcrypt_laws\<close>: a hash verifies the secret it was made from.
\<close>

definition uuid_laws :: "env \<Rightarrow> bool" where
  "uuid_laws E \<longleftrightarrow> (\<forall>u. uuid_Parse E (uuid_text u) = Inr u) \<and> (\<forall>u. uuid_String E u = uuid_text u)"

definition outbox_laws :: "env \<Rightarrow> bool" where
  "outbox_laws E \<longleftrightarrow>
     (\<forall>s e now xs ys. outbox_Insert E s e now xs = Inr ys \<longrightarrow>
        (\<exists>row. ys = xs @ [row] \<and> OutboxEvent_Subject row = s \<and> OutboxEvent_Envelope row = e \<and>
               OutboxEvent_PublishedAt row = None)) \<and>
     (\<forall>t s p src v e. NewEnvelope E t s p src v = Inr e \<longrightarrow>
        Envelope_Subject e = s \<and> Envelope_Payload e = p \<and> Envelope_Source e = src \<and> Envelope_Version e = v)"

definition bcrypt_laws :: "env \<Rightarrow> bool" where
  "bcrypt_laws E \<longleftrightarrow> (\<forall>t s h. bcrypt_Generate E t s = Inr h \<longrightarrow> bcrypt_Compare E h s)"

section \<open>The tables\<close>

record UserRow =
  u_ID :: uuid
  u_Email :: "string option"
  u_CreatedAt :: Time
  u_Mobile :: "string option"
  u_PasswordHash :: "string option"
  u_DisplayName :: "string option"
  u_Status :: string
  u_UpdatedAt :: Time
  u_LastLoginAt :: "Time option"
  u_EmailVerifiedAt :: "Time option"

record ChallengeRow =
  c_ID :: uuid
  c_Identifier :: string
  c_CodeHash :: string
  c_ExpiresAt :: Time
  c_Attempts :: int
  c_CreatedAt :: Time
  c_Channel :: string

record RefreshRow =
  r_ID :: uuid
  r_UserID :: uuid
  r_TokenHash :: string
  r_ExpiresAt :: Time
  r_RevokedAt :: "Time option"
  r_CreatedAt :: Time
  r_OrgID :: "uuid option"

record ApiTokenRow =
  t_ID :: uuid
  t_UserID :: uuid
  t_Name :: string
  t_Prefix :: string
  t_TokenHash :: string
  t_Scopes :: "string list"
  t_ExpiresAt :: "Time option"
  t_RevokedAt :: "Time option"
  t_CreatedAt :: Time

record OrgRow =
  o_ID :: uuid
  o_Name :: string
  o_CreatedAt :: Time
  o_UpdatedAt :: Time

record MemberRow =
  m_OrgID :: uuid
  m_UserID :: uuid
  m_Status :: string
  m_CreatedAt :: Time
  m_UpdatedAt :: Time

record InviteRow =
  i_ID :: uuid
  i_OrgID :: uuid
  i_Email :: string
  i_TokenHash :: string
  i_InviterID :: uuid
  i_Status :: string
  i_ExpiresAt :: Time
  i_AcceptedAt :: "Time option"
  i_CreatedAt :: Time

record FlagRow =
  f_Name :: string
  f_Enabled :: bool
  f_Description :: string
  f_UpdatedAt :: Time

record db =
  users :: "UserRow list"
  challenges :: "ChallengeRow list"
  refresh_tokens :: "RefreshRow list"
  api_tokens :: "ApiTokenRow list"
  organizations :: "OrgRow list"
  memberships :: "MemberRow list"
  invites :: "InviteRow list"
  outbox :: "OutboxEvent list"
  feature_flags :: "FlagRow list"

record world =
  w_db :: db
  w_tick :: nat
  w_tx :: "Time option"
  w_sent :: "SendRequest list"

text \<open>A new installation: no rows but the feature flags, and no transaction open.\<close>

definition empty_db :: "FlagRow list \<Rightarrow> db" where
  "empty_db flags =
     \<lparr>users = [], challenges = [], refresh_tokens = [], api_tokens = [], organizations = [], memberships = [],
      invites = [], outbox = [], feature_flags = flags\<rparr>"

definition start_world :: "FlagRow list \<Rightarrow> nat \<Rightarrow> world" where
  "start_world flags t = \<lparr>w_db = empty_db flags, w_tick = t, w_tx = None, w_sent = []\<rparr>"

section \<open>Statements and transactions\<close>

text \<open>
  One SQL statement, given the value of \<open>NOW()\<close> and the rank of each row in a scan. \<open>Timestamptz\<close> is
  \<open>pgtype.Timestamptz\<close>, with \<open>None\<close> for a value that is not valid (NULL); Postgres keeps microseconds.
\<close>

type_synonym Timestamptz = "Time option"

type_synonym 'a stmt = "Time \<Rightarrow> (nat \<Rightarrow> nat) \<Rightarrow> db \<Rightarrow> gerr + 'a \<times> db"

definition pg_ts :: "Time \<Rightarrow> Time" where
  "pg_ts t = t div 1000 * 1000"

definition scan :: "(nat \<Rightarrow> nat) \<Rightarrow> 'a list \<Rightarrow> 'a list" where
  "scan rank xs = map (\<lambda>i. xs ! i) (sort_key rank [0..<length xs])"

definition tick :: "(world, nat) M" where
  "tick w = (Inr (w_tick w), w\<lparr>w_tick := Suc (w_tick w)\<rparr>)"

definition tx_time :: "env \<Rightarrow> world \<Rightarrow> Time" where
  "tx_time E w = pg_ts (case w_tx w of Some t \<Rightarrow> t | None \<Rightarrow> db_clock E (w_tick w))"

definition exec :: "env \<Rightarrow> 'a stmt \<Rightarrow> (world, 'a) M" where
  "exec E q w =
     (let t = w_tick w; w' = w\<lparr>w_tick := Suc t\<rparr>; res = q (tx_time E w) (scan_rank E t) (w_db w) in
      case fault E t of
        Some msg \<Rightarrow>
          (Inl (DriverError msg),
           case res of Inr (a, d) \<Rightarrow> if lands E t then w'\<lparr>w_db := d\<rparr> else w' | Inl e \<Rightarrow> w')
      | None \<Rightarrow> (case res of Inl e \<Rightarrow> (Inl e, w') | Inr (a, d) \<Rightarrow> (Inr a, w'\<lparr>w_db := d\<rparr>)))"

text \<open>
  How the body of a transaction ends: it reaches \<open>tx.Commit\<close> (with the text that wraps a commit error)
  or it returns a value without committing. An error of the body rolls back. A commit that reports an
  error may still have been applied.
\<close>

datatype 'a outcome = Commit string 'a | Rollback 'a

definition in_tx :: "env \<Rightarrow> string \<Rightarrow> (world, 'a outcome) M \<Rightarrow> (world, 'a) M" where
  "in_tx E bmsg body w =
     (let t = w_tick w; w0 = w\<lparr>w_tick := Suc t\<rparr> in
      case fault E t of
        Some msg \<Rightarrow> (Inl (Errorf bmsg [] (Some (DriverError msg))), w0)
      | None \<Rightarrow>
          (case body (w0\<lparr>w_tx := Some (db_clock E t)\<rparr>) of
             (Inl e, w1) \<Rightarrow> (Inl e, w1\<lparr>w_db := w_db w, w_tx := w_tx w\<rparr>)
           | (Inr (Rollback a), w1) \<Rightarrow> (Inr a, w1\<lparr>w_db := w_db w, w_tx := w_tx w\<rparr>)
           | (Inr (Commit cmsg a), w1) \<Rightarrow>
               (let w2 = w1\<lparr>w_tick := Suc (w_tick w1), w_tx := w_tx w\<rparr> in
                case fault E (w_tick w1) of
                  Some msg \<Rightarrow>
                    (Inl (Errorf cmsg [] (Some (DriverError msg))),
                     if lands E (w_tick w1) then w2 else w2\<lparr>w_db := w_db w\<rparr>)
                | None \<Rightarrow> (Inr a, w2))))"

definition time_Now :: "env \<Rightarrow> (world, Time) M" where
  "time_Now E = bindE tick (\<lambda>t. ret (app_clock E t))"

definition uuid_NewString :: "env \<Rightarrow> (world, string) M" where
  "uuid_NewString E = bindE tick (\<lambda>t. ret (uuid_String E (uuid_New E t)))"

definition new_uuid :: "env \<Rightarrow> (world, uuid) M" where
  "new_uuid E = bindE tick (\<lambda>t. ret (uuid_New E t))"

definition parse_uuid :: "env \<Rightarrow> string \<Rightarrow> string \<Rightarrow> ('w, uuid) M" where
  "parse_uuid E fmt s = (case uuid_Parse E s of Inl e \<Rightarrow> fail (Errorf fmt [s] (Some e)) | Inr u \<Rightarrow> ret u)"

section \<open>Reasoning about statements and transactions\<close>

lemma mset_scan [simp]: "mset (scan rank xs) = mset xs"
proof -
  have "mset (scan rank xs) = image_mset ((!) xs) (mset [0..<length xs])"
    by (simp add: scan_def)
  also have "\<dots> = mset xs"
    by (metis map_nth mset_map)
  finally show ?thesis .
qed

lemma set_scan [simp]: "set (scan rank xs) = set xs"
  using mset_eq_setD [OF mset_scan] .

lemma filter_scan_single: "filter p xs = [x] \<Longrightarrow> filter p (scan rank xs) = [x]"
proof -
  assume one: "filter p xs = [x]"
  have "mset (filter p (scan rank xs)) = mset (filter p xs)" by (simp only: mset_filter mset_scan)
  then have "mset (filter p (scan rank xs)) = {#x#}" unfolding one by simp
  then show ?thesis unfolding mset_single_iff .
qed

lemma filter_scan_Cons:
  assumes "filter p (scan rank xs) = z # zs"
  shows "z \<in> set xs \<and> p z"
proof -
  have "z \<in> set (filter p (scan rank xs))" unfolding assms by simp
  then show ?thesis by simp
qed

lemma tx_time_tick [simp]: "w_tx w = Some t \<Longrightarrow> tx_time E w = pg_ts t"
  by (simp add: tx_time_def)

lemma run_tick [run]: "tick w = (r, w') \<longleftrightarrow> r = Inr (w_tick w) \<and> w' = w\<lparr>w_tick := Suc (w_tick w)\<rparr>"
  by (auto simp: tick_def)

lemma run_exec_Inr [run]:
  "exec E q w = (Inr a, w') \<longleftrightarrow>
     fault E (w_tick w) = None \<and>
     (\<exists>d. q (tx_time E w) (scan_rank E (w_tick w)) (w_db w) = Inr (a, d) \<and>
          w' = w\<lparr>w_db := d, w_tick := Suc (w_tick w)\<rparr>)"
  by (auto simp: exec_def Let_def split: option.splits sum.splits)

lemma run_parse_uuid [run]:
  "parse_uuid E fmt s w = (Inr u, w') \<longleftrightarrow> uuid_Parse E s = Inr u \<and> w' = w"
  by (auto simp: parse_uuid_def run split: sum.splits)

lemma run_uuid_NewString [run]:
  "uuid_NewString E w = (r, w') \<longleftrightarrow>
     r = Inr (uuid_String E (uuid_New E (w_tick w))) \<and> w' = w\<lparr>w_tick := Suc (w_tick w)\<rparr>"
  by (auto simp: uuid_NewString_def effect_defs tick_def)

lemma run_time_Now [run]:
  "time_Now E w = (r, w') \<longleftrightarrow> r = Inr (app_clock E (w_tick w)) \<and> w' = w\<lparr>w_tick := Suc (w_tick w)\<rparr>"
  by (auto simp: time_Now_def effect_defs tick_def)

lemma run_new_uuid [run]:
  "new_uuid E w = (r, w') \<longleftrightarrow> r = Inr (uuid_New E (w_tick w)) \<and> w' = w\<lparr>w_tick := Suc (w_tick w)\<rparr>"
  by (auto simp: new_uuid_def effect_defs tick_def)

text \<open>A property of the database that every statement keeps.\<close>

definition stmt_keeps :: "(db \<Rightarrow> bool) \<Rightarrow> 'a stmt \<Rightarrow> bool" where
  "stmt_keeps P q \<longleftrightarrow> (\<forall>now rank d a d'. P d \<longrightarrow> q now rank d = Inr (a, d') \<longrightarrow> P d')"

abbreviation (input) on_db :: "(db \<Rightarrow> bool) \<Rightarrow> world \<Rightarrow> bool" where
  "on_db P w \<equiv> P (w_db w)"

lemma keeps_exec [keep]: "stmt_keeps P q \<Longrightarrow> keeps (on_db P) (exec E q)"
  unfolding keeps_def stmt_keeps_def exec_def Let_def
  by (fastforce split: option.splits sum.splits)

lemma keeps_tick [keep]: "keeps (on_db P) tick"
  by (simp add: keeps_def tick_def)

lemma keeps_parse_uuid [keep]: "keeps I (parse_uuid E fmt s)"
  by (auto simp: parse_uuid_def intro: keep split: sum.splits)

lemma keeps_uuid_NewString [keep]: "keeps (on_db P) (uuid_NewString E)"
  unfolding uuid_NewString_def by (intro keep)

lemma keeps_new_uuid [keep]: "keeps (on_db P) (new_uuid E)"
  unfolding new_uuid_def by (intro keep)

lemma keeps_time_Now [keep]: "keeps (on_db P) (time_Now E)"
  unfolding time_Now_def by (intro keep)

text \<open>
  A transaction is atomic: the database it leaves is the one it found, or the one its body built
  before reaching Commit; and the latter whenever the transaction returned the committed value.
\<close>

lemma in_tx_cases:
  assumes "in_tx E bmsg body w = (r, w')"
  obtains (unchanged) "w_db w' = w_db w"
  | (committed) w0 cmsg a w1 where "w_db w0 = w_db w" and "w_tick w0 = Suc (w_tick w)"
      and "w_tx w0 = Some (db_clock E (w_tick w))" and "w_sent w0 = w_sent w"
      and "body w0 = (Inr (Commit cmsg a), w1)" and "w_db w' = w_db w1"
proof -
  let ?w0 = "w\<lparr>w_tick := Suc (w_tick w), w_tx := Some (db_clock E (w_tick w))\<rparr>"
  obtain x w1 where b: "body ?w0 = (x, w1)" by fastforce
  have "w_db w' = w_db w \<or> (\<exists>cmsg a. x = Inr (Commit cmsg a) \<and> w_db w' = w_db w1)"
    using assms b
    by (cases x; cases "projr x") (auto simp: in_tx_def Let_def split: option.splits if_splits)
  with b show ?thesis
    using unchanged committed [of ?w0] by auto
qed

lemma keeps_in_tx:
  assumes "\<And>w0 cmsg a w1. P (w_db w0) \<Longrightarrow> body w0 = (Inr (Commit cmsg a), w1) \<Longrightarrow> P (w_db w1)"
  shows "keeps (on_db P) (in_tx E bmsg body)"
proof (rule keepsI)
  fix w r w' assume P: "P (w_db w)" and run: "in_tx E bmsg body w = (r, w')"
  from run show "P (w_db w')"
  proof (cases rule: in_tx_cases)
    case unchanged
    with P show ?thesis by simp
  next
    case (committed w0 cmsg a w1)
    with P assms [of w0 cmsg a w1] show ?thesis by simp
  qed
qed

lemma keeps_in_tx_body [keep]:
  assumes "keeps (on_db P) body"
  shows "keeps (on_db P) (in_tx E bmsg body)"
  by (rule keeps_in_tx) (use keepsD [OF assms] in blast)

lemma run_in_tx_Inr:
  "in_tx E bmsg body w = (Inr a, w') \<Longrightarrow>
     \<exists>w0 w1. w_db w0 = w_db w \<and> w_tick w0 = Suc (w_tick w) \<and> w_tx w0 = Some (db_clock E (w_tick w)) \<and>
       w_sent w0 = w_sent w \<and>
       ((body w0 = (Inr (Rollback a), w1) \<and> w_db w' = w_db w) \<or>
        (\<exists>cmsg. body w0 = (Inr (Commit cmsg a), w1) \<and> w_db w' = w_db w1)) \<and>
       w_sent w' = w_sent w1"
  by (rule exI [of _ "w\<lparr>w_tick := Suc (w_tick w), w_tx := Some (db_clock E (w_tick w))\<rparr>"])
     (auto simp: in_tx_def Let_def split: option.splits sum.splits prod.splits outcome.splits if_splits)

section \<open>What a successful run does to the tables\<close>

text \<open>
  \<open>yields m d a d'\<close>: some run of \<open>m\<close> on a world with tables \<open>d\<close> returns \<open>a\<close> and leaves the tables \<open>d'\<close>.
  \<open>breaks m d e d'\<close> is the same for a run that ends with the error \<open>e\<close>. The destruction rules follow the
  combinators and forget the tick, the clock and the faults.
\<close>

named_theorems yieldD \<open>destruction rules for successful runs\<close>

definition yields :: "(world, 'a) M \<Rightarrow> db \<Rightarrow> 'a \<Rightarrow> db \<Rightarrow> bool" where
  "yields m d a d' \<longleftrightarrow> (\<exists>w w'. w_db w = d \<and> m w = (Inr a, w') \<and> w_db w' = d')"

definition breaks :: "(world, 'a) M \<Rightarrow> db \<Rightarrow> gerr \<Rightarrow> db \<Rightarrow> bool" where
  "breaks m d e d' \<longleftrightarrow> (\<exists>w w'. w_db w = d \<and> m w = (Inl e, w') \<and> w_db w' = d')"

lemma yieldsI: "m w = (Inr a, w') \<Longrightarrow> yields m (w_db w) a (w_db w')"
  unfolding yields_def by blast

lemma yields_bindE [yieldD]:
  "yields (bindE m f) d b d'' \<Longrightarrow> \<exists>a d'. yields m d a d' \<and> yields (f a) d' b d''"
  unfolding yields_def run by blast

lemma yields_ret [yieldD]: "yields (ret x) d a d' \<Longrightarrow> a = x \<and> d' = d"
  by (auto simp: yields_def run)

lemma yields_fail [yieldD]: "yields (fail e) d a d' \<Longrightarrow> False"
  by (auto simp: yields_def run)

lemma yields_mapErr [yieldD]: "yields (mapErr h m) d a d' \<Longrightarrow> yields m d a d'"
  by (auto simp: yields_def run)

lemma yields_exec [yieldD]: "yields (exec E q) d a d' \<Longrightarrow> \<exists>now rank. q now rank d = Inr (a, d')"
  unfolding yields_def run by force

lemma yields_tick [yieldD]: "yields tick d a d' \<Longrightarrow> d' = d"
  by (auto simp: yields_def run)

lemma yields_time_Now [yieldD]: "yields (time_Now E) d a d' \<Longrightarrow> d' = d"
  by (auto simp: yields_def run)

lemma yields_uuid_NewString [yieldD]: "yields (uuid_NewString E) d a d' \<Longrightarrow> d' = d \<and> (\<exists>t. a = uuid_String E (uuid_New E t))"
  by (auto simp: yields_def run)

lemma yields_new_uuid [yieldD]: "yields (new_uuid E) d a d' \<Longrightarrow> d' = d"
  by (auto simp: yields_def run)

lemma yields_parse_uuid [yieldD]: "yields (parse_uuid E fmt s) d u d' \<Longrightarrow> uuid_Parse E s = Inr u \<and> d' = d"
  by (auto simp: yields_def run)

lemma yields_tryE [yieldD]:
  "yields (tryE m) d x d' \<Longrightarrow> (\<exists>a. x = Inr a \<and> yields m d a d') \<or> (\<exists>e. x = Inl e \<and> breaks m d e d')"
  by (cases x) (auto simp: yields_def breaks_def run)

lemma yields_if:
  "yields (if c then m else m') d a d' \<Longrightarrow> (c \<and> yields m d a d') \<or> (\<not> c \<and> yields m' d a d')"
  by (auto split: if_splits)

lemma yields_case_sum:
  "yields (case x of Inl e \<Rightarrow> f e | Inr b \<Rightarrow> g b) d a d' \<Longrightarrow>
     (\<exists>e. x = Inl e \<and> yields (f e) d a d') \<or> (\<exists>b. x = Inr b \<and> yields (g b) d a d')"
  by (auto split: sum.splits)

lemma yields_case_option:
  "yields (case x of None \<Rightarrow> m | Some b \<Rightarrow> g b) d a d' \<Longrightarrow>
     (x = None \<and> yields m d a d') \<or> (\<exists>b. x = Some b \<and> yields (g b) d a d')"
  by (auto split: option.splits)

lemmas yields_branch = yields_if yields_case_sum yields_case_option

text \<open>A statement that only reads leaves the tables alone even when it fails.\<close>

definition reads :: "'a stmt \<Rightarrow> bool" where
  "reads q \<longleftrightarrow> (\<forall>now rank d a d'. q now rank d = Inr (a, d') \<longrightarrow> d' = d)"

lemma breaks_exec_reads: "breaks (exec E q) d e d' \<Longrightarrow> reads q \<Longrightarrow> d' = d"
  by (auto simp: breaks_def exec_def reads_def Let_def split: option.splits sum.splits if_splits)

lemma breaks_mapErr: "breaks (mapErr h m) d e d' \<Longrightarrow> \<exists>e'. breaks m d e' d'"
  by (auto simp: breaks_def run)

lemma breaks_bindE_ret: "breaks (bindE m (\<lambda>a. ret (f a))) d e d' \<Longrightarrow> breaks m d e d'"
  by (auto simp: breaks_def run)

lemma keeps_in_tx_yields:
  assumes "\<And>d cmsg a d'. P d \<Longrightarrow> yields body d (Commit cmsg a) d' \<Longrightarrow> P d'"
  shows "keeps (on_db P) (in_tx E bmsg body)"
  by (rule keeps_in_tx) (erule assms, erule yieldsI)

lemma yields_in_tx [yieldD]:
  "yields (in_tx E bmsg body) d a d' \<Longrightarrow>
     (\<exists>cmsg. yields body d (Commit cmsg a) d') \<or> (d' = d \<and> (\<exists>d''. yields body d (Rollback a) d''))"
proof -
  assume "yields (in_tx E bmsg body) d a d'"
  then obtain w w' where w: "w_db w = d" "in_tx E bmsg body w = (Inr a, w')" "w_db w' = d'"
    unfolding yields_def by blast
  from run_in_tx_Inr [OF w(2)] obtain w0 w1 where "w_db w0 = d"
    and "(body w0 = (Inr (Rollback a), w1) \<and> w_db w' = d) \<or> (\<exists>cmsg. body w0 = (Inr (Commit cmsg a), w1) \<and> w_db w' = w_db w1)"
    unfolding w(1) by blast
  then show ?thesis using w(3) by (auto dest: yieldsI)
qed

text \<open>
  Inside a transaction only the successful runs count, so a body may break a property of the tables as
  long as it restores it before it reaches Commit: \<open>restores P m\<close>.
\<close>

definition restores :: "(db \<Rightarrow> bool) \<Rightarrow> (world, 'a) M \<Rightarrow> bool" where
  "restores P m \<longleftrightarrow> (\<forall>d a d'. P d \<longrightarrow> yields m d a d' \<longrightarrow> P d')"

lemma restoresI: "(\<And>d a d'. P d \<Longrightarrow> yields m d a d' \<Longrightarrow> P d') \<Longrightarrow> restores P m"
  unfolding restores_def by blast

lemma restores_keeps: "keeps (on_db P) m \<Longrightarrow> restores P m"
  unfolding restores_def yields_def by (auto dest: keepsD)

lemma restores_bindE [keep]: "restores P m \<Longrightarrow> (\<And>a. restores P (f a)) \<Longrightarrow> restores P (bindE m f)"
  unfolding restores_def by (meson yields_bindE)

lemma restores_mapErr [keep]: "restores P m \<Longrightarrow> restores P (mapErr h m)"
  unfolding restores_def by (meson yields_mapErr)

lemma restores_if [keep]: "restores P m \<Longrightarrow> restores P m' \<Longrightarrow> restores P (if c then m else m')"
  by simp

lemma restores_case_option [keep]:
  "restores P m \<Longrightarrow> (\<And>b. restores P (g b)) \<Longrightarrow> restores P (case x of None \<Rightarrow> m | Some b \<Rightarrow> g b)"
  by (cases x) auto

lemma restores_case_sum [keep]:
  "(\<And>e. restores P (f e)) \<Longrightarrow> (\<And>b. restores P (g b)) \<Longrightarrow> restores P (case x of Inl e \<Rightarrow> f e | Inr b \<Rightarrow> g b)"
  by (cases x) auto

lemma keeps_in_tx_restores: "restores P body \<Longrightarrow> keeps (on_db P) (in_tx E bmsg body)"
  unfolding restores_def by (blast intro: keeps_in_tx_yields)

end
