(* ===== verification/DemoEnv.thy ===== *)
theory DemoEnv
  imports Database
begin

text \<open>
  A concrete environment, for the witnesses: no faults, clocks that advance one second per tick,
  counting UUIDs with the canonical text and its parser, and an outbox that appends. It satisfies the
  named hypotheses \<open>uuid_laws\<close>, \<open>outbox_laws\<close> and \<open>bcrypt_laws\<close>, so they can hold together.
\<close>

definition hex_value :: "char \<Rightarrow> int option" where
  "hex_value c =
     (if 48 \<le> byte c \<and> byte c \<le> 57 then Some (int (byte c) - 48)
      else if 97 \<le> byte c \<and> byte c \<le> 102 then Some (int (byte c) - 87) else None)"

definition parse_hex :: "string \<Rightarrow> int option" where
  "parse_hex s = foldl (\<lambda>a c. case (a, hex_value c) of (Some x, Some v) \<Rightarrow> Some (x * 16 + v) | _ \<Rightarrow> None) (Some 0) s"

definition ungroup :: "string \<Rightarrow> string" where
  "ungroup s = take 8 s @ take 4 (drop 9 s) @ take 4 (drop 14 s) @ take 4 (drop 19 s) @ drop 24 s"

definition demo_Parse :: "string \<Rightarrow> gerr + uuid" where
  "demo_Parse s =
     (if length s \<noteq> 36 then Inl (Errorf ''invalid UUID length'' [] None)
      else case parse_hex (ungroup s) of
             None \<Rightarrow> Inl (Errorf ''invalid UUID format'' [] None)
           | Some n \<Rightarrow> Inr (of_int n))"

definition demo_start :: Time where
  "demo_start = 739000 * 24 * Hour"

definition demo_env :: env where
  "demo_env =
     \<lparr>uuid_Parse = demo_Parse, uuid_String = uuid_text, uuid_New = (\<lambda>t. of_nat (Suc t)),
      env_unicode = \<lparr>ulower = (\<lambda>s. s), ufold = (=)\<rparr>,
      app_clock = (\<lambda>t. demo_start + int t * Second), db_clock = (\<lambda>t. demo_start + int t * Second),
      fault = (\<lambda>t. None), lands = (\<lambda>t. True), scan_rank = (\<lambda>t i. i), pg_lower = map ascii_lower,
      pg_collate = map byte, rand_Int = (\<lambda>t. Inr (t * 7919 mod 1000000)),
      rand_Read = (\<lambda>t. Inr (replicate 32 (char_of (t mod 256)))),
      bcrypt_Generate = (\<lambda>t s. Inr (''bcrypt:'' @ s)), bcrypt_Compare = (\<lambda>h s. h = ''bcrypt:'' @ s),
      NewEnvelope = (\<lambda>t s p src v. Inr \<lparr>Envelope_Subject = s, Envelope_Payload = p, Envelope_Source = src,
        Envelope_Version = v, Envelope_Timestamp = demo_start + int t * Second\<rparr>),
      Envelope_Validate = (\<lambda>e. None),
      outbox_Insert = (\<lambda>s e now xs. Inr (xs @ [\<lparr>OutboxEvent_Subject = s, OutboxEvent_Envelope = e,
        OutboxEvent_CreatedAt = now, OutboxEvent_PublishedAt = None, OutboxEvent_Attempts = 0,
        OutboxEvent_LastError = None\<rparr>])),
      notifications_Send = (\<lambda>t req. None)\<rparr>"

section \<open>The laws hold\<close>

lemma hex_value_digit: "n < 16 \<Longrightarrow> hex_value (hex_digits ! n) = Some (int n)"
proof -
  have "\<forall>n \<in> {..<16}. hex_value (hex_digits ! n) = Some (int n)" by code_simp
  then show "n < 16 \<Longrightarrow> ?thesis" by simp
qed

lemma parse_hex_digits:
  assumes "0 \<le> n"
  shows "foldl (\<lambda>a c. case (a, hex_value c) of (Some x, Some v) \<Rightarrow> Some (x * 16 + v) | _ \<Rightarrow> None) (Some a)
           (map (\<lambda>i. hex_digits ! nat (n div 16 ^ i mod 16)) (rev [0..<k])) = Some (a * 16 ^ k + n mod 16 ^ k)"
proof (induction k arbitrary: a)
  case (Suc k)
  have d: "hex_value (hex_digits ! nat (n div 16 ^ k mod 16)) = Some (n div 16 ^ k mod 16)"
    using hex_value_digit [of "nat (n div 16 ^ k mod 16)"] by simp
  have "n mod 16 ^ Suc k = (n div 16 ^ k mod 16) * 16 ^ k + n mod 16 ^ k"
    using mod_mult2_eq' [of n "16 ^ k" 16] zmod_zmult2_eq [of 16 n "16 ^ k"] by (simp add: mult.commute)
  then show ?case using Suc [of "a * 16 + n div 16 ^ k mod 16"] d by (simp add: algebra_simps)
qed simp

lemma length_uuid_hex [simp]: "length (uuid_hex u) = 32"
  by (simp add: uuid_hex_def)

lemma parse_uuid_hex: "parse_hex (uuid_hex u) = Some (uint u)"
proof -
  have "uint u < 16 ^ 32" using uint_lt2p [of u] by simp
  then show ?thesis
    using parse_hex_digits [of "uint u" 0 32] by (simp add: parse_hex_def uuid_hex_def)
qed

lemma ungroup_uuid_text: "length (uuid_text u) = 36 \<and> ungroup (uuid_text u) = uuid_hex u"
proof -
  obtain h where h: "uuid_hex u = h" and l: "length h = 32" by simp
  have "h = take 8 h @ take 4 (drop 8 h) @ take 4 (drop 12 h) @ take 4 (drop 16 h) @ drop 20 h"
    using append_take_drop_id [of 8 h] append_take_drop_id [of 4 "drop 8 h"] append_take_drop_id [of 4 "drop 12 h"]
      append_take_drop_id [of 4 "drop 16 h"] by simp
  then show ?thesis using l unfolding uuid_text_def h Let_def ungroup_def by simp
qed

lemma demo_laws: "uuid_laws demo_env" "outbox_laws demo_env" "bcrypt_laws demo_env"
  using ungroup_uuid_text
  by (auto simp: uuid_laws_def outbox_laws_def bcrypt_laws_def demo_env_def demo_Parse_def parse_uuid_hex)

end
