(* ===== verification/Token.thy ===== *)
theory Token
  imports DemoEnv "HOL-Library.Mapping" "HOL-Library.AList_Mapping" "HOL-Library.List_Lexorder" "HOL-Library.Char_ord"
begin

text \<open>
  \<open>token/access.go\<close>: the signed access tokens, the public key set and its JWKS document (the verifier
  that caches a remote key set is in \<open>Verifier\<close>). The JWT library is the record \<open>jwt_pkg\<close>, a parameter whose documented
  behaviour is the hypothesis \<open>jwt_laws\<close>. PEM and X.509 parsing and the key files are the record
  \<open>key_files\<close>. A public RSA key is its modulus and exponent; of a private key only these, the validity
  check and an opaque secret matter.
\<close>

section \<open>Standard library\<close>

text \<open>
  \<open>base64.RawURLEncoding.DecodeString\<close>: carriage returns and newlines are skipped, every other character
  must belong to the alphabet, a single left-over character is an error, and left-over bits are ignored.
\<close>

definition b64_index :: "char \<Rightarrow> nat option" where
  "b64_index c =
     (let k = length (takeWhile (\<lambda>x. x \<noteq> c) b64_alphabet) in if k < 64 then Some k else None)"

fun b64_bytes :: "nat list \<Rightarrow> nat list option" where
  "b64_bytes [] = Some []"
| "b64_bytes [a] = None"
| "b64_bytes [a, b] = Some [a * 4 + b div 16]"
| "b64_bytes [a, b, c] = Some [a * 4 + b div 16, (b mod 16) * 16 + c div 4]"
| "b64_bytes (a # b # c # d # xs) =
     map_option (\<lambda>r. (a * 4 + b div 16) # ((b mod 16) * 16 + c div 4) # ((c mod 4) * 64 + d) # r) (b64_bytes xs)"

definition DecodeRawURL :: "string \<Rightarrow> string option" where
  "DecodeRawURL s =
     (let t = filter (\<lambda>c. c \<noteq> CHR 0x0A \<and> c \<noteq> CHR 0x0D) s in
      if \<exists>c \<in> set t. b64_index c = None then None
      else map_option (map char_of) (b64_bytes (map (\<lambda>c. the (b64_index c)) t)))"

text \<open>\<open>big.Int.Bytes\<close> and \<open>big.Int.SetBytes\<close>: big-endian without leading zeros.\<close>

fun big_Bytes :: "nat \<Rightarrow> string" where
  "big_Bytes n = (if n = 0 then [] else big_Bytes (n div 256) @ [char_of (n mod 256)])"

declare big_Bytes.simps [simp del]

definition SetBytes :: "string \<Rightarrow> nat" where
  "SetBytes bs = foldl (\<lambda>n c. n * 256 + byte c) 0 bs"

lemma pack_div: "y < k \<Longrightarrow> (x * k + y) div k = x" "y < k \<Longrightarrow> (x * k + y) mod k = y" for x y k :: nat
  by auto

lemma b64_arith:
  fixes a b c :: nat
  assumes "a < 256" and "b < 256" and "c < 256"
  shows "a div 4 * 4 + (a mod 4 * 16 + b div 16) div 16 = a"
    and "(a mod 4 * 16 + b div 16) mod 16 * 16 + (b mod 16 * 4 + c div 64) div 4 = b"
    and "(b mod 16 * 4 + c div 64) mod 4 * 64 + c mod 64 = c"
proof -
  have "b div 16 < 16" and "c div 64 < 4" using assms by auto
  then show "a div 4 * 4 + (a mod 4 * 16 + b div 16) div 16 = a"
    and "(a mod 4 * 16 + b div 16) mod 16 * 16 + (b mod 16 * 4 + c div 64) div 4 = b"
    and "(b mod 16 * 4 + c div 64) mod 4 * 64 + c mod 64 = c"
    by (simp_all only: pack_div div_mult_mod_eq)
qed

lemma b64_bytes_sextets: "list_all (\<lambda>n. n < 256) xs \<Longrightarrow> b64_bytes (b64_sextets xs) = Some xs"
proof (induction xs rule: b64_sextets.induct)
  case (4 a b c xs)
  then have "a < 256" "b < 256" "c < 256" and ih: "b64_bytes (b64_sextets xs) = Some xs" by simp_all
  then show ?case by (simp only: b64_sextets.simps b64_bytes.simps b64_arith ih option.map)
next
  case (3 a b)
  then show ?case using b64_arith [of a b 0] by simp
next
  case (2 a)
  then show ?case using b64_arith [of a 0 0] by simp
qed simp

lemma b64_index_nth: "n < 64 \<Longrightarrow> b64_index (b64_alphabet ! n) = Some n"
proof -
  have "\<forall>n \<in> {..<64}. b64_index (b64_alphabet ! n) = Some n" by code_simp
  then show "n < 64 \<Longrightarrow> ?thesis" by simp
qed

lemma DecodeRawURL_Encode [simp]: "DecodeRawURL (EncodeRawURL bs) = Some bs"
proof -
  let ?ns = "b64_sextets (map byte bs)"
  have b: "\<forall>n \<in> set ?ns. n < 64"
    using b64_sextets_bound [of "map byte bs"] by (simp add: list_all_iff)
  have "filter (\<lambda>c. c \<noteq> CHR 0x0A \<and> c \<noteq> CHR 0x0D) (EncodeRawURL bs) = EncodeRawURL bs"
    using set_EncodeRawURL [of _ bs] set_b64_alphabet
    by (intro filter_True) (force simp: visible_def byte_def)
  moreover have "\<not> (\<exists>c \<in> set (EncodeRawURL bs). b64_index c = None)"
    using b b64_index_nth by (fastforce simp: EncodeRawURL_def)
  moreover have "map (\<lambda>c. the (b64_index c)) (EncodeRawURL bs) = ?ns"
    using b b64_index_nth by (simp add: EncodeRawURL_def map_idI)
  moreover have "b64_bytes ?ns = Some (map byte bs)"
    by (rule b64_bytes_sextets) (simp add: list_all_iff)
  ultimately show ?thesis
    unfolding DecodeRawURL_def Let_def by (simp add: byte_def map_idI)
qed

lemma SetBytes_Bytes [simp]: "SetBytes (big_Bytes n) = n"
proof (induction n rule: big_Bytes.induct)
  case (1 n)
  then show ?case by (subst big_Bytes.simps) (simp add: SetBytes_def)
qed

lemma length_big_Bytes: "n < 256 ^ k \<Longrightarrow> length (big_Bytes n) \<le> k"
proof (induction k arbitrary: n)
  case 0
  then show ?case by (simp add: big_Bytes.simps)
next
  case (Suc k)
  then have "n div 256 < 256 ^ k" by (simp add: div_less_iff_less_mult mult.commute)
  with Suc.IH show ?case by (subst big_Bytes.simps) (auto dest: Suc.IH)
qed

lemma big_Bytes_Nil: "big_Bytes n = [] \<longleftrightarrow> n = 0"
  by (subst big_Bytes.simps) simp

fun BitLen :: "nat \<Rightarrow> nat" where
  "BitLen n = (if n = 0 then 0 else Suc (BitLen (n div 2)))"

declare BitLen.simps [simp del]

lemma BitLen_less: "BitLen n < Suc k \<longleftrightarrow> n < 2 ^ k"
proof (induction k arbitrary: n)
  case 0
  then show ?case by (subst BitLen.simps) auto
next
  case (Suc k)
  show ?case using Suc.IH [of "n div 2"] by (subst BitLen.simps) (auto simp: div_less_iff_less_mult mult.commute)
qed

text \<open>\<open>filepath.Base\<close> and \<open>filepath.Ext\<close>.\<close>

definition path_Base :: "string \<Rightarrow> string" where
  "path_Base p =
     (if p = [] then ''.''
      else let q = rev (dropWhile (\<lambda>c. c = CHR ''/'') (rev p)) in
           if q = [] then ''/'' else rev (takeWhile (\<lambda>c. c \<noteq> CHR ''/'') (rev q)))"

definition path_Ext :: "string \<Rightarrow> string" where
  "path_Ext p =
     (let r = takeWhile (\<lambda>c. c \<noteq> CHR ''/'') (rev p); e = takeWhile (\<lambda>c. c \<noteq> CHR ''.'') r in
      if length e = length r then [] else CHR ''.'' # rev e)"

definition TrimSuffix :: "string \<Rightarrow> string \<Rightarrow> string" where
  "TrimSuffix s t = rev (TrimPrefix (rev s) (rev t))"

section \<open>Types\<close>

definition Issuer :: string where "Issuer = ''orbit-auth''"
definition Algorithm :: string where "Algorithm = ''RS256''"

record AccessClaims =
  claims_Issuer :: string
  claims_Subject :: string
  claims_ExpiresAt :: "Time option"
  claims_IssuedAt :: "Time option"
  claims_OrgID :: string

record rsa_public =
  rsa_N :: nat
  rsa_E :: int

record rsa_private =
  private_N :: nat
  private_E :: int
  private_D :: nat

definition rsa_public_of :: "rsa_private \<Rightarrow> rsa_public" where
  "rsa_public_of k = \<lparr>rsa_N = private_N k, rsa_E = private_E k\<rparr>"

type_synonym KeySet = "(string, rsa_public) mapping"

record JWK =
  JWK_KeyType :: string
  JWK_Use :: string
  JWK_Alg :: string
  JWK_KeyID :: string
  JWK_Modulus :: string
  JWK_Exponent :: string

record JWKSet =
  JWKSet_Keys :: "JWK list"

definition OrganizationID :: "env \<Rightarrow> AccessClaims \<Rightarrow> uuid option" where
  "OrganizationID E c =
     (let orgID = TrimSpace (claims_OrgID c) in
      if orgID = [] then None
      else case uuid_Parse E orgID of Inl err \<Rightarrow> None | Inr parsed \<Rightarrow> Some parsed)"

section \<open>Key files\<close>

record key_files =
  ReadFile :: "string \<Rightarrow> gerr + string"
  pem_Decode :: "string \<Rightarrow> string option"
  ParsePKCS8PrivateKey :: "string \<Rightarrow> gerr + rsa_private option"
  ParsePKCS1PrivateKey :: "string \<Rightarrow> gerr + rsa_private"
  rsa_Validate :: "rsa_private \<Rightarrow> gerr option"
  ParsePKIXPublicKey :: "string \<Rightarrow> gerr + rsa_public option"
  ParsePKCS1PublicKey :: "string \<Rightarrow> gerr + rsa_public"
  Glob_pem :: "string \<Rightarrow> gerr + string list"

definition LoadRSAPrivateKey :: "key_files \<Rightarrow> string \<Rightarrow> gerr + rsa_private" where
  "LoadRSAPrivateKey F path =
     (case ReadFile F (TrimSpace path) of
        Inl err \<Rightarrow> Inl (Errorf ''read JWT private key: %w'' [] (Some err))
      | Inr contents \<Rightarrow>
          (case pem_Decode F contents of
             None \<Rightarrow> Inl (Errorf ''JWT private key file does not contain PEM data'' [] None)
           | Some block \<Rightarrow>
               (case (case ParsePKCS8PrivateKey F block of
                        Inr parsed \<Rightarrow> parsed
                      | Inl _ \<Rightarrow> (case ParsePKCS1PrivateKey F block of Inr parsed \<Rightarrow> Some parsed | Inl _ \<Rightarrow> None)) of
                  None \<Rightarrow> Inl (Errorf ''JWT private key must be an RSA PKCS#8 or PKCS#1 PEM key'' [] None)
                | Some key \<Rightarrow>
                    (case rsa_Validate F key of
                       Some err \<Rightarrow> Inl (Errorf ''JWT RSA private key is invalid: %w'' [] (Some err))
                     | None \<Rightarrow>
                         if BitLen (private_N key) < 2048
                         then Inl (Errorf ''JWT RSA private key must be at least 2048 bits'' [] None)
                         else Inr key))))"

definition LoadRSAPublicKey :: "key_files \<Rightarrow> string \<Rightarrow> gerr + rsa_public" where
  "LoadRSAPublicKey F path =
     (case ReadFile F (TrimSpace path) of
        Inl err \<Rightarrow> Inl (Errorf ''read JWT public key: %w'' [] (Some err))
      | Inr contents \<Rightarrow>
          (case pem_Decode F contents of
             None \<Rightarrow> Inl (Errorf ''JWT public key file does not contain PEM data'' [] None)
           | Some block \<Rightarrow>
               (case (case ParsePKIXPublicKey F block of
                        Inr (Some key) \<Rightarrow> Some key
                      | _ \<Rightarrow> (case ParsePKCS1PublicKey F block of Inr key \<Rightarrow> Some key | Inl _ \<Rightarrow> None)) of
                  None \<Rightarrow> Inl (Errorf ''JWT public key must be an RSA PKIX or PKCS#1 PEM key'' [] None)
                | Some key \<Rightarrow>
                    if BitLen (rsa_N key) < 2048
                    then Inl (Errorf ''JWT RSA public key must be at least 2048 bits'' [] None)
                    else Inr key)))"

fun load_keys :: "key_files \<Rightarrow> string list \<Rightarrow> KeySet \<Rightarrow> gerr + KeySet" where
  "load_keys F [] keys = Inr keys"
| "load_keys F (path # paths) keys =
     (let keyID = TrimSuffix (path_Base path) (path_Ext path) in
      if keyID = [] then Inl (Errorf ''JWT public key filename must provide a key ID'' [] None)
      else case LoadRSAPublicKey F path of
             Inl err \<Rightarrow> Inl (Errorf ''load JWT key %q: %w'' [keyID] (Some err))
           | Inr key \<Rightarrow> load_keys F paths (Mapping.update keyID key keys))"

definition LoadKeySet :: "key_files \<Rightarrow> string \<Rightarrow> gerr + KeySet" where
  "LoadKeySet F directory =
     (case Glob_pem F (TrimSpace directory) of
        Inl err \<Rightarrow> Inl (Errorf ''list JWT public keys: %w'' [] (Some err))
      | Inr paths \<Rightarrow>
          if paths = [] then Inl (Errorf ''JWT public key directory contains no PEM keys'' [] None)
          else load_keys F paths Mapping.empty)"

section \<open>The JWKS document\<close>

definition Document :: "KeySet \<Rightarrow> JWKSet" where
  "Document keys =
     \<lparr>JWKSet_Keys = map (\<lambda>keyID. case Mapping.lookup keys keyID of Some key \<Rightarrow>
        \<lparr>JWK_KeyType = ''RSA'', JWK_Use = ''sig'', JWK_Alg = Algorithm, JWK_KeyID = keyID,
         JWK_Modulus = EncodeRawURL (big_Bytes (rsa_N key)),
         JWK_Exponent = EncodeRawURL (big_Bytes (nat \<bar>rsa_E key\<bar>))\<rparr>) (Mapping.ordered_keys keys)\<rparr>"

fun jwks_loop :: "JWK list \<Rightarrow> KeySet \<Rightarrow> gerr + KeySet" where
  "jwks_loop [] keys = Inr keys"
| "jwks_loop (jwk # jwks) keys =
     (if JWK_KeyType jwk \<noteq> ''RSA'' \<or> JWK_Alg jwk \<noteq> Algorithm \<or> JWK_Use jwk \<noteq> ''sig'' \<or> TrimSpace (JWK_KeyID jwk) = []
      then Inl (Errorf ''orbit JWKS contains an unsupported key'' [] None)
      else case DecodeRawURL (JWK_Modulus jwk) of
        None \<Rightarrow> Inl (Errorf ''orbit JWKS key %q has an invalid modulus'' [JWK_KeyID jwk] None)
      | Some modulus \<Rightarrow>
          (case DecodeRawURL (JWK_Exponent jwk) of
             None \<Rightarrow> Inl (Errorf ''orbit JWKS key %q has an invalid exponent'' [JWK_KeyID jwk] None)
           | Some ex \<Rightarrow>
               if length ex = 0 \<or> 4 < length ex
               then Inl (Errorf ''orbit JWKS key %q has an invalid exponent'' [JWK_KeyID jwk] None)
               else
                 (let key = \<lparr>rsa_N = SetBytes modulus, rsa_E = int (SetBytes ex)\<rparr> in
                  if BitLen (rsa_N key) < 2048 \<or> rsa_E key < 3 \<or> rsa_E key mod 2 = 0
                  then Inl (Errorf ''orbit JWKS key %q is not a valid 2048-bit RSA signing key'' [JWK_KeyID jwk] None)
                  else if Mapping.lookup keys (JWK_KeyID jwk) \<noteq> None
                  then Inl (Errorf ''orbit JWKS contains duplicate key ID %q'' [JWK_KeyID jwk] None)
                  else jwks_loop jwks (Mapping.update (JWK_KeyID jwk) key keys))))"

definition JWKSet_KeySet :: "JWKSet \<Rightarrow> gerr + KeySet" where
  "JWKSet_KeySet document =
     (if length (JWKSet_Keys document) = 0 \<or> 100 < length (JWKSet_Keys document)
      then Inl (Errorf ''orbit JWKS must contain between 1 and 100 keys'' [] None)
      else jwks_loop (JWKSet_Keys document) Mapping.empty)"

section \<open>Signing and verifying\<close>

text \<open>
  The JWT library. \<open>jwt_SignedString\<close> takes the algorithm, the key ID header, the claims and the key;
  \<open>jwt_ParseUnverified\<close> returns no token, or a token with or without a string as its key ID;
  \<open>jwt_ParseWithClaims\<close> takes the key function (from the algorithm of the token), the valid methods, the
  issuer and the time at which it validates, with the options that require an expiry and check the time
  of issue, and returns whether the token is valid and its claims.
\<close>

record jwt_pkg =
  jwt_SignedString :: "string \<Rightarrow> string \<Rightarrow> AccessClaims \<Rightarrow> rsa_private \<Rightarrow> gerr + string"
  jwt_ParseUnverified :: "string \<Rightarrow> gerr + string option option"
  jwt_ParseWithClaims ::
    "string \<Rightarrow> (string \<Rightarrow> gerr + rsa_public) \<Rightarrow> string list \<Rightarrow> string \<Rightarrow> Time \<Rightarrow> gerr + bool \<times> AccessClaims"

definition claims_ascii :: "AccessClaims \<Rightarrow> bool" where
  "claims_ascii c \<longleftrightarrow> list_all is_ascii (claims_Issuer c @ claims_Subject c @ claims_OrgID c)"

text \<open>
  What the code relies on: a signed token shows its key ID; it is valid, with the claims that were
  signed, for the matching public key while it has been issued and has not expired; and a token that is
  accepted has the required issuer, an expiry in the future and a permitted algorithm.
\<close>

definition jwt_laws :: "jwt_pkg \<Rightarrow> bool" where
  "jwt_laws J \<longleftrightarrow>
     (\<forall>alg kid c key raw. list_all is_ascii kid \<longrightarrow> claims_ascii c \<longrightarrow> jwt_SignedString J alg kid c key = Inr raw \<longrightarrow>
        jwt_ParseUnverified J raw = Inr (Some (Some kid)) \<and>
        (\<forall>kf ms now e i. kf alg = Inr (rsa_public_of key) \<longrightarrow> alg \<in> set ms \<longrightarrow>
           claims_ExpiresAt c = Some e \<longrightarrow> now < e \<longrightarrow> claims_IssuedAt c = Some i \<longrightarrow> i \<le> now \<longrightarrow>
           jwt_ParseWithClaims J raw kf ms (claims_Issuer c) now = Inr (True, c))) \<and>
     (\<forall>raw kf ms iss now v c. iss \<noteq> [] \<longrightarrow> ms \<noteq> [] \<longrightarrow> jwt_ParseWithClaims J raw kf ms iss now = Inr (v, c) \<longrightarrow>
        claims_Issuer c = iss \<and> (\<exists>e. claims_ExpiresAt c = Some e \<and> now < e) \<and>
        (\<exists>alg \<in> set ms. \<exists>key. kf alg = Inr key))"

definition NewNumericDate :: "Time \<Rightarrow> Time" where
  "NewNumericDate t = t div Second * Second"

definition SignAccessTokenWithOrg ::
  "env \<Rightarrow> jwt_pkg \<Rightarrow> rsa_private option \<Rightarrow> string \<Rightarrow> string \<Rightarrow> string \<Rightarrow> Time \<Rightarrow> (world, string) M" where
  "SignAccessTokenWithOrg E J key0 keyID0 subject0 orgID0 expires =
     (case key0 of
        None \<Rightarrow> fail (Errorf ''JWT private key is required'' [] None)
      | Some key \<Rightarrow>
          (let keyID = TrimSpace keyID0; subject = TrimSpace subject0; orgID = TrimSpace orgID0 in
           if keyID = [] then fail (Errorf ''JWT key ID is required'' [] None)
           else if subject = [] then fail (Errorf ''JWT subject is required'' [] None)
           else
             bindE (if orgID \<noteq> []
                    then case uuid_Parse E orgID of
                           Inl err \<Rightarrow> fail (Errorf ''JWT org claim must be a UUID'' [] None)
                         | Inr parsed \<Rightarrow> ret (uuid_String E parsed)
                    else ret orgID) (\<lambda>org.
             bindE (time_Now E) (\<lambda>now.
             (let claims = \<lparr>claims_Issuer = Issuer, claims_Subject = subject,
                            claims_ExpiresAt = Some (NewNumericDate expires),
                            claims_IssuedAt = Some (NewNumericDate now), claims_OrgID = org\<rparr> in
              case jwt_SignedString J Algorithm keyID claims key of Inl err \<Rightarrow> fail err | Inr raw \<Rightarrow> ret raw)))))"

definition SignAccessToken ::
  "env \<Rightarrow> jwt_pkg \<Rightarrow> rsa_private option \<Rightarrow> string \<Rightarrow> string \<Rightarrow> Time \<Rightarrow> (world, string) M" where
  "SignAccessToken E J key keyID subject expires = SignAccessTokenWithOrg E J key keyID subject [] expires"

definition header_kid :: "jwt_pkg \<Rightarrow> string \<Rightarrow> gerr + string" where
  "header_kid J raw =
     (case jwt_ParseUnverified J raw of
        Inl err \<Rightarrow> Inl err
      | Inr None \<Rightarrow> Inl (Errorf ''invalid JWT access token'' [] None)
      | Inr (Some None) \<Rightarrow> Inl (Errorf ''JWT key ID is required'' [] None)
      | Inr (Some (Some keyID)) \<Rightarrow>
          if TrimSpace keyID = [] then Inl (Errorf ''JWT key ID is required'' [] None) else Inr keyID)"

definition ParseAccessToken :: "jwt_pkg \<Rightarrow> Time \<Rightarrow> string \<Rightarrow> KeySet \<Rightarrow> gerr + AccessClaims" where
  "ParseAccessToken J now raw keys =
     (case header_kid J raw of
        Inl err \<Rightarrow> Inl err
      | Inr keyID \<Rightarrow>
          (case Mapping.lookup keys keyID of
             None \<Rightarrow> Inl (Errorf ''unknown JWT key ID %q'' [keyID] None)
           | Some key \<Rightarrow>
               (case jwt_ParseWithClaims J raw
                       (\<lambda>alg. if alg \<noteq> ''RS256'' then Inl (Errorf ''unexpected JWT signing algorithm'' [] None) else Inr key)
                       [Algorithm] Issuer now of
                  Inl err \<Rightarrow> Inl err
                | Inr (valid, claims) \<Rightarrow>
                    if \<not> valid then Inl (Errorf ''invalid JWT access token'' [] None)
                    else if TrimSpace (claims_Subject claims) = []
                    then Inl (Errorf ''JWT subject is required'' [] None)
                    else Inr claims)))"

section \<open>Round trips\<close>

definition signing_key :: "rsa_public \<Rightarrow> bool" where
  "signing_key k \<longleftrightarrow> 2 ^ 2047 \<le> rsa_N k \<and> 3 \<le> rsa_E k \<and> rsa_E k < 2 ^ 32 \<and> odd (rsa_E k)"

definition jwk_of :: "string \<Rightarrow> rsa_public \<Rightarrow> JWK" where
  "jwk_of keyID key =
     \<lparr>JWK_KeyType = ''RSA'', JWK_Use = ''sig'', JWK_Alg = Algorithm, JWK_KeyID = keyID,
      JWK_Modulus = EncodeRawURL (big_Bytes (rsa_N key)),
      JWK_Exponent = EncodeRawURL (big_Bytes (nat \<bar>rsa_E key\<bar>))\<rparr>"

lemma exponent_bytes:
  assumes "signing_key k"
  shows "big_Bytes (nat \<bar>rsa_E k\<bar>) \<noteq> []" and "\<not> 4 < length (big_Bytes (nat \<bar>rsa_E k\<bar>))"
    and "\<not> BitLen (rsa_N k) < 2048"
proof -
  show "big_Bytes (nat \<bar>rsa_E k\<bar>) \<noteq> []" using assms by (simp add: big_Bytes_Nil signing_key_def)
  have "nat \<bar>rsa_E k\<bar> < 256 ^ 4" using assms by (simp add: signing_key_def nat_less_iff)
  then show "\<not> 4 < length (big_Bytes (nat \<bar>rsa_E k\<bar>))" using length_big_Bytes by (simp add: not_less)
  have "\<not> BitLen (rsa_N k) < Suc 2047" unfolding BitLen_less using assms by (simp only: signing_key_def not_less)
  then show "\<not> BitLen (rsa_N k) < 2048" by simp
qed

lemma jwks_loop_jwk:
  assumes "signing_key k" and "TrimSpace i \<noteq> []" and "Mapping.lookup acc i = None"
  shows "jwks_loop (jwk_of i k # xs) acc = jwks_loop xs (Mapping.update i k acc)"
proof -
  have "\<not> rsa_E k < 3" "rsa_E k mod 2 \<noteq> 0" "int (nat \<bar>rsa_E k\<bar>) = rsa_E k"
    using assms(1) by (simp_all add: signing_key_def odd_iff_mod_2_eq_one del: numeral_le_iff)
  then show ?thesis using exponent_bytes [OF assms(1)] assms(2,3) by (cases k) (simp add: jwk_of_def)
qed

lemma jwks_loop_document:
  "distinct ids \<Longrightarrow> (\<forall>i \<in> set ids. TrimSpace i \<noteq> [] \<and> signing_key (f i) \<and> Mapping.lookup acc i = None) \<Longrightarrow>
   \<exists>m. jwks_loop (map (\<lambda>i. jwk_of i (f i)) ids) acc = Inr m \<and>
       Mapping.lookup m = (\<lambda>i. if i \<in> set ids then Some (f i) else Mapping.lookup acc i)"
proof (induction ids arbitrary: acc)
  case (Cons i ids)
  let ?acc = "Mapping.update i (f i) acc"
  have "distinct ids" and "\<forall>j \<in> set ids. TrimSpace j \<noteq> [] \<and> signing_key (f j) \<and> Mapping.lookup ?acc j = None"
    using Cons.prems by (simp, metis distinct.simps(2) list.set_intros(2) lookup_update_neq)
  from Cons.IH [OF this] obtain m where m: "jwks_loop (map (\<lambda>i. jwk_of i (f i)) ids) ?acc = Inr m"
    "Mapping.lookup m = (\<lambda>j. if j \<in> set ids then Some (f j) else Mapping.lookup ?acc j)"
    by blast
  have "jwks_loop (map (\<lambda>i. jwk_of i (f i)) (i # ids)) acc = Inr m"
    using m(1) Cons.prems(2) by (simp add: jwks_loop_jwk del: jwks_loop.simps)
  moreover have "Mapping.lookup m = (\<lambda>j. if j \<in> set (i # ids) then Some (f j) else Mapping.lookup acc j)"
    using Cons.prems(1) by (auto simp: m(2) lookup_update' fun_eq_iff)
  ultimately show ?case by blast
qed simp

lemma jwks_document_read:
  assumes "finite (Mapping.keys keys)" and "Mapping.keys keys \<noteq> {}" and "card (Mapping.keys keys) \<le> 100"
    and "\<And>i k. Mapping.lookup keys i = Some k \<Longrightarrow> TrimSpace i \<noteq> [] \<and> signing_key k"
  shows "JWKSet_KeySet (Document keys) = Inr keys"
proof -
  define ids where "ids = Mapping.ordered_keys keys"
  have ids: "set ids = Mapping.keys keys" "distinct ids" "length ids = card (Mapping.keys keys)"
    using assms(1) by (simp_all add: ids_def Mapping.ordered_keys_def)
  let ?f = "\<lambda>i. the (Mapping.lookup keys i)"
  have "JWKSet_Keys (Document keys) = map (\<lambda>i. jwk_of i (?f i)) ids"
    using ids(1) by (auto simp: Document_def ids_def [symmetric] jwk_of_def keys_dom_lookup dom_def split: option.splits)
  moreover have "\<exists>m. jwks_loop (map (\<lambda>i. jwk_of i (?f i)) ids) Mapping.empty = Inr m \<and>
      Mapping.lookup m = (\<lambda>i. if i \<in> set ids then Some (?f i) else Mapping.lookup Mapping.empty i)"
    using ids assms(4) by (intro jwks_loop_document) (auto simp: keys_dom_lookup dom_def)
  moreover have "length ids \<noteq> 0" using ids assms(1,2) by auto
  ultimately show ?thesis
    using ids(1,3) assms(3) by (auto simp: JWKSet_KeySet_def intro!: mapping_eqI simp: keys_dom_lookup dom_def)
qed

text \<open>
  C28. The published key document reads back as the key set it was made of: for a key set of 1 to 100
  keys with non-blank key IDs, each a valid signing key of at least 2048 bits with an odd exponent of at
  least 3 that fits 32 bits, a consumer that decodes the document accepts it and has exactly the same keys.
\<close>

theorem jwks_round_trip:
  assumes "finite (Mapping.keys keys)" and "Mapping.keys keys \<noteq> {}" and "card (Mapping.keys keys) \<le> 100"
    and "\<And>i k. Mapping.lookup keys i = Some k \<Longrightarrow> TrimSpace i \<noteq> [] \<and> signing_key k"
  shows "JWKSet_KeySet (Document keys) = Inr keys"
  using assms by (rule jwks_document_read)

text \<open>Witness of C28: a key set of one key with the usual exponent 65537.\<close>

theorem jwks_round_trip_witness:
  "JWKSet_KeySet (Document (Mapping.update ''k1'' \<lparr>rsa_N = 2 ^ 2047, rsa_E = 65537\<rparr> Mapping.empty)) =
     Inr (Mapping.update ''k1'' \<lparr>rsa_N = 2 ^ 2047, rsa_E = 65537\<rparr> Mapping.empty)"
proof (rule jwks_round_trip)
  fix i k
  assume "Mapping.lookup (Mapping.update ''k1'' \<lparr>rsa_N = 2 ^ 2047, rsa_E = 65537\<rparr> Mapping.empty) i = Some k"
  then have "i = ''k1''" and "k = \<lparr>rsa_N = 2 ^ 2047, rsa_E = 65537\<rparr>" by (auto simp: lookup_update' split: if_splits)
  moreover have "TrimSpace ''k1'' \<noteq> []" by code_simp
  ultimately show "TrimSpace i \<noteq> [] \<and> signing_key k" by (simp add: signing_key_def)
qed (simp_all add: keys_update)

lemma uuid_text_visible: "list_all visible (uuid_text u)"
proof -
  have h: "\<forall>n \<in> {..<16}. visible (hex_digits ! n)" by code_simp
  have "list_all visible (uuid_hex u)"
    unfolding uuid_hex_def list_all_iff set_map using h by (auto simp: nat_less_iff)
  moreover have "visible (CHR ''-'')" by code_simp
  ultimately show ?thesis
    unfolding uuid_text_def Let_def by (auto simp: list_all_iff dest: in_set_takeD in_set_dropD)
qed

lemma visible_ascii: "list_all visible s \<Longrightarrow> list_all is_ascii s"
  by (auto simp: list_all_iff visible_def is_ascii_def)

lemma NewNumericDate_le: "NewNumericDate t \<le> t"
  using pos_mod_sign [of Second t] div_mult_mod_eq [of t Second] by (simp add: NewNumericDate_def Second_def)

lemma header_kid_signed:
  assumes "jwt_laws J" and "jwt_SignedString J alg kid c key = Inr raw"
    and "list_all is_ascii kid" and "claims_ascii c" and "TrimSpace kid \<noteq> []"
  shows "header_kid J raw = Inr kid"
  using assms unfolding jwt_laws_def header_kid_def by fastforce

lemma ParseAccessToken_signed:
  assumes laws: "jwt_laws J" and signed: "jwt_SignedString J Algorithm kid c key = Inr raw"
    and ascii: "list_all is_ascii kid" "claims_ascii c" and kid: "TrimSpace kid \<noteq> []"
    and key: "Mapping.lookup keys kid = Some (rsa_public_of key)"
    and c: "claims_Issuer c = Issuer" "TrimSpace (claims_Subject c) \<noteq> []"
      "claims_ExpiresAt c = Some e" "now < e" "claims_IssuedAt c = Some i" "i \<le> now"
  shows "ParseAccessToken J now raw keys = Inr c"
proof -
  have "jwt_ParseWithClaims J raw
      (\<lambda>alg. if alg \<noteq> ''RS256'' then Inl (Errorf ''unexpected JWT signing algorithm'' [] None) else Inr (rsa_public_of key))
      [Algorithm] (claims_Issuer c) now = Inr (True, c)"
    using laws signed ascii c(3-) unfolding jwt_laws_def by (simp add: Algorithm_def)
  then show ?thesis
    using header_kid_signed [OF laws signed ascii kid] key c(1,2) by (simp add: ParseAccessToken_def)
qed

lemma access_token_issued:
  assumes laws: "jwt_laws J" "uuid_laws E"
    and sign: "SignAccessTokenWithOrg E J (Some key) keyID subject orgID expires w = (Inr raw, w')"
    and ascii: "list_all is_ascii (TrimSpace keyID)" "list_all is_ascii (TrimSpace subject)"
  obtains c where "jwt_SignedString J Algorithm (TrimSpace keyID) c key = Inr raw" and "claims_ascii c"
    and "TrimSpace keyID \<noteq> []" and "claims_Issuer c = Issuer" and "claims_Subject c = TrimSpace subject"
    and "TrimSpace subject \<noteq> []" and "claims_ExpiresAt c = Some (NewNumericDate expires)"
    and "claims_IssuedAt c = Some (NewNumericDate (app_clock E (w_tick w)))"
    and "if TrimSpace orgID = [] then OrganizationID E c = None
         else \<exists>u. uuid_Parse E (TrimSpace orgID) = Inr u \<and> OrganizationID E c = Some u"
proof -
  obtain org where org: "TrimSpace orgID = [] \<and> org = [] \<or>
      TrimSpace orgID \<noteq> [] \<and> (\<exists>u. uuid_Parse E (TrimSpace orgID) = Inr u \<and> org = uuid_text u)"
    and signed: "jwt_SignedString J Algorithm (TrimSpace keyID)
        \<lparr>claims_Issuer = Issuer, claims_Subject = TrimSpace subject, claims_ExpiresAt = Some (NewNumericDate expires),
         claims_IssuedAt = Some (NewNumericDate (app_clock E (w_tick w))), claims_OrgID = org\<rparr> key = Inr raw"
    and ne: "TrimSpace keyID \<noteq> []" "TrimSpace subject \<noteq> []"
    using sign laws(2) unfolding SignAccessTokenWithOrg_def Let_def
    by (auto simp: run uuid_laws_def split: if_splits sum.splits)
  have "list_all visible org" using org uuid_text_visible by auto
  then have "list_all is_ascii org" and t: "TrimSpace org = org" by (auto simp: visible_ascii TrimSpace_visible)
  moreover have "uuid_text u \<noteq> []" for u by (simp add: uuid_text_def Let_def)
  ultimately show thesis
    using signed ne ascii(2) org laws(2)
    by (intro that [OF signed]) (auto simp: claims_ascii_def Issuer_def is_ascii_def byte_def OrganizationID_def uuid_laws_def)
qed

lemma header_kid_issued:
  assumes "jwt_laws J" and "uuid_laws E"
    and "SignAccessTokenWithOrg E J (Some key) keyID subject orgID expires w = (Inr raw, w')"
    and "list_all is_ascii (TrimSpace keyID)" and "list_all is_ascii (TrimSpace subject)"
  shows "header_kid J raw = Inr (TrimSpace keyID)"
  using access_token_issued [OF assms] header_kid_signed [OF assms(1)] assms(4) by (metis TrimSpace_idem)

lemma ParseAccessToken_issued:
  assumes laws: "jwt_laws J" "uuid_laws E"
    and sign: "SignAccessTokenWithOrg E J (Some key) keyID subject orgID expires w = (Inr raw, w')"
    and ascii: "list_all is_ascii (TrimSpace keyID)" "list_all is_ascii (TrimSpace subject)"
    and keys: "Mapping.lookup keys (TrimSpace keyID) = Some (rsa_public_of key)"
    and time: "app_clock E (w_tick w) \<le> now" "now < NewNumericDate expires"
  shows "\<exists>c. ParseAccessToken J now raw keys = Inr c \<and> claims_Subject c = TrimSpace subject \<and>
             (if TrimSpace orgID = [] then OrganizationID E c = None
              else \<exists>u. uuid_Parse E (TrimSpace orgID) = Inr u \<and> OrganizationID E c = Some u)"
proof (rule access_token_issued [OF laws sign ascii])
  fix c
  assume c: "jwt_SignedString J Algorithm (TrimSpace keyID) c key = Inr raw" "claims_ascii c" "TrimSpace keyID \<noteq> []"
    "claims_Issuer c = Issuer" "claims_Subject c = TrimSpace subject" "TrimSpace subject \<noteq> []"
    "claims_ExpiresAt c = Some (NewNumericDate expires)"
    "claims_IssuedAt c = Some (NewNumericDate (app_clock E (w_tick w)))"
    "if TrimSpace orgID = [] then OrganizationID E c = None
     else \<exists>u. uuid_Parse E (TrimSpace orgID) = Inr u \<and> OrganizationID E c = Some u"
  have "NewNumericDate (app_clock E (w_tick w)) \<le> now" using time(1) NewNumericDate_le order_trans by blast
  then have "ParseAccessToken J now raw keys = Inr c"
    using c keys time(2) ascii(1) laws(1) by (intro ParseAccessToken_signed) auto
  with c show ?thesis by blast
qed

text \<open>
  C15. Sign and verify: a token that was signed for a subject and organization verifies, from the moment
  it was issued until the second it expires, against every key set that has the signer's public key under
  its key ID; the claims name the trimmed subject, and reading the organization from them gives the
  organization that was signed, or none when it was blank.
\<close>

theorem access_token_round_trip:
  assumes "jwt_laws J" and "uuid_laws E"
    and "SignAccessTokenWithOrg E J (Some key) keyID subject orgID expires w = (Inr raw, w')"
    and "list_all is_ascii (TrimSpace keyID)" and "list_all is_ascii (TrimSpace subject)"
    and "Mapping.lookup keys (TrimSpace keyID) = Some (rsa_public_of key)"
    and "app_clock E (w_tick w) \<le> now" and "now < NewNumericDate expires"
  shows "\<exists>c. ParseAccessToken J now raw keys = Inr c \<and> claims_Subject c = TrimSpace subject \<and>
             (if TrimSpace orgID = [] then OrganizationID E c = None
              else \<exists>u. uuid_Parse E (TrimSpace orgID) = Inr u \<and> OrganizationID E c = Some u)"
  using assms by (rule ParseAccessToken_issued)

text \<open>A JWT package that can sign one token, for the witnesses.\<close>

definition demo_key :: rsa_private where
  "demo_key = \<lparr>private_N = 2 ^ 2047, private_E = 65537, private_D = 1\<rparr>"

definition demo_claims :: AccessClaims where
  "demo_claims =
     \<lparr>claims_Issuer = Issuer, claims_Subject = ''u1'', claims_ExpiresAt = Some (demo_start + Hour),
      claims_IssuedAt = Some demo_start, claims_OrgID = uuid_text 7\<rparr>"

definition demo_jwt :: jwt_pkg where
  "demo_jwt =
     \<lparr>jwt_SignedString = (\<lambda>alg kid c key.
        if alg = Algorithm \<and> kid = ''k1'' \<and> c = demo_claims \<and> key = demo_key then Inr ''t'' else Inl PanicError),
      jwt_ParseUnverified = (\<lambda>raw. if raw = ''t'' then Inr (Some (Some ''k1'')) else Inl PanicError),
      jwt_ParseWithClaims = (\<lambda>raw kf ms iss now.
        if raw = ''t'' \<and> kf Algorithm = Inr (rsa_public_of demo_key) \<and> Algorithm \<in> set ms \<and> iss = Issuer \<and>
           demo_start \<le> now \<and> now < demo_start + Hour
        then Inr (True, demo_claims) else Inl PanicError)\<rparr>"

definition demo_keys :: KeySet where
  "demo_keys = Mapping.update ''k1'' (rsa_public_of demo_key) Mapping.empty"

lemma demo_jwt_laws: "jwt_laws demo_jwt"
  by (auto simp: jwt_laws_def demo_jwt_def demo_claims_def split: if_splits)

lemma NewNumericDate_demo: "NewNumericDate demo_start = demo_start" "NewNumericDate (demo_start + Hour) = demo_start + Hour"
  by (simp_all add: NewNumericDate_def demo_start_def Hour_def Minute_def Second_def)

lemma demo_sign:
  "SignAccessTokenWithOrg demo_env demo_jwt (Some demo_key) ''k1'' ''u1'' (uuid_text 7) (demo_start + Hour) (start_world [] 0) =
     (Inr ''t'', start_world [] 1)"
proof -
  have "TrimSpace ''k1'' = ''k1''" and "TrimSpace ''u1'' = ''u1''" by code_simp+
  moreover have "uuid_text 7 \<noteq> []" by (simp add: uuid_text_def Let_def)
  moreover have "uuid_Parse demo_env (uuid_text 7) = Inr 7" and "uuid_String demo_env 7 = uuid_text 7"
    using demo_laws(1) by (simp_all add: uuid_laws_def)
  moreover have "app_clock demo_env 0 = demo_start" by (simp add: demo_env_def)
  ultimately show ?thesis
    by (simp add: SignAccessTokenWithOrg_def TrimSpace_visible uuid_text_visible run start_world_def
        demo_jwt_def demo_claims_def NewNumericDate_demo)
qed

text \<open>Witness of C15: a token signed in the demo environment, checked half an hour later.\<close>

theorem access_token_round_trip_witness:
  "\<exists>c. ParseAccessToken demo_jwt (demo_start + 30 * Minute) ''t'' demo_keys = Inr c \<and> claims_Subject c = TrimSpace ''u1'' \<and>
       (if TrimSpace (uuid_text 7) = [] then OrganizationID demo_env c = None
        else \<exists>u. uuid_Parse demo_env (TrimSpace (uuid_text 7)) = Inr u \<and> OrganizationID demo_env c = Some u)"
proof (rule access_token_round_trip [OF demo_jwt_laws demo_laws(1) demo_sign])
  show "list_all is_ascii (TrimSpace ''k1'')" "list_all is_ascii (TrimSpace ''u1'')" by code_simp+
  have "TrimSpace ''k1'' = ''k1''" by code_simp
  then show "Mapping.lookup demo_keys (TrimSpace ''k1'') = Some (rsa_public_of demo_key)" by (simp add: demo_keys_def)
  show "app_clock demo_env (w_tick (start_world [] 0)) \<le> demo_start + 30 * Minute"
    "demo_start + 30 * Minute < NewNumericDate (demo_start + Hour)"
    unfolding NewNumericDate_demo by (simp_all add: demo_env_def start_world_def Hour_def Minute_def Second_def)
qed

end
