(* ===== verification/Verifier.thy ===== *)
theory Verifier
  imports Token
begin

text \<open>
  \<open>RemoteVerifier\<close> of \<open>token/access.go\<close>: a cached copy of a remote key set, refreshed when it expires or
  when a token names an unknown key. A fetch is a value: what the HTTP exchange gave at that call. Times
  are explicit, as the code reads the clock three times in a call.
\<close>

section \<open>The remote verifier\<close>

text \<open>
  \<open>parsed_url\<close> is what \<open>url.ParseRequestURI\<close> returns. \<open>fetch\<close> is one request for the key set: the request
  could not be made, the transport failed, or a response with a status and what its body decodes to.
\<close>

record parsed_url =
  url_Scheme :: string
  url_Host :: string
  url_Hostname :: string
  url_Fragment :: string
  url_User :: bool

datatype fetch = RequestError gerr | TransportError gerr | Response int "gerr + JWKSet"

record RemoteVerifier =
  rv_url :: string
  rv_cacheLifetime :: Time
  rv_maxStale :: Time
  rv_keys :: KeySet
  rv_fetchedAt :: Time
  rv_expiresAt :: Time
  rv_lastRefreshAttempt :: Time
  rv_lastUnknownRefresh :: Time

fun refreshLocked :: "fetch \<Rightarrow> Time \<Rightarrow> RemoteVerifier \<Rightarrow> gerr option \<times> RemoteVerifier" where
  "refreshLocked (RequestError err) now v = (Some (Errorf ''create JWKS request: %w'' [] (Some err)), v)"
| "refreshLocked (TransportError err) now v = (Some (Errorf ''fetch Orbit JWKS: %w'' [] (Some err)), v)"
| "refreshLocked (Response status body) now v =
     (if status \<noteq> 200 then (Some (Errorf ''fetch Orbit JWKS: unexpected status %d'' [] None), v)
      else case body of
        Inl err \<Rightarrow> (Some (Errorf ''decode Orbit JWKS: %w'' [] (Some err)), v)
      | Inr document \<Rightarrow>
          (case JWKSet_KeySet document of
             Inl err \<Rightarrow> (Some err, v)
           | Inr keys \<Rightarrow>
               (None, v\<lparr>rv_keys := keys, rv_fetchedAt := now, rv_expiresAt := now + rv_cacheLifetime v\<rparr>)))"

definition NewRemoteVerifier ::
  "(string \<Rightarrow> gerr + parsed_url) \<Rightarrow> string \<Rightarrow> Time \<Rightarrow> fetch \<Rightarrow> Time \<Rightarrow> gerr + RemoteVerifier" where
  "NewRemoteVerifier parse jwksURL0 cacheLifetime0 resp now =
     (let jwksURL = TrimSpace jwksURL0 in
      if jwksURL = [] then Inl (Errorf ''orbit JWKS URL is required'' [] None)
      else case parse jwksURL of
        Inl err \<Rightarrow> Inl (Errorf ''orbit JWKS URL must be an absolute HTTP(S) URL without a fragment'' [] None)
      | Inr u \<Rightarrow>
          if url_Host u = [] \<or> url_Fragment u \<noteq> [] \<or> url_User u
          then Inl (Errorf ''orbit JWKS URL must be an absolute HTTP(S) URL without a fragment'' [] None)
          else
            (let localHTTP = (url_Scheme u = ''http'' \<and>
                   (url_Hostname u = ''localhost'' \<or> url_Hostname u = ''127.0.0.1'' \<or> url_Hostname u = ''host.docker.internal''))
             in
             if url_Scheme u \<noteq> ''https'' \<and> \<not> localHTTP
             then Inl (Errorf ''orbit JWKS URL must use HTTPS outside local development'' [] None)
             else
               (let v = \<lparr>rv_url = jwksURL,
                         rv_cacheLifetime = (if cacheLifetime0 \<le> 0 then 5 * Minute else cacheLifetime0),
                         rv_maxStale = Hour, rv_keys = Mapping.empty, rv_fetchedAt = 0, rv_expiresAt = 0,
                         rv_lastRefreshAttempt = 0, rv_lastUnknownRefresh = 0\<rparr>
                in case refreshLocked resp now v of (Some err, _) \<Rightarrow> Inl err | (None, v') \<Rightarrow> Inr v')))"

text \<open>The redirect policy of its HTTP client: whether the redirect is followed.\<close>

definition CheckRedirect :: "unicode \<Rightarrow> parsed_url \<Rightarrow> nat \<Rightarrow> string \<Rightarrow> string \<Rightarrow> bool" where
  "CheckRedirect U u via scheme host \<longleftrightarrow>
     \<not> (3 \<le> via \<or> scheme \<noteq> url_Scheme u \<or> \<not> EqualFold U host (url_Host u))"

definition refresh_due :: "RemoteVerifier \<Rightarrow> string \<Rightarrow> Time \<Rightarrow> bool" where
  "refresh_due v keyID now \<longleftrightarrow>
     (rv_expiresAt v < now \<and>
        (IsZero (rv_lastRefreshAttempt v) \<or> 15 * Second \<le> now - rv_lastRefreshAttempt v)) \<or>
     (Mapping.lookup (rv_keys v) keyID = None \<and>
        (IsZero (rv_lastUnknownRefresh v) \<or> 15 * Second \<le> now - rv_lastUnknownRefresh v))"

definition note_attempt :: "RemoteVerifier \<Rightarrow> string \<Rightarrow> Time \<Rightarrow> RemoteVerifier" where
  "note_attempt v keyID now =
     (let v1 = v\<lparr>rv_lastRefreshAttempt := now\<rparr> in
      if Mapping.lookup (rv_keys v) keyID = None then v1\<lparr>rv_lastUnknownRefresh := now\<rparr> else v1)"

text \<open>
  One call of the method: \<open>now\<close> is the time read under the lock, \<open>resp\<close> the answer if it fetches,
  \<open>fetched\<close> the time the fetch completes and \<open>checked\<close> the time the library validates the token.
\<close>

definition RemoteVerifier_ParseAccessToken ::
  "jwt_pkg \<Rightarrow> Time \<Rightarrow> fetch \<Rightarrow> Time \<Rightarrow> Time \<Rightarrow> string \<Rightarrow> RemoteVerifier \<Rightarrow> (gerr + AccessClaims) \<times> RemoteVerifier" where
  "RemoteVerifier_ParseAccessToken J now resp fetched checked raw v =
     (case header_kid J raw of
        Inl err \<Rightarrow> (Inl err, v)
      | Inr keyID \<Rightarrow>
          (let (refreshErr, v') =
                 (if refresh_due v keyID now then refreshLocked resp fetched (note_attempt v keyID now) else (None, v));
               key = Mapping.lookup (rv_keys v') keyID;
               stale = (rv_maxStale v' < now - rv_fetchedAt v')
           in if refreshErr \<noteq> None \<and> (key = None \<or> stale) then (Inl (the refreshErr), v')
              else if key \<noteq> None \<and> stale
              then (Inl (Errorf ''cached Orbit JWKS exceeded its maximum stale age'' [] None), v')
              else case key of
                     None \<Rightarrow> (Inl (Errorf ''unknown JWT key ID %q'' [keyID] None), v')
                   | Some k \<Rightarrow> (ParseAccessToken J checked raw (Mapping.update keyID k Mapping.empty), v')))"

section \<open>Sequences of calls\<close>

record verify_call =
  vc_raw :: string
  vc_now :: Time
  vc_resp :: fetch
  vc_fetched :: Time
  vc_checked :: Time

definition fetches :: "jwt_pkg \<Rightarrow> RemoteVerifier \<Rightarrow> verify_call \<Rightarrow> bool" where
  "fetches J v c = (case header_kid J (vc_raw c) of Inl err \<Rightarrow> False | Inr keyID \<Rightarrow> refresh_due v keyID (vc_now c))"

text \<open>The verifier after a sequence of calls, with the times of the requests it made, the last one first.\<close>

fun verifier_run :: "jwt_pkg \<Rightarrow> verify_call list \<Rightarrow> RemoteVerifier \<times> Time list \<Rightarrow> RemoteVerifier \<times> Time list" where
  "verifier_run J [] s = s"
| "verifier_run J (c # cs) (v, ts) =
     verifier_run J cs
       (snd (RemoteVerifier_ParseAccessToken J (vc_now c) (vc_resp c) (vc_fetched c) (vc_checked c) (vc_raw c) v),
        if fetches J v c then vc_now c # ts else ts)"

fun spaced :: "Time list \<Rightarrow> bool" where
  "spaced (x # y # z # ts) = (z + 15 * Second \<le> x \<and> spaced (y # z # ts))"
| "spaced ts = True"

section \<open>Lemmas\<close>

lemma refreshLocked_marks [simp]:
  "rv_lastRefreshAttempt (snd (refreshLocked resp t v)) = rv_lastRefreshAttempt v"
  "rv_lastUnknownRefresh (snd (refreshLocked resp t v)) = rv_lastUnknownRefresh v"
  "rv_maxStale (snd (refreshLocked resp t v)) = rv_maxStale v"
  by (cases resp; auto split: sum.split)+

lemma refreshLocked_error: "fst (refreshLocked resp t v) = Some err \<Longrightarrow> snd (refreshLocked resp t v) = v"
  by (cases resp) (auto split: sum.splits if_splits)

lemma note_attempt_simps [simp]:
  "rv_lastRefreshAttempt (note_attempt v k t) = t"
  "rv_lastUnknownRefresh (note_attempt v k t) = (if Mapping.lookup (rv_keys v) k = None then t else rv_lastUnknownRefresh v)"
  "rv_keys (note_attempt v k t) = rv_keys v"
  "rv_fetchedAt (note_attempt v k t) = rv_fetchedAt v"
  "rv_maxStale (note_attempt v k t) = rv_maxStale v"
  by (simp_all add: note_attempt_def Let_def)

lemma ParseAccessToken_state:
  "snd (RemoteVerifier_ParseAccessToken J now resp fetched checked raw v) =
     (case header_kid J raw of
        Inl err \<Rightarrow> v
      | Inr keyID \<Rightarrow> if refresh_due v keyID now then snd (refreshLocked resp fetched (note_attempt v keyID now)) else v)"
  by (auto simp: RemoteVerifier_ParseAccessToken_def Let_def split: sum.split option.split prod.split)

text \<open>
  What the marks of the verifier say of the requests made so far. The last request is the last attempt;
  and if it was not made for an unknown key, it came at least 15 seconds after the one before.
\<close>

fun marks_ok :: "RemoteVerifier \<Rightarrow> Time list \<Rightarrow> bool" where
  "marks_ok v [] = True"
| "marks_ok v [x] = (rv_lastRefreshAttempt v = x \<and> 0 < x)"
| "marks_ok v (x # y # ts) =
     (rv_lastRefreshAttempt v = x \<and> 0 < y \<and> y \<le> x \<and>
      (rv_lastUnknownRefresh v = x \<or> y + 15 * Second \<le> x))"

lemma marks_step:
  assumes "marks_ok v ts" and "spaced ts" and "0 < vc_now c" and "\<forall>t \<in> set ts. t \<le> vc_now c"
    and "v' = snd (RemoteVerifier_ParseAccessToken J (vc_now c) (vc_resp c) (vc_fetched c) (vc_checked c) (vc_raw c) v)"
    and "ts' = (if fetches J v c then vc_now c # ts else ts)"
  shows "marks_ok v' ts' \<and> spaced ts'"
proof (cases "fetches J v c")
  case False
  then show ?thesis using assms by (auto simp: ParseAccessToken_state fetches_def split: sum.splits)
next
  case True
  then obtain k where k: "header_kid J (vc_raw c) = Inr k" "refresh_due v k (vc_now c)"
    by (auto simp: fetches_def split: sum.splits)
  consider "ts = []" | x where "ts = [x]" | x y r where "ts = x # y # r" by (metis list.exhaust)
  then show ?thesis
    using assms k True by cases (auto simp: ParseAccessToken_state refresh_due_def IsZero_def Second_def)
qed

lemma verifier_run_spaced:
  "marks_ok v ts \<Longrightarrow> spaced ts \<Longrightarrow> sorted (map vc_now cs) \<Longrightarrow> \<forall>c \<in> set cs. 0 < vc_now c \<and> (\<forall>t \<in> set ts. t \<le> vc_now c) \<Longrightarrow>
   spaced (snd (verifier_run J cs (v, ts)))"
proof (induction cs arbitrary: v ts)
  case (Cons c cs)
  define v' where "v' = snd (RemoteVerifier_ParseAccessToken J (vc_now c) (vc_resp c) (vc_fetched c) (vc_checked c) (vc_raw c) v)"
  define ts' where "ts' = (if fetches J v c then vc_now c # ts else ts)"
  have "marks_ok v' ts' \<and> spaced ts'"
    using Cons.prems by (intro marks_step [OF _ _ _ _ v'_def ts'_def]) auto
  moreover have "\<forall>d \<in> set cs. 0 < vc_now d \<and> (\<forall>t \<in> set ts'. t \<le> vc_now d)"
    using Cons.prems by (auto simp: ts'_def)
  ultimately have "spaced (snd (verifier_run J cs (v', ts')))" using Cons.prems(3) by (intro Cons.IH) auto
  then show ?case by (simp add: v'_def ts'_def)
qed simp

section \<open>Properties\<close>

text \<open>
  C25. The endpoint is not flooded: whatever tokens a verifier in any state is given, in
  whatever order and with whatever responses, any two of its key set requests that have another request
  between them are at least 15 seconds apart. So attackers who invent key IDs cost at most two requests
  in 15 seconds.
\<close>

theorem verifier_refresh_rate:
  assumes "sorted (map vc_now cs)" and "\<forall>c \<in> set cs. 0 < vc_now c"
  shows "spaced (snd (verifier_run J cs (v, [])))"
  using assms by (intro verifier_run_spaced) auto

text \<open>
  C26. A stale key is never used: when a verifier accepts a token, the key that verified it is in its key
  set under the key ID of the token, that key set was fetched at most the maximum stale age before the
  call, and the token itself verified against that key.
\<close>

theorem verifier_accepts_fresh:
  assumes "RemoteVerifier_ParseAccessToken J now resp fetched checked raw v = (Inr c, v')"
  shows "\<exists>kid key. header_kid J raw = Inr kid \<and> Mapping.lookup (rv_keys v') kid = Some key \<and>
           now - rv_fetchedAt v' \<le> rv_maxStale v \<and>
           ParseAccessToken J checked raw (Mapping.update kid key Mapping.empty) = Inr c"
proof -
  obtain kid where kid: "header_kid J raw = Inr kid"
    using assms by (auto simp: RemoteVerifier_ParseAccessToken_def split: sum.splits)
  obtain e v2 where p: "(if refresh_due v kid now then refreshLocked resp fetched (note_attempt v kid now) else (None, v)) = (e, v2)"
    by fastforce
  then have m: "rv_maxStale v2 = rv_maxStale v"
    by (metis refreshLocked_marks(3) note_attempt_simps(5) snd_conv)
  then show ?thesis
    using assms kid p by (auto simp: RemoteVerifier_ParseAccessToken_def Let_def split: if_splits option.splits)
qed

text \<open>
  C27. Outages are bridged: when a verifier knows the key of a token and its key set is at most the
  maximum stale age old, a failing refresh changes nothing for the caller. The outcome is the one the
  cached key gives, and the cached keys stay.
\<close>

theorem verifier_survives_outage:
  assumes "header_kid J raw = Inr kid" and "Mapping.lookup (rv_keys v) kid = Some key"
    and "now - rv_fetchedAt v \<le> rv_maxStale v" and "fst (refreshLocked resp fetched v) \<noteq> None"
  shows "\<exists>v'. RemoteVerifier_ParseAccessToken J now resp fetched checked raw v =
           (ParseAccessToken J checked raw (Mapping.update kid key Mapping.empty), v') \<and> rv_keys v' = rv_keys v"
proof -
  have "fst (refreshLocked resp fetched (note_attempt v kid now)) \<noteq> None"
    using assms(4) by (cases resp) (auto split: sum.splits)
  then obtain e where e: "fst (refreshLocked resp fetched (note_attempt v kid now)) = Some e" by auto
  then have "refreshLocked resp fetched (note_attempt v kid now) = (Some e, note_attempt v kid now)"
    using refreshLocked_error [OF e] by (metis prod.collapse)
  then show ?thesis using assms(1-3) by (simp add: RemoteVerifier_ParseAccessToken_def Let_def)
qed

text \<open>
  C16. Key rotation needs no restart: a token that was signed with a key the verifier does not know yet is
  accepted, with its subject, at the first call that may refresh for an unknown key, when the endpoint
  answers with the document of the signer's current key set, the key is in it and the token has not
  expired; and the verifier has that key set afterwards.
\<close>

theorem rotated_key_accepted:
  assumes laws: "jwt_laws J" "uuid_laws E"
    and sign: "SignAccessTokenWithOrg E J (Some key) keyID subject orgID expires w = (Inr raw, w')"
    and ascii: "list_all is_ascii (TrimSpace keyID)" "list_all is_ascii (TrimSpace subject)"
    and keys: "finite (Mapping.keys keys)" "card (Mapping.keys keys) \<le> 100"
      "\<And>i k. Mapping.lookup keys i = Some k \<Longrightarrow> TrimSpace i \<noteq> [] \<and> signing_key k"
      "Mapping.lookup keys (TrimSpace keyID) = Some (rsa_public_of key)"
    and unknown: "Mapping.lookup (rv_keys v) (TrimSpace keyID) = None"
      "rv_lastUnknownRefresh v = 0 \<or> rv_lastUnknownRefresh v + 15 * Second \<le> now"
    and time: "now \<le> fetched" "0 \<le> rv_maxStale v" "app_clock E (w_tick w) \<le> checked" "checked < NewNumericDate expires"
  shows "\<exists>c v'. RemoteVerifier_ParseAccessToken J now (Response 200 (Inr (Document keys))) fetched checked raw v = (Inr c, v') \<and>
           claims_Subject c = TrimSpace subject \<and> rv_keys v' = keys"
proof -
  have "JWKSet_KeySet (Document keys) = Inr keys"
    using keys by (intro jwks_document_read) (auto simp: keys_dom_lookup)
  moreover have "header_kid J raw = Inr (TrimSpace keyID)" by (rule header_kid_issued [OF laws sign ascii])
  moreover obtain c where "ParseAccessToken J checked raw
      (Mapping.update (TrimSpace keyID) (rsa_public_of key) Mapping.empty) = Inr c" "claims_Subject c = TrimSpace subject"
    using ParseAccessToken_issued [OF laws sign ascii _ time(3,4)] by (metis lookup_update)
  ultimately show ?thesis
    using keys(4) unknown time by (auto simp: RemoteVerifier_ParseAccessToken_def refresh_due_def IsZero_def Let_def)
qed

text \<open>
  A verifier with the given cached keys that has not refreshed them yet, for the witnesses.
\<close>

definition demo_verifier :: "KeySet \<Rightarrow> RemoteVerifier" where
  "demo_verifier keys =
     \<lparr>rv_url = ''https://auth/jwks'', rv_cacheLifetime = 5 * Minute, rv_maxStale = Hour, rv_keys = keys,
      rv_fetchedAt = demo_start, rv_expiresAt = demo_start + 5 * Minute, rv_lastRefreshAttempt = 0,
      rv_lastUnknownRefresh = 0\<rparr>"

definition demo_call :: "Time \<Rightarrow> verify_call" where
  "demo_call t = \<lparr>vc_raw = ''t'', vc_now = t, vc_resp = TransportError PanicError, vc_fetched = t, vc_checked = t\<rparr>"

text \<open>Witness of C25: three calls during an outage with an empty cache.\<close>

theorem verifier_refresh_rate_witness:
  "spaced (snd (verifier_run demo_jwt (map demo_call [1, 2, 20 * Second]) (demo_verifier Mapping.empty, [])))"
  by (rule verifier_refresh_rate) (simp_all add: demo_call_def Second_def)

text \<open>Witness of C26: the demo token, with its key in the cache.\<close>

theorem verifier_accepts_fresh_witness:
  "\<exists>kid key. header_kid demo_jwt ''t'' = Inr kid \<and> Mapping.lookup (rv_keys (demo_verifier demo_keys)) kid = Some key \<and>
     (demo_start + Minute) - rv_fetchedAt (demo_verifier demo_keys) \<le> rv_maxStale (demo_verifier demo_keys) \<and>
     ParseAccessToken demo_jwt (demo_start + Minute) ''t'' (Mapping.update kid key Mapping.empty) = Inr demo_claims"
proof -
  have "TrimSpace ''k1'' \<noteq> []" and "TrimSpace ''u1'' \<noteq> []" by code_simp+
  then have "RemoteVerifier_ParseAccessToken demo_jwt (demo_start + Minute) (TransportError PanicError) 0 (demo_start + Minute) ''t''
      (demo_verifier demo_keys) = (Inr demo_claims, demo_verifier demo_keys)"
    by (simp add: RemoteVerifier_ParseAccessToken_def header_kid_def demo_jwt_def refresh_due_def demo_verifier_def
        demo_keys_def ParseAccessToken_def Algorithm_def demo_claims_def Minute_def Hour_def Second_def)
  from verifier_accepts_fresh [OF this] show ?thesis .
qed

text \<open>Witness of C27: the demo token ten minutes after the last fetch, with the endpoint down.\<close>

theorem verifier_survives_outage_witness:
  "\<exists>v'. RemoteVerifier_ParseAccessToken demo_jwt (demo_start + 10 * Minute) (TransportError PanicError) 0 (demo_start + 10 * Minute) ''t''
          (demo_verifier demo_keys) =
        (ParseAccessToken demo_jwt (demo_start + 10 * Minute) ''t'' (Mapping.update ''k1'' (rsa_public_of demo_key) Mapping.empty), v') \<and>
        rv_keys v' = rv_keys (demo_verifier demo_keys)"
proof (rule verifier_survives_outage)
  have "TrimSpace ''k1'' \<noteq> []" by code_simp
  then show "header_kid demo_jwt ''t'' = Inr ''k1''" by (simp add: header_kid_def demo_jwt_def)
qed (simp_all add: demo_verifier_def demo_keys_def Minute_def Hour_def Second_def)

text \<open>Witness of C16: the demo token at a verifier with an empty cache.\<close>

theorem rotated_key_accepted_witness:
  "\<exists>c v'. RemoteVerifier_ParseAccessToken demo_jwt (demo_start + Minute) (Response 200 (Inr (Document demo_keys)))
            (demo_start + Minute) (demo_start + Minute) ''t'' (demo_verifier Mapping.empty) = (Inr c, v') \<and>
          claims_Subject c = TrimSpace ''u1'' \<and> rv_keys v' = demo_keys"
proof (rule rotated_key_accepted [OF demo_jwt_laws demo_laws(1) demo_sign])
  have t: "TrimSpace ''k1'' = ''k1''" by code_simp
  show "list_all is_ascii (TrimSpace ''k1'')" "list_all is_ascii (TrimSpace ''u1'')" by code_simp+
  show "Mapping.lookup demo_keys (TrimSpace ''k1'') = Some (rsa_public_of demo_key)" by (simp add: t demo_keys_def)
  fix i k
  assume "Mapping.lookup demo_keys i = Some k"
  then have "i = ''k1''" and "k = rsa_public_of demo_key" by (auto simp: demo_keys_def lookup_update' split: if_splits)
  then show "TrimSpace i \<noteq> [] \<and> signing_key k" using t by (simp add: signing_key_def rsa_public_of_def demo_key_def)
next
  show "demo_start + Minute < NewNumericDate (demo_start + Hour)"
    unfolding NewNumericDate_demo by (simp add: Minute_def Hour_def Second_def)
qed (simp_all add: demo_keys_def demo_verifier_def demo_env_def start_world_def Minute_def Hour_def Second_def)

end
