(* ===== verification/Queries.thy ===== *)
theory Queries
  imports Database
begin

text \<open>
  \<open>internal/infrastructure/postgres/sqlcgen\<close>: every SQL statement of \<open>queries/*.sql\<close> with the constraints
  of the migrations that it can violate. A definition \<open>q_X\<close> is the method \<open>Queries.X\<close>; its result is
  \<open>Inl\<close> of the driver's error or \<open>Inr\<close> of the scanned rows (or the number of affected rows) and the new
  tables. The theory \<open>Schema\<close> states the constraints as a predicate on
  the tables and shows that every statement keeps it.
\<close>

section \<open>Errors and row structs\<close>

definition unique_violation :: gerr where "unique_violation = DriverError ''23505''"
definition foreign_key_violation :: gerr where "foreign_key_violation = DriverError ''23503''"
definition not_null_violation :: gerr where "not_null_violation = DriverError ''23502''"
definition check_violation :: gerr where "check_violation = DriverError ''23514''"

lemmas violation_defs = unique_violation_def foreign_key_violation_def not_null_violation_def check_violation_def

definition coalesce :: "'a option \<Rightarrow> 'a \<Rightarrow> 'a" where
  "coalesce x d = (case x of None \<Rightarrow> d | Some v \<Rightarrow> v)"

definition one :: "'a list \<Rightarrow> db \<Rightarrow> gerr + 'a \<times> db" where
  "one rows d = (case rows of [] \<Rightarrow> Inl ErrNoRows | x # xs \<Rightarrow> Inr (x, d))"

record FindUserRow =
  FindUserRow_ID :: string
  FindUserRow_Email :: string
  FindUserRow_Mobile :: string
  FindUserRow_PasswordHash :: string
  FindUserRow_DisplayName :: string
  FindUserRow_Status :: string
  FindUserRow_EmailVerified :: bool

definition find_user_row :: "UserRow \<Rightarrow> FindUserRow" where
  "find_user_row u =
     \<lparr>FindUserRow_ID = uuid_text (u_ID u), FindUserRow_Email = coalesce (u_Email u) [],
      FindUserRow_Mobile = coalesce (u_Mobile u) [], FindUserRow_PasswordHash = coalesce (u_PasswordHash u) [],
      FindUserRow_DisplayName = coalesce (u_DisplayName u) [], FindUserRow_Status = u_Status u,
      FindUserRow_EmailVerified = (u_EmailVerifiedAt u \<noteq> None)\<rparr>"

section \<open>users.sql\<close>

definition insert_user :: "UserRow \<Rightarrow> db \<Rightarrow> gerr + db" where
  "insert_user row d =
     (if u_ID row \<in> u_ID ` set (users d) then Inl unique_violation
      else if u_Email row \<noteq> None \<and> u_Email row \<in> u_Email ` set (users d) then Inl unique_violation
      else if u_Mobile row \<noteq> None \<and> u_Mobile row \<in> u_Mobile ` set (users d) then Inl unique_violation
      else Inr (d\<lparr>users := users d @ [row]\<rparr>))"

definition new_user_row :: "uuid \<Rightarrow> Time \<Rightarrow> UserRow" where
  "new_user_row i now =
     \<lparr>u_ID = i, u_Email = None, u_CreatedAt = now, u_Mobile = None, u_PasswordHash = None, u_DisplayName = None,
      u_Status = ''active'', u_UpdatedAt = now, u_LastLoginAt = None, u_EmailVerifiedAt = None\<rparr>"

definition affected :: "'b \<Rightarrow> gerr + db \<Rightarrow> gerr + 'b \<times> db" where
  "affected n res = (case res of Inl e \<Rightarrow> Inl e | Inr d \<Rightarrow> Inr (n, d))"

definition q_CreateSignupUser ::
  "uuid \<Rightarrow> string \<Rightarrow> string \<Rightarrow> string \<Rightarrow> string \<Rightarrow> Timestamptz \<Rightarrow> int stmt" where
  "q_CreateSignupUser i email passwordHash displayName status verifiedAt now rank d =
     (if Some email \<in> u_Email ` set (users d) then Inr (0, d)
      else affected 1 (insert_user ((new_user_row i now)
             \<lparr>u_Email := Some email, u_PasswordHash := Some passwordHash, u_DisplayName := Some displayName,
              u_Status := status, u_EmailVerifiedAt := map_option pg_ts verifiedAt\<rparr>) d))"

definition q_CreateUserWithEmail :: "uuid \<Rightarrow> string \<Rightarrow> string \<Rightarrow> unit stmt" where
  "q_CreateUserWithEmail i email status now rank d =
     affected () (insert_user ((new_user_row i now)
       \<lparr>u_Email := Some email, u_Status := status, u_EmailVerifiedAt := Some now\<rparr>) d)"

definition q_CreateUserWithMobile :: "uuid \<Rightarrow> string \<Rightarrow> unit stmt" where
  "q_CreateUserWithMobile i mobile now rank d =
     affected () (insert_user ((new_user_row i now)\<lparr>u_Mobile := Some mobile\<rparr>) d)"

definition q_FindUserByEmail :: "string \<Rightarrow> FindUserRow stmt" where
  "q_FindUserByEmail email now rank d =
     one (map find_user_row (filter (\<lambda>u. u_Email u = Some email) (scan rank (users d)))) d"

definition q_FindUserByID :: "uuid \<Rightarrow> FindUserRow stmt" where
  "q_FindUserByID i now rank d =
     one (map find_user_row (filter (\<lambda>u. u_ID u = i) (scan rank (users d)))) d"

definition q_FindUserByMobile :: "string \<Rightarrow> FindUserRow stmt" where
  "q_FindUserByMobile mobile now rank d =
     one (map find_user_row (filter (\<lambda>u. u_Mobile u = Some mobile) (scan rank (users d)))) d"

text \<open>Deleting users: the API tokens restrict, memberships and sent invitations cascade.\<close>

definition delete_users :: "(UserRow \<Rightarrow> bool) \<Rightarrow> db \<Rightarrow> gerr + int \<times> db" where
  "delete_users del d =
     (let gone = u_ID ` set (filter del (users d)) in
      if \<exists>t \<in> set (api_tokens d). t_UserID t \<in> gone then Inl foreign_key_violation
      else Inr (int (length (filter del (users d))),
                d\<lparr>users := filter (\<lambda>u. \<not> del u) (users d),
                  memberships := filter (\<lambda>m. m_UserID m \<notin> gone) (memberships d),
                  invites := filter (\<lambda>i. i_InviterID i \<notin> gone) (invites d)\<rparr>))"

definition pending_unverified :: "UserRow \<Rightarrow> bool" where
  "pending_unverified u \<longleftrightarrow> u_Status u = ''signup_pending'' \<and> u_EmailVerifiedAt u = None"

definition q_PurgeUnverifiedSignups :: "Timestamptz \<Rightarrow> int stmt" where
  "q_PurgeUnverifiedSignups before now rank d =
     delete_users (\<lambda>u. pending_unverified u \<and> (case before of None \<Rightarrow> False | Some b \<Rightarrow> u_CreatedAt u < pg_ts b)) d"

definition update_users :: "(UserRow \<Rightarrow> bool) \<Rightarrow> (UserRow \<Rightarrow> UserRow) \<Rightarrow> db \<Rightarrow> db" where
  "update_users p f d = d\<lparr>users := map (\<lambda>u. if p u then f u else u) (users d)\<rparr>"

definition q_ReissueSignupUser :: "string \<Rightarrow> string \<Rightarrow> string \<Rightarrow> string stmt" where
  "q_ReissueSignupUser passwordHash displayName email now rank d =
     (let hit = (\<lambda>u. u_Email u = Some email \<and> pending_unverified u) in
      one (map (\<lambda>u. uuid_text (u_ID u)) (filter hit (scan rank (users d))))
          (update_users hit (\<lambda>u. u\<lparr>u_PasswordHash := Some passwordHash, u_DisplayName := Some displayName,
                                   u_UpdatedAt := now\<rparr>) d))"

definition q_UpdateLastLogin :: "uuid \<Rightarrow> unit stmt" where
  "q_UpdateLastLogin i now rank d =
     Inr ((), update_users (\<lambda>u. u_ID u = i) (\<lambda>u. u\<lparr>u_LastLoginAt := Some now, u_UpdatedAt := now\<rparr>) d)"

text \<open>The two upserts differ in the column of their \<open>ON CONFLICT\<close> clause only.\<close>

definition demo_row ::
  "uuid \<Rightarrow> string option \<Rightarrow> string option \<Rightarrow> string \<Rightarrow> string \<Rightarrow> Time \<Rightarrow> UserRow" where
  "demo_row i email mobile passwordHash displayName now =
     (new_user_row i now)
       \<lparr>u_Email := email, u_Mobile := mobile, u_PasswordHash := Some passwordHash,
        u_DisplayName := Some displayName, u_EmailVerifiedAt := (if email \<noteq> None then Some now else None)\<rparr>"

definition demo_update ::
  "string option \<Rightarrow> string option \<Rightarrow> string \<Rightarrow> string \<Rightarrow> Time \<Rightarrow> UserRow \<Rightarrow> UserRow" where
  "demo_update email mobile passwordHash displayName now u =
     u\<lparr>u_Email := (if email \<noteq> None then email else u_Email u),
       u_Mobile := (if mobile \<noteq> None then mobile else u_Mobile u),
       u_PasswordHash := Some passwordHash, u_DisplayName := Some displayName, u_Status := ''active'',
       u_EmailVerifiedAt :=
         (if email \<noteq> None then Some (coalesce (u_EmailVerifiedAt u) now) else u_EmailVerifiedAt u),
       u_UpdatedAt := now\<rparr>"

definition upsert_demo ::
  "(UserRow \<Rightarrow> string option) \<Rightarrow> uuid \<Rightarrow> string option \<Rightarrow> string option \<Rightarrow> string \<Rightarrow> string \<Rightarrow> unit stmt" where
  "upsert_demo key i email mobile passwordHash displayName now rank d =
     (let row = demo_row i email mobile passwordHash displayName now;
          hit = (\<lambda>u. key row \<noteq> None \<and> key u = key row)
      in if \<exists>u \<in> set (users d). hit u
         then (if \<exists>u \<in> set (users d). \<not> hit u \<and>
                   ((email \<noteq> None \<and> u_Email u = email) \<or> (mobile \<noteq> None \<and> u_Mobile u = mobile))
               then Inl unique_violation
               else Inr ((), update_users hit (demo_update email mobile passwordHash displayName now) d))
         else affected () (insert_user row d))"

definition q_UpsertDemoUserByEmail ::
  "uuid \<Rightarrow> string option \<Rightarrow> string option \<Rightarrow> string \<Rightarrow> string \<Rightarrow> unit stmt" where
  "q_UpsertDemoUserByEmail = upsert_demo u_Email"

definition q_UpsertDemoUserByMobile ::
  "uuid \<Rightarrow> string option \<Rightarrow> string option \<Rightarrow> string \<Rightarrow> string \<Rightarrow> unit stmt" where
  "q_UpsertDemoUserByMobile = upsert_demo u_Mobile"

definition q_VerifySignupUser :: "Timestamptz \<Rightarrow> uuid \<Rightarrow> int stmt" where
  "q_VerifySignupUser verifiedAt i now rank d =
     (let hit = (\<lambda>u. u_ID u = i \<and> pending_unverified u) in
      Inr (int (length (filter hit (users d))),
           update_users hit (\<lambda>u. u\<lparr>u_Status := ''active'', u_EmailVerifiedAt := map_option pg_ts verifiedAt,
                                   u_UpdatedAt := now\<rparr>) d))"

section \<open>otp_challenges.sql\<close>

definition q_ConsumeChallenge :: "uuid \<Rightarrow> unit stmt" where
  "q_ConsumeChallenge i now rank d =
     Inr ((), d\<lparr>challenges := filter (\<lambda>c. c_ID c \<noteq> i) (challenges d)\<rparr>)"

definition q_DeleteChallengesForIdentifier :: "string \<Rightarrow> string \<Rightarrow> unit stmt" where
  "q_DeleteChallengesForIdentifier identifier channel now rank d =
     Inr ((), d\<lparr>challenges :=
       filter (\<lambda>c. \<not> (c_Identifier c = identifier \<and> c_Channel c = channel)) (challenges d)\<rparr>)"

definition q_DeleteExpiredChallenges :: "unit stmt" where
  "q_DeleteExpiredChallenges now rank d =
     Inr ((), d\<lparr>challenges := filter (\<lambda>c. \<not> c_ExpiresAt c < now) (challenges d)\<rparr>)"

record GetLatestChallengeRow =
  GetLatestChallengeRow_ID :: string
  GetLatestChallengeRow_Identifier :: string
  GetLatestChallengeRow_Channel :: string
  GetLatestChallengeRow_CodeHash :: string
  GetLatestChallengeRow_ExpiresAt :: Timestamptz
  GetLatestChallengeRow_CreatedAt :: Timestamptz
  GetLatestChallengeRow_Attempts :: int

definition q_GetLatestChallenge :: "string \<Rightarrow> string \<Rightarrow> GetLatestChallengeRow stmt" where
  "q_GetLatestChallenge identifier channel now rank d =
     one (map (\<lambda>c. \<lparr>GetLatestChallengeRow_ID = uuid_text (c_ID c),
                    GetLatestChallengeRow_Identifier = c_Identifier c,
                    GetLatestChallengeRow_Channel = c_Channel c,
                    GetLatestChallengeRow_CodeHash = c_CodeHash c,
                    GetLatestChallengeRow_ExpiresAt = Some (c_ExpiresAt c),
                    GetLatestChallengeRow_CreatedAt = Some (c_CreatedAt c),
                    GetLatestChallengeRow_Attempts = c_Attempts c\<rparr>)
           (sort_key (\<lambda>c. - c_CreatedAt c)
              (filter (\<lambda>c. c_Identifier c = identifier \<and> c_Channel c = channel) (scan rank (challenges d))))) d"

definition q_IncrementChallengeAttempts :: "uuid \<Rightarrow> unit stmt" where
  "q_IncrementChallengeAttempts i now rank d =
     Inr ((), d\<lparr>challenges :=
       map (\<lambda>c. if c_ID c = i then c\<lparr>c_Attempts := c_Attempts c + 1\<rparr> else c) (challenges d)\<rparr>)"

definition q_UpsertChallenge ::
  "uuid \<Rightarrow> string \<Rightarrow> string \<Rightarrow> string \<Rightarrow> Timestamptz \<Rightarrow> Timestamptz \<Rightarrow> unit stmt" where
  "q_UpsertChallenge i identifier channel codeHash expiresAt createdAt now rank d =
     (case (expiresAt, createdAt) of
        (Some e, Some c) \<Rightarrow>
          if i \<in> c_ID ` set (challenges d) then Inl unique_violation
          else Inr ((), d\<lparr>challenges := challenges d @
                 [\<lparr>c_ID = i, c_Identifier = identifier, c_CodeHash = codeHash, c_ExpiresAt = pg_ts e,
                   c_Attempts = 0, c_CreatedAt = pg_ts c, c_Channel = channel\<rparr>]\<rparr>)
      | _ \<Rightarrow> Inl not_null_violation)"

section \<open>refresh_tokens.sql\<close>

record FindValidRefreshTokenRow =
  FindValidRefreshTokenRow_UserID :: string
  FindValidRefreshTokenRow_OrgID :: string

definition live_refresh :: "string \<Rightarrow> Time \<Rightarrow> RefreshRow \<Rightarrow> bool" where
  "live_refresh tokenHash now r \<longleftrightarrow> r_TokenHash r = tokenHash \<and> now < r_ExpiresAt r \<and> r_RevokedAt r = None"

definition q_FindValidRefreshToken :: "string \<Rightarrow> FindValidRefreshTokenRow stmt" where
  "q_FindValidRefreshToken tokenHash now rank d =
     one (map (\<lambda>r. \<lparr>FindValidRefreshTokenRow_UserID = uuid_text (r_UserID r),
                    FindValidRefreshTokenRow_OrgID = coalesce (map_option uuid_text (r_OrgID r)) []\<rparr>)
           (filter (live_refresh tokenHash now) (scan rank (refresh_tokens d)))) d"

definition q_RevokeRefreshToken :: "string \<Rightarrow> unit stmt" where
  "q_RevokeRefreshToken tokenHash now rank d =
     Inr ((), d\<lparr>refresh_tokens :=
       map (\<lambda>r. if r_TokenHash r = tokenHash then r\<lparr>r_RevokedAt := Some now\<rparr> else r) (refresh_tokens d)\<rparr>)"

definition q_StoreRefreshToken ::
  "uuid \<Rightarrow> uuid \<Rightarrow> uuid option \<Rightarrow> string \<Rightarrow> Timestamptz \<Rightarrow> unit stmt" where
  "q_StoreRefreshToken i userID orgID tokenHash expiresAt now rank d =
     (case expiresAt of
        None \<Rightarrow> Inl not_null_violation
      | Some e \<Rightarrow>
          if i \<in> r_ID ` set (refresh_tokens d) then Inl unique_violation
          else Inr ((), d\<lparr>refresh_tokens := refresh_tokens d @
                 [\<lparr>r_ID = i, r_UserID = userID, r_TokenHash = tokenHash, r_ExpiresAt = pg_ts e,
                   r_RevokedAt = None, r_CreatedAt = now, r_OrgID = orgID\<rparr>]\<rparr>))"

section \<open>api_tokens.sql\<close>

text \<open>A nil slice is sent as NULL, and the column \<open>scopes\<close> is NOT NULL.\<close>

definition q_CreateAPIToken ::
  "uuid \<Rightarrow> uuid \<Rightarrow> string \<Rightarrow> string \<Rightarrow> string \<Rightarrow> string list option \<Rightarrow> Timestamptz \<Rightarrow> unit stmt" where
  "q_CreateAPIToken i userID name prefix tokenHash scopes expiresAt now rank d =
     (case scopes of
        None \<Rightarrow> Inl not_null_violation
      | Some sc \<Rightarrow>
          if i \<in> t_ID ` set (api_tokens d) then Inl unique_violation
          else if userID \<notin> u_ID ` set (users d) then Inl foreign_key_violation
          else Inr ((), d\<lparr>api_tokens := api_tokens d @
                 [\<lparr>t_ID = i, t_UserID = userID, t_Name = name, t_Prefix = prefix, t_TokenHash = tokenHash,
                   t_Scopes = sc, t_ExpiresAt = map_option pg_ts expiresAt, t_RevokedAt = None,
                   t_CreatedAt = now\<rparr>]\<rparr>))"

record FindAPITokenByPrefixRow =
  FindAPITokenByPrefixRow_ID :: string
  FindAPITokenByPrefixRow_UserID :: string
  FindAPITokenByPrefixRow_Name :: string
  FindAPITokenByPrefixRow_Prefix :: string
  FindAPITokenByPrefixRow_TokenHash :: string
  FindAPITokenByPrefixRow_Scopes :: "string list"
  FindAPITokenByPrefixRow_ExpiresAt :: Timestamptz
  FindAPITokenByPrefixRow_RevokedAt :: Timestamptz
  FindAPITokenByPrefixRow_CreatedAt :: Timestamptz

definition q_FindAPITokenByPrefix :: "string \<Rightarrow> FindAPITokenByPrefixRow stmt" where
  "q_FindAPITokenByPrefix prefix now rank d =
     one (map (\<lambda>t. \<lparr>FindAPITokenByPrefixRow_ID = uuid_text (t_ID t),
                    FindAPITokenByPrefixRow_UserID = uuid_text (t_UserID t),
                    FindAPITokenByPrefixRow_Name = t_Name t, FindAPITokenByPrefixRow_Prefix = t_Prefix t,
                    FindAPITokenByPrefixRow_TokenHash = t_TokenHash t, FindAPITokenByPrefixRow_Scopes = t_Scopes t,
                    FindAPITokenByPrefixRow_ExpiresAt = t_ExpiresAt t,
                    FindAPITokenByPrefixRow_RevokedAt = t_RevokedAt t,
                    FindAPITokenByPrefixRow_CreatedAt = Some (t_CreatedAt t)\<rparr>)
           (sort_key (\<lambda>t. - t_CreatedAt t)
              (filter (\<lambda>t. t_Prefix t = prefix \<and> t_RevokedAt t = None) (scan rank (api_tokens d))))) d"

record ListAPITokensByUserRow =
  ListAPITokensByUserRow_ID :: string
  ListAPITokensByUserRow_Name :: string
  ListAPITokensByUserRow_Prefix :: string
  ListAPITokensByUserRow_Scopes :: "string list"
  ListAPITokensByUserRow_ExpiresAt :: Timestamptz
  ListAPITokensByUserRow_CreatedAt :: Timestamptz

definition q_ListAPITokensByUser :: "uuid \<Rightarrow> ListAPITokensByUserRow list stmt" where
  "q_ListAPITokensByUser userID now rank d =
     Inr (map (\<lambda>t. \<lparr>ListAPITokensByUserRow_ID = uuid_text (t_ID t), ListAPITokensByUserRow_Name = t_Name t,
                    ListAPITokensByUserRow_Prefix = t_Prefix t, ListAPITokensByUserRow_Scopes = t_Scopes t,
                    ListAPITokensByUserRow_ExpiresAt = t_ExpiresAt t,
                    ListAPITokensByUserRow_CreatedAt = Some (t_CreatedAt t)\<rparr>)
           (sort_key (\<lambda>t. - t_CreatedAt t)
              (filter (\<lambda>t. t_UserID t = userID \<and> t_RevokedAt t = None) (scan rank (api_tokens d)))), d)"

definition q_RevokeAPIToken :: "uuid \<Rightarrow> uuid \<Rightarrow> unit stmt" where
  "q_RevokeAPIToken i userID now rank d =
     Inr ((), d\<lparr>api_tokens :=
       map (\<lambda>t. if t_ID t = i \<and> t_UserID t = userID \<and> t_RevokedAt t = None
                then t\<lparr>t_RevokedAt := Some now\<rparr> else t) (api_tokens d)\<rparr>)"

section \<open>organizations.sql\<close>

definition membership_statuses :: "string set" where
  "membership_statuses = {''active'', ''invited'', ''suspended''}"

definition insert_member :: "uuid \<Rightarrow> uuid \<Rightarrow> string \<Rightarrow> Time \<Rightarrow> db \<Rightarrow> gerr + db" where
  "insert_member orgID userID status now d =
     (if status \<notin> membership_statuses then Inl check_violation
      else if orgID \<notin> o_ID ` set (organizations d) \<or> userID \<notin> u_ID ` set (users d) then Inl foreign_key_violation
      else Inr (d\<lparr>memberships := memberships d @
             [\<lparr>m_OrgID = orgID, m_UserID = userID, m_Status = status, m_CreatedAt = now, m_UpdatedAt = now\<rparr>]\<rparr>))"

definition is_member :: "uuid \<Rightarrow> uuid \<Rightarrow> MemberRow \<Rightarrow> bool" where
  "is_member orgID userID m \<longleftrightarrow> m_OrgID m = orgID \<and> m_UserID m = userID"

definition q_AddOrganizationMembership :: "uuid \<Rightarrow> uuid \<Rightarrow> string \<Rightarrow> unit stmt" where
  "q_AddOrganizationMembership orgID userID status now rank d =
     (if status \<in> membership_statuses \<and> (\<exists>m \<in> set (memberships d). is_member orgID userID m) then Inr ((), d)
      else affected () (insert_member orgID userID status now d))"

definition q_CountActiveOrganizationMembers :: "uuid \<Rightarrow> int stmt" where
  "q_CountActiveOrganizationMembers orgID now rank d =
     Inr (int (length (filter (\<lambda>m. m_OrgID m = orgID \<and> m_Status m = ''active'') (memberships d))), d)"

definition q_CreateOrganization :: "uuid \<Rightarrow> string \<Rightarrow> Timestamptz \<Rightarrow> Timestamptz \<Rightarrow> unit stmt" where
  "q_CreateOrganization i name createdAt updatedAt now rank d =
     (case (createdAt, updatedAt) of
        (Some c, Some u) \<Rightarrow>
          if i \<in> o_ID ` set (organizations d) then Inl unique_violation
          else Inr ((), d\<lparr>organizations := organizations d @
                 [\<lparr>o_ID = i, o_Name = name, o_CreatedAt = pg_ts c, o_UpdatedAt = pg_ts u\<rparr>]\<rparr>)
      | _ \<Rightarrow> Inl not_null_violation)"

definition q_DeleteEmptyOrganizations :: "int stmt" where
  "q_DeleteEmptyOrganizations now rank d =
     (let used = m_OrgID ` set (memberships d) in
      Inr (int (length (filter (\<lambda>x. o_ID x \<notin> used) (organizations d))),
           d\<lparr>organizations := filter (\<lambda>x. o_ID x \<in> used) (organizations d),
             invites := filter (\<lambda>i. i_OrgID i \<in> used) (invites d)\<rparr>))"

definition q_DeleteOrganizationMembership :: "uuid \<Rightarrow> uuid \<Rightarrow> unit stmt" where
  "q_DeleteOrganizationMembership orgID userID now rank d =
     Inr ((), d\<lparr>memberships := filter (\<lambda>m. \<not> is_member orgID userID m) (memberships d)\<rparr>)"

record GetOrganizationRow =
  GetOrganizationRow_ID :: string
  GetOrganizationRow_Name :: string
  GetOrganizationRow_CreatedAt :: Timestamptz
  GetOrganizationRow_UpdatedAt :: Timestamptz

definition organization_row :: "OrgRow \<Rightarrow> GetOrganizationRow" where
  "organization_row x =
     \<lparr>GetOrganizationRow_ID = uuid_text (o_ID x), GetOrganizationRow_Name = o_Name x,
      GetOrganizationRow_CreatedAt = Some (o_CreatedAt x), GetOrganizationRow_UpdatedAt = Some (o_UpdatedAt x)\<rparr>"

definition q_GetOrganization :: "uuid \<Rightarrow> GetOrganizationRow stmt" where
  "q_GetOrganization i now rank d =
     one (map organization_row (filter (\<lambda>x. o_ID x = i) (scan rank (organizations d)))) d"

record GetOrganizationMembershipRow =
  GetOrganizationMembershipRow_OrgID :: string
  GetOrganizationMembershipRow_UserID :: string
  GetOrganizationMembershipRow_Status :: string
  GetOrganizationMembershipRow_CreatedAt :: Timestamptz
  GetOrganizationMembershipRow_UpdatedAt :: Timestamptz

definition membership_row :: "MemberRow \<Rightarrow> GetOrganizationMembershipRow" where
  "membership_row m =
     \<lparr>GetOrganizationMembershipRow_OrgID = uuid_text (m_OrgID m),
      GetOrganizationMembershipRow_UserID = uuid_text (m_UserID m),
      GetOrganizationMembershipRow_Status = m_Status m,
      GetOrganizationMembershipRow_CreatedAt = Some (m_CreatedAt m),
      GetOrganizationMembershipRow_UpdatedAt = Some (m_UpdatedAt m)\<rparr>"

definition q_GetOrganizationMembership :: "uuid \<Rightarrow> uuid \<Rightarrow> GetOrganizationMembershipRow stmt" where
  "q_GetOrganizationMembership orgID userID now rank d =
     one (map membership_row (filter (is_member orgID userID) (scan rank (memberships d)))) d"

definition q_ListOrganizationMembers :: "uuid \<Rightarrow> GetOrganizationMembershipRow list stmt" where
  "q_ListOrganizationMembers orgID now rank d =
     Inr (map membership_row (sort_key m_CreatedAt (sort_key m_UserID
           (filter (\<lambda>m. m_OrgID m = orgID) (scan rank (memberships d))))), d)"

definition q_ListOrganizationsForUser :: "uuid \<Rightarrow> GetOrganizationRow list stmt" where
  "q_ListOrganizationsForUser userID now rank d =
     Inr (map organization_row (sort_key o_CreatedAt (sort_key o_ID
           [x. x \<leftarrow> scan rank (organizations d), m \<leftarrow> memberships d,
               m_OrgID m = o_ID x \<and> m_UserID m = userID \<and> m_Status m = ''active''])), d)"

definition q_LockOrganization :: "uuid \<Rightarrow> uuid stmt" where
  "q_LockOrganization i now rank d = one (map o_ID (filter (\<lambda>x. o_ID x = i) (scan rank (organizations d)))) d"

definition q_UpdateOrganizationMembershipStatus :: "string \<Rightarrow> uuid \<Rightarrow> uuid \<Rightarrow> unit stmt" where
  "q_UpdateOrganizationMembershipStatus status orgID userID now rank d =
     (if (\<exists>m \<in> set (memberships d). is_member orgID userID m) \<and> status \<notin> membership_statuses
      then Inl check_violation
      else Inr ((), d\<lparr>memberships :=
             map (\<lambda>m. if is_member orgID userID m then m\<lparr>m_Status := status, m_UpdatedAt := now\<rparr> else m)
                 (memberships d)\<rparr>))"

section \<open>invites.sql\<close>

definition q_AcceptOrganizationInvite :: "Timestamptz \<Rightarrow> uuid \<Rightarrow> uuid \<Rightarrow> int stmt" where
  "q_AcceptOrganizationInvite acceptedAt i orgID now rank d =
     (let hit = (\<lambda>x. i_ID x = i \<and> i_OrgID x = orgID \<and> i_Status x = ''pending'') in
      Inr (int (length (filter hit (invites d))),
           d\<lparr>invites := map (\<lambda>x. if hit x then x\<lparr>i_Status := ''accepted'',
                                                i_AcceptedAt := map_option pg_ts acceptedAt\<rparr> else x) (invites d)\<rparr>))"

definition q_AddActiveOrganizationMembership :: "uuid \<Rightarrow> uuid \<Rightarrow> unit stmt" where
  "q_AddActiveOrganizationMembership orgID userID now rank d =
     (if \<exists>m \<in> set (memberships d). is_member orgID userID m
      then Inr ((), d\<lparr>memberships :=
             map (\<lambda>m. if is_member orgID userID m \<and> m_Status m = ''invited''
                      then m\<lparr>m_Status := ''active'', m_UpdatedAt := now\<rparr> else m) (memberships d)\<rparr>)
      else affected () (insert_member orgID userID ''active'' now d))"

definition invite_statuses :: "string set" where
  "invite_statuses = {''pending'', ''accepted'', ''revoked''}"

definition pending_key :: "env \<Rightarrow> InviteRow \<Rightarrow> uuid \<times> string" where
  "pending_key E x = (i_OrgID x, pg_lower E (i_Email x))"

definition pending_invites :: "db \<Rightarrow> InviteRow list" where
  "pending_invites d = filter (\<lambda>x. i_Status x = ''pending'') (invites d)"

definition q_CreateOrganizationInvite ::
  "env \<Rightarrow> uuid \<Rightarrow> uuid \<Rightarrow> string \<Rightarrow> string \<Rightarrow> uuid \<Rightarrow> string \<Rightarrow> Timestamptz \<Rightarrow> Timestamptz \<Rightarrow> unit stmt" where
  "q_CreateOrganizationInvite E i orgID email tokenHash inviterID status expiresAt createdAt now rank d =
     (case (expiresAt, createdAt) of
        (Some e, Some c) \<Rightarrow>
          (let row = \<lparr>i_ID = i, i_OrgID = orgID, i_Email = email, i_TokenHash = tokenHash,
                      i_InviterID = inviterID, i_Status = status, i_ExpiresAt = pg_ts e, i_AcceptedAt = None,
                      i_CreatedAt = pg_ts c\<rparr>
           in if status \<notin> invite_statuses then Inl check_violation
              else if i \<in> i_ID ` set (invites d) \<or> tokenHash \<in> i_TokenHash ` set (invites d) \<or>
                      (status = ''pending'' \<and> pending_key E row \<in> pending_key E ` set (pending_invites d))
              then Inl unique_violation
              else if orgID \<notin> o_ID ` set (organizations d) \<or> inviterID \<notin> u_ID ` set (users d)
              then Inl foreign_key_violation
              else Inr ((), d\<lparr>invites := invites d @ [row]\<rparr>))
      | _ \<Rightarrow> Inl not_null_violation)"

record InviteRowView =
  InviteRowView_ID :: string
  InviteRowView_OrgID :: string
  InviteRowView_Email :: string
  InviteRowView_InviterID :: string
  InviteRowView_Status :: string
  InviteRowView_ExpiresAt :: Timestamptz
  InviteRowView_AcceptedAt :: Timestamptz
  InviteRowView_CreatedAt :: Timestamptz

record FindInviteRow = InviteRowView +
  FindInviteRow_TokenHash :: string

definition q_FindOrganizationInviteByTokenHash :: "string \<Rightarrow> FindInviteRow stmt" where
  "q_FindOrganizationInviteByTokenHash tokenHash now rank d =
     one (map (\<lambda>x. \<lparr>InviteRowView_ID = uuid_text (i_ID x), InviteRowView_OrgID = uuid_text (i_OrgID x),
                    InviteRowView_Email = i_Email x, InviteRowView_InviterID = uuid_text (i_InviterID x),
                    InviteRowView_Status = i_Status x, InviteRowView_ExpiresAt = Some (i_ExpiresAt x),
                    InviteRowView_AcceptedAt = i_AcceptedAt x, InviteRowView_CreatedAt = Some (i_CreatedAt x),
                    FindInviteRow_TokenHash = i_TokenHash x\<rparr>)
           (filter (\<lambda>x. i_TokenHash x = tokenHash) (scan rank (invites d)))) d"

definition q_ListOrganizationInvites :: "uuid \<Rightarrow> InviteRowView list stmt" where
  "q_ListOrganizationInvites orgID now rank d =
     Inr (map (\<lambda>x. \<lparr>InviteRowView_ID = uuid_text (i_ID x), InviteRowView_OrgID = uuid_text (i_OrgID x),
                    InviteRowView_Email = i_Email x, InviteRowView_InviterID = uuid_text (i_InviterID x),
                    InviteRowView_Status = i_Status x, InviteRowView_ExpiresAt = Some (i_ExpiresAt x),
                    InviteRowView_AcceptedAt = i_AcceptedAt x, InviteRowView_CreatedAt = Some (i_CreatedAt x)\<rparr>)
           (sort_key (\<lambda>x. - i_CreatedAt x) (sort_key i_ID
              (filter (\<lambda>x. i_OrgID x = orgID) (scan rank (invites d))))), d)"

definition q_RevokeOrganizationInvite :: "uuid \<Rightarrow> uuid \<Rightarrow> int stmt" where
  "q_RevokeOrganizationInvite i orgID now rank d =
     (let hit = (\<lambda>x. i_ID x = i \<and> i_OrgID x = orgID \<and> i_Status x = ''pending'') in
      Inr (int (length (filter hit (invites d))),
           d\<lparr>invites := map (\<lambda>x. if hit x then x\<lparr>i_Status := ''revoked''\<rparr> else x) (invites d)\<rparr>))"

definition q_RevokePendingOrganizationInvitesForEmail :: "env \<Rightarrow> uuid \<Rightarrow> string \<Rightarrow> unit stmt" where
  "q_RevokePendingOrganizationInvitesForEmail E orgID email now rank d =
     Inr ((), d\<lparr>invites :=
       map (\<lambda>x. if i_OrgID x = orgID \<and> pg_lower E (i_Email x) = pg_lower E email \<and> i_Status x = ''pending''
                then x\<lparr>i_Status := ''revoked''\<rparr> else x) (invites d)\<rparr>)"

section \<open>feature_flags and the outbox\<close>

definition q_ListFeatureFlags :: "env \<Rightarrow> FeatureFlag list stmt" where
  "q_ListFeatureFlags E now rank d =
     Inr (map (\<lambda>f. \<lparr>FeatureFlag_Name = f_Name f, FeatureFlag_Enabled = f_Enabled f,
                    FeatureFlag_Description = f_Description f, FeatureFlag_UpdatedAt = f_UpdatedAt f\<rparr>)
           (sort_key (\<lambda>f. pg_collate E (f_Name f)) (scan rank (feature_flags d))), d)"

definition q_outbox_Insert :: "env \<Rightarrow> string \<Rightarrow> Envelope \<Rightarrow> unit stmt" where
  "q_outbox_Insert E subject e now rank d =
     (case outbox_Insert E subject e now (outbox d) of
        Inl err \<Rightarrow> Inl err
      | Inr rows \<Rightarrow> Inr ((), d\<lparr>outbox := rows\<rparr>))"

end
