(* ===== verification/Schema.thy ===== *)
theory Schema
  imports Queries
begin

text \<open>
  The constraints of \<open>migrations/*.sql\<close> as a predicate on the tables, and that every statement of
  \<open>Queries\<close> keeps it. One predicate per table; the foreign keys refer to the set of identifiers of the
  table they point to.
\<close>

definition uniq :: "('a \<Rightarrow> bool) \<Rightarrow> ('a \<Rightarrow> 'k) \<Rightarrow> ('a \<Rightarrow> 'i) \<Rightarrow> 'a list \<Rightarrow> bool" where
  "uniq p key ident xs \<longleftrightarrow> (\<forall>x \<in> set xs. \<forall>y \<in> set xs. p x \<and> p y \<and> key x = key y \<longrightarrow> ident x = ident y)"

definition users_ok :: "UserRow list \<Rightarrow> bool" where
  "users_ok us \<longleftrightarrow> distinct (map u_ID us) \<and>
     uniq (\<lambda>u. u_Email u \<noteq> None) u_Email u_ID us \<and> uniq (\<lambda>u. u_Mobile u \<noteq> None) u_Mobile u_ID us"

definition tokens_ok :: "uuid set \<Rightarrow> ApiTokenRow list \<Rightarrow> bool" where
  "tokens_ok U ts \<longleftrightarrow> distinct (map t_ID ts) \<and> t_UserID ` set ts \<subseteq> U"

definition members_ok :: "uuid set \<Rightarrow> uuid set \<Rightarrow> MemberRow list \<Rightarrow> bool" where
  "members_ok U G ms \<longleftrightarrow> distinct (map (\<lambda>m. (m_OrgID m, m_UserID m)) ms) \<and> m_UserID ` set ms \<subseteq> U \<and>
     m_OrgID ` set ms \<subseteq> G \<and> m_Status ` set ms \<subseteq> membership_statuses"

definition invites_ok :: "env \<Rightarrow> uuid set \<Rightarrow> uuid set \<Rightarrow> InviteRow list \<Rightarrow> bool" where
  "invites_ok E U G xs \<longleftrightarrow> distinct (map i_ID xs) \<and> uniq (\<lambda>x. True) i_TokenHash i_ID xs \<and>
     uniq (\<lambda>x. i_Status x = ''pending'') (pending_key E) i_ID xs \<and>
     i_InviterID ` set xs \<subseteq> U \<and> i_OrgID ` set xs \<subseteq> G \<and> i_Status ` set xs \<subseteq> invite_statuses"

abbreviation user_ids :: "db \<Rightarrow> uuid set" where
  "user_ids d \<equiv> u_ID ` set (users d)"

abbreviation org_ids :: "db \<Rightarrow> uuid set" where
  "org_ids d \<equiv> o_ID ` set (organizations d)"

definition schema_ok :: "env \<Rightarrow> db \<Rightarrow> bool" where
  "schema_ok E d \<longleftrightarrow>
     users_ok (users d) \<and> distinct (map c_ID (challenges d)) \<and> distinct (map r_ID (refresh_tokens d)) \<and>
     tokens_ok (user_ids d) (api_tokens d) \<and> distinct (map o_ID (organizations d)) \<and>
     members_ok (user_ids d) (org_ids d) (memberships d) \<and>
     invites_ok E (user_ids d) (org_ids d) (invites d)"

section \<open>Lists under a key\<close>

lemma uniqD: "uniq p key ident xs \<Longrightarrow> x \<in> set xs \<Longrightarrow> y \<in> set xs \<Longrightarrow> p x \<Longrightarrow> p y \<Longrightarrow> key x = key y \<Longrightarrow> ident x = ident y"
  unfolding uniq_def by blast

lemma uniqI:
  assumes "\<And>x y. x \<in> set xs \<Longrightarrow> y \<in> set xs \<Longrightarrow> p x \<Longrightarrow> p y \<Longrightarrow> key x = key y \<Longrightarrow> ident x = ident y"
  shows "uniq p key ident xs"
  using assms unfolding uniq_def by blast

lemma uniq_filter: "uniq p key ident xs \<Longrightarrow> uniq p key ident (filter q xs)"
  by (rule uniqI) (auto elim: uniqD)

lemma uniq_snoc:
  assumes "uniq p key ident xs" and "p x \<Longrightarrow> key x \<notin> key ` {y \<in> set xs. p y}"
  shows "uniq p key ident (xs @ [x])"
proof (rule uniqI)
  fix a b assume ab: "a \<in> set (xs @ [x])" "b \<in> set (xs @ [x])" "p a" "p b" "key a = key b"
  have ne: "key y \<noteq> key x" if "p x" "p y" "y \<in> set xs" for y
    using assms(2) [OF that(1)] that(2,3) by (auto intro: rev_image_eqI)
  from ab consider "a = x" "b = x" | "a = x" "b \<in> set xs" | "a \<in> set xs" "b = x" | "a \<in> set xs" "b \<in> set xs" by auto
  then show "ident a = ident b"
    using ab ne [of a] ne [of b] uniqD [OF assms(1), of a b] by cases metis+
qed

lemma uniq_map:
  assumes "uniq p key ident xs"
    and "\<And>x. x \<in> set xs \<Longrightarrow> p (f x) \<Longrightarrow> p x \<and> key (f x) = key x"
    and "\<And>x. ident (f x) = ident x"
  shows "uniq p key ident (map f xs)"
proof (rule uniqI)
  fix a b assume "a \<in> set (map f xs)" "b \<in> set (map f xs)" and p: "p a" "p b" "key a = key b"
  then obtain x y where xy: "x \<in> set xs" "y \<in> set xs" "a = f x" "b = f y" by auto
  with p assms(2) have "p x" "p y" "key x = key y" by metis+
  with uniqD [OF assms(1) xy(1,2)] show "ident a = ident b" using xy assms(3) by simp
qed

lemma distinct_map_filter_key: "distinct (map key xs) \<Longrightarrow> distinct (map key (filter p xs))"
  by (rule distinct_map_filter)

lemma map_key_upd: "(\<And>x. key (f x) = key x) \<Longrightarrow> map key (map f xs) = map key xs"
  by simp

lemma image_key_upd: "(\<And>x. key (f x) = key x) \<Longrightarrow> key ` set (map f xs) = key ` set xs"
  by (simp add: image_image)

text \<open>A foreign key to a row that is not deleted is a foreign key to a row that stays.\<close>

lemma fk_rest:
  assumes "y \<in> key ` set xs" and "y \<notin> key ` set (filter del xs)"
  shows "y \<in> key ` set (filter (\<lambda>x. \<not> del x) xs)"
  using assms by auto

lemma fk_filter:
  assumes "fk ` set ys \<subseteq> key ` set xs"
  shows "fk ` set (filter (\<lambda>y. fk y \<notin> key ` set (filter del xs)) ys) \<subseteq> key ` set (filter (\<lambda>x. \<not> del x) xs)"
proof (rule image_subsetI)
  fix y assume "y \<in> set (filter (\<lambda>y. fk y \<notin> key ` set (filter del xs)) ys)"
  with assms show "fk y \<in> key ` set (filter (\<lambda>x. \<not> del x) xs)" by (intro fk_rest) auto
qed

section \<open>The user table\<close>

lemma users_ok_insert:
  "insert_user row d = Inr d' \<Longrightarrow> users_ok (users d) \<Longrightarrow> users_ok (users d')"
  by (auto simp: insert_user_def users_ok_def intro!: uniq_snoc split: if_splits)

lemma insert_user_frame:
  assumes "insert_user row d = Inr d'"
  shows "d' = d\<lparr>users := users d @ [row]\<rparr>"
  using assms by (auto simp: insert_user_def split: if_splits)

lemma users_ok_update:
  assumes "users_ok (users d)" and "\<And>u. u_ID (f u) = u_ID u"
    and "\<And>u. u_Email (f u) = u_Email u" and "\<And>u. u_Mobile (f u) = u_Mobile u"
  shows "users_ok (users (update_users p f d))"
proof -
  have e: "\<And>u. u_ID (if p u then f u else u) = u_ID u" "\<And>u. u_Email (if p u then f u else u) = u_Email u"
    "\<And>u. u_Mobile (if p u then f u else u) = u_Mobile u" using assms by simp_all
  have "map u_ID (map (\<lambda>u. if p u then f u else u) (users d)) = map u_ID (users d)" using e by simp
  then show ?thesis
    using assms(1) unfolding users_ok_def update_users_def
    by (auto intro!: uniq_map simp: e simp del: map_map)
qed

lemma user_ids_update:
  assumes "\<And>u. u_ID (f u) = u_ID u"
  shows "user_ids (update_users p f d) = user_ids d"
proof -
  have "u_ID ` set (map (\<lambda>u. if p u then f u else u) (users d)) = u_ID ` set (users d)"
    by (rule image_key_upd) (simp add: assms)
  then show ?thesis unfolding update_users_def by simp
qed

lemma update_users_frame [simp]:
  "challenges (update_users p f d) = challenges d" "refresh_tokens (update_users p f d) = refresh_tokens d"
  "api_tokens (update_users p f d) = api_tokens d" "organizations (update_users p f d) = organizations d"
  "memberships (update_users p f d) = memberships d" "invites (update_users p f d) = invites d"
  "outbox (update_users p f d) = outbox d" "feature_flags (update_users p f d) = feature_flags d"
  by (simp_all add: update_users_def)

lemma schema_ok_update_users:
  assumes "schema_ok E d" and "\<And>u. u_ID (f u) = u_ID u"
    and "\<And>u. u_Email (f u) = u_Email u" and "\<And>u. u_Mobile (f u) = u_Mobile u"
  shows "schema_ok E (update_users p f d)"
  using assms users_ok_update [of d f p] user_ids_update [of f p d] by (simp add: schema_ok_def)

lemma members_ok_mono: "members_ok U G ms \<Longrightarrow> U \<subseteq> U' \<Longrightarrow> G \<subseteq> G' \<Longrightarrow> members_ok U' G' ms"
  by (auto simp: members_ok_def)

lemma invites_ok_mono: "invites_ok E U G xs \<Longrightarrow> U \<subseteq> U' \<Longrightarrow> G \<subseteq> G' \<Longrightarrow> invites_ok E U' G' xs"
  by (auto simp: invites_ok_def)

lemma tokens_ok_mono: "tokens_ok U ts \<Longrightarrow> U \<subseteq> U' \<Longrightarrow> tokens_ok U' ts"
  by (auto simp: tokens_ok_def)

lemma schema_ok_insert_user:
  assumes "schema_ok E d" and "insert_user row d = Inr d'"
  shows "schema_ok E d'"
proof -
  have d': "d' = d\<lparr>users := users d @ [row]\<rparr>" using insert_user_frame [OF assms(2)] .
  have "users_ok (users d')" using assms users_ok_insert by (auto simp: schema_ok_def)
  then show ?thesis
    using assms(1) unfolding schema_ok_def d'
    by (auto elim: tokens_ok_mono members_ok_mono invites_ok_mono)
qed

lemma affected_Inr: "affected n res = Inr (a, d') \<longleftrightarrow> a = n \<and> res = Inr d'"
  by (auto simp: affected_def split: sum.splits)

lemma one_Inr: "one rows d = Inr (a, d') \<longleftrightarrow> d' = d \<and> (\<exists>xs. rows = a # xs)"
  by (auto simp: one_def split: list.splits)

lemmas stmt_inv = affected_Inr one_Inr

lemma schema_delete_users:
  assumes "schema_ok E d" and "delete_users del d = Inr (n, d')"
  shows "schema_ok E d'"
proof -
  let ?gone = "u_ID ` set (filter del (users d))"
  have d': "d' = d\<lparr>users := filter (\<lambda>u. \<not> del u) (users d),
      memberships := filter (\<lambda>m. m_UserID m \<notin> ?gone) (memberships d),
      invites := filter (\<lambda>i. i_InviterID i \<notin> ?gone) (invites d)\<rparr>"
    and t: "\<forall>t \<in> set (api_tokens d). t_UserID t \<notin> ?gone"
    using assms(2) by (auto simp: delete_users_def Let_def split: if_splits)
  have "users_ok (users d')" using assms(1)
    by (auto simp: d' schema_ok_def users_ok_def intro!: uniq_filter distinct_map_filter_key)
  moreover have "tokens_ok (user_ids d') (api_tokens d')"
  proof -
    have "t_UserID ` set (api_tokens d) \<subseteq> u_ID ` set (filter (\<lambda>u. \<not> del u) (users d))"
      using assms(1) t by (intro image_subsetI fk_rest) (auto simp: schema_ok_def tokens_ok_def)
    then show ?thesis using assms(1) by (simp add: d' schema_ok_def tokens_ok_def)
  qed
  moreover have "members_ok (user_ids d') (org_ids d') (memberships d')"
  proof -
    have "m_UserID ` set (memberships d) \<subseteq> u_ID ` set (users d)"
      using assms(1) by (simp add: schema_ok_def members_ok_def)
    from fk_filter [OF this, of del] show ?thesis
      using assms(1) unfolding d' schema_ok_def members_ok_def
      by (simp add: distinct_map_filter_key image_subset_iff)
  qed
  moreover have "invites_ok E (user_ids d') (org_ids d') (invites d')"
  proof -
    have "i_InviterID ` set (invites d) \<subseteq> u_ID ` set (users d)"
      using assms(1) by (simp add: schema_ok_def invites_ok_def)
    from fk_filter [OF this, of del] show ?thesis
      using assms(1) unfolding d' schema_ok_def invites_ok_def
      by (simp add: distinct_map_filter_key uniq_filter image_subset_iff)
  qed
  ultimately show ?thesis using assms(1) by (simp add: d' schema_ok_def)
qed

section \<open>Every statement keeps the schema\<close>

lemma stmt_keepsI:
  assumes "\<And>now rank d a d'. P d \<Longrightarrow> q now rank d = Inr (a, d') \<Longrightarrow> P d'"
  shows "stmt_keeps P q"
  using assms unfolding stmt_keeps_def by blast

lemma keep_reads: "reads q \<Longrightarrow> stmt_keeps P q"
  unfolding reads_def stmt_keeps_def by metis

lemma reads_queries [simp, intro]:
  "reads (q_FindUserByEmail email)" "reads (q_FindUserByID i)" "reads (q_FindUserByMobile mobile)"
  "reads (q_GetLatestChallenge identifier channel)" "reads (q_FindValidRefreshToken h)"
  "reads (q_FindAPITokenByPrefix prefix)" "reads (q_ListAPITokensByUser i)"
  "reads (q_CountActiveOrganizationMembers i)" "reads (q_GetOrganization i)"
  "reads (q_GetOrganizationMembership i j)" "reads (q_ListOrganizationMembers i)"
  "reads (q_ListOrganizationsForUser i)" "reads (q_LockOrganization i)"
  "reads (q_FindOrganizationInviteByTokenHash h)" "reads (q_ListOrganizationInvites i)"
  "reads (q_ListFeatureFlags E)"
  by (simp_all add: reads_def one_Inr q_FindUserByEmail_def q_FindUserByID_def q_FindUserByMobile_def
        q_GetLatestChallenge_def q_FindValidRefreshToken_def q_FindAPITokenByPrefix_def q_ListAPITokensByUser_def
        q_CountActiveOrganizationMembers_def q_GetOrganization_def q_GetOrganizationMembership_def
        q_ListOrganizationMembers_def q_ListOrganizationsForUser_def q_LockOrganization_def
        q_FindOrganizationInviteByTokenHash_def q_ListOrganizationInvites_def q_ListFeatureFlags_def)

lemmas stmt_keeps_reads [keep] = reads_queries [THEN keep_reads]

subsection \<open>Users\<close>

lemma schema_CreateSignupUser [keep]: "stmt_keeps (schema_ok E) (q_CreateSignupUser i email ph dn st v)"
  by (rule stmt_keepsI) (auto simp: q_CreateSignupUser_def affected_Inr schema_ok_insert_user split: if_splits)

lemma schema_CreateUserWithEmail [keep]: "stmt_keeps (schema_ok E) (q_CreateUserWithEmail i email st)"
  by (rule stmt_keepsI) (auto simp: q_CreateUserWithEmail_def affected_Inr schema_ok_insert_user)

lemma schema_CreateUserWithMobile [keep]: "stmt_keeps (schema_ok E) (q_CreateUserWithMobile i mobile)"
  by (rule stmt_keepsI) (auto simp: q_CreateUserWithMobile_def affected_Inr schema_ok_insert_user)

lemma schema_PurgeUnverifiedSignups [keep]: "stmt_keeps (schema_ok E) (q_PurgeUnverifiedSignups b)"
  by (rule stmt_keepsI) (auto simp: q_PurgeUnverifiedSignups_def elim: schema_delete_users)

lemma schema_ReissueSignupUser [keep]: "stmt_keeps (schema_ok E) (q_ReissueSignupUser ph dn email)"
  by (rule stmt_keepsI) (auto simp: q_ReissueSignupUser_def Let_def one_Inr intro!: schema_ok_update_users)

lemma schema_UpdateLastLogin [keep]: "stmt_keeps (schema_ok E) (q_UpdateLastLogin i)"
  by (rule stmt_keepsI) (auto simp: q_UpdateLastLogin_def intro!: schema_ok_update_users)

lemma schema_VerifySignupUser [keep]: "stmt_keeps (schema_ok E) (q_VerifySignupUser v i)"
  by (rule stmt_keepsI) (auto simp: q_VerifySignupUser_def Let_def intro!: schema_ok_update_users)

text \<open>
  The demo upsert: the row that conflicts on the key is the only one with that key, and the statement
  is refused when another row has the new email or mobile number.
\<close>

lemma uniq_upsert:
  assumes u: "uniq (\<lambda>u. col u \<noteq> None) col u_ID us"
    and one: "\<And>u v. u \<in> set us \<Longrightarrow> v \<in> set us \<Longrightarrow> hit u \<Longrightarrow> hit v \<Longrightarrow> u_ID u = u_ID v"
    and free: "\<And>u. u \<in> set us \<Longrightarrow> \<not> hit u \<Longrightarrow> x \<noteq> None \<Longrightarrow> col u \<noteq> x"
    and col: "\<And>u. hit u \<Longrightarrow> col (f u) = (if x \<noteq> None then x else col u)"
    and ident: "\<And>u. u_ID (f u) = u_ID u"
  shows "uniq (\<lambda>u. col u \<noteq> None) col u_ID (map (\<lambda>u. if hit u then f u else u) us)"
proof (rule uniqI)
  let ?g = "\<lambda>u. if hit u then f u else u"
  fix a b assume ab: "a \<in> set (map ?g us)" "b \<in> set (map ?g us)" "col a \<noteq> None" "col b \<noteq> None" "col a = col b"
  then obtain u v where uv: "u \<in> set us" "v \<in> set us" "a = ?g u" "b = ?g v" by auto
  have cg: "col (?g w) = (if hit w \<and> x \<noteq> None then x else col w)" for w using col by simp
  have same: "col u = col v" "col u \<noteq> None" if "hit u \<and> hit v \<longrightarrow> x = None"
    using that ab(3,5) uv(3,4) cg [of u] cg [of v] free [OF uv(1)] free [OF uv(2)]
    by (cases "hit u"; cases "hit v"; cases "x = None"; force)+
  have "u_ID u = u_ID v"
  proof (cases "hit u \<and> hit v")
    case True
    then show ?thesis using one [OF uv(1,2)] by blast
  next
    case False
    then show ?thesis using same uniqD [OF u uv(1,2)] by metis
  qed
  then show "u_ID a = u_ID b" using uv ident by simp
qed

lemma schema_upsert_demo:
  assumes key: "key = u_Email \<or> key = u_Mobile"
  shows "stmt_keeps (schema_ok E) (upsert_demo key i email mobile ph dn)"
proof (rule stmt_keepsI)
  fix now rank d a d'
  assume ok: "schema_ok E d" and run: "upsert_demo key i email mobile ph dn now rank d = Inr (a, d')"
  define row where "row = demo_row i email mobile ph dn now"
  define hit where "hit = (\<lambda>u. key row \<noteq> None \<and> key u = key row)"
  let ?upd = "demo_update email mobile ph dn now"
  show "schema_ok E d'"
  proof (cases "\<exists>u \<in> set (users d). hit u")
    case False
    then have "insert_user row d = Inr d'"
      using run unfolding upsert_demo_def Let_def row_def hit_def by (simp only: if_False affected_Inr)
    then show ?thesis using ok schema_ok_insert_user by blast
  next
    case True
    then have d': "d' = update_users hit ?upd d"
      and free: "\<And>u. u \<in> set (users d) \<Longrightarrow> \<not> hit u \<Longrightarrow>
        (email \<noteq> None \<longrightarrow> u_Email u \<noteq> email) \<and> (mobile \<noteq> None \<longrightarrow> u_Mobile u \<noteq> mobile)"
      using run unfolding upsert_demo_def Let_def row_def hit_def
      by (simp_all only: if_True) (auto split: if_splits)
    have kq: "uniq (\<lambda>u. key u \<noteq> None) key u_ID (users d)"
      using ok key by (auto simp: schema_ok_def users_ok_def)
    have one: "u_ID u = u_ID v" if "u \<in> set (users d)" "v \<in> set (users d)" "hit u" "hit v" for u v
      using uniqD [OF kq that(1,2)] that(3,4) by (simp add: hit_def)
    have us: "users d' = map (\<lambda>u. if hit u then ?upd u else u) (users d)" by (simp add: d' update_users_def)
    have ids: "u_ID (?upd u) = u_ID u" for u by (simp add: demo_update_def)
    have "map u_ID (map (\<lambda>u. if hit u then ?upd u else u) (users d)) = map u_ID (users d)" using ids by simp
    moreover have "uniq (\<lambda>u. u_Email u \<noteq> None) u_Email u_ID (map (\<lambda>u. if hit u then ?upd u else u) (users d))"
    proof (rule uniq_upsert [where x = email])
      show "uniq (\<lambda>u. u_Email u \<noteq> None) u_Email u_ID (users d)" using ok by (simp only: schema_ok_def users_ok_def)
      show "u_Email u \<noteq> email" if "u \<in> set (users d)" "\<not> hit u" "email \<noteq> None" for u
        using free [OF that(1,2)] that(3) by blast
    qed (rule one, assumption+, simp_all add: demo_update_def)
    moreover have "uniq (\<lambda>u. u_Mobile u \<noteq> None) u_Mobile u_ID (map (\<lambda>u. if hit u then ?upd u else u) (users d))"
    proof (rule uniq_upsert [where x = mobile])
      show "uniq (\<lambda>u. u_Mobile u \<noteq> None) u_Mobile u_ID (users d)" using ok by (simp only: schema_ok_def users_ok_def)
      show "u_Mobile u \<noteq> mobile" if "u \<in> set (users d)" "\<not> hit u" "mobile \<noteq> None" for u
        using free [OF that(1,2)] that(3) by blast
    qed (rule one, assumption+, simp_all add: demo_update_def)
    moreover have "distinct (map u_ID (users d))" using ok by (simp add: schema_ok_def users_ok_def)
    ultimately have "users_ok (users d')"
      by (simp only: users_ok_def us)
    then show ?thesis
      using ok user_ids_update [OF ids, of hit d] by (simp add: schema_ok_def d')
  qed
qed

lemma schema_UpsertDemoUser [keep]:
  "stmt_keeps (schema_ok E) (q_UpsertDemoUserByEmail i email mobile ph dn)"
  "stmt_keeps (schema_ok E) (q_UpsertDemoUserByMobile i email mobile ph dn)"
  by (simp_all add: q_UpsertDemoUserByEmail_def q_UpsertDemoUserByMobile_def schema_upsert_demo)

subsection \<open>Challenges, refresh tokens, API tokens, the outbox\<close>

lemma schema_challenges [keep]:
  "stmt_keeps (schema_ok E) (q_ConsumeChallenge i)"
  "stmt_keeps (schema_ok E) (q_DeleteChallengesForIdentifier identifier channel)"
  "stmt_keeps (schema_ok E) q_DeleteExpiredChallenges"
  by (auto simp: stmt_keeps_def schema_ok_def q_ConsumeChallenge_def q_DeleteChallengesForIdentifier_def
                 q_DeleteExpiredChallenges_def intro: distinct_map_filter_key)

lemma schema_IncrementChallengeAttempts [keep]: "stmt_keeps (schema_ok E) (q_IncrementChallengeAttempts i)"
  by (rule stmt_keepsI)
     (auto simp: schema_ok_def q_IncrementChallengeAttempts_def comp_def if_distrib [of c_ID] cong: if_cong)

lemma schema_UpsertChallenge [keep]: "stmt_keeps (schema_ok E) (q_UpsertChallenge i identifier channel h e c)"
  by (rule stmt_keepsI) (auto simp: schema_ok_def q_UpsertChallenge_def split: option.splits if_splits)

lemma schema_RevokeRefreshToken [keep]: "stmt_keeps (schema_ok E) (q_RevokeRefreshToken h)"
  by (rule stmt_keepsI)
     (auto simp: schema_ok_def q_RevokeRefreshToken_def comp_def if_distrib [of r_ID] cong: if_cong)

lemma schema_StoreRefreshToken [keep]: "stmt_keeps (schema_ok E) (q_StoreRefreshToken i u g h e)"
  by (rule stmt_keepsI) (auto simp: schema_ok_def q_StoreRefreshToken_def split: option.splits if_splits)

lemma schema_CreateAPIToken [keep]: "stmt_keeps (schema_ok E) (q_CreateAPIToken i u name prefix h sc e)"
  by (rule stmt_keepsI) (auto simp: schema_ok_def tokens_ok_def q_CreateAPIToken_def image_subset_iff split: option.splits if_splits)

lemma schema_RevokeAPIToken [keep]: "stmt_keeps (schema_ok E) (q_RevokeAPIToken i u)"
proof (rule stmt_keepsI)
  fix now rank d a d' assume ok: "schema_ok E d" and run: "q_RevokeAPIToken i u now rank d = Inr (a, d')"
  let ?f = "\<lambda>t. if t_ID t = i \<and> t_UserID t = u \<and> t_RevokedAt t = None then t\<lparr>t_RevokedAt := Some now\<rparr> else t"
  have "tokens_ok (user_ids d) (map ?f (api_tokens d))"
    using ok map_key_upd [of t_ID ?f "api_tokens d"] image_key_upd [of t_UserID ?f "api_tokens d"]
    unfolding schema_ok_def tokens_ok_def by (simp del: map_map set_map)
  then show "schema_ok E d'"
    using ok run by (auto simp: schema_ok_def q_RevokeAPIToken_def)
qed

lemma schema_outbox_Insert [keep]: "stmt_keeps (schema_ok E) (q_outbox_Insert E' s e)"
  by (rule stmt_keepsI) (auto simp: schema_ok_def q_outbox_Insert_def split: sum.splits)

subsection \<open>Organizations and memberships\<close>

lemma schema_insert_member:
  assumes "schema_ok E d" and "insert_member g u st now d = Inr d'"
    and "\<forall>m \<in> set (memberships d). \<not> is_member g u m"
  shows "schema_ok E d'"
proof -
  have "(g, u) \<notin> (\<lambda>m. (m_OrgID m, m_UserID m)) ` set (memberships d)"
    using assms(3) by (auto simp: is_member_def)
  then show ?thesis
    using assms(1,2)
    by (auto simp: insert_member_def schema_ok_def members_ok_def image_subset_iff simp del: image_iff split: if_splits)
qed

lemma insert_member_status: "insert_member g u st now d = Inr d' \<Longrightarrow> st \<in> membership_statuses"
  by (auto simp: insert_member_def split: if_splits)

lemma schema_AddOrganizationMembership [keep]: "stmt_keeps (schema_ok E) (q_AddOrganizationMembership g u st)"
  by (rule stmt_keepsI)
     (auto simp: q_AddOrganizationMembership_def affected_Inr intro: schema_insert_member
           dest: insert_member_status split: if_splits)

lemma schema_CreateOrganization [keep]: "stmt_keeps (schema_ok E) (q_CreateOrganization i name c u)"
  by (rule stmt_keepsI)
     (auto simp: schema_ok_def q_CreateOrganization_def split: option.splits if_splits
           elim!: members_ok_mono invites_ok_mono)

lemma schema_DeleteEmptyOrganizations [keep]: "stmt_keeps (schema_ok E) q_DeleteEmptyOrganizations"
proof (rule stmt_keepsI)
  fix now rank d a d' assume ok: "schema_ok E d" and run: "q_DeleteEmptyOrganizations now rank d = Inr (a, d')"
  let ?used = "m_OrgID ` set (memberships d)"
  have d': "d' = d\<lparr>organizations := filter (\<lambda>x. o_ID x \<in> ?used) (organizations d),
      invites := filter (\<lambda>i. i_OrgID i \<in> ?used) (invites d)\<rparr>"
    using run by (simp add: q_DeleteEmptyOrganizations_def Let_def)
  have sub: "?used \<subseteq> org_ids d" using ok by (simp add: schema_ok_def members_ok_def)
  have G: "o_ID ` set (filter (\<lambda>x. o_ID x \<in> ?used) (organizations d)) = ?used"
  proof
    show "?used \<subseteq> o_ID ` set (filter (\<lambda>x. o_ID x \<in> ?used) (organizations d))"
    proof
      fix y assume y: "y \<in> ?used"
      with sub obtain x where "x \<in> set (organizations d)" "y = o_ID x" by blast
      with y show "y \<in> o_ID ` set (filter (\<lambda>x. o_ID x \<in> ?used) (organizations d))" by (intro image_eqI [of _ _ x]) auto
    qed
  qed auto
  have "members_ok (user_ids d) ?used (memberships d)" using ok by (simp add: schema_ok_def members_ok_def)
  moreover have "invites_ok E (user_ids d) ?used (filter (\<lambda>i. i_OrgID i \<in> ?used) (invites d))"
    using ok by (auto simp: schema_ok_def invites_ok_def image_subset_iff intro!: distinct_map_filter_key uniq_filter)
  moreover have "distinct (map o_ID (filter (\<lambda>x. o_ID x \<in> ?used) (organizations d)))"
    using ok by (simp add: schema_ok_def distinct_map_filter_key)
  ultimately show "schema_ok E d'"
    using ok G unfolding schema_ok_def d' by simp
qed

lemma schema_DeleteOrganizationMembership [keep]: "stmt_keeps (schema_ok E) (q_DeleteOrganizationMembership g u)"
  by (rule stmt_keepsI)
     (auto simp: schema_ok_def q_DeleteOrganizationMembership_def members_ok_def image_subset_iff intro!: distinct_map_filter_key)

text \<open>Updating the status of some memberships.\<close>

lemma members_ok_update:
  assumes "members_ok U G ms" and "\<And>m. m_OrgID (f m) = m_OrgID m" and "\<And>m. m_UserID (f m) = m_UserID m"
    and "\<And>m. m \<in> set ms \<Longrightarrow> m_Status (f m) \<in> membership_statuses"
  shows "members_ok U G (map f ms)"
  using assms by (auto simp: members_ok_def comp_def image_subset_iff)

lemma schema_ok_update_members:
  assumes "schema_ok E d" and "\<And>m. m_OrgID (f m) = m_OrgID m" and "\<And>m. m_UserID (f m) = m_UserID m"
    and "\<And>m. m \<in> set (memberships d) \<Longrightarrow> m_Status (f m) \<in> membership_statuses"
  shows "schema_ok E (d\<lparr>memberships := map f (memberships d)\<rparr>)"
  using assms members_ok_update by (auto simp: schema_ok_def)

lemma schema_member_status: "schema_ok E d \<Longrightarrow> m \<in> set (memberships d) \<Longrightarrow> m_Status m \<in> membership_statuses"
  by (auto simp: schema_ok_def members_ok_def image_subset_iff)

lemma schema_UpdateOrganizationMembershipStatus [keep]:
  "stmt_keeps (schema_ok E) (q_UpdateOrganizationMembershipStatus st g u)"
  by (rule stmt_keepsI)
     (auto simp: q_UpdateOrganizationMembershipStatus_def schema_member_status
           intro!: schema_ok_update_members split: if_splits)

lemma active_status: "''active'' \<in> membership_statuses"
  by (simp add: membership_statuses_def)

lemma schema_AddActiveOrganizationMembership [keep]:
  "stmt_keeps (schema_ok E) (q_AddActiveOrganizationMembership g u)"
  by (rule stmt_keepsI)
     (auto simp: q_AddActiveOrganizationMembership_def affected_Inr schema_member_status active_status
           intro!: schema_ok_update_members intro: schema_insert_member split: if_splits)

subsection \<open>Invitations\<close>

lemma schema_ok_update_invites:
  assumes "schema_ok E d"
    and "\<And>x. i_ID (f x) = i_ID x \<and> i_OrgID (f x) = i_OrgID x \<and> i_Email (f x) = i_Email x \<and>
             i_TokenHash (f x) = i_TokenHash x \<and> i_InviterID (f x) = i_InviterID x"
    and "\<And>x. i_Status (f x) = i_Status x \<or> i_Status (f x) \<in> {''accepted'', ''revoked''}"
  shows "schema_ok E (d\<lparr>invites := map f (invites d)\<rparr>)"
proof -
  have "invites_ok E (user_ids d) (org_ids d) (map f (invites d))"
    unfolding invites_ok_def
  proof (intro conjI)
    have ok: "invites_ok E (user_ids d) (org_ids d) (invites d)" using assms(1) by (simp add: schema_ok_def)
    show "distinct (map i_ID (map f (invites d)))" using ok assms(2) by (simp add: invites_ok_def comp_def)
    show "uniq (\<lambda>x. True) i_TokenHash i_ID (map f (invites d))"
      using ok assms(2) by (intro uniq_map) (auto simp: invites_ok_def)
    show "uniq (\<lambda>x. i_Status x = ''pending'') (pending_key E) i_ID (map f (invites d))"
    proof (rule uniq_map)
      fix x assume "i_Status (f x) = ''pending''"
      then have "i_Status x = ''pending''" using assms(3) [of x] by auto
      then show "i_Status x = ''pending'' \<and> pending_key E (f x) = pending_key E x"
        using assms(2) by (simp add: pending_key_def)
    qed (use ok assms(2) in \<open>auto simp: invites_ok_def\<close>)
    show "i_InviterID ` set (map f (invites d)) \<subseteq> user_ids d" "i_OrgID ` set (map f (invites d)) \<subseteq> org_ids d"
      using ok assms(2) by (auto simp: invites_ok_def image_subset_iff)
    show "i_Status ` set (map f (invites d)) \<subseteq> invite_statuses"
    proof
      fix y assume "y \<in> i_Status ` set (map f (invites d))"
      then obtain x where "x \<in> set (invites d)" "y = i_Status (f x)" by auto
      then show "y \<in> invite_statuses"
        using assms(3) [of x] ok by (auto simp: invites_ok_def invite_statuses_def image_subset_iff)
    qed
  qed
  then show ?thesis using assms(1) by (simp add: schema_ok_def)
qed

lemma schema_update_invites [keep]:
  "stmt_keeps (schema_ok E) (q_AcceptOrganizationInvite acc i g)"
  "stmt_keeps (schema_ok E) (q_RevokeOrganizationInvite i g)"
  "stmt_keeps (schema_ok E) (q_RevokePendingOrganizationInvitesForEmail E' g email)"
  by (auto simp: q_AcceptOrganizationInvite_def q_RevokeOrganizationInvite_def Let_def
        q_RevokePendingOrganizationInvitesForEmail_def intro!: stmt_keepsI schema_ok_update_invites)

lemma schema_CreateOrganizationInvite [keep]:
  "stmt_keeps (schema_ok E) (q_CreateOrganizationInvite E i g email h who st e c)"
  by (rule stmt_keepsI)
     (auto simp: schema_ok_def q_CreateOrganizationInvite_def Let_def invites_ok_def pending_invites_def
                 image_subset_iff split: option.splits if_splits intro!: uniq_snoc)

end
