(* ===== verification/Store.thy ===== *)
theory Store
  imports Schema
begin

text \<open>
  \<open>internal/infrastructure/postgres\<close>: \<open>events.go\<close> (the transactional outbox sink), \<open>store.go\<close> (users,
  challenges, refresh tokens, API tokens) and \<open>flags.go\<close>. A method \<open>(s *Store) X\<close> is \<open>Store_X\<close>; its
  receiver is the environment the statements run in.
\<close>

section \<open>events.go\<close>

fun payload_time :: "EventPayload \<Rightarrow> Time" where
  "payload_time (UserCreatedPayload u t) = t"
| "payload_time (OrgCreatedPayload g n t) = t"
| "payload_time (MembershipAddedPayload g u s t) = t"
| "payload_time (MembershipRemovedPayload g u s t) = t"
| "payload_time (MembershipSuspendedPayload g u s t) = t"

text \<open>\<open>time.Time.MarshalJSON\<close> accepts the years 0 to 9999.\<close>

definition json_Marshal_ok :: "EventPayload \<Rightarrow> bool" where
  "json_Marshal_ok p \<longleftrightarrow> - 366 * 24 * Hour \<le> payload_time p \<and> payload_time p < 3652059 * 24 * Hour"

definition Emit :: "env \<Rightarrow> Event \<Rightarrow> (world, unit) M" where
  "Emit E event =
     bindE (if IsZero (Event_OccurredAt event) then time_Now E else ret (Event_OccurredAt event)) (\<lambda>occurredAt.
     if \<not> json_Marshal_ok (Event_Payload event)
     then fail (Errorf ''postgres: marshal %s payload: %w'' [Event_Subject event]
                  (Some (DriverError ''Time.MarshalJSON: year outside of range [0,9999]'')))
     else bindE tick (\<lambda>t.
       case NewEnvelope E t (Event_Subject event) (Event_Payload event) EventSource EventVersion of
         Inl err \<Rightarrow> fail (Errorf ''postgres: envelope %s: %w'' [Event_Subject event] (Some err))
       | Inr en \<Rightarrow>
           (let en' = en\<lparr>Envelope_Timestamp := occurredAt\<rparr> in
            case Envelope_Validate E en' of
              Some err \<Rightarrow> fail (Errorf ''postgres: envelope %s: %w'' [Event_Subject event] (Some err))
            | None \<Rightarrow>
                mapErr (\<lambda>err. Errorf ''postgres: outbox %s: %w'' [Event_Subject event] (Some err))
                  (exec E (q_outbox_Insert E (Event_Subject event) en')))))"

fun emitEvents :: "env \<Rightarrow> Event list \<Rightarrow> (world, unit) M" where
  "emitEvents E [] = ret ()"
| "emitEvents E (event # events) = bindE (Emit E event) (\<lambda>_. emitEvents E events)"

declare emitEvents.simps [simp del]

section \<open>store.go\<close>

definition timestamptz :: "Time \<Rightarrow> Timestamptz" where
  "timestamptz t = (if IsZero t then None else Some t)"

definition timestamptzPtr :: "Time option \<Rightarrow> Timestamptz" where
  "timestamptzPtr t = t"

definition timePtr :: "Timestamptz \<Rightarrow> Time option" where
  "timePtr t = t"

text \<open>The field \<open>Time\<close> of a \<open>pgtype.Timestamptz\<close> that is not valid is the zero time.\<close>

definition ts_Time :: "Timestamptz \<Rightarrow> Time" where
  "ts_Time t = (case t of None \<Rightarrow> 0 | Some v \<Rightarrow> v)"

subsection \<open>One-time challenges\<close>

definition Store_UpsertChallenge :: "env \<Rightarrow> OTPChallenge \<Rightarrow> (world, unit) M" where
  "Store_UpsertChallenge E ch =
     bindE (parse_uuid E ''postgres: challenge id %q: %w'' (OTPChallenge_ID ch)) (\<lambda>i.
     bindE (if IsZero (OTPChallenge_CreatedAt ch) then time_Now E else ret (OTPChallenge_CreatedAt ch)) (\<lambda>createdAt.
     exec E (q_UpsertChallenge i (OTPChallenge_Identifier ch) (OTPChallenge_Channel ch) (OTPChallenge_CodeHash ch)
       (timestamptz (OTPChallenge_ExpiresAt ch)) (timestamptz createdAt))))"

definition challenge_of_row :: "GetLatestChallengeRow \<Rightarrow> OTPChallenge" where
  "challenge_of_row row =
     \<lparr>OTPChallenge_ID = GetLatestChallengeRow_ID row,
      OTPChallenge_Identifier = GetLatestChallengeRow_Identifier row,
      OTPChallenge_Channel = GetLatestChallengeRow_Channel row,
      OTPChallenge_CodeHash = GetLatestChallengeRow_CodeHash row,
      OTPChallenge_ExpiresAt = ts_Time (GetLatestChallengeRow_ExpiresAt row),
      OTPChallenge_CreatedAt = ts_Time (GetLatestChallengeRow_CreatedAt row),
      OTPChallenge_Attempts = GetLatestChallengeRow_Attempts row\<rparr>"

definition Store_GetLatestChallenge :: "env \<Rightarrow> string \<Rightarrow> string \<Rightarrow> (world, OTPChallenge) M" where
  "Store_GetLatestChallenge E identifier channel =
     bindE (exec E (q_GetLatestChallenge identifier channel)) (\<lambda>row. ret (challenge_of_row row))"

definition Store_IncrementAttempts :: "env \<Rightarrow> string \<Rightarrow> (world, unit) M" where
  "Store_IncrementAttempts E i =
     bindE (parse_uuid E ''postgres: challenge id %q: %w'' i) (\<lambda>parsed.
     exec E (q_IncrementChallengeAttempts parsed))"

definition Store_ConsumeChallenge :: "env \<Rightarrow> string \<Rightarrow> (world, unit) M" where
  "Store_ConsumeChallenge E i =
     bindE (parse_uuid E ''postgres: challenge id %q: %w'' i) (\<lambda>parsed.
     exec E (q_ConsumeChallenge parsed))"

definition Store_DeleteExpiredChallenges :: "env \<Rightarrow> (world, unit) M" where
  "Store_DeleteExpiredChallenges E = exec E q_DeleteExpiredChallenges"

subsection \<open>Users\<close>

definition user_of_row :: "FindUserRow \<Rightarrow> User" where
  "user_of_row row =
     \<lparr>User_ID = FindUserRow_ID row, User_Email = FindUserRow_Email row, User_Mobile = FindUserRow_Mobile row,
      User_PasswordHash = FindUserRow_PasswordHash row, User_DisplayName = FindUserRow_DisplayName row,
      User_Status = FindUserRow_Status row, User_EmailVerified = FindUserRow_EmailVerified row\<rparr>"

definition zero_User :: User where
  "zero_User = \<lparr>User_ID = [], User_Email = [], User_Mobile = [], User_PasswordHash = [], User_DisplayName = [],
                User_Status = [], User_EmailVerified = False\<rparr>"

definition Store_findByEmail :: "env \<Rightarrow> string \<Rightarrow> (world, User) M" where
  "Store_findByEmail E email = bindE (exec E (q_FindUserByEmail email)) (\<lambda>row. ret (user_of_row row))"

definition Store_findByMobile :: "env \<Rightarrow> string \<Rightarrow> (world, User) M" where
  "Store_findByMobile E mobile = bindE (exec E (q_FindUserByMobile mobile)) (\<lambda>row. ret (user_of_row row))"

definition Store_FindOrCreateByEmail :: "env \<Rightarrow> string \<Rightarrow> (world, User) M" where
  "Store_FindOrCreateByEmail E email =
     bindE (tryE (Store_findByEmail E email)) (\<lambda>found.
     case found of
       Inr user \<Rightarrow> ret user
     | Inl err \<Rightarrow>
         if \<not> errors_Is err ErrNoRows then fail err
         else bindE (uuid_NewString E) (\<lambda>i.
           (let user = zero_User\<lparr>User_ID := i, User_Email := email, User_Status := UserActive\<rparr> in
            case uuid_Parse E i of
              Inl err \<Rightarrow> fail err
            | Inr parsed \<Rightarrow>
                bindE (time_Now E) (\<lambda>occurredAt.
                in_tx E ''postgres: begin create user: %w''
                  (bindE (exec E (q_CreateUserWithEmail parsed email (User_Status user))) (\<lambda>_.
                   bindE (emitEvents E [NewUserCreatedEvent (User_ID user) occurredAt]) (\<lambda>_.
                   ret (Commit ''postgres: commit create user: %w'' user))))))))"

definition Store_FindByEmail :: "env \<Rightarrow> string \<Rightarrow> (world, User) M" where
  "Store_FindByEmail E email = Store_findByEmail E email"

definition Store_FindByMobile :: "env \<Rightarrow> string \<Rightarrow> (world, User) M" where
  "Store_FindByMobile E mobile = Store_findByMobile E mobile"

definition Store_FindByID :: "env \<Rightarrow> string \<Rightarrow> (world, User) M" where
  "Store_FindByID E userID =
     bindE (parse_uuid E ''postgres: user id %q: %w'' userID) (\<lambda>parsed.
     bindE (mapErr (\<lambda>err. if errors_Is err ErrNoRows then ErrUserNotFound else err)
              (exec E (q_FindUserByID parsed))) (\<lambda>row.
     ret (user_of_row row)))"

definition Store_FindOrCreateByMobile :: "env \<Rightarrow> string \<Rightarrow> (world, User) M" where
  "Store_FindOrCreateByMobile E mobile =
     bindE (tryE (Store_findByMobile E mobile)) (\<lambda>found.
     case found of
       Inr user \<Rightarrow> ret user
     | Inl err \<Rightarrow>
         if \<not> errors_Is err ErrNoRows then fail err
         else bindE (uuid_NewString E) (\<lambda>i.
           case uuid_Parse E i of
             Inl err \<Rightarrow> fail err
           | Inr parsed \<Rightarrow>
               bindE (time_Now E) (\<lambda>occurredAt.
               in_tx E ''postgres: begin create user: %w''
                 (bindE (exec E (q_CreateUserWithMobile parsed mobile)) (\<lambda>_.
                  (let user = zero_User\<lparr>User_ID := i, User_Mobile := mobile\<rparr> in
                   bindE (emitEvents E [NewUserCreatedEvent (User_ID user) occurredAt]) (\<lambda>_.
                   ret (Commit ''postgres: commit create user: %w'' user))))))))"

definition Store_UpdateLastLogin :: "env \<Rightarrow> string \<Rightarrow> (world, unit) M" where
  "Store_UpdateLastLogin E userID =
     bindE (parse_uuid E ''postgres: user id %q: %w'' userID) (\<lambda>parsed.
     exec E (q_UpdateLastLogin parsed))"

definition Store_UpsertDemoUser :: "env \<Rightarrow> string \<Rightarrow> string \<Rightarrow> string \<Rightarrow> string \<Rightarrow> (world, unit) M" where
  "Store_UpsertDemoUser E email mobile passwordHash displayName =
     (let emailPtr = (if email \<noteq> [] then Some email else None);
          mobilePtr = (if mobile \<noteq> [] then Some mobile else None)
      in in_tx E ''postgres: begin upsert demo user: %w''
        (bindE (tryE (if email \<noteq> [] then exec E (q_FindUserByEmail email) else exec E (q_FindUserByMobile mobile))) (\<lambda>found.
         bindE (case found of
                  Inr row \<Rightarrow> ret False
                | Inl err \<Rightarrow> if errors_Is err ErrNoRows then ret True else fail err) (\<lambda>created.
         bindE (new_uuid E) (\<lambda>i.
         bindE (if email = []
                then exec E (q_UpsertDemoUserByMobile i emailPtr mobilePtr passwordHash displayName)
                else exec E (q_UpsertDemoUserByEmail i emailPtr mobilePtr passwordHash displayName)) (\<lambda>_.
         bindE (if created
                then bindE (time_Now E) (\<lambda>now. emitEvents E [NewUserCreatedEvent (uuid_String E i) now])
                else ret ()) (\<lambda>_.
         ret (Commit ''postgres: commit upsert demo user: %w'' ()))))))))"

subsection \<open>Refresh tokens\<close>

definition Store_Store :: "env \<Rightarrow> string \<Rightarrow> string \<Rightarrow> string \<Rightarrow> Time \<Rightarrow> (world, unit) M" where
  "Store_Store E userID orgID tokenHash expiresAt =
     bindE (parse_uuid E ''postgres: user id %q: %w'' userID) (\<lambda>user.
     bindE (if orgID \<noteq> []
            then bindE (parse_uuid E ''postgres: org id %q: %w'' orgID) (\<lambda>parsed. ret (Some parsed))
            else ret None) (\<lambda>org.
     bindE (new_uuid E) (\<lambda>i.
     exec E (q_StoreRefreshToken i user org tokenHash (timestamptz expiresAt)))))"

definition Store_FindValid :: "env \<Rightarrow> string \<Rightarrow> (world, string \<times> string) M" where
  "Store_FindValid E tokenHash =
     bindE (exec E (q_FindValidRefreshToken tokenHash)) (\<lambda>row.
     ret (FindValidRefreshTokenRow_UserID row, FindValidRefreshTokenRow_OrgID row))"

definition Store_Revoke :: "env \<Rightarrow> string \<Rightarrow> (world, unit) M" where
  "Store_Revoke E tokenHash = exec E (q_RevokeRefreshToken tokenHash)"

subsection \<open>API tokens\<close>

definition Store_Create :: "env \<Rightarrow> APIToken \<Rightarrow> (world, unit) M" where
  "Store_Create E t =
     bindE (parse_uuid E ''postgres: api token id %q: %w'' (APIToken_ID t)) (\<lambda>i.
     bindE (parse_uuid E ''postgres: user id %q: %w'' (APIToken_UserID t)) (\<lambda>userID.
     exec E (q_CreateAPIToken i userID (APIToken_Name t) (APIToken_Prefix t) (APIToken_TokenHash t)
               (APIToken_Scopes t) (timestamptzPtr (APIToken_ExpiresAt t)))))"

definition Store_ListByUser :: "env \<Rightarrow> string \<Rightarrow> (world, APITokenInfo list) M" where
  "Store_ListByUser E userID =
     bindE (parse_uuid E ''postgres: user id %q: %w'' userID) (\<lambda>parsed.
     bindE (exec E (q_ListAPITokensByUser parsed)) (\<lambda>rows.
     ret (map (\<lambda>row. \<lparr>APITokenInfo_ID = ListAPITokensByUserRow_ID row,
                      APITokenInfo_Name = ListAPITokensByUserRow_Name row,
                      APITokenInfo_Prefix = ListAPITokensByUserRow_Prefix row,
                      APITokenInfo_Scopes = Some (ListAPITokensByUserRow_Scopes row),
                      APITokenInfo_ExpiresAt = timePtr (ListAPITokensByUserRow_ExpiresAt row),
                      APITokenInfo_CreatedAt = ts_Time (ListAPITokensByUserRow_CreatedAt row)\<rparr>) rows)))"

definition Store_RevokeToken :: "env \<Rightarrow> string \<Rightarrow> string \<Rightarrow> (world, unit) M" where
  "Store_RevokeToken E userID tokenID =
     bindE (parse_uuid E ''postgres: user id %q: %w'' userID) (\<lambda>user.
     bindE (parse_uuid E ''postgres: api token id %q: %w'' tokenID) (\<lambda>token.
     exec E (q_RevokeAPIToken token user)))"

definition Store_FindByPrefix :: "env \<Rightarrow> string \<Rightarrow> (world, APIToken) M" where
  "Store_FindByPrefix E prefix =
     bindE (exec E (q_FindAPITokenByPrefix prefix)) (\<lambda>row.
     ret \<lparr>APIToken_ID = FindAPITokenByPrefixRow_ID row, APIToken_UserID = FindAPITokenByPrefixRow_UserID row,
          APIToken_Name = FindAPITokenByPrefixRow_Name row, APIToken_Prefix = FindAPITokenByPrefixRow_Prefix row,
          APIToken_TokenHash = FindAPITokenByPrefixRow_TokenHash row,
          APIToken_Scopes = Some (FindAPITokenByPrefixRow_Scopes row),
          APIToken_ExpiresAt = timePtr (FindAPITokenByPrefixRow_ExpiresAt row),
          APIToken_RevokedAt = timePtr (FindAPITokenByPrefixRow_RevokedAt row),
          APIToken_CreatedAt = ts_Time (FindAPITokenByPrefixRow_CreatedAt row)\<rparr>)"

section \<open>flags.go\<close>

definition Store_ListFeatureFlags :: "env \<Rightarrow> (world, FeatureFlag list) M" where
  "Store_ListFeatureFlags E =
     mapErr (\<lambda>err. Errorf ''postgres: list feature flags: %w'' [] (Some err)) (exec E (q_ListFeatureFlags E))"

section \<open>Every method keeps the schema\<close>

lemma keeps_Emit [keep]:
  assumes "\<And>s e. stmt_keeps P (q_outbox_Insert E s e)"
  shows "keeps (on_db P) (Emit E ev)"
  unfolding Emit_def Let_def by (intro keep assms)

lemma keeps_emitEvents [keep]:
  assumes "\<And>s e. stmt_keeps P (q_outbox_Insert E s e)"
  shows "keeps (on_db P) (emitEvents E evs)"
  by (induction evs) (auto simp: emitEvents.simps intro: keep assms)

lemma schema_store_challenges [keep]:
  "keeps (on_db (schema_ok E)) (Store_UpsertChallenge E ch)"
  "keeps (on_db (schema_ok E)) (Store_GetLatestChallenge E identifier channel)"
  "keeps (on_db (schema_ok E)) (Store_IncrementAttempts E i)"
  "keeps (on_db (schema_ok E)) (Store_ConsumeChallenge E i)"
  "keeps (on_db (schema_ok E)) (Store_DeleteExpiredChallenges E)"
  unfolding Store_UpsertChallenge_def Store_GetLatestChallenge_def Store_IncrementAttempts_def
    Store_ConsumeChallenge_def Store_DeleteExpiredChallenges_def
  by (intro keep)+

lemma schema_store_users [keep]:
  "keeps (on_db (schema_ok E)) (Store_FindOrCreateByEmail E email)"
  "keeps (on_db (schema_ok E)) (Store_FindOrCreateByMobile E mobile)"
  "keeps (on_db (schema_ok E)) (Store_FindByEmail E email)"
  "keeps (on_db (schema_ok E)) (Store_FindByMobile E mobile)"
  "keeps (on_db (schema_ok E)) (Store_FindByID E userID)"
  "keeps (on_db (schema_ok E)) (Store_UpdateLastLogin E userID)"
  "keeps (on_db (schema_ok E)) (Store_UpsertDemoUser E email mobile ph dn)"
  unfolding Store_FindOrCreateByEmail_def Store_FindOrCreateByMobile_def Store_FindByEmail_def
    Store_FindByMobile_def Store_FindByID_def Store_UpdateLastLogin_def Store_UpsertDemoUser_def
    Store_findByEmail_def Store_findByMobile_def Let_def
  by (intro keep)+

lemma schema_store_tokens [keep]:
  "keeps (on_db (schema_ok E)) (Store_Store E userID orgID h e)"
  "keeps (on_db (schema_ok E)) (Store_FindValid E h)"
  "keeps (on_db (schema_ok E)) (Store_Revoke E h)"
  "keeps (on_db (schema_ok E)) (Store_Create E t)"
  "keeps (on_db (schema_ok E)) (Store_ListByUser E userID)"
  "keeps (on_db (schema_ok E)) (Store_RevokeToken E userID tokenID)"
  "keeps (on_db (schema_ok E)) (Store_FindByPrefix E prefix)"
  "keeps (on_db (schema_ok E)) (Store_ListFeatureFlags E)"
  unfolding Store_Store_def Store_FindValid_def Store_Revoke_def Store_Create_def Store_ListByUser_def
    Store_RevokeToken_def Store_FindByPrefix_def Store_ListFeatureFlags_def
  by (intro keep)+

section \<open>The outbox\<close>

text \<open>Emitting events changes the outbox table only, and under the laws of the outbox it appends exactly them.\<close>

definition upto_outbox :: "db \<Rightarrow> db \<Rightarrow> bool" where
  "upto_outbox d d' \<longleftrightarrow> (\<exists>x. d' = d\<lparr>outbox := x\<rparr>)"

lemma upto_outbox_refl [simp]: "upto_outbox d d"
  unfolding upto_outbox_def by (rule exI [of _ "outbox d"]) simp

lemma upto_outbox_fields:
  assumes "upto_outbox d d'"
  shows "users d' = users d" "challenges d' = challenges d" "refresh_tokens d' = refresh_tokens d"
    "api_tokens d' = api_tokens d" "organizations d' = organizations d" "memberships d' = memberships d"
    "invites d' = invites d" "feature_flags d' = feature_flags d"
  using assms by (auto simp: upto_outbox_def)

lemma yields_emitEvents_frame [yieldD]: "yields (emitEvents E evs) d a d' \<Longrightarrow> upto_outbox d d'"
  unfolding upto_outbox_def
proof (induction evs arbitrary: d)
  case Nil
  then show ?case by (auto simp: emitEvents.simps dest!: yieldD intro: exI [of _ "outbox d"])
next
  case (Cons ev evs)
  then obtain b d1 where e: "yields (Emit E ev) d b d1" and r: "yields (emitEvents E evs) d1 a d'"
    by (auto simp: emitEvents.simps dest!: yields_bindE)
  from e obtain x where "d1 = d\<lparr>outbox := x\<rparr>"
    by (auto simp: Emit_def q_outbox_Insert_def Let_def dest!: yieldD split: if_splits sum.splits option.splits)
  with Cons.IH [OF r] show ?case by auto
qed

definition event_row :: "Event \<Rightarrow> OutboxEvent \<Rightarrow> bool" where
  "event_row ev row \<longleftrightarrow>
     OutboxEvent_Subject row = Event_Subject ev \<and> Envelope_Subject (OutboxEvent_Envelope row) = Event_Subject ev \<and>
     Envelope_Payload (OutboxEvent_Envelope row) = Event_Payload ev \<and>
     Envelope_Source (OutboxEvent_Envelope row) = EventSource \<and>
     Envelope_Version (OutboxEvent_Envelope row) = EventVersion \<and> OutboxEvent_PublishedAt row = None"

lemma yields_Emit:
  assumes "outbox_laws E" and "yields (Emit E ev) d a d'"
  shows "\<exists>row. d' = d\<lparr>outbox := outbox d @ [row]\<rparr> \<and> event_row ev row"
proof -
  from assms(2) obtain t en occurredAt rows now where
    en: "NewEnvelope E t (Event_Subject ev) (Event_Payload ev) EventSource EventVersion = Inr en"
    and ins: "outbox_Insert E (Event_Subject ev) (en\<lparr>Envelope_Timestamp := occurredAt\<rparr>) now (outbox d) = Inr rows"
    and d': "d' = d\<lparr>outbox := rows\<rparr>"
    by (auto simp: Emit_def q_outbox_Insert_def Let_def dest!: yieldD split: if_splits sum.splits option.splits)
  from assms(1) en have e: "Envelope_Subject en = Event_Subject ev" "Envelope_Payload en = Event_Payload ev"
    "Envelope_Source en = EventSource" "Envelope_Version en = EventVersion"
    unfolding outbox_laws_def by blast+
  from assms(1) ins obtain row where "rows = outbox d @ [row]" "OutboxEvent_Subject row = Event_Subject ev"
    "OutboxEvent_Envelope row = en\<lparr>Envelope_Timestamp := occurredAt\<rparr>" "OutboxEvent_PublishedAt row = None"
    unfolding outbox_laws_def by blast
  with d' e show ?thesis by (intro exI [of _ row]) (simp add: event_row_def)
qed

lemma yields_emitEvents:
  assumes "outbox_laws E" and "yields (emitEvents E evs) d a d'"
  shows "\<exists>rows. d' = d\<lparr>outbox := outbox d @ rows\<rparr> \<and> list_all2 event_row evs rows"
  using assms(2)
proof (induction evs arbitrary: d)
  case Nil
  then show ?case by (auto simp: emitEvents.simps dest!: yieldD intro: exI [of _ "[]"])
next
  case (Cons ev evs)
  then obtain b d1 where e: "yields (Emit E ev) d b d1" and r: "yields (emitEvents E evs) d1 a d'"
    by (auto simp: emitEvents.simps dest!: yields_bindE)
  from yields_Emit [OF assms(1) e] obtain row where 1: "d1 = d\<lparr>outbox := outbox d @ [row]\<rparr>" "event_row ev row" by blast
  from Cons.IH [OF r] obtain rows where "d' = d1\<lparr>outbox := outbox d1 @ rows\<rparr>" "list_all2 event_row evs rows" by blast
  with 1 show ?case by (intro exI [of _ "row # rows"]) simp
qed

end
