(* ===== verification/StoreOrgs.thy ===== *)
theory StoreOrgs
  imports Store
begin

text \<open>
  \<open>organizations.go\<close> and \<open>invites.go\<close> of \<open>internal/infrastructure/postgres\<close>: organizations, memberships and
  invitations. Each change and its lifecycle events are one transaction that first locks the
  organization row.
\<close>

section \<open>organizations.go\<close>

definition create_org_tx :: "env \<Rightarrow> Organization \<Rightarrow> string \<Rightarrow> uuid \<Rightarrow> uuid \<Rightarrow> (world, unit outcome) M" where
  "create_org_tx E org creatorID orgID userID =
     bindE (mapErr (\<lambda>err. Errorf ''postgres: create organization: %w'' [] (Some err))
              (exec E (q_CreateOrganization orgID (Organization_Name org)
                 (timestamptz (Organization_CreatedAt org)) (timestamptz (Organization_UpdatedAt org))))) (\<lambda>_.
      bindE (mapErr (\<lambda>err. Errorf ''postgres: add organization creator: %w'' [] (Some err))
              (exec E (q_AddOrganizationMembership orgID userID MembershipActive))) (\<lambda>_.
      bindE (if IsZero (Organization_CreatedAt org) then time_Now E else ret (Organization_CreatedAt org)) (\<lambda>occurredAt.
      bindE (emitEvents E
               [NewOrgCreatedEvent (Organization_ID org) (Organization_Name org) occurredAt,
                NewMembershipAddedEvent (Organization_ID org) creatorID MembershipActive occurredAt]) (\<lambda>_.
      ret (Commit ''postgres: commit create organization: %w'' ())))))"

definition Store_CreateOrg :: "env \<Rightarrow> Organization \<Rightarrow> string \<Rightarrow> (world, unit) M" where
  "Store_CreateOrg E org creatorID =
     bindE (parse_uuid E ''postgres: organization id %q: %w'' (Organization_ID org)) (\<lambda>orgID.
     bindE (parse_uuid E ''postgres: user id %q: %w'' creatorID) (\<lambda>userID.
     in_tx E ''postgres: begin create organization: %w''
       (create_org_tx E org creatorID orgID userID)))"

definition organization_of_row :: "GetOrganizationRow \<Rightarrow> Organization" where
  "organization_of_row row =
     \<lparr>Organization_ID = GetOrganizationRow_ID row, Organization_Name = GetOrganizationRow_Name row,
      Organization_CreatedAt = ts_Time (GetOrganizationRow_CreatedAt row),
      Organization_UpdatedAt = ts_Time (GetOrganizationRow_UpdatedAt row)\<rparr>"

definition Store_GetOrg :: "env \<Rightarrow> string \<Rightarrow> (world, Organization) M" where
  "Store_GetOrg E orgID =
     bindE (parse_uuid E ''postgres: organization id %q: %w'' orgID) (\<lambda>parsed.
     bindE (mapErr (\<lambda>err. if errors_Is err ErrNoRows then ErrOrgNotFound else err)
              (exec E (q_GetOrganization parsed))) (\<lambda>row.
     ret (organization_of_row row)))"

definition Store_ListOrgsForUser :: "env \<Rightarrow> string \<Rightarrow> (world, Organization list) M" where
  "Store_ListOrgsForUser E userID =
     bindE (parse_uuid E ''postgres: user id %q: %w'' userID) (\<lambda>parsed.
     bindE (exec E (q_ListOrganizationsForUser parsed)) (\<lambda>rows.
     ret (map organization_of_row rows)))"

definition membership_of_row :: "GetOrganizationMembershipRow \<Rightarrow> Membership" where
  "membership_of_row row =
     \<lparr>Membership_OrgID = GetOrganizationMembershipRow_OrgID row,
      Membership_UserID = GetOrganizationMembershipRow_UserID row,
      Membership_Status = GetOrganizationMembershipRow_Status row,
      Membership_CreatedAt = ts_Time (GetOrganizationMembershipRow_CreatedAt row),
      Membership_UpdatedAt = ts_Time (GetOrganizationMembershipRow_UpdatedAt row)\<rparr>"

definition Store_ListMembers :: "env \<Rightarrow> string \<Rightarrow> (world, Membership list) M" where
  "Store_ListMembers E orgID =
     bindE (parse_uuid E ''postgres: organization id %q: %w'' orgID) (\<lambda>parsed.
     bindE (exec E (q_ListOrganizationMembers parsed)) (\<lambda>rows.
     ret (map membership_of_row rows)))"

definition membershipIDs :: "env \<Rightarrow> string \<Rightarrow> string \<Rightarrow> (world, uuid \<times> uuid) M" where
  "membershipIDs E orgID userID =
     bindE (parse_uuid E ''postgres: organization id %q: %w'' orgID) (\<lambda>org.
     bindE (parse_uuid E ''postgres: user id %q: %w'' userID) (\<lambda>user.
     ret (org, user)))"

definition lockOrganization :: "env \<Rightarrow> uuid \<Rightarrow> (world, unit) M" where
  "lockOrganization E orgID =
     mapErr (\<lambda>err. if errors_Is err ErrNoRows then ErrOrgNotFound else err)
       (bindE (exec E (q_LockOrganization orgID)) (\<lambda>_. ret ()))"

definition getMembership :: "env \<Rightarrow> uuid \<Rightarrow> uuid \<Rightarrow> (world, Membership) M" where
  "getMembership E orgID userID =
     bindE (mapErr (\<lambda>err. if errors_Is err ErrNoRows then ErrNotMember else err)
              (exec E (q_GetOrganizationMembership orgID userID))) (\<lambda>row.
     ret (membership_of_row row))"

definition add_member_tx :: "env \<Rightarrow> string \<Rightarrow> string \<Rightarrow> MembershipStatus \<Rightarrow> uuid \<Rightarrow> uuid \<Rightarrow> (world, unit outcome) M" where
  "add_member_tx E orgID userID status org user =
     bindE (lockOrganization E org) (\<lambda>_.
      bindE (tryE (getMembership E org user)) (\<lambda>current.
      case current of
        Inr m \<Rightarrow> ret (Commit ''postgres: commit existing membership: %w'' ())
      | Inl err \<Rightarrow>
          if \<not> errors_Is err ErrNotMember then fail err
          else bindE (exec E (q_AddOrganizationMembership org user status)) (\<lambda>_.
               bindE (time_Now E) (\<lambda>now.
               bindE (emitEvents E [NewMembershipAddedEvent orgID userID status now]) (\<lambda>_.
               ret (Commit ''postgres: commit add membership: %w'' ()))))))"

definition Store_AddMember :: "env \<Rightarrow> string \<Rightarrow> string \<Rightarrow> MembershipStatus \<Rightarrow> (world, unit) M" where
  "Store_AddMember E orgID userID status =
     bindE (membershipIDs E orgID userID) (\<lambda>(org, user).
     in_tx E ''postgres: begin add membership: %w''
       (add_member_tx E orgID userID status org user))"

definition update_member_tx :: "env \<Rightarrow> string \<Rightarrow> string \<Rightarrow> MembershipStatus \<Rightarrow> uuid \<Rightarrow> uuid \<Rightarrow> (world, unit outcome) M" where
  "update_member_tx E orgID userID status org user =
     bindE (lockOrganization E org) (\<lambda>_.
      bindE (getMembership E org user) (\<lambda>current.
      bindE (if status \<noteq> MembershipActive \<and> Membership_Status current = MembershipActive
             then bindE (exec E (q_CountActiveOrganizationMembers org)) (\<lambda>count.
                  if count \<le> 1 then fail ErrLastActiveMember else ret ())
             else ret ()) (\<lambda>_.
      bindE (exec E (q_UpdateOrganizationMembershipStatus status org user)) (\<lambda>_.
      bindE (if status = MembershipSuspended \<and> Membership_Status current \<noteq> MembershipSuspended
             then bindE (time_Now E) (\<lambda>now. emitEvents E [NewMembershipSuspendedEvent orgID userID status now])
             else ret ()) (\<lambda>_.
      ret (Commit ''postgres: commit update membership: %w'' ()))))))"

definition Store_UpdateMemberStatus :: "env \<Rightarrow> string \<Rightarrow> string \<Rightarrow> MembershipStatus \<Rightarrow> (world, unit) M" where
  "Store_UpdateMemberStatus E orgID userID status =
     bindE (membershipIDs E orgID userID) (\<lambda>(org, user).
     in_tx E ''postgres: begin update membership: %w''
       (update_member_tx E orgID userID status org user))"

definition remove_member_tx :: "env \<Rightarrow> string \<Rightarrow> string \<Rightarrow> uuid \<Rightarrow> uuid \<Rightarrow> (world, unit outcome) M" where
  "remove_member_tx E orgID userID org user =
     bindE (lockOrganization E org) (\<lambda>_.
      bindE (getMembership E org user) (\<lambda>current.
      bindE (if Membership_Status current = MembershipActive
             then bindE (exec E (q_CountActiveOrganizationMembers org)) (\<lambda>count.
                  if count \<le> 1 then fail ErrLastActiveMember else ret ())
             else ret ()) (\<lambda>_.
      bindE (exec E (q_DeleteOrganizationMembership org user)) (\<lambda>_.
      bindE (time_Now E) (\<lambda>now.
      bindE (emitEvents E [NewMembershipRemovedEvent orgID userID (Membership_Status current) now]) (\<lambda>_.
      ret (Commit ''postgres: commit remove membership: %w'' ())))))))"

definition Store_RemoveMember :: "env \<Rightarrow> string \<Rightarrow> string \<Rightarrow> (world, unit) M" where
  "Store_RemoveMember E orgID userID =
     bindE (membershipIDs E orgID userID) (\<lambda>(org, user).
     in_tx E ''postgres: begin remove membership: %w''
       (remove_member_tx E orgID userID org user))"

definition Store_GetMembership :: "env \<Rightarrow> string \<Rightarrow> string \<Rightarrow> (world, Membership) M" where
  "Store_GetMembership E orgID userID =
     bindE (membershipIDs E orgID userID) (\<lambda>(org, user). getMembership E org user)"

section \<open>invites.go\<close>

definition create_invite_tx :: "env \<Rightarrow> Invite \<Rightarrow> uuid \<Rightarrow> uuid \<Rightarrow> uuid \<Rightarrow> (world, unit outcome) M" where
  "create_invite_tx E invite i orgID inviterID =
     bindE (lockOrganization E orgID) (\<lambda>_.
      bindE (mapErr (\<lambda>err. Errorf ''postgres: revoke previous pending invite: %w'' [] (Some err))
               (exec E (q_RevokePendingOrganizationInvitesForEmail E orgID (Invite_Email invite)))) (\<lambda>_.
      bindE (mapErr (\<lambda>err. Errorf ''postgres: create invite: %w'' [] (Some err))
               (exec E (q_CreateOrganizationInvite E i orgID (Invite_Email invite) (Invite_TokenHash invite)
                  inviterID (Invite_Status invite) (timestamptz (Invite_ExpiresAt invite))
                  (timestamptz (Invite_CreatedAt invite))))) (\<lambda>_.
      ret (Commit ''postgres: commit create invite: %w'' ()))))"

definition Store_CreateInvite :: "env \<Rightarrow> Invite \<Rightarrow> (world, unit) M" where
  "Store_CreateInvite E invite =
     bindE (parse_uuid E ''postgres: invite id %q: %w'' (Invite_ID invite)) (\<lambda>i.
     bindE (parse_uuid E ''postgres: organization id %q: %w'' (Invite_OrgID invite)) (\<lambda>orgID.
     bindE (parse_uuid E ''postgres: inviter id %q: %w'' (Invite_InviterID invite)) (\<lambda>inviterID.
     in_tx E ''postgres: begin create invite: %w''
       (create_invite_tx E invite i orgID inviterID))))"

definition Store_FindInviteByTokenHash :: "env \<Rightarrow> string \<Rightarrow> (world, Invite) M" where
  "Store_FindInviteByTokenHash E tokenHash =
     bindE (mapErr (\<lambda>err. if errors_Is err ErrNoRows then ErrInviteNotFound else err)
              (exec E (q_FindOrganizationInviteByTokenHash tokenHash))) (\<lambda>row.
     ret \<lparr>Invite_ID = InviteRowView_ID row, Invite_OrgID = InviteRowView_OrgID row,
          Invite_Email = InviteRowView_Email row, Invite_TokenHash = FindInviteRow_TokenHash row,
          Invite_InviterID = InviteRowView_InviterID row, Invite_Status = InviteRowView_Status row,
          Invite_ExpiresAt = ts_Time (InviteRowView_ExpiresAt row),
          Invite_AcceptedAt = timePtr (InviteRowView_AcceptedAt row),
          Invite_CreatedAt = ts_Time (InviteRowView_CreatedAt row)\<rparr>)"

definition Store_ListInvites :: "env \<Rightarrow> string \<Rightarrow> (world, Invite list) M" where
  "Store_ListInvites E orgID =
     bindE (parse_uuid E ''postgres: organization id %q: %w'' orgID) (\<lambda>parsed.
     bindE (exec E (q_ListOrganizationInvites parsed)) (\<lambda>rows.
     ret (map (\<lambda>row. \<lparr>Invite_ID = InviteRowView_ID row, Invite_OrgID = InviteRowView_OrgID row,
                      Invite_Email = InviteRowView_Email row, Invite_TokenHash = [],
                      Invite_InviterID = InviteRowView_InviterID row, Invite_Status = InviteRowView_Status row,
                      Invite_ExpiresAt = ts_Time (InviteRowView_ExpiresAt row),
                      Invite_AcceptedAt = timePtr (InviteRowView_AcceptedAt row),
                      Invite_CreatedAt = ts_Time (InviteRowView_CreatedAt row)\<rparr>) rows)))"

definition inviteIDs :: "env \<Rightarrow> string \<Rightarrow> string \<Rightarrow> (world, uuid \<times> uuid) M" where
  "inviteIDs E orgID inviteID =
     bindE (parse_uuid E ''postgres: organization id %q: %w'' orgID) (\<lambda>org.
     bindE (parse_uuid E ''postgres: invite id %q: %w'' inviteID) (\<lambda>i.
     ret (org, i)))"

definition Store_RevokeInvite :: "env \<Rightarrow> string \<Rightarrow> string \<Rightarrow> (world, unit) M" where
  "Store_RevokeInvite E orgID inviteID =
     bindE (inviteIDs E orgID inviteID) (\<lambda>(org, i).
     bindE (exec E (q_RevokeOrganizationInvite i org)) (\<lambda>affected.
     if affected = 0 then fail ErrInviteNotFound else ret ()))"

definition accept_invite_tx :: "env \<Rightarrow> string \<Rightarrow> string \<Rightarrow> Time \<Rightarrow> uuid \<Rightarrow> uuid \<Rightarrow> uuid \<Rightarrow> (world, unit outcome) M" where
  "accept_invite_tx E orgID userID acceptedAt org i user =
     bindE (lockOrganization E org) (\<lambda>_.
      bindE (tryE (getMembership E org user)) (\<lambda>current.
      bindE (case current of
               Inr m \<Rightarrow> if Membership_Status m = MembershipSuspended then fail ErrInvalidInvite else ret ()
             | Inl err \<Rightarrow> if \<not> errors_Is err ErrNotMember then fail err else ret ()) (\<lambda>_.
      bindE (mapErr (\<lambda>err. Errorf ''postgres: accept invite: %w'' [] (Some err))
               (exec E (q_AcceptOrganizationInvite (timestamptz acceptedAt) i org))) (\<lambda>affected.
      if affected = 0 then fail ErrInviteNotFound
      else
        bindE (mapErr (\<lambda>err. Errorf ''postgres: add invited member: %w'' [] (Some err))
                 (exec E (q_AddActiveOrganizationMembership org user))) (\<lambda>_.
        bindE (emitEvents E [NewMembershipAddedEvent orgID userID MembershipActive acceptedAt]) (\<lambda>_.
        ret (Commit ''postgres: commit accept invite: %w'' ())))))))"

definition Store_AcceptInvite :: "env \<Rightarrow> string \<Rightarrow> string \<Rightarrow> string \<Rightarrow> Time \<Rightarrow> (world, unit) M" where
  "Store_AcceptInvite E inviteID orgID userID acceptedAt =
     bindE (inviteIDs E orgID inviteID) (\<lambda>(org, i).
     bindE (parse_uuid E ''postgres: user id %q: %w'' userID) (\<lambda>user.
     in_tx E ''postgres: begin accept invite: %w''
       (accept_invite_tx E orgID userID acceptedAt org i user)))"

section \<open>Every method keeps the schema\<close>

lemma schema_helpers [keep]:
  "keeps I (membershipIDs E orgID userID)" "keeps I (inviteIDs E orgID inviteID)"
  "keeps (on_db P) (lockOrganization E g)" "keeps (on_db P) (getMembership E g u)"
  unfolding membershipIDs_def inviteIDs_def lockOrganization_def getMembership_def
  by (intro keep)+

lemmas tx_defs = create_org_tx_def add_member_tx_def update_member_tx_def remove_member_tx_def
  create_invite_tx_def accept_invite_tx_def

lemma schema_store_orgs [keep]:
  "keeps (on_db (schema_ok E)) (Store_CreateOrg E org creatorID)"
  "keeps (on_db (schema_ok E)) (Store_GetOrg E orgID)"
  "keeps (on_db (schema_ok E)) (Store_ListOrgsForUser E userID)"
  "keeps (on_db (schema_ok E)) (Store_ListMembers E orgID)"
  "keeps (on_db (schema_ok E)) (Store_AddMember E orgID userID status)"
  "keeps (on_db (schema_ok E)) (Store_UpdateMemberStatus E orgID userID status)"
  "keeps (on_db (schema_ok E)) (Store_RemoveMember E orgID userID)"
  "keeps (on_db (schema_ok E)) (Store_GetMembership E orgID userID)"
  unfolding Store_CreateOrg_def Store_GetOrg_def Store_ListOrgsForUser_def Store_ListMembers_def
    Store_AddMember_def Store_UpdateMemberStatus_def Store_RemoveMember_def Store_GetMembership_def tx_defs
  by (intro keep)+

lemma schema_store_invites [keep]:
  "keeps (on_db (schema_ok E)) (Store_CreateInvite E invite)"
  "keeps (on_db (schema_ok E)) (Store_FindInviteByTokenHash E h)"
  "keeps (on_db (schema_ok E)) (Store_ListInvites E orgID)"
  "keeps (on_db (schema_ok E)) (Store_RevokeInvite E orgID inviteID)"
  "keeps (on_db (schema_ok E)) (Store_AcceptInvite E inviteID orgID userID at)"
  unfolding Store_CreateInvite_def Store_FindInviteByTokenHash_def Store_ListInvites_def
    Store_RevokeInvite_def Store_AcceptInvite_def tx_defs
  by (intro keep)+

end
