(* ===== verification/StoreSignup.thy ===== *)
theory StoreSignup
  imports StoreOrgs
begin

text \<open>
  \<open>signup.go\<close> of \<open>internal/infrastructure/postgres\<close>: the self-serve sign-up transactions.
\<close>

definition accept_signup_invite :: "env \<Rightarrow> uuid \<Rightarrow> uuid \<Rightarrow> uuid \<Rightarrow> Time \<Rightarrow> (world, unit) M" where
  "accept_signup_invite E orgID inviteID userID acceptedAt =
     bindE (lockOrganization E orgID) (\<lambda>_.
     bindE (mapErr (\<lambda>err. Errorf ''postgres: accept signup invite: %w'' [] (Some err))
              (exec E (q_AcceptOrganizationInvite (timestamptz acceptedAt) inviteID orgID))) (\<lambda>affected.
     if affected = 0 then fail ErrInviteNotFound
     else mapErr (\<lambda>err. Errorf ''postgres: add signup invite member: %w'' [] (Some err))
            (exec E (q_AddActiveOrganizationMembership orgID userID))))"

definition create_signup_tx :: "env \<Rightarrow> User \<Rightarrow> Organization option \<Rightarrow> Invite option \<Rightarrow> Time \<Rightarrow> uuid \<Rightarrow> Timestamptz \<Rightarrow> (world, bool outcome) M" where
  "create_signup_tx E user org invite acceptedAt userID verifiedAt =
     bindE (mapErr (\<lambda>err. Errorf ''postgres: create signup user: %w'' [] (Some err))
                (exec E (q_CreateSignupUser userID (User_Email user) (User_PasswordHash user)
                   (User_DisplayName user) (User_Status user) verifiedAt))) (\<lambda>created.
       if created = 0 then ret (Commit ''postgres: commit duplicate signup: %w'' False)
       else
         bindE (if IsZero acceptedAt then time_Now E else ret acceptedAt) (\<lambda>occurredAt.
         bindE (emitEvents E [NewUserCreatedEvent (User_ID user) occurredAt]) (\<lambda>_.
         bindE (case invite of
                  None \<Rightarrow> ret ()
                | Some iv \<Rightarrow>
                    bindE (parse_uuid E ''postgres: organization id %q: %w'' (Invite_OrgID iv)) (\<lambda>orgID.
                    bindE (parse_uuid E ''postgres: invite id %q: %w'' (Invite_ID iv)) (\<lambda>inviteID.
                    bindE (accept_signup_invite E orgID inviteID userID acceptedAt) (\<lambda>_.
                    emitEvents E [NewMembershipAddedEvent (Invite_OrgID iv) (User_ID user) MembershipActive occurredAt])))) (\<lambda>_.
         bindE (case org of
                  None \<Rightarrow> ret ()
                | Some g \<Rightarrow>
                    bindE (parse_uuid E ''postgres: organization id %q: %w'' (Organization_ID g)) (\<lambda>orgID.
                    bindE (mapErr (\<lambda>err. Errorf ''postgres: create signup organization: %w'' [] (Some err))
                             (exec E (q_CreateOrganization orgID (Organization_Name g)
                                (timestamptz (Organization_CreatedAt g)) (timestamptz (Organization_UpdatedAt g))))) (\<lambda>_.
                    bindE (mapErr (\<lambda>err. Errorf ''postgres: add signup organization owner: %w'' [] (Some err))
                             (exec E (q_AddOrganizationMembership orgID userID MembershipActive))) (\<lambda>_.
                    emitEvents E
                      [NewOrgCreatedEvent (Organization_ID g) (Organization_Name g) occurredAt,
                       NewMembershipAddedEvent (Organization_ID g) (User_ID user) MembershipActive occurredAt])))) (\<lambda>_.
         ret (Commit ''postgres: commit signup: %w'' True))))))"

definition Store_CreateSignupUser ::
  "env \<Rightarrow> User \<Rightarrow> Organization option \<Rightarrow> Invite option \<Rightarrow> Time \<Rightarrow> (world, bool) M" where
  "Store_CreateSignupUser E user org invite acceptedAt =
     bindE (parse_uuid E ''postgres: user id %q: %w'' (User_ID user)) (\<lambda>userID.
     (let verifiedAt = (if User_EmailVerified user then timestamptz acceptedAt else None) in
      in_tx E ''postgres: begin signup: %w''
       (create_signup_tx E user org invite acceptedAt userID verifiedAt)))"

definition reissue_tx :: "env \<Rightarrow> User \<Rightarrow> OTPChallenge option \<Rightarrow> Invite option \<Rightarrow> Time \<Rightarrow> (world, (string \<times> bool) outcome) M" where
  "reissue_tx E user challenge invite acceptedAt =
     bindE (tryE (exec E (q_ReissueSignupUser (User_PasswordHash user) (User_DisplayName user) (User_Email user)))) (\<lambda>found.
      case found of
        Inl err \<Rightarrow>
          if errors_Is err ErrNoRows then ret (Rollback ([], False))
          else fail (Errorf ''postgres: reissue signup user: %w'' [] (Some err))
      | Inr userID \<Rightarrow>
          bindE (case challenge of
                   None \<Rightarrow> ret ()
                 | Some ch \<Rightarrow>
                     bindE (mapErr (\<lambda>err. Errorf ''postgres: invalidate signup challenges: %w'' [] (Some err))
                              (exec E (q_DeleteChallengesForIdentifier (OTPChallenge_Identifier ch) (OTPChallenge_Channel ch)))) (\<lambda>_.
                     bindE (parse_uuid E ''postgres: challenge id %q: %w'' (OTPChallenge_ID ch)) (\<lambda>challengeID.
                     (let createdAt = (if IsZero (OTPChallenge_CreatedAt ch) then acceptedAt
                                       else OTPChallenge_CreatedAt ch) in
                      mapErr (\<lambda>err. Errorf ''postgres: write signup challenge: %w'' [] (Some err))
                        (exec E (q_UpsertChallenge challengeID (OTPChallenge_Identifier ch) (OTPChallenge_Channel ch)
                           (OTPChallenge_CodeHash ch) (timestamptz (OTPChallenge_ExpiresAt ch))
                           (timestamptz createdAt))))))) (\<lambda>_.
          case invite of
            None \<Rightarrow> ret (Commit ''postgres: commit reissue signup: %w'' (userID, True))
          | Some iv \<Rightarrow>
              bindE (parse_uuid E ''postgres: user id %q: %w'' userID) (\<lambda>userUUID.
              bindE (parse_uuid E ''postgres: organization id %q: %w'' (Invite_OrgID iv)) (\<lambda>orgID.
              bindE (parse_uuid E ''postgres: invite id %q: %w'' (Invite_ID iv)) (\<lambda>inviteID.
              bindE (mapErr (\<lambda>err. Errorf ''postgres: activate signup invite: %w'' [] (Some err))
                       (exec E (q_VerifySignupUser (timestamptz acceptedAt) userUUID))) (\<lambda>affected.
              if affected = 0 then ret (Rollback ([], False))
              else
                bindE (accept_signup_invite E orgID inviteID userUUID acceptedAt) (\<lambda>_.
                bindE (emitEvents E [NewMembershipAddedEvent (Invite_OrgID iv) userID MembershipActive acceptedAt]) (\<lambda>_.
                ret (Commit ''postgres: commit reissue signup: %w'' (userID, True))))))))))"

definition Store_ReissuePendingSignup ::
  "env \<Rightarrow> User \<Rightarrow> OTPChallenge option \<Rightarrow> Invite option \<Rightarrow> Time \<Rightarrow> (world, string \<times> bool) M" where
  "Store_ReissuePendingSignup E user challenge invite acceptedAt =
     in_tx E ''postgres: begin reissue signup: %w''
       (reissue_tx E user challenge invite acceptedAt)"

definition Store_VerifySignup :: "env \<Rightarrow> string \<Rightarrow> Time \<Rightarrow> (world, unit) M" where
  "Store_VerifySignup E userID verifiedAt =
     bindE (parse_uuid E ''postgres: user id %q: %w'' userID) (\<lambda>i.
     bindE (mapErr (\<lambda>err. Errorf ''postgres: verify signup: %w'' [] (Some err))
              (exec E (q_VerifySignupUser (timestamptz verifiedAt) i))) (\<lambda>affected.
     if affected = 0 then fail ErrUserNotFound else ret ()))"

definition purge_tx :: "env \<Rightarrow> Time \<Rightarrow> (world, int outcome) M" where
  "purge_tx E before =
     bindE (mapErr (\<lambda>err. Errorf ''postgres: purge unverified signups: %w'' [] (Some err))
               (exec E (q_PurgeUnverifiedSignups (timestamptz before)))) (\<lambda>removed.
      bindE (mapErr (\<lambda>err. Errorf ''postgres: purge empty signup organizations: %w'' [] (Some err))
               (exec E q_DeleteEmptyOrganizations)) (\<lambda>_.
      ret (Commit ''postgres: commit purge signups: %w'' removed)))"

definition Store_PurgeUnverifiedSignups :: "env \<Rightarrow> Time \<Rightarrow> (world, int) M" where
  "Store_PurgeUnverifiedSignups E before =
     in_tx E ''postgres: begin purge signups: %w''
       (purge_tx E before)"

section \<open>Every method keeps the schema\<close>

lemma schema_store_signup [keep]:
  "keeps (on_db (schema_ok E)) (Store_CreateSignupUser E user org invite at)"
  "keeps (on_db (schema_ok E)) (Store_ReissuePendingSignup E user challenge invite at)"
  "keeps (on_db (schema_ok E)) (Store_VerifySignup E userID at)"
  "keeps (on_db (schema_ok E)) (Store_PurgeUnverifiedSignups E before)"
  unfolding Store_CreateSignupUser_def Store_ReissuePendingSignup_def Store_VerifySignup_def
    Store_PurgeUnverifiedSignups_def accept_signup_invite_def create_signup_tx_def reissue_tx_def purge_tx_def Let_def
  by (intro keep)+

end
