(* ===== verification/OrgInvariant.thy ===== *)
theory OrgInvariant
  imports StoreSignup
begin

text \<open>
  The rule behind \<open>ErrLastActiveMember\<close>: every organization has an active member. \<open>tenancy_ok\<close> adds it to
  the schema, and every method of the store keeps it, with faults and with rollbacks, except
  \<open>PurgeUnverifiedSignups\<close>, which deletes members without that check and only removes the organizations it leaves empty.
\<close>

definition every_org_active :: "db \<Rightarrow> bool" where
  "every_org_active d \<longleftrightarrow>
     (\<forall>g \<in> org_ids d. \<exists>m \<in> set (memberships d). m_OrgID m = g \<and> m_Status m = ''active'')"

definition tenancy_ok :: "env \<Rightarrow> db \<Rightarrow> bool" where
  "tenancy_ok E d \<longleftrightarrow> schema_ok E d \<and> every_org_active d"

section \<open>Statements\<close>

lemma tenancy_frame:
  assumes "stmt_keeps (schema_ok E) q"
    and "\<And>now rank d a d'. q now rank d = Inr (a, d') \<Longrightarrow>
           organizations d' = organizations d \<and> memberships d' = memberships d"
  shows "stmt_keeps (tenancy_ok E) q"
proof (rule stmt_keepsI)
  fix now rank d a d' assume ok: "tenancy_ok E d" and run: "q now rank d = Inr (a, d')"
  from ok run assms(1) have "schema_ok E d'" unfolding tenancy_ok_def stmt_keeps_def by blast
  with ok assms(2) [OF run] show "tenancy_ok E d'" by (simp add: tenancy_ok_def every_org_active_def)
qed

lemma insert_user_orgs:
  "insert_user row d = Inr d' \<Longrightarrow> organizations d' = organizations d \<and> memberships d' = memberships d"
  by (auto dest: insert_user_frame)

lemma tenancy_users [keep]:
  "stmt_keeps (tenancy_ok E) (q_CreateSignupUser i email ph dn st v)"
  "stmt_keeps (tenancy_ok E) (q_CreateUserWithEmail i email st)"
  "stmt_keeps (tenancy_ok E) (q_CreateUserWithMobile i mobile)"
  "stmt_keeps (tenancy_ok E) (q_ReissueSignupUser ph dn email)"
  "stmt_keeps (tenancy_ok E) (q_UpdateLastLogin i)"
  "stmt_keeps (tenancy_ok E) (q_VerifySignupUser v i)"
  by (rule tenancy_frame, rule keep,
      auto simp: q_CreateSignupUser_def q_CreateUserWithEmail_def q_CreateUserWithMobile_def q_ReissueSignupUser_def
        q_UpdateLastLogin_def q_VerifySignupUser_def Let_def stmt_inv dest!: insert_user_orgs split: if_splits)+

lemma tenancy_demo [keep]:
  "stmt_keeps (tenancy_ok E) (q_UpsertDemoUserByEmail i em mo ph dn)"
  "stmt_keeps (tenancy_ok E) (q_UpsertDemoUserByMobile i em mo ph dn)"
proof -
  have f: "upsert_demo key i em mo ph dn now rank d = Inr (a, d') \<Longrightarrow>
      organizations d' = organizations d \<and> memberships d' = memberships d" for key now rank d a d'
    by (auto simp: upsert_demo_def Let_def stmt_inv dest!: insert_user_orgs split: if_splits)
  show "stmt_keeps (tenancy_ok E) (q_UpsertDemoUserByEmail i em mo ph dn)"
    unfolding q_UpsertDemoUserByEmail_def by (rule tenancy_frame [OF schema_upsert_demo f]) simp
  show "stmt_keeps (tenancy_ok E) (q_UpsertDemoUserByMobile i em mo ph dn)"
    unfolding q_UpsertDemoUserByMobile_def by (rule tenancy_frame [OF schema_upsert_demo f]) simp
qed

lemma tenancy_tokens [keep]:
  "stmt_keeps (tenancy_ok E) (q_ConsumeChallenge i)"
  "stmt_keeps (tenancy_ok E) (q_DeleteChallengesForIdentifier identifier channel)"
  "stmt_keeps (tenancy_ok E) q_DeleteExpiredChallenges"
  "stmt_keeps (tenancy_ok E) (q_IncrementChallengeAttempts i)"
  "stmt_keeps (tenancy_ok E) (q_UpsertChallenge i identifier channel h e c)"
  "stmt_keeps (tenancy_ok E) (q_RevokeRefreshToken h)"
  "stmt_keeps (tenancy_ok E) (q_StoreRefreshToken i u g h x)"
  "stmt_keeps (tenancy_ok E) (q_CreateAPIToken i u name prefix h sc x)"
  "stmt_keeps (tenancy_ok E) (q_RevokeAPIToken i u)"
  "stmt_keeps (tenancy_ok E) (q_outbox_Insert E' s env)"
  by (rule tenancy_frame, rule keep,
      auto simp: q_ConsumeChallenge_def q_DeleteChallengesForIdentifier_def q_DeleteExpiredChallenges_def
        q_IncrementChallengeAttempts_def q_UpsertChallenge_def q_RevokeRefreshToken_def q_StoreRefreshToken_def
        q_CreateAPIToken_def q_RevokeAPIToken_def q_outbox_Insert_def split: option.splits if_splits sum.splits)+

lemma tenancy_invites [keep]:
  "stmt_keeps (tenancy_ok E) (q_AcceptOrganizationInvite acc i g)"
  "stmt_keeps (tenancy_ok E) (q_RevokeOrganizationInvite i g)"
  "stmt_keeps (tenancy_ok E) (q_RevokePendingOrganizationInvitesForEmail E' g email)"
  "stmt_keeps (tenancy_ok E) (q_CreateOrganizationInvite E i g email h who st e c)"
  by (rule tenancy_frame, rule keep,
      auto simp: q_AcceptOrganizationInvite_def q_RevokeOrganizationInvite_def Let_def
        q_RevokePendingOrganizationInvitesForEmail_def q_CreateOrganizationInvite_def
        split: option.splits if_splits)+

text \<open>Statements that only add memberships, or only make one active.\<close>

lemma insert_member_Inr:
  "insert_member g u st now d = Inr d' \<longleftrightarrow>
     st \<in> membership_statuses \<and> g \<in> org_ids d \<and> u \<in> user_ids d \<and>
     d' = d\<lparr>memberships := memberships d @
       [\<lparr>m_OrgID = g, m_UserID = u, m_Status = st, m_CreatedAt = now, m_UpdatedAt = now\<rparr>]\<rparr>"
  by (auto simp: insert_member_def)

lemma tenancy_AddOrganizationMembership [keep]: "stmt_keeps (tenancy_ok E) (q_AddOrganizationMembership g u st)"
proof (rule stmt_keepsI)
  fix now rank d a d' assume ok: "tenancy_ok E d" and run: "q_AddOrganizationMembership g u st now rank d = Inr (a, d')"
  have "schema_ok E d'"
    using ok run schema_AddOrganizationMembership unfolding tenancy_ok_def stmt_keeps_def by blast
  moreover have "every_org_active d'"
    using ok run by (fastforce simp: tenancy_ok_def every_org_active_def q_AddOrganizationMembership_def stmt_inv
        insert_member_Inr split: if_splits)
  ultimately show "tenancy_ok E d'" by (simp add: tenancy_ok_def)
qed

lemma every_org_active_map:
  assumes "every_org_active d" and "\<And>m. m_OrgID (f m) = m_OrgID m"
    and "\<And>m. m \<in> set (memberships d) \<Longrightarrow> m_Status m = ''active'' \<Longrightarrow> m_Status (f m) = ''active''"
  shows "every_org_active (d\<lparr>memberships := map f (memberships d)\<rparr>)"
  using assms by (fastforce simp: every_org_active_def)

lemma tenancy_AddActiveOrganizationMembership [keep]:
  "stmt_keeps (tenancy_ok E) (q_AddActiveOrganizationMembership g u)"
proof (rule stmt_keepsI)
  fix now rank d a d' assume ok: "tenancy_ok E d" and run: "q_AddActiveOrganizationMembership g u now rank d = Inr (a, d')"
  have "schema_ok E d'"
    using ok run schema_AddActiveOrganizationMembership unfolding tenancy_ok_def stmt_keeps_def by blast
  moreover have "every_org_active d'"
  proof (cases "\<exists>m \<in> set (memberships d). is_member g u m")
    case True
    with run ok show ?thesis
      by (auto simp: q_AddActiveOrganizationMembership_def tenancy_ok_def intro!: every_org_active_map)
  next
    case False
    with run ok show ?thesis
      by (fastforce simp: q_AddActiveOrganizationMembership_def tenancy_ok_def every_org_active_def stmt_inv
            insert_member_Inr)
  qed
  ultimately show "tenancy_ok E d'" by (simp add: tenancy_ok_def)
qed

section \<open>Transactions\<close>

text \<open>Creating an organization and its owner's membership.\<close>

lemma create_org_active:
  assumes ok: "tenancy_ok E d"
    and c: "q_CreateOrganization g name ca ua now rank d = Inr (x, d1)"
    and m: "q_AddOrganizationMembership g u ''active'' now' rank' d1 = Inr (y, d2)"
  shows "tenancy_ok E d2"
proof -
  from c have d1: "g \<notin> org_ids d" "memberships d1 = memberships d" "org_ids d1 = insert g (org_ids d)"
    by (auto simp: q_CreateOrganization_def split: option.splits if_splits)
  from ok c have s1: "schema_ok E d1" using schema_CreateOrganization unfolding tenancy_ok_def stmt_keeps_def by blast
  from s1 m have s2: "schema_ok E d2" using schema_AddOrganizationMembership unfolding stmt_keeps_def by blast
  have "\<not> (\<exists>m \<in> set (memberships d1). is_member g u m)"
    using ok d1 by (auto simp: tenancy_ok_def schema_ok_def members_ok_def is_member_def image_subset_iff)
  then have "insert_member g u ''active'' now' d1 = Inr d2"
    using m by (simp add: q_AddOrganizationMembership_def stmt_inv)
  then have "every_org_active d2"
    using ok d1 unfolding insert_member_Inr by (auto simp: tenancy_ok_def every_org_active_def)
  with s2 show ?thesis by (simp add: tenancy_ok_def)
qed

text \<open>Taking an active membership away when at least two are active.\<close>

lemma two_active:
  assumes "distinct (map (\<lambda>m. (m_OrgID m, m_UserID m)) ms)"
    and "\<not> length (filter (\<lambda>m. m_OrgID m = g \<and> m_Status m = ''active'') ms) \<le> Suc 0"
  shows "\<exists>m \<in> set ms. m_OrgID m = g \<and> m_Status m = ''active'' \<and> m_UserID m \<noteq> u"
proof -
  let ?fs = "filter (\<lambda>m. m_OrgID m = g \<and> m_Status m = ''active'') ms"
  have d: "distinct (map (\<lambda>m. (m_OrgID m, m_UserID m)) ?fs)" using assms(1) by (rule distinct_map_filter)
  from assms(2) obtain a b r where fs: "?fs = a # b # r"
    by (cases ?fs; cases "tl ?fs") auto
  then have "a \<in> set ?fs" "b \<in> set ?fs" by (simp_all only: list.set insert_iff) auto
  then have ab: "a \<in> set ms" "b \<in> set ms" "m_OrgID a = g" "m_OrgID b = g" "m_Status a = ''active''" "m_Status b = ''active''"
    by auto
  have "m_UserID a \<noteq> m_UserID b" using d ab unfolding fs by auto
  then have "m_UserID a \<noteq> u \<or> m_UserID b \<noteq> u" by metis
  with ab show ?thesis by blast
qed

lemma yields_lockOrganization [yieldD]: "yields (lockOrganization E g) d a d' \<Longrightarrow> d' = d \<and> g \<in> org_ids d"
  unfolding lockOrganization_def
  by (auto simp: q_LockOrganization_def stmt_inv dest!: yieldD filter_scan_Cons)

lemma membership_of_row_status [simp]: "Membership_Status (membership_of_row (membership_row r)) = m_Status r"
  by (simp add: membership_of_row_def membership_row_def)

lemma yields_getMembership [yieldD]:
  "yields (getMembership E g u) d m d' \<Longrightarrow>
     d' = d \<and> (\<exists>r. r \<in> set (memberships d) \<and> is_member g u r \<and> m = membership_of_row (membership_row r))"
  unfolding getMembership_def
  by (auto simp: q_GetOrganizationMembership_def stmt_inv dest!: yieldD filter_scan_Cons)

lemma breaks_getMembership: "breaks (getMembership E g u) d e d' \<Longrightarrow> d' = d"
  unfolding getMembership_def by (auto dest!: breaks_bindE_ret breaks_mapErr breaks_exec_reads)

lemma yields_membershipIDs [yieldD]:
  "yields (membershipIDs E orgID userID) d p d' \<Longrightarrow>
     d' = d \<and> uuid_Parse E orgID = Inr (fst p) \<and> uuid_Parse E userID = Inr (snd p)"
  unfolding membershipIDs_def by (auto dest!: yieldD)

lemma tenancy_upto_outbox: "upto_outbox d d' \<Longrightarrow> tenancy_ok E d' \<longleftrightarrow> tenancy_ok E d"
  by (simp add: tenancy_ok_def schema_ok_def every_org_active_def upto_outbox_fields)

text \<open>The guard of both demotions: an active member leaves only when another one is active.\<close>

lemma yields_guard:
  assumes "yields (if c then bindE (exec E (q_CountActiveOrganizationMembers g)) (\<lambda>count.
                               if count \<le> 1 then fail ErrLastActiveMember else ret ())
                   else ret ()) d x d'"
  shows "d' = d \<and> (c \<longrightarrow> \<not> length (filter (\<lambda>m. m_OrgID m = g \<and> m_Status m = ''active'') (memberships d)) \<le> Suc 0)"
  using assms
  by (cases c) (auto simp: q_CountActiveOrganizationMembers_def dest!: yieldD split: if_splits)

lemma demote_active:
  assumes ok: "tenancy_ok E d" and s: "schema_ok E d'"
    and orgs: "organizations d' = organizations d"
    and same: "\<And>m. m \<in> set (memberships d) \<Longrightarrow> \<not> is_member g u m \<Longrightarrow> m \<in> set (memberships d')"
    and two: "(\<exists>r \<in> set (memberships d). is_member g u r \<and> m_Status r = ''active'') \<Longrightarrow>
              \<not> length (filter (\<lambda>m. m_OrgID m = g \<and> m_Status m = ''active'') (memberships d)) \<le> Suc 0"
  shows "tenancy_ok E d'"
  unfolding tenancy_ok_def every_org_active_def
proof (intro conjI ballI)
  fix h assume "h \<in> org_ids d'"
  then obtain m where m: "m \<in> set (memberships d)" "m_OrgID m = h" "m_Status m = ''active''"
    using ok orgs by (auto simp: tenancy_ok_def every_org_active_def)
  show "\<exists>m \<in> set (memberships d'). m_OrgID m = h \<and> m_Status m = ''active''"
  proof (cases "is_member g u m")
    case False
    with m same show ?thesis by blast
  next
    case True
    have "distinct (map (\<lambda>m. (m_OrgID m, m_UserID m)) (memberships d))"
      using ok by (simp add: tenancy_ok_def schema_ok_def members_ok_def)
    from two_active [OF this two, of u] True m obtain m' where
      "m' \<in> set (memberships d)" "m_OrgID m' = g" "m_Status m' = ''active''" "m_UserID m' \<noteq> u" by blast
    with same [of m'] True m show ?thesis by (intro bexI [of _ m']) (auto simp: is_member_def)
  qed
qed (rule s)

lemma unique_member:
  assumes "schema_ok E d" and "m \<in> set (memberships d)" and "m' \<in> set (memberships d)"
    and "is_member g u m" and "is_member g u m'"
  shows "m = m'"
  using assms by (auto simp: schema_ok_def members_ok_def is_member_def distinct_map inj_on_def)

lemma yields_emit_when:
  "yields (if c then bindE (time_Now E) (\<lambda>now. emitEvents E (evs now)) else ret ()) d a d' \<Longrightarrow> upto_outbox d d'"
  by (auto dest!: yieldD split: if_splits)

lemma tenancy_update_tx:
  assumes ok: "tenancy_ok E d" and run: "yields (update_member_tx E orgID userID status g u) d x d'"
  shows "tenancy_ok E d'"
proof -
  from run obtain r now rank d1 where r: "r \<in> set (memberships d)" "is_member g u r"
    and two: "status \<noteq> ''active'' \<and> m_Status r = ''active'' \<longrightarrow>
       \<not> length (filter (\<lambda>m. m_OrgID m = g \<and> m_Status m = ''active'') (memberships d)) \<le> Suc 0"
    and upd: "q_UpdateOrganizationMembershipStatus status g u now rank d = Inr ((), d1)"
    and d': "upto_outbox d1 d'"
    unfolding update_member_tx_def
    by (clarsimp simp: membership_defs dest!: yields_guard yields_emit_when yieldD)
  have s: "schema_ok E d1"
    using ok upd schema_UpdateOrganizationMembershipStatus unfolding tenancy_ok_def stmt_keeps_def by blast
  from upd have d1: "d1 = d\<lparr>memberships :=
      map (\<lambda>m. if is_member g u m then m\<lparr>m_Status := status, m_UpdatedAt := now\<rparr> else m) (memberships d)\<rparr>"
    by (auto simp: q_UpdateOrganizationMembershipStatus_def split: if_splits)
  have "tenancy_ok E d1"
  proof (cases "status = ''active''")
    case True
    then show ?thesis using ok s unfolding tenancy_ok_def d1 by (auto intro!: every_org_active_map)
  next
    case False
    have uniq: "m_Status r' = m_Status r" if "r' \<in> set (memberships d)" "is_member g u r'" for r'
      using unique_member [of E d r r' g u] ok r that by (auto simp: tenancy_ok_def)
    show ?thesis
      by (rule demote_active [OF ok s, of g u]) (use False two uniq in \<open>auto simp: d1\<close>)
  qed
  with d' show ?thesis by (simp add: tenancy_upto_outbox)
qed

lemma tenancy_remove_tx:
  assumes ok: "tenancy_ok E d" and run: "yields (remove_member_tx E orgID userID g u) d x d'"
  shows "tenancy_ok E d'"
proof -
  from run obtain r now rank d1 where r: "r \<in> set (memberships d)" "is_member g u r"
    and two: "m_Status r = ''active'' \<longrightarrow>
       \<not> length (filter (\<lambda>m. m_OrgID m = g \<and> m_Status m = ''active'') (memberships d)) \<le> Suc 0"
    and del: "q_DeleteOrganizationMembership g u now rank d = Inr ((), d1)"
    and d': "upto_outbox d1 d'"
    unfolding remove_member_tx_def
    by (clarsimp simp: membership_defs dest!: yields_guard yields_emit_when yieldD)
  have s: "schema_ok E d1"
    using ok del schema_DeleteOrganizationMembership unfolding tenancy_ok_def stmt_keeps_def by blast
  from del have d1: "d1 = d\<lparr>memberships := filter (\<lambda>m. \<not> is_member g u m) (memberships d)\<rparr>"
    by (simp add: q_DeleteOrganizationMembership_def)
  have uniq: "m_Status r' = m_Status r" if "r' \<in> set (memberships d)" "is_member g u r'" for r'
    using unique_member [of E d r r' g u] ok r that by (auto simp: tenancy_ok_def)
  have "tenancy_ok E d1"
    by (rule demote_active [OF ok s, of g u]) (use two uniq in \<open>auto simp: d1\<close>)
  with d' show ?thesis by (simp add: tenancy_upto_outbox)
qed

text \<open>A new organization lacks an active member only between its two insertions.\<close>

lemma restores_create_org:
  assumes "\<And>a. restores (tenancy_ok E) (f a)"
  shows "restores (tenancy_ok E)
    (bindE (mapErr h (exec E' (q_CreateOrganization g name ca ua)))
       (\<lambda>_. bindE (mapErr h' (exec E' (q_AddOrganizationMembership g u MembershipActive))) f))"
proof (rule restoresI)
  fix d a d' assume ok: "tenancy_ok E d" and run: "yields (bindE (mapErr h (exec E' (q_CreateOrganization g name ca ua)))
       (\<lambda>_. bindE (mapErr h' (exec E' (q_AddOrganizationMembership g u MembershipActive))) f)) d a d'"
  from run obtain now rank x d1 now' rank' y d2 where
    "q_CreateOrganization g name ca ua now rank d = Inr (x, d1)"
    "q_AddOrganizationMembership g u ''active'' now' rank' d1 = Inr (y, d2)"
    and rest: "yields (f y) d2 a d'"
    unfolding membership_defs by (blast dest!: yieldD)
  with ok have "tenancy_ok E d2" by (blast intro: create_org_active)
  with assms rest show "tenancy_ok E d'" unfolding restores_def by blast
qed

lemma tenancy_store_challenges [keep]:
  "keeps (on_db (tenancy_ok E)) (Store_UpsertChallenge E ch)"
  "keeps (on_db (tenancy_ok E)) (Store_GetLatestChallenge E identifier channel)"
  "keeps (on_db (tenancy_ok E)) (Store_IncrementAttempts E i)"
  "keeps (on_db (tenancy_ok E)) (Store_ConsumeChallenge E i)"
  "keeps (on_db (tenancy_ok E)) (Store_DeleteExpiredChallenges E)"
  unfolding Store_UpsertChallenge_def Store_GetLatestChallenge_def Store_IncrementAttempts_def
    Store_ConsumeChallenge_def Store_DeleteExpiredChallenges_def
  by (intro keep)+

lemma tenancy_store_users [keep]:
  "keeps (on_db (tenancy_ok E)) (Store_FindOrCreateByEmail E email)"
  "keeps (on_db (tenancy_ok E)) (Store_FindOrCreateByMobile E mobile)"
  "keeps (on_db (tenancy_ok E)) (Store_FindByEmail E email)"
  "keeps (on_db (tenancy_ok E)) (Store_FindByMobile E mobile)"
  "keeps (on_db (tenancy_ok E)) (Store_FindByID E userID)"
  "keeps (on_db (tenancy_ok E)) (Store_UpdateLastLogin E userID)"
  "keeps (on_db (tenancy_ok E)) (Store_UpsertDemoUser E email mobile ph dn)"
  unfolding Store_FindOrCreateByEmail_def Store_FindOrCreateByMobile_def Store_FindByEmail_def
    Store_FindByMobile_def Store_FindByID_def Store_UpdateLastLogin_def Store_UpsertDemoUser_def
    Store_findByEmail_def Store_findByMobile_def Let_def
  by (intro keep)+

lemma tenancy_store_tokens [keep]:
  "keeps (on_db (tenancy_ok E)) (Store_Store E userID orgID h e)"
  "keeps (on_db (tenancy_ok E)) (Store_FindValid E h)"
  "keeps (on_db (tenancy_ok E)) (Store_Revoke E h)"
  "keeps (on_db (tenancy_ok E)) (Store_Create E t)"
  "keeps (on_db (tenancy_ok E)) (Store_ListByUser E userID)"
  "keeps (on_db (tenancy_ok E)) (Store_RevokeToken E userID tokenID)"
  "keeps (on_db (tenancy_ok E)) (Store_FindByPrefix E prefix)"
  "keeps (on_db (tenancy_ok E)) (Store_ListFeatureFlags E)"
  unfolding Store_Store_def Store_FindValid_def Store_Revoke_def Store_Create_def Store_ListByUser_def
    Store_RevokeToken_def Store_FindByPrefix_def Store_ListFeatureFlags_def
  by (intro keep)+

lemma tenancy_org_txs:
  "keeps (on_db (tenancy_ok E)) (in_tx E b (create_org_tx E org creatorID g u))"
  "keeps (on_db (tenancy_ok E)) (in_tx E b (update_member_tx E orgID userID status g u))"
  "keeps (on_db (tenancy_ok E)) (in_tx E b (remove_member_tx E orgID userID g u))"
proof -
  show "keeps (on_db (tenancy_ok E)) (in_tx E b (create_org_tx E org creatorID g u))"
    unfolding create_org_tx_def
    by (rule keeps_in_tx_restores, rule restores_create_org, rule restores_keeps) (intro keep)
qed (rule keeps_in_tx_yields, blast intro: tenancy_update_tx tenancy_remove_tx)+

lemma tenancy_store_orgs [keep]:
  "keeps (on_db (tenancy_ok E)) (Store_CreateOrg E org creatorID)"
  "keeps (on_db (tenancy_ok E)) (Store_GetOrg E orgID)"
  "keeps (on_db (tenancy_ok E)) (Store_ListOrgsForUser E userID)"
  "keeps (on_db (tenancy_ok E)) (Store_ListMembers E orgID)"
  "keeps (on_db (tenancy_ok E)) (Store_AddMember E orgID userID status)"
  "keeps (on_db (tenancy_ok E)) (Store_UpdateMemberStatus E orgID userID status)"
  "keeps (on_db (tenancy_ok E)) (Store_RemoveMember E orgID userID)"
  "keeps (on_db (tenancy_ok E)) (Store_GetMembership E orgID userID)"
  unfolding Store_CreateOrg_def Store_GetOrg_def Store_ListOrgsForUser_def Store_ListMembers_def
    Store_AddMember_def Store_UpdateMemberStatus_def Store_RemoveMember_def Store_GetMembership_def
    add_member_tx_def
  by (rule tenancy_org_txs | rule keep)+

lemma tenancy_store_invites [keep]:
  "keeps (on_db (tenancy_ok E)) (Store_CreateInvite E invite)"
  "keeps (on_db (tenancy_ok E)) (Store_FindInviteByTokenHash E h)"
  "keeps (on_db (tenancy_ok E)) (Store_ListInvites E orgID)"
  "keeps (on_db (tenancy_ok E)) (Store_RevokeInvite E orgID inviteID)"
  "keeps (on_db (tenancy_ok E)) (Store_AcceptInvite E inviteID orgID userID at)"
  unfolding Store_CreateInvite_def Store_FindInviteByTokenHash_def Store_ListInvites_def
    Store_RevokeInvite_def Store_AcceptInvite_def create_invite_tx_def accept_invite_tx_def
  by (intro keep)+

lemma tenancy_accept_signup_invite [keep]:
  "keeps (on_db (tenancy_ok E)) (accept_signup_invite E g i u at)"
  unfolding accept_signup_invite_def by (intro keep)

lemma tenancy_signup_tx:
  "keeps (on_db (tenancy_ok E)) (in_tx E b (create_signup_tx E user org invite at u v))"
  unfolding create_signup_tx_def
  by (rule keeps_in_tx_restores) (rule restores_create_org keep | rule restores_keeps)+

lemma tenancy_store_signup [keep]:
  "keeps (on_db (tenancy_ok E)) (Store_CreateSignupUser E user org invite at)"
  "keeps (on_db (tenancy_ok E)) (Store_ReissuePendingSignup E user challenge invite at)"
  "keeps (on_db (tenancy_ok E)) (Store_VerifySignup E userID at)"
  unfolding Store_CreateSignupUser_def Store_ReissuePendingSignup_def Store_VerifySignup_def reissue_tx_def Let_def
  by (rule tenancy_signup_tx | rule keep)+

end
