(* ===== verification/Recorded.thy ===== *)
theory Recorded
  imports OrgInvariant
begin

text \<open>
  The transactional outbox is complete: every user, organization and membership that a committed
  transaction created was announced by an event of the same transaction. A \<open>fact\<close> is a row that must be
  announced, \<open>facts\<close> are those of the tables, \<open>told\<close> those that the outbox announces, and \<open>debt\<close> is the
  difference. A statement may run up debt inside a transaction; the events emitted before Commit pay it.
\<close>

datatype fact = UserFact uuid | OrgFact uuid | MemberFact uuid uuid

definition facts :: "db \<Rightarrow> fact set" where
  "facts d = (UserFact \<circ> u_ID) ` set (users d) \<union> (OrgFact \<circ> o_ID) ` set (organizations d) \<union>
     (\<lambda>m. MemberFact (m_OrgID m) (m_UserID m)) ` set (memberships d)"

fun announces :: "env \<Rightarrow> string \<Rightarrow> EventPayload \<Rightarrow> fact set" where
  "announces E s (UserCreatedPayload i t) =
     (case uuid_Parse E i of Inr u \<Rightarrow> if s = SubjectUserCreated then {UserFact u} else {} | Inl e \<Rightarrow> {})"
| "announces E s (OrgCreatedPayload i n t) =
     (case uuid_Parse E i of Inr g \<Rightarrow> if s = SubjectOrgCreated then {OrgFact g} else {} | Inl e \<Rightarrow> {})"
| "announces E s (MembershipAddedPayload i j st t) =
     (case (uuid_Parse E i, uuid_Parse E j) of
        (Inr g, Inr u) \<Rightarrow> if s = SubjectMembershipAdded then {MemberFact g u} else {} | _ \<Rightarrow> {})"
| "announces E s p = {}"

definition told :: "env \<Rightarrow> OutboxEvent list \<Rightarrow> fact set" where
  "told E rows = (\<Union>r \<in> set rows. announces E (OutboxEvent_Subject r) (Envelope_Payload (OutboxEvent_Envelope r)))"

definition tells :: "env \<Rightarrow> Event list \<Rightarrow> fact set" where
  "tells E evs = (\<Union>ev \<in> set evs. announces E (Event_Subject ev) (Event_Payload ev))"

definition debt :: "env \<Rightarrow> db \<Rightarrow> fact set" where
  "debt E d = facts d - told E (outbox d)"

definition recorded :: "env \<Rightarrow> db \<Rightarrow> bool" where
  "recorded E d \<longleftrightarrow> facts d \<subseteq> told E (outbox d)"

lemma recorded_debt: "recorded E d \<longleftrightarrow> debt E d = {}"
  by (auto simp: recorded_def debt_def)

section \<open>Emitting pays\<close>

lemma told_rows: "list_all2 event_row evs rows \<Longrightarrow> told E (xs @ rows) = told E xs \<union> tells E evs"
  by (induction rule: list_all2_induct) (auto simp: told_def tells_def event_row_def)

lemma emit_pays:
  assumes "outbox_laws E" and "yields (emitEvents E evs) d a d'"
  shows "debt E d' \<subseteq> debt E d - tells E evs"
proof -
  from yields_emitEvents [OF assms] obtain rows where "d' = d\<lparr>outbox := outbox d @ rows\<rparr>" "list_all2 event_row evs rows"
    by blast
  then show ?thesis by (auto simp: debt_def facts_def told_rows)
qed

lemma tells_simps [simp]:
  "tells E [] = {}"
  "tells E (ev # evs) = announces E (Event_Subject ev) (Event_Payload ev) \<union> tells E evs"
  by (auto simp: tells_def)

lemma announces_events [simp]:
  "uuid_Parse E i = Inr u \<Longrightarrow> announces E (Event_Subject (NewUserCreatedEvent i t)) (Event_Payload (NewUserCreatedEvent i t)) = {UserFact u}"
  "uuid_Parse E j = Inr g \<Longrightarrow> announces E (Event_Subject (NewOrgCreatedEvent j n t)) (Event_Payload (NewOrgCreatedEvent j n t)) = {OrgFact g}"
  "uuid_Parse E j = Inr g \<Longrightarrow> uuid_Parse E i = Inr u \<Longrightarrow>
     announces E (Event_Subject (NewMembershipAddedEvent j i st t)) (Event_Payload (NewMembershipAddedEvent j i st t)) = {MemberFact g u}"
  "announces E (Event_Subject (NewMembershipRemovedEvent j i st t)) (Event_Payload (NewMembershipRemovedEvent j i st t)) = {}"
  "announces E (Event_Subject (NewMembershipSuspendedEvent j i st t)) (Event_Payload (NewMembershipSuspendedEvent j i st t)) = {}"
  by (simp_all add: event_defs)

section \<open>What each statement owes\<close>

definition owes :: "fact set \<Rightarrow> 'a stmt \<Rightarrow> bool" where
  "owes X q \<longleftrightarrow> (\<forall>now rank d a d'. q now rank d = Inr (a, d') \<longrightarrow> facts d' \<subseteq> facts d \<union> X \<and> outbox d' = outbox d)"

lemma owesD:
  assumes "owes X q" and "q now rank d = Inr (a, d')"
  shows "debt E d' \<subseteq> debt E d \<union> X"
proof -
  from assms have "facts d' \<subseteq> facts d \<union> X" "outbox d' = outbox d" unfolding owes_def by metis+
  then show ?thesis by (auto simp: debt_def)
qed

lemma owes_recorded: "owes {} q \<Longrightarrow> stmt_keeps (recorded E) q"
proof (rule stmt_keepsI)
  fix now rank d a d' assume "owes {} q" "recorded E d" "q now rank d = Inr (a, d')"
  with owesD [of "{}" q now rank d a d' E] show "recorded E d'" by (simp add: recorded_debt)
qed

lemma owesI:
  assumes "\<And>now rank d a d'. q now rank d = Inr (a, d') \<Longrightarrow>
     u_ID ` set (users d') = u_ID ` set (users d) \<and> organizations d' = organizations d \<and>
     memberships d' = memberships d \<and> outbox d' = outbox d"
  shows "owes {} q"
  unfolding owes_def
proof (intro allI impI)
  fix now rank d a d' assume "q now rank d = Inr (a, d')"
  from assms [OF this] show "facts d' \<subseteq> facts d \<union> {} \<and> outbox d' = outbox d"
    by (auto simp: facts_def image_comp [symmetric])
qed

lemma owes_reads [simp]: "reads q \<Longrightarrow> owes {} q"
  unfolding owes_def reads_def by fastforce

lemma owes_users [simp]:
  "owes {} (q_ReissueSignupUser ph dn email)"
  "owes {} (q_UpdateLastLogin i)"
  "owes {} (q_VerifySignupUser v i)"
  by (rule owesI, auto simp: q_ReissueSignupUser_def q_UpdateLastLogin_def q_VerifySignupUser_def Let_def stmt_inv
        user_ids_update)+

lemma owes_rest [simp]:
  "owes {} (q_ConsumeChallenge i)"
  "owes {} (q_DeleteChallengesForIdentifier identifier channel)"
  "owes {} q_DeleteExpiredChallenges"
  "owes {} (q_IncrementChallengeAttempts i)"
  "owes {} (q_UpsertChallenge i identifier channel h e c)"
  "owes {} (q_RevokeRefreshToken h)"
  "owes {} (q_StoreRefreshToken i u go h x)"
  "owes {} (q_CreateAPIToken i u name prefix h sc x)"
  "owes {} (q_RevokeAPIToken i u)"
  "owes {} (q_AcceptOrganizationInvite acc i g)"
  "owes {} (q_RevokeOrganizationInvite i g)"
  "owes {} (q_RevokePendingOrganizationInvitesForEmail E' g email)"
  "owes {} (q_CreateOrganizationInvite E' i g email h who st e c)"
  by (rule owesI,
      auto simp: q_ConsumeChallenge_def q_DeleteChallengesForIdentifier_def q_DeleteExpiredChallenges_def
        q_IncrementChallengeAttempts_def q_UpsertChallenge_def q_RevokeRefreshToken_def q_StoreRefreshToken_def
        q_CreateAPIToken_def q_RevokeAPIToken_def q_AcceptOrganizationInvite_def q_RevokeOrganizationInvite_def Let_def
        q_RevokePendingOrganizationInvitesForEmail_def q_CreateOrganizationInvite_def
        split: option.splits if_splits sum.splits)+

lemma owes_deletes [simp]:
  "owes {} (q_DeleteOrganizationMembership g u)"
  "owes {} (q_UpdateOrganizationMembershipStatus st g u)"
  "owes {} q_DeleteEmptyOrganizations"
  "owes {} (q_PurgeUnverifiedSignups before)"
  by (auto simp: owes_def facts_def q_DeleteOrganizationMembership_def q_UpdateOrganizationMembershipStatus_def
      q_DeleteEmptyOrganizations_def q_PurgeUnverifiedSignups_def delete_users_def Let_def split: if_splits)

lemma owes_inserts:
  "owes {UserFact i} (q_CreateSignupUser i email ph dn st v)"
  "owes {UserFact i} (q_CreateUserWithEmail i email st)"
  "owes {UserFact i} (q_CreateUserWithMobile i mobile)"
  "owes {OrgFact i} (q_CreateOrganization i name ca ua)"
  "owes {MemberFact g u} (q_AddOrganizationMembership g u st)"
  "owes {MemberFact g u} (q_AddActiveOrganizationMembership g u)"
  by (auto simp: owes_def facts_def q_CreateSignupUser_def q_CreateUserWithEmail_def q_CreateUserWithMobile_def
      q_CreateOrganization_def q_AddOrganizationMembership_def q_AddActiveOrganizationMembership_def stmt_inv
      insert_member_Inr new_user_row_def dest!: insert_user_frame split: if_splits option.splits)

lemmas recorded_stmts [keep] = owes_users [THEN owes_recorded] owes_rest [THEN owes_recorded]
  owes_deletes [THEN owes_recorded]

section \<open>Transactions\<close>

text \<open>
  \<open>runs_up E X m\<close>: a successful run of \<open>m\<close> leaves no new debt but \<open>X\<close>. \<open>pays E X m\<close>: it leaves no new debt
  and none of \<open>X\<close>.
\<close>

definition runs_up :: "env \<Rightarrow> fact set \<Rightarrow> (world, 'a) M \<Rightarrow> bool" where
  "runs_up E X m \<longleftrightarrow> (\<forall>d a d'. yields m d a d' \<longrightarrow> debt E d' \<subseteq> debt E d \<union> X)"

definition pays :: "env \<Rightarrow> fact set \<Rightarrow> (world, 'a) M \<Rightarrow> bool" where
  "pays E X m \<longleftrightarrow> (\<forall>d a d'. yields m d a d' \<longrightarrow> debt E d' \<subseteq> debt E d - X)"

lemma runs_upI: "(\<And>d a d'. yields m d a d' \<Longrightarrow> debt E d' \<subseteq> debt E d \<union> X) \<Longrightarrow> runs_up E X m"
  unfolding runs_up_def by blast

lemma paysI: "(\<And>d a d'. yields m d a d' \<Longrightarrow> debt E d' \<subseteq> debt E d - X) \<Longrightarrow> pays E X m"
  unfolding pays_def by blast

lemma runs_up_exec: "owes X q \<Longrightarrow> runs_up E X (exec E' q)"
  by (rule runs_upI) (blast dest: yields_exec owesD)

lemma runs_up_mapErr: "runs_up E X m \<Longrightarrow> runs_up E X (mapErr h m)"
  unfolding runs_up_def by (blast dest: yields_mapErr)

lemma pays_emit: "outbox_laws E \<Longrightarrow> X \<subseteq> tells E evs \<Longrightarrow> pays E X (emitEvents E evs)"
  by (rule paysI) (drule (1) emit_pays, blast)

lemma pays_bind:
  assumes "runs_up E Y m" and "\<And>a. pays E (X \<union> Y) (f a)"
  shows "pays E X (bindE m f)"
proof (rule paysI)
  fix d a d' assume "yields (bindE m f) d a d'"
  then obtain b d1 where "yields m d b d1" "yields (f b) d1 a d'" by (blast dest: yields_bindE)
  with assms show "debt E d' \<subseteq> debt E d - X" unfolding runs_up_def pays_def by blast
qed

lemma pays_bind_pays:
  assumes "pays E X m" and "\<And>a. pays E {} (f a)"
  shows "pays E X (bindE m f)"
proof (rule paysI)
  fix d a d' assume "yields (bindE m f) d a d'"
  then obtain b d1 where "yields m d b d1" "yields (f b) d1 a d'" by (blast dest: yields_bindE)
  with assms show "debt E d' \<subseteq> debt E d - X" unfolding pays_def by blast
qed

lemma pays_ret [simp]: "pays E {} (ret a)"
  by (auto simp: pays_def dest!: yields_ret)

lemma pays_fail [simp]: "pays E X (fail e)"
  by (auto simp: pays_def dest!: yields_fail)

lemma pays_if: "(c \<Longrightarrow> pays E X m) \<Longrightarrow> (\<not> c \<Longrightarrow> pays E X m') \<Longrightarrow> pays E X (if c then m else m')"
  by simp

lemma pays_restores: "pays E X m \<Longrightarrow> restores (recorded E) m"
  unfolding pays_def restores_def recorded_debt by blast

lemma restores_pays: "owes {} q \<Longrightarrow> pays E {} (exec E' q)"
  using runs_up_exec [of "{}" q E E'] by (simp add: runs_up_def pays_def)

definition still :: "(world, 'a) M \<Rightarrow> bool" where
  "still m \<longleftrightarrow> (\<forall>d a d'. yields m d a d' \<longrightarrow> d' = d)"

lemma pays_skip:
  assumes "still m" and "\<And>a. pays E X (f a)"
  shows "pays E X (bindE m f)"
  unfolding pays_def
proof (intro allI impI)
  fix d a d' assume "yields (bindE m f) d a d'"
  then obtain b d1 where "yields m d b d1" "yields (f b) d1 a d'" by (blast dest: yields_bindE)
  with assms show "debt E d' \<subseteq> debt E d - X" unfolding pays_def still_def by blast
qed

lemma pays_parse:
  assumes "\<And>u. uuid_Parse E s = Inr u \<Longrightarrow> pays E X (f u)"
  shows "pays E X (bindE (parse_uuid E fmt s) f)"
  unfolding pays_def
proof (intro allI impI)
  fix d a d' assume "yields (bindE (parse_uuid E fmt s) f) d a d'"
  then obtain u where "uuid_Parse E s = Inr u" "yields (f u) d a d'" by (blast dest: yields_bindE yields_parse_uuid)
  with assms show "debt E d' \<subseteq> debt E d - X" unfolding pays_def by blast
qed

lemma pays_create_signup:
  assumes "pays E X (f 0)" and "\<And>a. a \<noteq> 0 \<Longrightarrow> pays E (insert (UserFact i) X) (f a)"
  shows "pays E X (bindE (mapErr h (exec E' (q_CreateSignupUser i email ph dn st v))) f)"
  unfolding pays_def
proof (intro allI impI)
  fix d a d' assume "yields (bindE (mapErr h (exec E' (q_CreateSignupUser i email ph dn st v))) f) d a d'"
  then obtain n d1 now rank where q: "q_CreateSignupUser i email ph dn st v now rank d = Inr (n, d1)"
    and f: "yields (f n) d1 a d'" by (blast dest: yields_bindE yields_mapErr yields_exec)
  show "debt E d' \<subseteq> debt E d - X"
  proof (cases "n = 0")
    case True
    with q have "d1 = d" by (auto simp: q_CreateSignupUser_def stmt_inv split: if_splits)
    with True f assms(1) show ?thesis unfolding pays_def by blast
  next
    case False
    with owesD [OF owes_inserts(1) q, of E] f assms(2) show ?thesis unfolding pays_def by blast
  qed
qed

lemma pays_case_option:
  "pays E X m \<Longrightarrow> (\<And>b. pays E X (g b)) \<Longrightarrow> pays E X (case x of None \<Rightarrow> m | Some b \<Rightarrow> g b)"
  by (cases x) auto

lemma pays_case_sum:
  "(\<And>e. pays E X (f e)) \<Longrightarrow> (\<And>b. pays E X (g b)) \<Longrightarrow> pays E X (case x of Inl e \<Rightarrow> f e | Inr b \<Rightarrow> g b)"
  by (cases x) auto

lemma pays_seq: "pays E {} m \<Longrightarrow> (\<And>a. pays E X (f a)) \<Longrightarrow> pays E X (bindE m f)"
  using pays_bind [of E "{}" m X f] by (simp add: runs_up_def pays_def)

lemma pays_emit_bind:
  "outbox_laws E \<Longrightarrow> X \<subseteq> tells E evs \<Longrightarrow> (\<And>a. pays E {} (f a)) \<Longrightarrow> pays E X (bindE (emitEvents E evs) f)"
  by (intro pays_bind_pays pays_emit)

lemma pays_mapErr: "pays E X m \<Longrightarrow> pays E X (mapErr h m)"
  unfolding pays_def by (blast dest: yields_mapErr)

lemma pays_stmts:
  "owes {} q \<Longrightarrow> (\<And>a. pays E X (f a)) \<Longrightarrow> pays E X (bindE (exec E' q) f)"
  "owes {} q \<Longrightarrow> (\<And>a. pays E X (f a)) \<Longrightarrow> pays E X (bindE (mapErr h (exec E' q)) f)"
  by (auto intro!: pays_seq pays_mapErr restores_pays)

lemma breaks_exec: "breaks (exec E' q) d e d' \<Longrightarrow> d' = d \<or> (\<exists>now rank a. q now rank d = Inr (a, d'))"
  by (auto simp: breaks_def exec_def Let_def split: option.splits sum.splits if_splits)

lemma pays_try_exec: "owes {} q \<Longrightarrow> pays E {} (tryE (exec E' q))"
  by (rule paysI) (auto dest!: yieldD breaks_exec dest: owesD [where E = E])

lemma pays_try:
  "owes {} q \<Longrightarrow> (\<And>a. pays E X (f a)) \<Longrightarrow> pays E X (bindE (tryE (exec E' q)) f)"
  by (intro pays_seq pays_try_exec)

lemma runs_up_accept_signup: "runs_up E {MemberFact g u} (accept_signup_invite E' g i u at)"
proof (rule runs_upI)
  fix d a d' assume "yields (accept_signup_invite E' g i u at) d a d'"
  then obtain now rank n d1 now' rank' x where
    1: "q_AcceptOrganizationInvite (timestamptz at) i g now rank d = Inr (n, d1)" and
    2: "q_AddActiveOrganizationMembership g u now' rank' d1 = Inr (x, d')"
    unfolding accept_signup_invite_def
    by (auto dest!: yieldD yields_lockOrganization split: if_splits)
  show "debt E d' \<subseteq> debt E d \<union> {MemberFact g u}"
    using owesD [OF owes_rest(10) 1, of E] owesD [OF owes_inserts(6) 2, of E] by blast
qed

lemmas pays_inserts = owes_inserts(2-6) [THEN runs_up_exec, THEN pays_bind]
  owes_inserts(2-6) [THEN runs_up_exec, THEN runs_up_mapErr, THEN pays_bind] runs_up_accept_signup [THEN pays_bind]

lemma still_frames:
  "still (time_Now E')" "still (lockOrganization E' g)" "still (getMembership E' g u)"
  "still (tryE (getMembership E' g u))" "still (if c then time_Now E' else ret t)"
  by (auto simp: still_def dest!: yieldD breaks_getMembership split: if_splits)

lemmas pays_frames = still_frames [THEN pays_skip]

lemmas pay = pays_emit_bind pays_emit pays_parse pays_create_signup pays_inserts pays_frames pays_ret pays_fail
  pays_if pays_case_option pays_case_sum pays_stmts pays_try pays_mapErr restores_pays pays_seq

lemma recorded_org_txs:
  assumes "outbox_laws E" and "uuid_Parse E orgID = Inr g" and "uuid_Parse E userID = Inr u"
  shows "Organization_ID org = orgID \<Longrightarrow> pays E {} (create_org_tx E org userID g u)"
    and "pays E {} (add_member_tx E orgID userID status g u)"
    and "pays E {} (update_member_tx E orgID userID status g u)"
    and "pays E {} (remove_member_tx E orgID userID g u)"
    and "pays E {} (accept_invite_tx E orgID userID at g i u)"
  unfolding create_org_tx_def add_member_tx_def update_member_tx_def remove_member_tx_def accept_invite_tx_def
  by (rule pay | simp add: assms)+

lemma recorded_signup_txs:
  assumes "outbox_laws E"
  shows "uuid_Parse E (User_ID user) = Inr u \<Longrightarrow> pays E {} (create_signup_tx E user org invite at u v)"
    and "pays E {} (reissue_tx E user challenge invite at)"
    and "pays E {} (purge_tx E before)"
  unfolding create_signup_tx_def reissue_tx_def purge_tx_def Let_def
  by (rule pay | simp add: assms)+

section \<open>Every method keeps the outbox complete\<close>

lemma keeps_parse_bind:
  assumes "\<And>u. uuid_Parse E s = Inr u \<Longrightarrow> keeps I (f u)"
  shows "keeps I (bindE (parse_uuid E fmt s) f)"
  using assms by (cases "uuid_Parse E s") (auto simp: parse_uuid_def intro: keep)

lemma keeps_ids_bind:
  assumes "\<And>g u. uuid_Parse E s = Inr g \<Longrightarrow> uuid_Parse E t = Inr u \<Longrightarrow> keeps I (f (g, u))"
  shows "keeps I (bindE (membershipIDs E s t) f)" "keeps I (bindE (inviteIDs E s t) f)"
  unfolding membershipIDs_def inviteIDs_def bindE_assoc
  by (intro keeps_parse_bind, simp add: assms)+

lemma recorded_in_tx: "pays E {} body \<Longrightarrow> keeps (on_db (recorded E)) (in_tx E b body)"
  by (intro keeps_in_tx_restores pays_restores)

lemma recorded_outbox:
  assumes "outbox_laws E"
  shows "stmt_keeps (recorded E) (q_outbox_Insert E s e)"
proof (rule stmt_keepsI)
  fix now rank d a d' assume r: "recorded E d" and q: "q_outbox_Insert E s e now rank d = Inr (a, d')"
  from q obtain rows where "outbox_Insert E s e now (outbox d) = Inr rows" and d': "d' = d\<lparr>outbox := rows\<rparr>"
    by (auto simp: q_outbox_Insert_def split: sum.splits)
  with assms obtain row where "rows = outbox d @ [row]" unfolding outbox_laws_def by blast
  with d' r show "recorded E d'" by (auto simp: recorded_def facts_def told_def)
qed

lemma recorded_store_challenges [keep]:
  "keeps (on_db (recorded E)) (Store_UpsertChallenge E ch)"
  "keeps (on_db (recorded E)) (Store_GetLatestChallenge E identifier channel)"
  "keeps (on_db (recorded E)) (Store_IncrementAttempts E i)"
  "keeps (on_db (recorded E)) (Store_ConsumeChallenge E i)"
  "keeps (on_db (recorded E)) (Store_DeleteExpiredChallenges E)"
  unfolding Store_UpsertChallenge_def Store_GetLatestChallenge_def Store_IncrementAttempts_def
    Store_ConsumeChallenge_def Store_DeleteExpiredChallenges_def
  by (intro keep)+

lemma recorded_store_users [keep]:
  "keeps (on_db (recorded E)) (Store_FindByEmail E email)"
  "keeps (on_db (recorded E)) (Store_FindByMobile E mobile)"
  "keeps (on_db (recorded E)) (Store_findByEmail E email)"
  "keeps (on_db (recorded E)) (Store_findByMobile E mobile)"
  "keeps (on_db (recorded E)) (Store_FindByID E userID)"
  "keeps (on_db (recorded E)) (Store_UpdateLastLogin E userID)"
  unfolding Store_FindByEmail_def Store_FindByMobile_def Store_FindByID_def Store_UpdateLastLogin_def
    Store_findByEmail_def Store_findByMobile_def
  by (intro keep)+

lemma recorded_FindOrCreate [keep]:
  assumes "outbox_laws E"
  shows "keeps (on_db (recorded E)) (Store_FindOrCreateByEmail E email)"
    and "keeps (on_db (recorded E)) (Store_FindOrCreateByMobile E mobile)"
  unfolding Store_FindOrCreateByEmail_def Store_FindOrCreateByMobile_def Let_def
  by (rule recorded_in_tx | rule pay | rule keep | simp add: assms)+

lemma recorded_store_tokens [keep]:
  "keeps (on_db (recorded E)) (Store_Store E userID orgID h e)"
  "keeps (on_db (recorded E)) (Store_FindValid E h)"
  "keeps (on_db (recorded E)) (Store_Revoke E h)"
  "keeps (on_db (recorded E)) (Store_Create E t)"
  "keeps (on_db (recorded E)) (Store_ListByUser E userID)"
  "keeps (on_db (recorded E)) (Store_RevokeToken E userID tokenID)"
  "keeps (on_db (recorded E)) (Store_FindByPrefix E prefix)"
  "keeps (on_db (recorded E)) (Store_ListFeatureFlags E)"
  unfolding Store_Store_def Store_FindValid_def Store_Revoke_def Store_Create_def Store_ListByUser_def
    Store_RevokeToken_def Store_FindByPrefix_def Store_ListFeatureFlags_def
  by (intro keep)+

lemma recorded_store_orgs [keep]:
  assumes "outbox_laws E"
  shows "keeps (on_db (recorded E)) (Store_CreateOrg E org creatorID)"
    and "keeps (on_db (recorded E)) (Store_AddMember E orgID userID status)"
    and "keeps (on_db (recorded E)) (Store_UpdateMemberStatus E orgID userID status)"
    and "keeps (on_db (recorded E)) (Store_RemoveMember E orgID userID)"
    and "keeps (on_db (recorded E)) (Store_AcceptInvite E inviteID orgID userID at)"
    and "keeps (on_db (recorded E)) (Store_CreateSignupUser E user signupOrg invite at)"
    and "keeps (on_db (recorded E)) (Store_ReissuePendingSignup E user challenge invite at)"
    and "keeps (on_db (recorded E)) (Store_PurgeUnverifiedSignups E before)"
  unfolding Store_CreateOrg_def Store_AddMember_def Store_UpdateMemberStatus_def Store_RemoveMember_def
    Store_AcceptInvite_def Store_CreateSignupUser_def Store_ReissuePendingSignup_def Store_PurgeUnverifiedSignups_def
    Let_def
  by (rule keeps_parse_bind keeps_ids_bind recorded_in_tx
      | simp add: recorded_org_txs [OF assms] recorded_signup_txs [OF assms])+

lemma recorded_store_reads [keep]:
  "keeps (on_db (recorded E)) (Store_GetOrg E orgID)"
  "keeps (on_db (recorded E)) (Store_ListOrgsForUser E userID)"
  "keeps (on_db (recorded E)) (Store_ListMembers E orgID)"
  "keeps (on_db (recorded E)) (Store_GetMembership E orgID userID)"
  "keeps (on_db (recorded E)) (Store_CreateInvite E invite)"
  "keeps (on_db (recorded E)) (Store_FindInviteByTokenHash E h)"
  "keeps (on_db (recorded E)) (Store_ListInvites E orgID)"
  "keeps (on_db (recorded E)) (Store_RevokeInvite E orgID inviteID)"
  "keeps (on_db (recorded E)) (Store_VerifySignup E userID at)"
  unfolding Store_GetOrg_def Store_ListOrgsForUser_def Store_ListMembers_def Store_GetMembership_def
    Store_CreateInvite_def Store_FindInviteByTokenHash_def Store_ListInvites_def Store_RevokeInvite_def
    Store_VerifySignup_def create_invite_tx_def
  by (intro keep)+

subsection \<open>Demo users\<close>

text \<open>The upsert adds a user exactly when the preceding look-up found none, so the event is emitted for every new one.\<close>

lemma demo_update_ID [simp]: "u_ID (demo_update em mo ph dn now u) = u_ID u"
  by (simp add: demo_update_def)

lemma facts_demo_update: "facts (update_users p (demo_update em mo ph dn now) d) = facts d"
  unfolding facts_def image_comp [symmetric] update_users_frame user_ids_update [OF demo_update_ID] ..

lemma upsert_hit:
  assumes "upsert_demo key i em mo ph dn now rank d = Inr (a, d')"
    and "\<exists>u \<in> set (users d). key (demo_row i em mo ph dn now) \<noteq> None \<and> key u = key (demo_row i em mo ph dn now)"
  shows "debt E d' = debt E d"
proof -
  from assms obtain p where "d' = update_users p (demo_update em mo ph dn now) d"
    by (auto simp: upsert_demo_def Let_def split: if_splits)
  then show ?thesis by (simp add: debt_def facts_demo_update)
qed

lemma owes_upsert: "owes {UserFact i} (upsert_demo key i em mo ph dn)"
  unfolding owes_def
proof (intro allI impI)
  fix now rank d a d' assume q: "upsert_demo key i em mo ph dn now rank d = Inr (a, d')"
  show "facts d' \<subseteq> facts d \<union> {UserFact i} \<and> outbox d' = outbox d"
  proof (cases "insert_user (demo_row i em mo ph dn now) d = Inr d'")
    case True
    then have "d' = d\<lparr>users := users d @ [demo_row i em mo ph dn now]\<rparr>" by (rule insert_user_frame)
    then show ?thesis by (auto simp: facts_def demo_row_def new_user_row_def)
  next
    case False
    with q obtain p where "d' = update_users p (demo_update em mo ph dn now) d"
      by (auto simp: upsert_demo_def Let_def stmt_inv split: if_splits)
    then show ?thesis by (auto simp: facts_demo_update)
  qed
qed

lemma pays_found:
  assumes "reads q" and new: "pays E {} (rest True)"
    and old: "\<And>d a d' row now rank. q now rank d = Inr (row, d) \<Longrightarrow> yields (rest False) d a d' \<Longrightarrow> debt E d' \<subseteq> debt E d"
  shows "pays E {} (bindE (tryE (exec E q)) (\<lambda>found.
         bindE (case found of Inr row \<Rightarrow> ret False | Inl err \<Rightarrow> if errors_Is err ErrNoRows then ret True else fail err) rest))"
proof (rule paysI)
  fix d a d' assume "yields (bindE (tryE (exec E q)) (\<lambda>found.
         bindE (case found of Inr row \<Rightarrow> ret False | Inl err \<Rightarrow> if errors_Is err ErrNoRows then ret True else fail err) rest)) d a d'"
  then obtain x d1 where x: "yields (tryE (exec E q)) d x d1"
    and r: "yields (bindE (case x of Inr row \<Rightarrow> ret False | Inl err \<Rightarrow> if errors_Is err ErrNoRows then ret True else fail err) rest) d1 a d'"
    by (blast dest: yields_bindE)
  show "debt E d' \<subseteq> debt E d - {}"
  proof (cases x)
    case (Inl e)
    with x assms(1) have "d1 = d" by (auto dest!: yields_tryE dest: breaks_exec_reads)
    with Inl r have "yields (rest True) d a d'" by (auto dest!: yields_fail split: if_splits)
    with new show ?thesis unfolding pays_def by blast
  next
    case (Inr row)
    with x obtain now rank where q: "q now rank d = Inr (row, d1)" by (auto dest!: yields_tryE yields_exec)
    with assms(1) have "d1 = d" unfolding reads_def by blast
    with q r Inr old show ?thesis by simp
  qed
qed

definition demo_rest ::
  "env \<Rightarrow> (UserRow \<Rightarrow> string option) \<Rightarrow> string option \<Rightarrow> string option \<Rightarrow> string \<Rightarrow> string \<Rightarrow> bool \<Rightarrow> (world, unit outcome) M" where
  "demo_rest E key em mo ph dn created =
     bindE (new_uuid E) (\<lambda>i.
     bindE (exec E (upsert_demo key i em mo ph dn)) (\<lambda>_.
     bindE (if created then bindE (time_Now E) (\<lambda>now. emitEvents E [NewUserCreatedEvent (uuid_String E i) now])
            else ret ()) (\<lambda>_.
     ret (Commit ''postgres: commit upsert demo user: %w'' ()))))"

lemma demo_rest_new:
  assumes "uuid_laws E" and "outbox_laws E"
  shows "pays E {} (demo_rest E key em mo ph dn True)"
proof -
  have "uuid_Parse E (uuid_String E i) = Inr i" for i using assms(1) by (simp add: uuid_laws_def)
  moreover have "still (new_uuid E)" by (auto simp: still_def dest: yields_new_uuid)
  ultimately show ?thesis
    unfolding demo_rest_def using assms(2)
    by (simp, intro pays_skip pays_bind [OF runs_up_exec [OF owes_upsert]] pays_bind_pays pays_emit)
       (auto simp: still_frames)
qed

lemma demo_rest_old:
  assumes "yields (demo_rest E key em mo ph dn False) d a d'"
    and "\<exists>u \<in> set (users d). key u = Some k" and "\<And>i now. key (demo_row i em mo ph dn now) = Some k"
  shows "debt E' d' = debt E' d"
proof -
  from assms(1) obtain i now rank where "upsert_demo key i em mo ph dn now rank d = Inr ((), d')"
    unfolding demo_rest_def by (auto dest!: yieldD)
  from upsert_hit [OF this] assms(2,3) show ?thesis by simp
qed

lemma recorded_UpsertDemoUser [keep]:
  assumes "uuid_laws E" and "outbox_laws E" and "email \<noteq> [] \<or> mobile \<noteq> []"
  shows "keeps (on_db (recorded E)) (Store_UpsertDemoUser E email mobile ph dn)"
proof (cases "email = []")
  case True
  have "pays E {} (bindE (tryE (exec E (q_FindUserByMobile mobile))) (\<lambda>found.
         bindE (case found of Inr row \<Rightarrow> ret False | Inl err \<Rightarrow> if errors_Is err ErrNoRows then ret True else fail err)
           (demo_rest E u_Mobile None (Some mobile) ph dn)))"
  proof (rule pays_found)
    show "reads (q_FindUserByMobile mobile)" by simp
    show "pays E {} (demo_rest E u_Mobile None (Some mobile) ph dn True)" by (rule demo_rest_new [OF assms(1,2)])
    fix d a d' row now rank
    assume q: "q_FindUserByMobile mobile now rank d = Inr (row, d)" and y: "yields (demo_rest E u_Mobile None (Some mobile) ph dn False) d a d'"
    from q have "\<exists>u \<in> set (users d). u_Mobile u = Some mobile"
      by (auto simp: q_FindUserByMobile_def stmt_inv dest!: filter_scan_Cons)
    from demo_rest_old [OF y this, of E] show "debt E d' \<subseteq> debt E d" by (simp add: demo_row_def)
  qed
  then show ?thesis
    using True assms(3) unfolding Store_UpsertDemoUser_def Let_def demo_rest_def
    by (simp add: q_UpsertDemoUserByMobile_def recorded_in_tx)
next
  case False
  let ?mo = "if mobile \<noteq> [] then Some mobile else None"
  have "pays E {} (bindE (tryE (exec E (q_FindUserByEmail email))) (\<lambda>found.
         bindE (case found of Inr row \<Rightarrow> ret False | Inl err \<Rightarrow> if errors_Is err ErrNoRows then ret True else fail err)
           (demo_rest E u_Email (Some email) ?mo ph dn)))"
  proof (rule pays_found)
    show "reads (q_FindUserByEmail email)" by simp
    show "pays E {} (demo_rest E u_Email (Some email) ?mo ph dn True)" by (rule demo_rest_new [OF assms(1,2)])
    fix d a d' row now rank
    assume q: "q_FindUserByEmail email now rank d = Inr (row, d)" and y: "yields (demo_rest E u_Email (Some email) ?mo ph dn False) d a d'"
    from q have "\<exists>u \<in> set (users d). u_Email u = Some email"
      by (auto simp: q_FindUserByEmail_def stmt_inv dest!: filter_scan_Cons)
    from demo_rest_old [OF y this, of E] show "debt E d' \<subseteq> debt E d" by (simp add: demo_row_def)
  qed
  then show ?thesis
    using False unfolding Store_UpsertDemoUser_def Let_def demo_rest_def
    by (simp add: q_UpsertDemoUserByEmail_def recorded_in_tx)
qed

end
