(* ===== verification/StoreRuns.thy ===== *)
theory StoreRuns
  imports Recorded DemoEnv
begin

text \<open>
  Sequences of calls on the Postgres store. Each constructor of \<open>store_call\<close> is a method that may write,
  with its arguments; \<open>store_runs\<close> performs a list of calls in order, each from the world the previous
  one left, whatever it returned. The tables start empty, as the migrations leave them. Because the
  clock, the row order and the faults are functions of the tick, a theorem about all environments
  covers every interleaving of failures with the calls.
\<close>

datatype store_call =
    Call_UpsertChallenge OTPChallenge
  | Call_IncrementAttempts string
  | Call_ConsumeChallenge string
  | Call_DeleteExpiredChallenges
  | Call_FindOrCreateByEmail string
  | Call_FindOrCreateByMobile string
  | Call_UpdateLastLogin string
  | Call_UpsertDemoUser string string string string
  | Call_Store string string string Time
  | Call_Revoke string
  | Call_Create APIToken
  | Call_RevokeToken string string
  | Call_CreateOrg Organization string
  | Call_AddMember string string MembershipStatus
  | Call_UpdateMemberStatus string string MembershipStatus
  | Call_RemoveMember string string
  | Call_CreateInvite Invite
  | Call_RevokeInvite string string
  | Call_AcceptInvite string string string Time
  | Call_CreateSignupUser User "Organization option" "Invite option" Time
  | Call_ReissuePendingSignup User "OTPChallenge option" "Invite option" Time
  | Call_VerifySignup string Time
  | Call_PurgeUnverifiedSignups Time

fun store_apply :: "env \<Rightarrow> store_call \<Rightarrow> world \<Rightarrow> world" where
  "store_apply E (Call_UpsertChallenge ch) = snd \<circ> Store_UpsertChallenge E ch"
| "store_apply E (Call_IncrementAttempts i) = snd \<circ> Store_IncrementAttempts E i"
| "store_apply E (Call_ConsumeChallenge i) = snd \<circ> Store_ConsumeChallenge E i"
| "store_apply E Call_DeleteExpiredChallenges = snd \<circ> Store_DeleteExpiredChallenges E"
| "store_apply E (Call_FindOrCreateByEmail email) = snd \<circ> Store_FindOrCreateByEmail E email"
| "store_apply E (Call_FindOrCreateByMobile mobile) = snd \<circ> Store_FindOrCreateByMobile E mobile"
| "store_apply E (Call_UpdateLastLogin u) = snd \<circ> Store_UpdateLastLogin E u"
| "store_apply E (Call_UpsertDemoUser email mobile ph dn) = snd \<circ> Store_UpsertDemoUser E email mobile ph dn"
| "store_apply E (Call_Store u g h e) = snd \<circ> Store_Store E u g h e"
| "store_apply E (Call_Revoke h) = snd \<circ> Store_Revoke E h"
| "store_apply E (Call_Create t) = snd \<circ> Store_Create E t"
| "store_apply E (Call_RevokeToken u t) = snd \<circ> Store_RevokeToken E u t"
| "store_apply E (Call_CreateOrg org u) = snd \<circ> Store_CreateOrg E org u"
| "store_apply E (Call_AddMember g u st) = snd \<circ> Store_AddMember E g u st"
| "store_apply E (Call_UpdateMemberStatus g u st) = snd \<circ> Store_UpdateMemberStatus E g u st"
| "store_apply E (Call_RemoveMember g u) = snd \<circ> Store_RemoveMember E g u"
| "store_apply E (Call_CreateInvite iv) = snd \<circ> Store_CreateInvite E iv"
| "store_apply E (Call_RevokeInvite g i) = snd \<circ> Store_RevokeInvite E g i"
| "store_apply E (Call_AcceptInvite i g u at) = snd \<circ> Store_AcceptInvite E i g u at"
| "store_apply E (Call_CreateSignupUser user org iv at) = snd \<circ> Store_CreateSignupUser E user org iv at"
| "store_apply E (Call_ReissuePendingSignup user ch iv at) = snd \<circ> Store_ReissuePendingSignup E user ch iv at"
| "store_apply E (Call_VerifySignup u at) = snd \<circ> Store_VerifySignup E u at"
| "store_apply E (Call_PurgeUnverifiedSignups before) = snd \<circ> Store_PurgeUnverifiedSignups E before"

text \<open>Calls with a caveat: purging sign-ups, and a demo user without any identifier.\<close>

fun is_purge :: "store_call \<Rightarrow> bool" where
  "is_purge (Call_PurgeUnverifiedSignups before) = True"
| "is_purge c = False"

fun is_blank_demo :: "store_call \<Rightarrow> bool" where
  "is_blank_demo (Call_UpsertDemoUser email mobile ph dn) = (email = [] \<and> mobile = [])"
| "is_blank_demo c = False"

definition store_runs :: "env \<Rightarrow> store_call list \<Rightarrow> world \<Rightarrow> world" where
  "store_runs E cs w = fold (store_apply E) cs w"

section \<open>An invariant of every method is an invariant of every sequence\<close>

lemma keeps_snd: "keeps I m \<Longrightarrow> I w \<Longrightarrow> I (snd (m w))"
  by (cases "m w") (auto dest: keepsD)

lemma runs_invariant:
  assumes "\<And>c w. c \<in> set cs \<Longrightarrow> P (w_db w) \<Longrightarrow> P (w_db (store_apply E c w))" and "P (empty_db flags)"
  shows "P (w_db (store_runs E cs (start_world flags t)))"
proof -
  have "P (w_db (fold (store_apply E) cs w))" if "P (w_db w)" for w
    using assms(1) that by (induction cs arbitrary: w) simp_all
  then show ?thesis using assms(2) by (simp add: store_runs_def start_world_def)
qed

lemma schema_store_apply: "schema_ok E (w_db w) \<Longrightarrow> schema_ok E (w_db (store_apply E c w))"
  by (cases c) (simp_all, (rule keeps_snd, rule keep, assumption)+)

lemma tenancy_store_apply: "tenancy_ok E (w_db w) \<Longrightarrow> \<not> is_purge c \<Longrightarrow> tenancy_ok E (w_db (store_apply E c w))"
  by (cases c) (simp_all, (rule keeps_snd, rule keep, assumption)+)

lemma recorded_store_apply:
  "recorded E (w_db w) \<Longrightarrow> uuid_laws E \<Longrightarrow> outbox_laws E \<Longrightarrow> \<not> is_blank_demo c \<Longrightarrow>
     recorded E (w_db (store_apply E c w))"
  by (cases c) (simp_all, (rule keeps_snd, rule keep; simp)+)

lemma schema_empty: "schema_ok E (empty_db flags)"
  by (simp add: schema_ok_def empty_db_def users_ok_def uniq_def tokens_ok_def members_ok_def invites_ok_def)

lemma tenancy_empty: "tenancy_ok E (empty_db flags)"
  by (simp add: tenancy_ok_def every_org_active_def schema_empty) (simp add: empty_db_def)

lemma recorded_empty: "recorded E (empty_db flags)"
  by (simp add: recorded_def facts_def empty_db_def)

section \<open>Properties\<close>

text \<open>
  C1. No sequence of calls leaves an organization without an active member: after any calls on the
  store, in any order, with any pattern of database faults, lost commit acknowledgements and row
  orders, every organization row has a membership row with status active. So the guard of
  \<open>UpdateMemberStatus\<close> and \<open>RemoveMember\<close> and the transactions that create organizations together
  enforce the rule named by \<open>ErrLastActiveMember\<close>. The operator call \<open>PurgeUnverifiedSignups\<close>, which the
  service never schedules, is excluded.
\<close>

theorem every_org_keeps_an_active_member:
  assumes "list_all (\<lambda>c. \<not> is_purge c) cs"
  shows "every_org_active (w_db (store_runs E cs (start_world flags t)))"
proof -
  have "tenancy_ok E (w_db (store_runs E cs (start_world flags t)))"
    by (rule runs_invariant) (use assms tenancy_store_apply tenancy_empty in \<open>auto simp: list_all_iff\<close>)
  then show ?thesis by (simp add: tenancy_ok_def)
qed

text \<open>Witness of C1: a user is created, creates an organization and tries to leave it.\<close>

definition demo_calls :: "store_call list" where
  "demo_calls =
     [Call_FindOrCreateByEmail ''ann@x.io'',
      Call_CreateOrg \<lparr>Organization_ID = uuid_text 99, Organization_Name = ''X'', Organization_CreatedAt = demo_start,
                     Organization_UpdatedAt = demo_start\<rparr> (uuid_text 2),
      Call_RemoveMember (uuid_text 99) (uuid_text 2)]"

theorem every_org_keeps_an_active_member_witness:
  "list_all (\<lambda>c. \<not> is_purge c) demo_calls \<and>
   every_org_active (w_db (store_runs demo_env demo_calls (start_world [] 0)))"
  using every_org_keeps_an_active_member [of demo_calls demo_env "[]" 0] by (simp add: demo_calls_def)

text \<open>
  C17. The outbox is complete: after any calls on the store, with any faults, every user, organization
  and membership row of the database has been announced by an outbox event with the subject
  \<open>auth.user.created\<close>, \<open>auth.org.created\<close> or \<open>auth.membership.added\<close> whose payload names the row's
  identifiers. Hypotheses: the UUID package reads back the canonical text it prints, the outbox package
  appends the event it is given, and no demo user is seeded without email and mobile (\<open>SeedDemoUsers\<close>
  refuses those).
\<close>

theorem outbox_announces_every_row:
  assumes "uuid_laws E" and "outbox_laws E" and "list_all (\<lambda>c. \<not> is_blank_demo c) cs"
  shows "recorded E (w_db (store_runs E cs (start_world flags t)))"
  by (rule runs_invariant) (use assms recorded_store_apply recorded_empty in \<open>auto simp: list_all_iff\<close>)

text \<open>Witness of C17: the calls of the previous witness, followed by a sign-up with an organization.\<close>

definition demo_signup_calls :: "store_call list" where
  "demo_signup_calls = demo_calls @
     [Call_CreateSignupUser
        \<lparr>User_ID = uuid_text 7, User_Email = ''bob@x.io'', User_Mobile = [], User_PasswordHash = ''h'',
         User_DisplayName = ''Bob'', User_Status = UserSignupPending, User_EmailVerified = False\<rparr>
        (Some \<lparr>Organization_ID = uuid_text 98, Organization_Name = ''Y'', Organization_CreatedAt = demo_start,
               Organization_UpdatedAt = demo_start\<rparr>) None demo_start]"

theorem outbox_announces_every_row_witness:
  "uuid_laws demo_env \<and> outbox_laws demo_env \<and> list_all (\<lambda>c. \<not> is_blank_demo c) demo_signup_calls \<and>
   recorded demo_env (w_db (store_runs demo_env demo_signup_calls (start_world [] 0)))"
  using outbox_announces_every_row [of demo_env demo_signup_calls "[]" 0] demo_laws
  by (simp add: demo_signup_calls_def demo_calls_def)

end
