(* ===== verification/GoTime.thy ===== *)
theory GoTime
  imports Domain
begin

text \<open>
  What the code uses of \<open>strconv\<close>, \<open>fmt\<close> and \<open>time\<close> to print numbers and times: \<open>strconv.Itoa\<close>, the verb
  \<open>%0kd\<close> and the layouts \<open>time.RFC3339\<close> and \<open>time.RFC3339Nano\<close> in UTC. A time is the number of
  nanoseconds since the zero \<open>time.Time\<close>, midnight of 1 January of year 1.
\<close>

function decimal :: "int \<Rightarrow> string" where
  "decimal n = (if n < 10 then [char_of (48 + nat n)] else decimal (n div 10) @ [char_of (48 + nat (n mod 10))])"
  by auto
termination by (relation "measure nat") auto

declare decimal.simps [simp del]

definition Itoa :: "int \<Rightarrow> string" where
  "Itoa n = (if n < 0 then CHR ''-'' # decimal (- n) else decimal n)"

definition zero_pad :: "nat \<Rightarrow> int \<Rightarrow> string" where
  "zero_pad k n = (let d = decimal n in replicate (k - length d) (CHR ''0'') @ d)"

definition leap :: "int \<Rightarrow> bool" where
  "leap y \<longleftrightarrow> y mod 4 = 0 \<and> (y mod 100 \<noteq> 0 \<or> y mod 400 = 0)"

definition month_lengths :: "int \<Rightarrow> int list" where
  "month_lengths y = [31, if leap y then 29 else 28, 31, 30, 31, 30, 31, 31, 30, 31, 30, 31]"

fun month_day :: "int list \<Rightarrow> int \<Rightarrow> int \<Rightarrow> int \<times> int" where
  "month_day (l # l' # ls) m d = (if d < l then (m, d + 1) else month_day (l' # ls) (m + 1) (d - l))"
| "month_day ls m d = (m, d + 1)"

text \<open>The proleptic Gregorian date of the day with the given number, day 0 being 1 January of year 1.\<close>

definition civil_date :: "int \<Rightarrow> int \<times> int \<times> int" where
  "civil_date d0 =
     (let n400 = d0 div 146097; d1 = d0 mod 146097;
          n100 = min (d1 div 36524) 3; d2 = d1 - 36524 * n100;
          n4 = d2 div 1461; d3 = d2 mod 1461;
          n1 = min (d3 div 365) 3; yday = d3 - 365 * n1;
          y = 400 * n400 + 100 * n100 + 4 * n4 + n1 + 1
      in (y, month_day (month_lengths y) 1 yday))"

definition Format_seconds :: "Time \<Rightarrow> string" where
  "Format_seconds t =
     (let s = t div Second; (y, m, d) = civil_date (s div 86400); r = s mod 86400 in
      zero_pad 4 y @ ''-'' @ zero_pad 2 m @ ''-'' @ zero_pad 2 d @ ''T'' @
      zero_pad 2 (r div 3600) @ '':'' @ zero_pad 2 (r div 60 mod 60) @ '':'' @ zero_pad 2 (r mod 60))"

definition RFC3339 :: "Time \<Rightarrow> string" where
  "RFC3339 t = Format_seconds t @ ''Z''"

definition RFC3339Nano :: "Time \<Rightarrow> string" where
  "RFC3339Nano t =
     (let f = rev (dropWhile (\<lambda>c. c = CHR ''0'') (rev (zero_pad 9 (t mod Second)))) in
      Format_seconds t @ (if f = [] then [] else CHR ''.'' # f) @ ''Z'')"

text \<open>
  \<open>time.Parse(time.RFC3339, s)\<close>, with the latitude of the library: an hour of one digit, a fraction of
  seconds after a period or comma of which nine digits count, and offsets up to 24:60. The result is \<open>None\<close>
  on any error.
\<close>

definition digit_value :: "char \<Rightarrow> int option" where
  "digit_value c = (if 48 \<le> byte c \<and> byte c \<le> 57 then Some (int (byte c) - 48) else None)"

definition atoi :: "string \<Rightarrow> int option" where
  "atoi s =
     (if s = [] then None
      else foldl (\<lambda>a c. case (a, digit_value c) of (Some n, Some d) \<Rightarrow> Some (n * 10 + d) | _ \<Rightarrow> None) (Some 0) s)"

definition getnum :: "bool \<Rightarrow> string \<Rightarrow> (int \<times> string) option" where
  "getnum fixed s =
     (case s of
        [] \<Rightarrow> None
      | c # s1 \<Rightarrow>
          (case digit_value c of
             None \<Rightarrow> None
           | Some a \<Rightarrow>
               (case s1 of
                  d # s2 \<Rightarrow>
                    (case digit_value d of
                       Some b \<Rightarrow> Some (a * 10 + b, s2)
                     | None \<Rightarrow> if fixed then None else Some (a, s1))
                | [] \<Rightarrow> if fixed then None else Some (a, s1))))"

definition literal :: "char \<Rightarrow> string \<Rightarrow> string option" where
  "literal c s = (case s of d # r \<Rightarrow> if c = d then Some r else None | [] \<Rightarrow> None)"

definition parse_fraction :: "string \<Rightarrow> int \<times> string" where
  "parse_fraction s =
     (case s of
        c # d # r \<Rightarrow>
          if (c = CHR ''.'' \<or> c = CHR '','') \<and> digit_value d \<noteq> None
          then (let ds = takeWhile (\<lambda>x. digit_value x \<noteq> None) (d # r); ns = take 9 ds in
                (the (atoi ns) * 10 ^ (9 - length ns), drop (length ds) (d # r)))
          else (0, s)
      | _ \<Rightarrow> (0, s))"

definition parse_zone :: "string \<Rightarrow> int option" where
  "parse_zone s =
     (case s of
        [CHR ''Z''] \<Rightarrow> Some 0
      | [sign, h1, h2, c, m1, m2] \<Rightarrow>
          (case (getnum True [h1, h2], getnum True [m1, m2]) of
             (Some (hr, _), Some (mm, _)) \<Rightarrow>
               if c \<noteq> CHR '':'' \<or> 24 < hr \<or> 60 < mm then None
               else if sign = CHR ''+'' then Some ((hr * 60 + mm) * 60)
               else if sign = CHR ''-'' then Some (- ((hr * 60 + mm) * 60)) else None
           | _ \<Rightarrow> None)
      | _ \<Rightarrow> None)"

definition days_before :: "int \<Rightarrow> int \<Rightarrow> int" where
  "days_before y m =
     365 * (y - 1) + (y - 1) div 4 - (y - 1) div 100 + (y - 1) div 400 + sum_list (take (nat (m - 1)) (month_lengths y))"

definition Parse_RFC3339 :: "string \<Rightarrow> Time option" where
  "Parse_RFC3339 s0 =
     (if length s0 < 4 \<or> \<not> list_all (\<lambda>c. digit_value c \<noteq> None) (take 4 s0) then None
      else let y = the (atoi (take 4 s0)) in
        Option.bind (literal (CHR ''-'') (drop 4 s0)) (\<lambda>s1.
        Option.bind (getnum True s1) (\<lambda>(mo, s2).
        Option.bind (literal (CHR ''-'') s2) (\<lambda>s3.
        Option.bind (getnum True s3) (\<lambda>(d, s4).
        Option.bind (literal (CHR ''T'') s4) (\<lambda>s5.
        Option.bind (getnum False s5) (\<lambda>(h, s6).
        Option.bind (literal (CHR '':'') s6) (\<lambda>s7.
        Option.bind (getnum True s7) (\<lambda>(mi, s8).
        Option.bind (literal (CHR '':'') s8) (\<lambda>s9.
        Option.bind (getnum True s9) (\<lambda>(se, s10).
        (let (ns, s11) = parse_fraction s10 in
         Option.bind (parse_zone s11) (\<lambda>z.
         if mo < 1 \<or> 12 < mo \<or> 24 \<le> h \<or> 60 \<le> mi \<or> 60 \<le> se \<or> d < 1 \<or> month_lengths y ! nat (mo - 1) < d then None
         else Some ((((days_before y mo + d - 1) * 24 + h) * 60 + mi) * 60 * Second + se * Second + ns
                    - z * Second))))))))))))))"

lemma length_decimal: "0 < k \<Longrightarrow> n < 10 ^ k \<Longrightarrow> length (decimal n) \<le> k"
proof (induction k arbitrary: n)
  case (Suc k)
  show ?case
  proof (cases "n < 10")
    case True
    then show ?thesis by (simp add: decimal.simps)
  next
    case False
    with Suc.prems have "0 < k" by (cases k) auto
    moreover have "n div 10 < 10 ^ k" using Suc.prems by (simp add: div_less_iff_less_mult mult.commute)
    ultimately have "length (decimal (n div 10)) \<le> k" by (rule Suc.IH)
    with False show ?thesis by (subst decimal.simps) simp
  qed
qed simp

lemma length_zero_pad: "0 < k \<Longrightarrow> n < 10 ^ k \<Longrightarrow> length (zero_pad k n) = k"
  using length_decimal [of k n] by (simp add: zero_pad_def Let_def)

end
