(* ===== verification/Service.thy ===== *)
theory Service
  imports Domain
begin

text \<open>
  \<open>internal/application\<close>: the use cases. A \<open>Service\<close> holds the ports as optional values, because an
  interface of the code may be nil: calling a method of a nil interface is a panic (\<open>use\<close>), and the
  guards that compare a port with nil are tests for \<open>None\<close>. The world \<open>'w\<close> behind the ports is
  arbitrary. Log lines are not modelled. An error result stands for the zero values the code returns
  with it.
\<close>

section \<open>service.go\<close>

record 'w Deps =
  deps_OTP :: "'w OTPStore option"
  deps_Users :: "'w UserStore option"
  deps_Refresh :: "'w RefreshTokenStore option"
  deps_Tokens :: "'w APITokenStore option"
  deps_Orgs :: "'w OrgStore option"
  deps_Invites :: "'w InviteStore option"
  deps_Signup :: "'w SignupStore option"
  deps_Notifier :: "'w Notifier option"
  deps_Flags :: "'w Flags option"
  deps_Clock :: "'w Clock option"
  deps_IDs :: "'w IDGenerator option"
  deps_Signer :: "'w TokenSigner option"
  deps_Hasher :: "'w Hasher option"
  deps_Codes :: "'w CodeGenerator option"
  deps_Secrets :: "'w SecretGenerator option"
  deps_SignupOpen :: bool
  deps_DemoMode :: bool
  deps_DemoUsers :: "DemoUser list"
  deps_AutoSelectSingleOrg :: bool

record 'w Service =
  svc_otp :: "'w OTPStore option"
  svc_users :: "'w UserStore option"
  svc_refresh :: "'w RefreshTokenStore option"
  svc_tokens :: "'w APITokenStore option"
  svc_orgs :: "'w OrgStore option"
  svc_invites :: "'w InviteStore option"
  svc_signup :: "'w SignupStore option"
  svc_notifier :: "'w Notifier option"
  svc_flags :: "'w Flags option"
  svc_clock :: "'w Clock option"
  svc_ids :: "'w IDGenerator option"
  svc_signer :: "'w TokenSigner option"
  svc_hasher :: "'w Hasher option"
  svc_codes :: "'w CodeGenerator option"
  svc_secrets :: "'w SecretGenerator option"
  svc_signupOpen :: bool
  svc_demoMode :: bool
  svc_demoUsers :: "DemoUser list"
  svc_autoSelectSingleOrg :: bool

definition NewService :: "'w Deps \<Rightarrow> 'w Service" where
  "NewService deps =
     \<lparr>svc_otp = deps_OTP deps, svc_users = deps_Users deps, svc_refresh = deps_Refresh deps,
      svc_tokens = deps_Tokens deps, svc_orgs = deps_Orgs deps, svc_invites = deps_Invites deps,
      svc_signup = deps_Signup deps, svc_notifier = deps_Notifier deps, svc_flags = deps_Flags deps,
      svc_clock = deps_Clock deps, svc_ids = deps_IDs deps, svc_signer = deps_Signer deps,
      svc_hasher = deps_Hasher deps, svc_codes = deps_Codes deps, svc_secrets = deps_Secrets deps,
      svc_signupOpen = deps_SignupOpen deps, svc_demoMode = deps_DemoMode deps,
      svc_demoUsers = deps_DemoUsers deps, svc_autoSelectSingleOrg = deps_AutoSelectSingleOrg deps\<rparr>"

text \<open>The calls every use case makes.\<close>

abbreviation Now :: "'w Service \<Rightarrow> ('w, Time) M" where
  "Now s \<equiv> use (svc_clock s) clock_Now"

abbreviation NewID :: "'w Service \<Rightarrow> ('w, string) M" where
  "NewID s \<equiv> use (svc_ids s) ids_NewID"

abbreviation Hash :: "'w Service \<Rightarrow> string \<Rightarrow> ('w, string) M" where
  "Hash s x \<equiv> use (svc_hasher s) (\<lambda>p. hasher_Hash p x)"

abbreviation Compare :: "'w Service \<Rightarrow> string \<Rightarrow> string \<Rightarrow> ('w, bool) M" where
  "Compare s h x \<equiv> use (svc_hasher s) (\<lambda>p. ret (hasher_Compare p h x))"

text \<open>An issued pair: the access token, the refresh token and the expiry of the access token.\<close>

type_synonym token_pair = "string \<times> string \<times> Time"

definition Service_flag :: "'w Service \<Rightarrow> string \<Rightarrow> ('w, bool) M" where
  "Service_flag s name = (case svc_flags s of None \<Rightarrow> ret False | Some p \<Rightarrow> flags_Bool p name False)"

definition Service_buildOTPChallenge :: "'w Service \<Rightarrow> string \<Rightarrow> string \<Rightarrow> ('w, OTPChallenge \<times> string) M" where
  "Service_buildOTPChallenge s identifier channel =
     bindE (use (svc_codes s) codes_NewCode) (\<lambda>code.
     bindE (Hash s code) (\<lambda>hash.
     bindE (Now s) (\<lambda>now.
     bindE (NewID s) (\<lambda>i.
     ret (\<lparr>OTPChallenge_ID = i, OTPChallenge_Identifier = identifier, OTPChallenge_Channel = channel,
           OTPChallenge_CodeHash = hash, OTPChallenge_ExpiresAt = now + OTPTTL,
           OTPChallenge_CreatedAt = now, OTPChallenge_Attempts = 0\<rparr>, code)))))"

definition Service_newOTPChallenge :: "'w Service \<Rightarrow> string \<Rightarrow> string \<Rightarrow> ('w, OTPChallenge \<times> string) M" where
  "Service_newOTPChallenge s identifier channel =
     use (svc_otp s) (\<lambda>otp.
     bindE (ignoreE (otp_DeleteExpiredChallenges otp)) (\<lambda>_.
     bindE (Service_buildOTPChallenge s identifier channel) (\<lambda>(ch, code).
     bindE (otp_UpsertChallenge otp ch) (\<lambda>_.
     ret (ch, code)))))"

definition Service_RequestOTP :: "'w Service \<Rightarrow> string \<Rightarrow> string \<Rightarrow> string \<Rightarrow> ('w, Time) M" where
  "Service_RequestOTP s identifier0 channel0 correlationID =
     (let identifier = TrimSpace identifier0; channel = TrimSpace channel0 in
      if identifier = [] \<or> channel = [] then fail (Errorf ''identifier and channel required'' [] None)
      else
        bindE (if channel = ChannelEmail
               then bindE (Service_flag s ''manova.auth.email_otp'') (\<lambda>on.
                    if \<not> on then fail ErrEmailOTPDisabled else ret ())
               else if channel = ChannelSMS
               then (if \<not> IsE164 identifier then fail (Errorf ''mobile must be E.164'' [] None)
                     else bindE (Service_flag s ''manova.auth.mobile_otp'') (\<lambda>on.
                          if \<not> on then fail ErrMobileOTPDisabled else ret ()))
               else fail (Errorf ''unsupported channel %q'' [channel] None)) (\<lambda>_.
        bindE (Service_newOTPChallenge s identifier channel) (\<lambda>(ch, code).
        bindE (use (svc_notifier s) (\<lambda>p. notifier_SendOTP p channel identifier code correlationID)) (\<lambda>_.
        ret (OTPChallenge_ExpiresAt ch)))))"

definition Service_IsActiveMember :: "'w Service \<Rightarrow> string \<Rightarrow> string \<Rightarrow> ('w, bool) M" where
  "Service_IsActiveMember s orgID0 userID0 =
     (let orgID = TrimSpace orgID0; userID = TrimSpace userID0 in
      if orgID = [] \<or> userID = [] then fail (Errorf ''org_id and user_id required'' [] None)
      else
        bindE (tryE (use (svc_orgs s) (\<lambda>p. orgs_GetMembership p orgID userID))) (\<lambda>r.
        case r of
          Inl err \<Rightarrow> if errors_Is err ErrNotMember then ret False else fail err
        | Inr membership \<Rightarrow> ret (Membership_Status membership = MembershipActive)))"

definition Service_singleActiveOrg :: "'w Service \<Rightarrow> string \<Rightarrow> ('w, string) M" where
  "Service_singleActiveOrg s userID =
     (case svc_orgs s of
        None \<Rightarrow> ret []
      | Some p \<Rightarrow>
          bindE (tryE (orgs_ListOrgsForUser p userID)) (\<lambda>r.
          case r of
            Inl err \<Rightarrow> ret []
          | Inr orgs \<Rightarrow> (case orgs of [org] \<Rightarrow> ret (Organization_ID org) | _ \<Rightarrow> ret [])))"

definition Service_activeOrg :: "'w Service \<Rightarrow> string \<Rightarrow> string \<Rightarrow> ('w, string) M" where
  "Service_activeOrg s userID orgID =
     (if orgID = [] \<or> svc_orgs s = None then ret []
      else bindE (tryE (Service_IsActiveMember s orgID userID)) (\<lambda>r.
           case r of
             Inl err \<Rightarrow> ret []
           | Inr active \<Rightarrow> if active then ret orgID else ret []))"

definition Service_issueTokensForOrg :: "'w Service \<Rightarrow> string \<Rightarrow> string \<Rightarrow> ('w, token_pair) M" where
  "Service_issueTokensForOrg s userID orgID =
     bindE (Now s) (\<lambda>now.
     (let expires = now + AccessTokenTTL in
      bindE (if orgID = [] then use (svc_signer s) (\<lambda>p. signer_SignAccessToken p userID expires)
             else use (svc_signer s) (\<lambda>p. signer_SignAccessTokenWithOrg p userID orgID expires)) (\<lambda>access.
      bindE (NewID s) (\<lambda>a.
      bindE (NewID s) (\<lambda>b.
      (let refresh = a @ b in
       bindE (use (svc_refresh s) (\<lambda>p.
                refresh_Store p userID orgID (HashRefreshToken refresh) (now + RefreshTokenTTL))) (\<lambda>_.
       ret (access, refresh, expires))))))))"

definition Service_issueTokens :: "'w Service \<Rightarrow> string \<Rightarrow> ('w, token_pair) M" where
  "Service_issueTokens s userID =
     bindE (if svc_autoSelectSingleOrg s then Service_singleActiveOrg s userID else ret []) (\<lambda>orgID.
     Service_issueTokensForOrg s userID orgID)"

definition Service_VerifyOTP :: "'w Service \<Rightarrow> string \<Rightarrow> string \<Rightarrow> string \<Rightarrow> ('w, token_pair) M" where
  "Service_VerifyOTP s identifier0 channel0 code =
     (let identifier = TrimSpace identifier0; channel = TrimSpace channel0 in
      if identifier = [] \<or> channel = [] \<or> code = [] then fail ErrInvalidOTPCode
      else
        use (svc_otp s) (\<lambda>otp.
        bindE (mapErr (\<lambda>_. ErrInvalidOTPCode) (otp_GetLatestChallenge otp identifier channel)) (\<lambda>ch.
        bindE (Now s) (\<lambda>now.
        if OTPChallenge_ExpiresAt ch < now then fail ErrInvalidOTPCode
        else if MaxOTPAttempts \<le> OTPChallenge_Attempts ch then fail ErrTooManyOTPAttempts
        else
          bindE (Compare s (OTPChallenge_CodeHash ch) code) (\<lambda>match.
          if \<not> match
          then bindE (ignoreE (otp_IncrementAttempts otp (OTPChallenge_ID ch))) (\<lambda>_. fail ErrInvalidOTPCode)
          else
            bindE (otp_ConsumeChallenge otp (OTPChallenge_ID ch)) (\<lambda>_.
            bindE (if channel = ChannelEmail
                   then use (svc_users s) (\<lambda>p. users_FindOrCreateByEmail p identifier)
                   else if channel = ChannelSMS
                   then use (svc_users s) (\<lambda>p. users_FindOrCreateByMobile p identifier)
                   else fail (Errorf ''unsupported channel'' [] None)) (\<lambda>user.
            if User_Status user = UserSignupPending then fail ErrInvalidOTPCode
            else Service_issueTokens s (User_ID user))))))))"

definition Service_Refresh :: "'w Service \<Rightarrow> string \<Rightarrow> ('w, token_pair) M" where
  "Service_Refresh s refreshToken =
     (let hash = HashRefreshToken refreshToken in
      use (svc_refresh s) (\<lambda>p.
      bindE (mapErr (\<lambda>_. ErrInvalidRefresh) (refresh_FindValid p hash)) (\<lambda>(userID, orgID).
      bindE (ignoreE (refresh_Revoke p hash)) (\<lambda>_.
      bindE (Service_activeOrg s userID orgID) (\<lambda>org.
      Service_issueTokensForOrg s userID org)))))"

definition Service_SelectOrg :: "'w Service \<Rightarrow> string \<Rightarrow> string \<Rightarrow> string \<Rightarrow> ('w, token_pair) M" where
  "Service_SelectOrg s userID0 refreshToken orgID0 =
     (let userID = TrimSpace userID0; orgID = TrimSpace orgID0 in
      if userID = [] \<or> orgID = [] then fail ErrInvalidRefresh
      else if svc_orgs s = None then fail ErrNotMember
      else
        bindE (Service_IsActiveMember s orgID userID) (\<lambda>active.
        if \<not> active then fail ErrNotMember
        else
          (let hash = HashRefreshToken refreshToken in
           use (svc_refresh s) (\<lambda>p.
           bindE (mapErr (\<lambda>_. ErrInvalidRefresh) (refresh_FindValid p hash)) (\<lambda>(tokenUserID, _).
           if tokenUserID \<noteq> userID then fail ErrInvalidRefresh
           else
             bindE (ignoreE (refresh_Revoke p hash)) (\<lambda>_.
             Service_issueTokensForOrg s userID orgID))))))"

section \<open>password\_tokens.go\<close>

definition Service_LoginWithPassword :: "unicode \<Rightarrow> 'w Service \<Rightarrow> string \<Rightarrow> string \<Rightarrow> ('w, token_pair) M" where
  "Service_LoginWithPassword U s identifier0 password =
     (let identifier = TrimSpace identifier0 in
      if identifier = [] \<or> password = [] then fail ErrInvalidCredentials
      else
        use (svc_users s) (\<lambda>users.
        bindE (mapErr (\<lambda>_. ErrInvalidCredentials)
                 (if IsE164 identifier then users_FindByMobile users identifier
                  else users_FindByEmail users (ToLower U identifier))) (\<lambda>user.
        if User_Status user = UserSignupPending then fail ErrInvalidCredentials
        else if User_Status user = UserDisabled then fail ErrUserDisabled
        else
          bindE (if User_PasswordHash user = [] then ret False
                 else Compare s (User_PasswordHash user) password) (\<lambda>match.
          if \<not> match then fail ErrInvalidCredentials
          else
            bindE (ignoreE (users_UpdateLastLogin users (User_ID user))) (\<lambda>_.
            Service_issueTokens s (User_ID user))))))"

definition Service_CreateApiToken ::
  "'w Service \<Rightarrow> string \<Rightarrow> string \<Rightarrow> string list option \<Rightarrow> Time option \<Rightarrow> ('w, string \<times> string \<times> string) M" where
  "Service_CreateApiToken s userID name scopes expiresAt =
     (if userID = [] \<or> TrimSpace name = [] then fail (Errorf ''user_id and name required'' [] None)
      else
        bindE (use (svc_secrets s) secrets_NewSecret) (\<lambda>raw.
        if length raw < APITokenPrefixLength then fail PanicError
        else
          (let prefix = take APITokenPrefixLength raw in
           bindE (Hash s raw) (\<lambda>hash.
           bindE (NewID s) (\<lambda>tokenID.
           bindE (use (svc_tokens s) (\<lambda>p. tokens_Create p
                    \<lparr>APIToken_ID = tokenID, APIToken_UserID = userID, APIToken_Name = name,
                     APIToken_Prefix = prefix, APIToken_TokenHash = hash, APIToken_Scopes = scopes,
                     APIToken_ExpiresAt = expiresAt, APIToken_RevokedAt = None, APIToken_CreatedAt = 0\<rparr>)) (\<lambda>_.
           ret (tokenID, prefix, APITokenScheme @ prefix @ ''.'' @ drop APITokenPrefixLength raw)))))))"

definition Service_ListApiTokens :: "'w Service \<Rightarrow> string \<Rightarrow> ('w, APITokenInfo list) M" where
  "Service_ListApiTokens s userID =
     (if userID = [] then fail (Errorf ''user_id required'' [] None)
      else use (svc_tokens s) (\<lambda>p. tokens_ListByUser p userID))"

definition Service_RevokeApiToken :: "'w Service \<Rightarrow> string \<Rightarrow> string \<Rightarrow> ('w, unit) M" where
  "Service_RevokeApiToken s userID tokenID =
     (if userID = [] \<or> tokenID = [] then fail (Errorf ''user_id and token_id required'' [] None)
      else use (svc_tokens s) (\<lambda>p. tokens_RevokeToken p userID tokenID))"

definition Service_ValidateApiToken :: "'w Service \<Rightarrow> string \<Rightarrow> ('w, string \<times> string list option) M" where
  "Service_ValidateApiToken s secret0 =
     (let secret = TrimPrefix (TrimSpace secret0) APITokenScheme in
      case SplitN2 secret (CHR ''.'') of
        [prefix, rest] \<Rightarrow>
          if length prefix \<noteq> APITokenPrefixLength \<or> rest = [] then fail ErrInvalidToken
          else
            bindE (use (svc_tokens s) (\<lambda>p. mapErr (\<lambda>_. ErrInvalidToken) (tokens_FindByPrefix p prefix))) (\<lambda>t.
            if APIToken_RevokedAt t \<noteq> None then fail ErrInvalidToken
            else
              bindE (case APIToken_ExpiresAt t of
                       None \<Rightarrow> ret False
                     | Some e \<Rightarrow> bindE (Now s) (\<lambda>now. ret (e < now))) (\<lambda>expired.
              if expired then fail ErrInvalidToken
              else
                bindE (Compare s (APIToken_TokenHash t) (prefix @ rest)) (\<lambda>match.
                if \<not> match then fail ErrInvalidToken
                else ret (APIToken_UserID t, APIToken_Scopes t))))
      | _ \<Rightarrow> fail ErrInvalidToken)"

fun seed_loop :: "unicode \<Rightarrow> 'w Service \<Rightarrow> DemoUser list \<Rightarrow> ('w, unit) M" where
  "seed_loop U s [] = ret ()"
| "seed_loop U s (u # us) =
     bindE (Hash s (DemoUser_Password u)) (\<lambda>hash.
     (let email = ToLower U (TrimSpace (DemoUser_Email u)); mobile = TrimSpace (DemoUser_Mobile u) in
      if email = [] \<and> mobile = [] then fail (Errorf ''demo user requires email or mobile'' [] None)
      else if mobile \<noteq> [] \<and> \<not> IsE164 mobile then fail (Errorf ''demo user mobile must be E.164'' [] None)
      else
        bindE (use (svc_users s) (\<lambda>p. users_UpsertDemoUser p email mobile hash (DemoUser_DisplayName u))) (\<lambda>_.
        seed_loop U s us)))"

definition Service_SeedDemoUsers :: "unicode \<Rightarrow> 'w Service \<Rightarrow> ('w, unit) M" where
  "Service_SeedDemoUsers U s = (if \<not> svc_demoMode s then ret () else seed_loop U s (svc_demoUsers s))"

section \<open>feature\_flags.go\<close>

record 'w FeatureFlags =
  FeatureFlags_store :: "'w FeatureFlagStore option"

definition NewFeatureFlags :: "'w FeatureFlagStore option \<Rightarrow> 'w FeatureFlags" where
  "NewFeatureFlags store = \<lparr>FeatureFlags_store = store\<rparr>"

definition FeatureFlags_List :: "'w FeatureFlags \<Rightarrow> ('w, FeatureFlag list) M" where
  "FeatureFlags_List s = use (FeatureFlags_store s) flags_ListFeatureFlags"

section \<open>organizations.go\<close>

definition Service_CreateOrg :: "'w Service \<Rightarrow> string \<Rightarrow> string \<Rightarrow> ('w, Organization) M" where
  "Service_CreateOrg s creatorID0 name0 =
     (let creatorID = TrimSpace creatorID0; name = TrimSpace name0 in
      if creatorID = [] then fail (Errorf ''creator_id required'' [] None)
      else if name = [] then fail ErrInvalidOrgName
      else
        bindE (Now s) (\<lambda>now.
        bindE (NewID s) (\<lambda>i.
        (let org = \<lparr>Organization_ID = i, Organization_Name = name, Organization_CreatedAt = now,
                    Organization_UpdatedAt = now\<rparr> in
         bindE (use (svc_orgs s) (\<lambda>p. orgs_CreateOrg p org creatorID)) (\<lambda>_. ret org)))))"

definition Service_ListOrgsForUser :: "'w Service \<Rightarrow> string \<Rightarrow> ('w, Organization list) M" where
  "Service_ListOrgsForUser s userID0 =
     (let userID = TrimSpace userID0 in
      if userID = [] then fail (Errorf ''user_id required'' [] None)
      else use (svc_orgs s) (\<lambda>p. orgs_ListOrgsForUser p userID))"

definition Service_ListMembers :: "'w Service \<Rightarrow> string \<Rightarrow> ('w, Membership list) M" where
  "Service_ListMembers s orgID0 =
     (let orgID = TrimSpace orgID0 in
      if orgID = [] then fail (Errorf ''org_id required'' [] None)
      else use (svc_orgs s) (\<lambda>p.
           bindE (orgs_GetOrg p orgID) (\<lambda>_. orgs_ListMembers p orgID)))"

definition Service_requireUser :: "'w Service \<Rightarrow> string \<Rightarrow> ('w, unit) M" where
  "Service_requireUser s userID =
     (case svc_users s of
        None \<Rightarrow> fail (Errorf ''user store is not configured'' [] None)
      | Some p \<Rightarrow> bindE (users_FindByID p userID) (\<lambda>_. ret ()))"

definition Service_AddMember :: "'w Service \<Rightarrow> string \<Rightarrow> string \<Rightarrow> ('w, unit) M" where
  "Service_AddMember s orgID0 userID0 =
     (let orgID = TrimSpace orgID0; userID = TrimSpace userID0 in
      if orgID = [] \<or> userID = [] then fail (Errorf ''org_id and user_id required'' [] None)
      else
        bindE (Service_requireUser s userID) (\<lambda>_.
        use (svc_orgs s) (\<lambda>p.
        bindE (orgs_GetOrg p orgID) (\<lambda>_.
        orgs_AddMember p orgID userID MembershipActive))))"

definition Service_SuspendMember :: "'w Service \<Rightarrow> string \<Rightarrow> string \<Rightarrow> ('w, unit) M" where
  "Service_SuspendMember s orgID0 userID0 =
     (let orgID = TrimSpace orgID0; userID = TrimSpace userID0 in
      if orgID = [] \<or> userID = [] then fail (Errorf ''org_id and user_id required'' [] None)
      else
        bindE (Service_requireUser s userID) (\<lambda>_.
        use (svc_orgs s) (\<lambda>p.
        bindE (orgs_GetMembership p orgID userID) (\<lambda>membership.
        if Membership_Status membership \<noteq> MembershipActive then ret ()
        else orgs_UpdateMemberStatus p orgID userID MembershipSuspended))))"

definition Service_RemoveMember :: "'w Service \<Rightarrow> string \<Rightarrow> string \<Rightarrow> ('w, unit) M" where
  "Service_RemoveMember s orgID0 userID0 =
     (let orgID = TrimSpace orgID0; userID = TrimSpace userID0 in
      if orgID = [] \<or> userID = [] then fail (Errorf ''org_id and user_id required'' [] None)
      else
        bindE (Service_requireUser s userID) (\<lambda>_.
        use (svc_orgs s) (\<lambda>p.
        bindE (orgs_GetMembership p orgID userID) (\<lambda>_.
        orgs_RemoveMember p orgID userID))))"

section \<open>invites.go\<close>

definition defaultInviteLocale :: string where "defaultInviteLocale = ''fa''"

definition Service_InviteMember :: "unicode \<Rightarrow> 'w Service \<Rightarrow> string \<Rightarrow> string \<Rightarrow> string \<Rightarrow> ('w, Invite) M" where
  "Service_InviteMember U s orgID0 inviterID0 email0 =
     (let orgID = TrimSpace orgID0; inviterID = TrimSpace inviterID0; email = NormalizeEmail U email0 in
      if orgID = [] \<or> inviterID = [] then fail (Errorf ''org_id and inviter_id required'' [] None)
      else if \<not> IsEmail email then fail ErrInvalidEmail
      else case svc_invites s of
        None \<Rightarrow> fail (Errorf ''invite store is not configured'' [] None)
      | Some invites \<Rightarrow>
          bindE (Service_IsActiveMember s orgID inviterID) (\<lambda>active.
          if \<not> active then fail ErrNotMember
          else
            bindE (use (svc_orgs s) (\<lambda>p. orgs_GetOrg p orgID)) (\<lambda>org.
            bindE (use (svc_users s) (\<lambda>p. users_FindByID p inviterID)) (\<lambda>inviter.
            bindE (use (svc_secrets s) secrets_NewSecret) (\<lambda>token.
            bindE (Now s) (\<lambda>now.
            bindE (NewID s) (\<lambda>i.
            (let invite = \<lparr>Invite_ID = i, Invite_OrgID = orgID, Invite_Email = email,
                           Invite_TokenHash = HashInviteToken token, Invite_InviterID = inviterID,
                           Invite_Status = InvitePending, Invite_ExpiresAt = now + InviteTTL,
                           Invite_AcceptedAt = None, Invite_CreatedAt = now\<rparr>;
                 notification = \<lparr>InviteNotification_Recipient = email,
                                 InviteNotification_OrgName = Organization_Name org,
                                 InviteNotification_InviterName =
                                   (if User_DisplayName inviter = [] then User_Email inviter
                                    else User_DisplayName inviter),
                                 InviteNotification_AcceptToken = token,
                                 InviteNotification_ExpiresAt = now + InviteTTL,
                                 InviteNotification_Locale = defaultInviteLocale,
                                 InviteNotification_CorrelationID = i\<rparr>
             in bindE (invites_CreateInvite invites invite) (\<lambda>_.
                bindE (tryE (use (svc_notifier s) (\<lambda>p. notifier_SendOrgInvite p notification))) (\<lambda>sent.
                case sent of
                  Inl err \<Rightarrow>
                    bindE (tryE (invites_RevokeInvite invites orgID i)) (\<lambda>revoked.
                    case revoked of
                      Inl revokeErr \<Rightarrow> fail (Errorf ''send invite: %w (revoke failed: %v)'' [] (Some err))
                    | Inr _ \<Rightarrow> fail err)
                | Inr _ \<Rightarrow> ret (invite\<lparr>Invite_TokenHash := []\<rparr>)))))))))))"

definition inviteRecipientMatches :: "unicode \<Rightarrow> User \<Rightarrow> string \<Rightarrow> bool" where
  "inviteRecipientMatches U user inviteEmail \<longleftrightarrow>
     User_Email user \<noteq> [] \<and> User_EmailVerified user \<and> User_Status user = UserActive \<and>
     EqualFold U (User_Email user) inviteEmail"

definition Service_AcceptInvite :: "unicode \<Rightarrow> 'w Service \<Rightarrow> string \<Rightarrow> string \<Rightarrow> ('w, Invite) M" where
  "Service_AcceptInvite U s userID0 token0 =
     (let userID = TrimSpace userID0; token = TrimSpace token0 in
      if userID = [] \<or> token = [] then fail ErrInvalidInvite
      else case svc_invites s of
        None \<Rightarrow> fail ErrInvalidInvite
      | Some invites \<Rightarrow>
          bindE (mapErr (\<lambda>err. if errors_Is err ErrInviteNotFound then ErrInvalidInvite else err)
                   (invites_FindInviteByTokenHash invites (HashInviteToken token))) (\<lambda>invite.
          bindE (Now s) (\<lambda>now.
          if Invite_Status invite \<noteq> InvitePending \<or> \<not> now < Invite_ExpiresAt invite then fail ErrInvalidInvite
          else
            bindE (use (svc_users s) (\<lambda>p.
                     mapErr (\<lambda>err. if errors_Is err ErrUserNotFound then ErrInvalidInvite else err)
                       (users_FindByID p userID))) (\<lambda>user.
            if \<not> inviteRecipientMatches U user (Invite_Email invite) then fail ErrInvalidInvite
            else
              bindE (mapErr (\<lambda>err. if errors_Is err ErrInviteNotFound then ErrInvalidInvite else err)
                       (invites_AcceptInvite invites (Invite_ID invite) (Invite_OrgID invite) userID now)) (\<lambda>_.
              ret (invite\<lparr>Invite_Status := InviteAccepted, Invite_AcceptedAt := Some now,
                          Invite_TokenHash := []\<rparr>))))))"

definition Service_RevokeInvite :: "'w Service \<Rightarrow> string \<Rightarrow> string \<Rightarrow> string \<Rightarrow> ('w, unit) M" where
  "Service_RevokeInvite s orgID0 inviteID0 callerID0 =
     (let orgID = TrimSpace orgID0; inviteID = TrimSpace inviteID0; callerID = TrimSpace callerID0 in
      if orgID = [] \<or> inviteID = [] \<or> callerID = []
      then fail (Errorf ''org_id, invite_id and caller_id required'' [] None)
      else case svc_invites s of
        None \<Rightarrow> fail (Errorf ''invite store is not configured'' [] None)
      | Some invites \<Rightarrow>
          bindE (Service_IsActiveMember s orgID callerID) (\<lambda>active.
          if \<not> active then fail ErrNotMember else invites_RevokeInvite invites orgID inviteID))"

definition Service_ListInvites :: "'w Service \<Rightarrow> string \<Rightarrow> ('w, Invite list) M" where
  "Service_ListInvites s orgID0 =
     (let orgID = TrimSpace orgID0 in
      if orgID = [] then fail (Errorf ''org_id required'' [] None)
      else case svc_invites s of
        None \<Rightarrow> fail (Errorf ''invite store is not configured'' [] None)
      | Some invites \<Rightarrow>
          bindE (use (svc_orgs s) (\<lambda>p. orgs_GetOrg p orgID)) (\<lambda>_.
          bindE (invites_ListInvites invites orgID) (\<lambda>xs.
          ret (map (\<lambda>x. x\<lparr>Invite_TokenHash := []\<rparr>) xs))))"

section \<open>signup.go\<close>

definition defaultSignupLocale :: string where "defaultSignupLocale = ''en''"

definition signupVerificationCooldown :: Time where "signupVerificationCooldown = 60 * Second"

definition Service_signupInvite :: "unicode \<Rightarrow> 'w Service \<Rightarrow> string \<Rightarrow> string \<Rightarrow> ('w, Invite option) M" where
  "Service_signupInvite U s token0 email =
     (let token = TrimSpace token0 in
      if token = [] then ret None
      else case svc_invites s of
        None \<Rightarrow> fail ErrInvalidInvite
      | Some invites \<Rightarrow>
          bindE (mapErr (\<lambda>err. if errors_Is err ErrInviteNotFound then ErrInvalidInvite else err)
                   (invites_FindInviteByTokenHash invites (HashInviteToken token))) (\<lambda>invite.
          bindE (Now s) (\<lambda>now.
          if Invite_Status invite \<noteq> InvitePending \<or> \<not> now < Invite_ExpiresAt invite \<or>
             \<not> EqualFold U (Invite_Email invite) email
          then fail ErrInvalidInvite
          else ret (Some invite))))"

definition Service_signupCooldownActive :: "'w Service \<Rightarrow> string \<Rightarrow> Time \<Rightarrow> ('w, bool) M" where
  "Service_signupCooldownActive s email now =
     use (svc_otp s) (\<lambda>otp.
     bindE (tryE (otp_GetLatestChallenge otp email ChannelEmail)) (\<lambda>r.
     case r of
       Inl err \<Rightarrow> ret False
     | Inr ch \<Rightarrow>
         if IsZero (OTPChallenge_CreatedAt ch) then ret False
         else ret (now - OTPChallenge_CreatedAt ch < signupVerificationCooldown)))"

definition OTPTTL_Minutes :: int where "OTPTTL_Minutes = OTPTTL div Minute"

definition retry_pending :: "'w Service \<Rightarrow> 'w SignupStore \<Rightarrow> User \<Rightarrow> string \<Rightarrow> Time \<Rightarrow> ('w, unit) M" where
  "retry_pending s signup user locale now =
     bindE (Service_signupCooldownActive s (User_Email user) now) (\<lambda>cooldown.
     if cooldown
     then bindE (signup_ReissuePendingSignup signup user None None now) (\<lambda>_. ret ())
     else
       bindE (Service_buildOTPChallenge s (User_Email user) ChannelEmail) (\<lambda>(challenge, code).
       bindE (signup_ReissuePendingSignup signup user (Some challenge) None now) (\<lambda>(userID, reissued).
       if \<not> reissued then ret ()
       else use (svc_notifier s) (\<lambda>p.
              notifier_SendSignupVerification p (User_Email user) code OTPTTL_Minutes locale userID))))"

definition Service_retryPendingSignup ::
  "'w Service \<Rightarrow> User \<Rightarrow> Invite option \<Rightarrow> string \<Rightarrow> Time \<Rightarrow> ('w, unit) M" where
  "Service_retryPendingSignup s user invite locale now =
     use (svc_signup s) (\<lambda>signup.
     case invite of
       Some iv \<Rightarrow>
         bindE (mapErr (\<lambda>err. if errors_Is err ErrInviteNotFound then ErrInvalidInvite else err)
                  (signup_ReissuePendingSignup signup user None (Some iv) now)) (\<lambda>_. ret ())
     | None \<Rightarrow>
         use (svc_users s) (\<lambda>users.
         bindE (tryE (users_FindByEmail users (User_Email user))) (\<lambda>found.
         case found of
           Inr existing \<Rightarrow>
             if User_Status existing \<noteq> UserSignupPending \<or> User_EmailVerified existing then ret ()
             else retry_pending s signup user locale now
         | Inl err \<Rightarrow> retry_pending s signup user locale now)))"

definition Service_RegisterWithEmail ::
  "unicode \<Rightarrow> 'w Service \<Rightarrow> string \<Rightarrow> string \<Rightarrow> string \<Rightarrow> string \<Rightarrow> string \<Rightarrow> string \<Rightarrow> ('w, unit) M" where
  "Service_RegisterWithEmail U s email0 password displayName locale0 orgName inviteToken =
     (if \<not> svc_signupOpen s then fail ErrSignupDisabled
      else if svc_signup s = None \<or> svc_users s = None \<or> svc_notifier s = None \<or> svc_otp s = None
      then fail (Errorf ''sign-up is not configured'' [] None)
      else
        (let email = NormalizeEmail U email0;
             locale = (if TrimSpace locale0 = [] then defaultSignupLocale else TrimSpace locale0)
         in
         if \<not> IsEmail email then fail ErrInvalidEmail
         else if TrimSpace password = [] then fail ErrPasswordRequired
         else
           bindE (Service_signupInvite U s inviteToken email) (\<lambda>invite.
           bindE (Hash s password) (\<lambda>hash.
           bindE (Now s) (\<lambda>now.
           bindE (NewID s) (\<lambda>userID.
           (let user = \<lparr>User_ID = userID, User_Email = email, User_Mobile = [], User_PasswordHash = hash,
                        User_DisplayName = TrimSpace displayName,
                        User_Status = (if invite \<noteq> None then UserActive else UserSignupPending),
                        User_EmailVerified = (invite \<noteq> None)\<rparr>
            in
            bindE (if invite = None \<and> TrimSpace orgName \<noteq> []
                   then bindE (NewID s) (\<lambda>i.
                        ret (Some \<lparr>Organization_ID = i, Organization_Name = TrimSpace orgName,
                                   Organization_CreatedAt = now, Organization_UpdatedAt = now\<rparr>))
                   else ret None) (\<lambda>org.
            bindE (use (svc_signup s) (\<lambda>p.
                     mapErr (\<lambda>err. if errors_Is err ErrInviteNotFound then ErrInvalidInvite else err)
                       (signup_CreateSignupUser p user org invite now))) (\<lambda>created.
            if \<not> created then Service_retryPendingSignup s user invite locale now
            else if invite \<noteq> None then ret ()
            else
              bindE (Service_newOTPChallenge s email ChannelEmail) (\<lambda>(ch, code).
              use (svc_notifier s) (\<lambda>p.
                notifier_SendSignupVerification p email code OTPTTL_Minutes locale userID)))))))))))"

definition Service_VerifySignup :: "unicode \<Rightarrow> 'w Service \<Rightarrow> string \<Rightarrow> string \<Rightarrow> string \<Rightarrow> ('w, token_pair) M" where
  "Service_VerifySignup U s email0 code0 password =
     (if \<not> svc_signupOpen s then fail ErrSignupDisabled
      else if svc_signup s = None \<or> svc_users s = None \<or> svc_otp s = None
      then fail (Errorf ''sign-up is not configured'' [] None)
      else
        (let email = NormalizeEmail U email0; code = TrimSpace code0 in
         if email = [] \<or> code = [] then fail ErrInvalidOTPCode
         else
           use (svc_otp s) (\<lambda>otp. use (svc_users s) (\<lambda>users. use (svc_signup s) (\<lambda>signup.
           bindE (mapErr (\<lambda>_. ErrInvalidOTPCode) (otp_GetLatestChallenge otp email ChannelEmail)) (\<lambda>ch.
           bindE (Now s) (\<lambda>now.
           (let refuse = bindE (ignoreE (otp_IncrementAttempts otp (OTPChallenge_ID ch))) (\<lambda>_. fail ErrInvalidOTPCode)
            in
            if OTPChallenge_ExpiresAt ch < now then fail ErrInvalidOTPCode
            else if MaxOTPAttempts \<le> OTPChallenge_Attempts ch then fail ErrTooManyOTPAttempts
            else
              bindE (Compare s (OTPChallenge_CodeHash ch) code) (\<lambda>match.
              if \<not> match then refuse
              else
                bindE (tryE (users_FindByEmail users email)) (\<lambda>found.
                case found of
                  Inl err \<Rightarrow> refuse
                | Inr user \<Rightarrow>
                    bindE (if User_Status user \<noteq> UserSignupPending \<or> User_EmailVerified user \<or>
                              User_PasswordHash user = []
                           then ret False
                           else Compare s (User_PasswordHash user) password) (\<lambda>ok.
                    if \<not> ok then refuse
                    else
                      bindE (otp_ConsumeChallenge otp (OTPChallenge_ID ch)) (\<lambda>_.
                      bindE (mapErr (\<lambda>err. if errors_Is err ErrUserNotFound then ErrInvalidOTPCode else err)
                               (signup_VerifySignup signup (User_ID user) now)) (\<lambda>_.
                      Service_issueTokens s (User_ID user))))))))))))))"

definition Service_PurgeUnverifiedSignups :: "'w Service \<Rightarrow> Time \<Rightarrow> ('w, int) M" where
  "Service_PurgeUnverifiedSignups s before =
     (case svc_signup s of
        None \<Rightarrow> fail (Errorf ''sign-up store is not configured'' [] None)
      | Some signup \<Rightarrow>
          if IsZero before then fail (Errorf ''cutoff is required'' [] None)
          else signup_PurgeUnverifiedSignups signup before)"

end
