(* ===== verification/Adapters.thy ===== *)
theory Adapters
  imports StoreSignup Token GoTime Service
begin

text \<open>
  The adapters behind the ports of the application (\<open>internal/infrastructure\<close>: credentials, clock, ids,
  jwt, notifications) and the wiring of \<open>cmd/auth/main.go\<close>, which gives the application the Postgres
  store for every store port. \<open>w_sent\<close> of the world lists the requests made to orbit-notifications.
\<close>

section \<open>credentials, clock, ids\<close>

text \<open>Consult an outside source at a new tick.\<close>

definition ask :: "(nat \<Rightarrow> gerr + 'a) \<Rightarrow> (world, 'a) M" where
  "ask f = bindE tick (\<lambda>t. case f t of Inl err \<Rightarrow> fail err | Inr a \<Rightarrow> ret a)"

definition Hasher_Hash :: "env \<Rightarrow> string \<Rightarrow> (world, string) M" where
  "Hasher_Hash E secret = ask (\<lambda>t. bcrypt_Generate E t secret)"

definition Hasher_Compare :: "env \<Rightarrow> string \<Rightarrow> string \<Rightarrow> bool" where
  "Hasher_Compare E hash secret = bcrypt_Compare E hash secret"

definition Codes_NewCode :: "env \<Rightarrow> (world, string) M" where
  "Codes_NewCode E = bindE (ask (rand_Int E)) (\<lambda>n. ret (zero_pad 6 (int n)))"

definition Secrets_NewSecret :: "env \<Rightarrow> (world, string) M" where
  "Secrets_NewSecret E = bindE (ask (rand_Read E)) (\<lambda>b. ret (EncodeRawURL b))"

definition Clock_Now :: "env \<Rightarrow> (world, Time) M" where
  "Clock_Now E = time_Now E"

definition Generator_NewID :: "env \<Rightarrow> (world, string) M" where
  "Generator_NewID E = uuid_NewString E"

text \<open>
  What the code relies on of \<open>crypto/rand\<close>: an integer below the bound it asks for, here a million, and
  as many bytes as the buffer has, here 32.
\<close>

definition rand_laws :: "env \<Rightarrow> bool" where
  "rand_laws E \<longleftrightarrow> (\<forall>t n. rand_Int E t = Inr n \<longrightarrow> n < 1000000) \<and> (\<forall>t b. rand_Read E t = Inr b \<longrightarrow> length b = 32)"

section \<open>notifications\<close>

text \<open>Dialling is a call of the gRPC package; the transport credentials come before the options of the caller.\<close>

datatype 'o DialOption = InsecureTransport | CallerOption 'o

definition NewClient :: "(string \<Rightarrow> 'o DialOption list \<Rightarrow> gerr option) \<Rightarrow> string \<Rightarrow> 'o list \<Rightarrow> gerr + unit" where
  "NewClient dial addr opts =
     (case dial addr (InsecureTransport # map CallerOption opts) of Some err \<Rightarrow> Inl err | None \<Rightarrow> Inr ())"

definition Client_Send :: "env \<Rightarrow> SendRequest \<Rightarrow> (world, unit) M" where
  "Client_Send E req =
     bindE tick (\<lambda>t. bindE (\<lambda>w. (Inr (), w\<lparr>w_sent := w_sent w @ [req]\<rparr>)) (\<lambda>_.
     case notifications_Send E t req of Some err \<Rightarrow> fail err | None \<Rightarrow> ret ()))"

definition Client_SendOTP :: "env \<Rightarrow> string \<Rightarrow> string \<Rightarrow> string \<Rightarrow> string \<Rightarrow> (world, unit) M" where
  "Client_SendOTP E channel recipient code correlationID =
     Client_Send E
       \<lparr>SendRequest_Template = (if channel = ''sms'' then ''otp_login_sms'' else ''otp_login''),
        SendRequest_Channel = channel, SendRequest_Recipient = recipient,
        SendRequest_CorrelationId = correlationID, SendRequest_Vars = [(''code'', code)]\<rparr>"

definition Client_SendSignupVerification ::
  "env \<Rightarrow> string \<Rightarrow> string \<Rightarrow> int \<Rightarrow> string \<Rightarrow> string \<Rightarrow> (world, unit) M" where
  "Client_SendSignupVerification E recipient code expiresInMinutes locale correlationID =
     Client_Send E
       \<lparr>SendRequest_Template = ''signup_verify'', SendRequest_Channel = ''email'', SendRequest_Recipient = recipient,
        SendRequest_CorrelationId = correlationID,
        SendRequest_Vars =
          [(''code'', code), (''expires_in_minutes'', Itoa expiresInMinutes),
           (''locale'', if locale \<noteq> ''fa'' \<and> locale \<noteq> ''en'' then ''en'' else locale)]\<rparr>"

definition Client_SendOrgInvite :: "env \<Rightarrow> InviteNotification \<Rightarrow> (world, unit) M" where
  "Client_SendOrgInvite E invite =
     Client_Send E
       \<lparr>SendRequest_Template = ''org_invite'', SendRequest_Channel = ''email'',
        SendRequest_Recipient = InviteNotification_Recipient invite,
        SendRequest_CorrelationId = InviteNotification_CorrelationID invite,
        SendRequest_Vars =
          [(''org_name'', InviteNotification_OrgName invite), (''inviter_name'', InviteNotification_InviterName invite),
           (''accept_token'', InviteNotification_AcceptToken invite),
           (''expires_at'', RFC3339 (InviteNotification_ExpiresAt invite)),
           (''locale'', let l = InviteNotification_Locale invite in if l \<noteq> ''fa'' \<and> l \<noteq> ''en'' then ''fa'' else l)]\<rparr>"

section \<open>jwt\<close>

record Signer =
  signer_key :: rsa_private
  signer_keyID :: string
  signer_keys :: KeySet

definition NewFromEnv :: "key_files \<Rightarrow> (string \<Rightarrow> string) \<Rightarrow> gerr + Signer" where
  "NewFromEnv F getenv =
     (let privateKeyPath = TrimSpace (getenv ''JWT_PRIVATE_KEY_FILE'') in
      if privateKeyPath = [] then Inl (Errorf ''JWT_PRIVATE_KEY_FILE is required'' [] None)
      else case LoadRSAPrivateKey F privateKeyPath of
        Inl err \<Rightarrow> Inl err
      | Inr privateKey \<Rightarrow>
          (let keyID = TrimSpace (getenv ''JWT_ACTIVE_KEY_ID'');
               publicKeysDirectory = TrimSpace (getenv ''JWT_PUBLIC_KEYS_DIR'') in
           if keyID = [] then Inl (Errorf ''JWT_ACTIVE_KEY_ID is required'' [] None)
           else if publicKeysDirectory = [] then Inl (Errorf ''JWT_PUBLIC_KEYS_DIR is required'' [] None)
           else case LoadKeySet F publicKeysDirectory of
             Inl err \<Rightarrow> Inl err
           | Inr publicKeys \<Rightarrow>
               (let mismatch = Inl (Errorf ''active JWT key ID %q must match a public key in JWT_PUBLIC_KEYS_DIR'' [keyID] None) in
                case Mapping.lookup publicKeys keyID of
                  None \<Rightarrow> mismatch
                | Some activePublicKey \<Rightarrow>
                    if rsa_E activePublicKey \<noteq> private_E privateKey \<or> rsa_N activePublicKey \<noteq> private_N privateKey
                    then mismatch
                    else Inr \<lparr>signer_key = privateKey, signer_keyID = keyID, signer_keys = publicKeys\<rparr>)))"

definition Signer_KeySet :: "Signer \<Rightarrow> KeySet" where
  "Signer_KeySet s = signer_keys s"

definition Signer_SignAccessToken :: "env \<Rightarrow> jwt_pkg \<Rightarrow> Signer \<Rightarrow> string \<Rightarrow> Time \<Rightarrow> (world, string) M" where
  "Signer_SignAccessToken E J s subject expires =
     SignAccessToken E J (Some (signer_key s)) (signer_keyID s) subject expires"

definition Signer_SignAccessTokenWithOrg :: "env \<Rightarrow> jwt_pkg \<Rightarrow> Signer \<Rightarrow> string \<Rightarrow> string \<Rightarrow> Time \<Rightarrow> (world, string) M" where
  "Signer_SignAccessTokenWithOrg E J s subject orgID expires =
     SignAccessTokenWithOrg E J (Some (signer_key s)) (signer_keyID s) subject orgID expires"

section \<open>The store as each of the store ports\<close>

definition store_OTP :: "env \<Rightarrow> world OTPStore" where
  "store_OTP E =
     \<lparr>otp_UpsertChallenge = Store_UpsertChallenge E, otp_GetLatestChallenge = Store_GetLatestChallenge E,
      otp_IncrementAttempts = Store_IncrementAttempts E, otp_ConsumeChallenge = Store_ConsumeChallenge E,
      otp_DeleteExpiredChallenges = Store_DeleteExpiredChallenges E\<rparr>"

definition store_Users :: "env \<Rightarrow> world UserStore" where
  "store_Users E =
     \<lparr>users_FindOrCreateByEmail = Store_FindOrCreateByEmail E, users_FindOrCreateByMobile = Store_FindOrCreateByMobile E,
      users_FindByEmail = Store_FindByEmail E, users_FindByMobile = Store_FindByMobile E,
      users_FindByID = Store_FindByID E, users_UpdateLastLogin = Store_UpdateLastLogin E,
      users_UpsertDemoUser = Store_UpsertDemoUser E\<rparr>"

definition store_Signup :: "env \<Rightarrow> world SignupStore" where
  "store_Signup E =
     \<lparr>signup_CreateSignupUser = Store_CreateSignupUser E, signup_ReissuePendingSignup = Store_ReissuePendingSignup E,
      signup_VerifySignup = Store_VerifySignup E, signup_PurgeUnverifiedSignups = Store_PurgeUnverifiedSignups E\<rparr>"

definition store_Refresh :: "env \<Rightarrow> world RefreshTokenStore" where
  "store_Refresh E = \<lparr>refresh_Store = Store_Store E, refresh_FindValid = Store_FindValid E, refresh_Revoke = Store_Revoke E\<rparr>"

definition store_Tokens :: "env \<Rightarrow> world APITokenStore" where
  "store_Tokens E =
     \<lparr>tokens_Create = Store_Create E, tokens_ListByUser = Store_ListByUser E,
      tokens_RevokeToken = Store_RevokeToken E, tokens_FindByPrefix = Store_FindByPrefix E\<rparr>"

definition store_Orgs :: "env \<Rightarrow> world OrgStore" where
  "store_Orgs E =
     \<lparr>orgs_CreateOrg = Store_CreateOrg E, orgs_GetOrg = Store_GetOrg E, orgs_ListOrgsForUser = Store_ListOrgsForUser E,
      orgs_ListMembers = Store_ListMembers E, orgs_AddMember = Store_AddMember E,
      orgs_UpdateMemberStatus = Store_UpdateMemberStatus E, orgs_RemoveMember = Store_RemoveMember E,
      orgs_GetMembership = Store_GetMembership E\<rparr>"

definition store_Invites :: "env \<Rightarrow> world InviteStore" where
  "store_Invites E =
     \<lparr>invites_CreateInvite = Store_CreateInvite E, invites_FindInviteByTokenHash = Store_FindInviteByTokenHash E,
      invites_ListInvites = Store_ListInvites E, invites_RevokeInvite = Store_RevokeInvite E,
      invites_AcceptInvite = Store_AcceptInvite E\<rparr>"

definition store_Flags :: "env \<Rightarrow> world FeatureFlagStore" where
  "store_Flags E = \<lparr>flags_ListFeatureFlags = Store_ListFeatureFlags E\<rparr>"

section \<open>main.go\<close>

definition envOr :: "(string \<Rightarrow> string) \<Rightarrow> string \<Rightarrow> string \<Rightarrow> string" where
  "envOr getenv key fallback = (let v = getenv key in if v \<noteq> [] then v else fallback)"

definition demoUsersFromEnv ::
  "(string \<Rightarrow> gerr + DemoUser list) \<Rightarrow> (string \<Rightarrow> string) \<Rightarrow> gerr + DemoUser list" where
  "demoUsersFromEnv json_Unmarshal getenv =
     (if getenv ''DEMO_MODE'' \<noteq> ''true'' then Inr []
      else if getenv ''DEPLOYMENT_ENVIRONMENT'' \<noteq> ''dev''
      then Inl (Errorf ''DEMO_MODE is only allowed when DEPLOYMENT_ENVIRONMENT=dev'' [] None)
      else let raw = getenv ''AUTH_DEMO_USERS'' in
        if raw = [] then Inl (Errorf ''AUTH_DEMO_USERS is required when DEMO_MODE=true'' [] None)
        else json_Unmarshal raw)"

text \<open>
  The dependencies of the service. The flags are the evaluator that \<open>featureflags.NewFromEnv\<close> returns.
\<close>

definition main_deps ::
  "env \<Rightarrow> jwt_pkg \<Rightarrow> Signer \<Rightarrow> world Flags \<Rightarrow> DemoUser list \<Rightarrow> (string \<Rightarrow> string) \<Rightarrow> world Deps" where
  "main_deps E J signer flags demoUsers getenv =
     \<lparr>deps_OTP = Some (store_OTP E), deps_Users = Some (store_Users E), deps_Refresh = Some (store_Refresh E),
      deps_Tokens = Some (store_Tokens E), deps_Orgs = Some (store_Orgs E), deps_Invites = Some (store_Invites E),
      deps_Signup = Some (store_Signup E),
      deps_Notifier = Some \<lparr>notifier_SendOTP = Client_SendOTP E,
        notifier_SendSignupVerification = Client_SendSignupVerification E, notifier_SendOrgInvite = Client_SendOrgInvite E\<rparr>,
      deps_Flags = Some flags, deps_Clock = Some \<lparr>clock_Now = Clock_Now E\<rparr>,
      deps_IDs = Some \<lparr>ids_NewID = Generator_NewID E\<rparr>,
      deps_Signer = Some \<lparr>signer_SignAccessToken = Signer_SignAccessToken E J signer,
        signer_SignAccessTokenWithOrg = Signer_SignAccessTokenWithOrg E J signer\<rparr>,
      deps_Hasher = Some \<lparr>hasher_Hash = Hasher_Hash E, hasher_Compare = Hasher_Compare E\<rparr>,
      deps_Codes = Some \<lparr>codes_NewCode = Codes_NewCode E\<rparr>, deps_Secrets = Some \<lparr>secrets_NewSecret = Secrets_NewSecret E\<rparr>,
      deps_SignupOpen = EqualFold (env_unicode E) (TrimSpace (getenv ''AUTH_SIGNUP'')) ''open'',
      deps_DemoMode = (getenv ''DEMO_MODE'' = ''true''), deps_DemoUsers = demoUsers,
      deps_AutoSelectSingleOrg =
        (\<not> EqualFold (env_unicode E) (envOr getenv ''AUTH_AUTO_SELECT_SINGLE_ORG'' ''true'') ''false'')\<rparr>"

definition main_service ::
  "env \<Rightarrow> jwt_pkg \<Rightarrow> Signer \<Rightarrow> world Flags \<Rightarrow> DemoUser list \<Rightarrow> (string \<Rightarrow> string) \<Rightarrow> world Service" where
  "main_service E J signer flags demoUsers getenv = NewService (main_deps E J signer flags demoUsers getenv)"

end
