(* ===== verification/Flags.thy ===== *)
theory Flags
  imports Adapters
begin

text \<open>
  Feature flags: the HTTP endpoint that publishes the rows of the flags table
  (\<open>internal/infrastructure/httpapi\<close>) and the OpenFeature provider that reads such an endpoint and answers
  from its cache (\<open>internal/infrastructure/featureflags\<close>). A fetch is a value, what one HTTP exchange
  gave; the OpenFeature SDK is a parameter. The context and goroutine of the refresh loop appear as the
  sequence of the fetches it makes.
\<close>

section \<open>featureflags/client.go\<close>

record flagRecord =
  flagRecord_Name :: string
  flagRecord_Enabled :: bool
  flagRecord_Description :: string

record flagsDocument =
  flagsDocument_Version :: string
  flagsDocument_Flags :: "flagRecord list"

record PlatformProvider =
  provider_url :: string
  provider_flags :: "(string, bool) mapping"
  provider_cancel :: bool

definition defaultFlagsURL :: string where "defaultFlagsURL = ''http://localhost:10011/v1/flags''"

definition newPlatformProvider :: "string \<Rightarrow> PlatformProvider" where
  "newPlatformProvider url = \<lparr>provider_url = url, provider_flags = Mapping.empty, provider_cancel = False\<rparr>"

datatype flags_fetch = FlagsFailure gerr | FlagsResponse int string "gerr + flagsDocument"

fun refresh :: "flags_fetch \<Rightarrow> PlatformProvider \<Rightarrow> gerr option \<times> PlatformProvider" where
  "refresh (FlagsFailure err) p = (Some err, p)"
| "refresh (FlagsResponse code status body) p =
     (if code \<noteq> 200 then (Some (Errorf ''flags endpoint %s returned %s'' [provider_url p, status] None), p)
      else case body of
        Inl err \<Rightarrow> (Some err, p)
      | Inr doc \<Rightarrow>
          (None, p\<lparr>provider_flags :=
             foldl (\<lambda>next flag. Mapping.update (flagRecord_Name flag) (flagRecord_Enabled flag) next)
               Mapping.empty (flagsDocument_Flags doc)\<rparr>))"

definition Provider_Init :: "flags_fetch \<Rightarrow> PlatformProvider \<Rightarrow> PlatformProvider" where
  "Provider_Init resp p = snd (refresh resp (p\<lparr>provider_cancel := True\<rparr>))"

definition Provider_Shutdown :: "PlatformProvider \<Rightarrow> PlatformProvider" where
  "Provider_Shutdown p = p\<lparr>provider_cancel := False\<rparr>"

definition refreshLoop :: "flags_fetch list \<Rightarrow> PlatformProvider \<Rightarrow> PlatformProvider" where
  "refreshLoop resps p = foldl (\<lambda>p resp. snd (refresh resp p)) p resps"

definition isDisabledURL :: "unicode \<Rightarrow> string \<Rightarrow> bool" where
  "isDisabledURL U url0 = (let url = TrimSpace url0 in EqualFold U url ''off'' \<or> EqualFold U url ''disabled'')"

datatype Reason = StaticReason | DefaultReason

definition Metadata :: "PlatformProvider \<Rightarrow> string" where
  "Metadata p = ''platform''"

definition BooleanEvaluation :: "PlatformProvider \<Rightarrow> string \<Rightarrow> bool \<Rightarrow> bool \<times> Reason" where
  "BooleanEvaluation p flag defaultValue =
     (case Mapping.lookup (provider_flags p) flag of
        Some value \<Rightarrow> (value, StaticReason)
      | None \<Rightarrow> (defaultValue, DefaultReason))"

definition StringEvaluation :: "PlatformProvider \<Rightarrow> string \<Rightarrow> string \<Rightarrow> string \<times> Reason" where
  "StringEvaluation p flag defaultValue = (defaultValue, DefaultReason)"

definition FloatEvaluation :: "PlatformProvider \<Rightarrow> string \<Rightarrow> 'f \<Rightarrow> 'f \<times> Reason" where
  "FloatEvaluation p flag defaultValue = (defaultValue, DefaultReason)"

definition IntEvaluation :: "PlatformProvider \<Rightarrow> string \<Rightarrow> int \<Rightarrow> int \<times> Reason" where
  "IntEvaluation p flag defaultValue = (defaultValue, DefaultReason)"

definition ObjectEvaluation :: "PlatformProvider \<Rightarrow> string \<Rightarrow> 'a \<Rightarrow> 'a \<times> Reason" where
  "ObjectEvaluation p flag defaultValue = (defaultValue, DefaultReason)"

text \<open>
  The SDK. \<open>SetProvider\<close> may fail; \<open>BooleanValue\<close> may fail, for instance while the provider initialises.
  What the code relies on: a value it returns is the one the provider evaluates.
\<close>

record openfeature =
  of_SetProvider :: "PlatformProvider \<Rightarrow> gerr option"
  of_BooleanValue :: "PlatformProvider \<Rightarrow> string \<Rightarrow> bool \<Rightarrow> gerr + bool"

definition openfeature_laws :: "openfeature \<Rightarrow> bool" where
  "openfeature_laws F \<longleftrightarrow> (\<forall>p flag d v. of_BooleanValue F p flag d = Inr v \<longrightarrow> v = fst (BooleanEvaluation p flag d))"

type_synonym FlagEvaluator = "PlatformProvider option"

definition flags_NewFromEnv :: "unicode \<Rightarrow> openfeature \<Rightarrow> (string \<Rightarrow> string) \<Rightarrow> FlagEvaluator" where
  "flags_NewFromEnv U F getenv =
     (let url = envOr getenv ''FLAGS_URL'' defaultFlagsURL in
      if isDisabledURL U url then None
      else let provider = newPlatformProvider url in
           case of_SetProvider F provider of Some err \<Rightarrow> None | None \<Rightarrow> Some provider)"

definition Evaluator_Bool :: "openfeature \<Rightarrow> FlagEvaluator \<Rightarrow> string \<Rightarrow> bool \<Rightarrow> bool" where
  "Evaluator_Bool F e flag defaultVal =
     (case e of
        None \<Rightarrow> defaultVal
      | Some p \<Rightarrow> (case of_BooleanValue F p flag defaultVal of Inl err \<Rightarrow> defaultVal | Inr v \<Rightarrow> v))"

text \<open>The port of the application: the evaluator as the refresh loop has left it at the tick of the call.\<close>

definition flags_port :: "openfeature \<Rightarrow> (nat \<Rightarrow> FlagEvaluator) \<Rightarrow> world Flags" where
  "flags_port F ev = \<lparr>flags_Bool = (\<lambda>flag d. bindE tick (\<lambda>t. ret (Evaluator_Bool F (ev t) flag d)))\<rparr>"

section \<open>httpapi/server.go\<close>

record flagItem =
  flagItem_Name :: string
  flagItem_Enabled :: bool
  flagItem_Description :: string

record flagsResponse =
  flagsResponse_Version :: string
  flagsResponse_Flags :: "flagItem list"

datatype http_body = ErrorBody string | FlagsBody flagsResponse

record http_response =
  http_Status :: int
  http_Header :: "(string \<times> string) list"
  http_Body :: http_body

definition flag_item :: "FeatureFlag \<Rightarrow> flagItem" where
  "flag_item flag =
     \<lparr>flagItem_Name = FeatureFlag_Name flag, flagItem_Enabled = FeatureFlag_Enabled flag,
      flagItem_Description = FeatureFlag_Description flag\<rparr>"

definition newest_update :: "FeatureFlag list \<Rightarrow> Time" where
  "newest_update listed =
     foldl (\<lambda>newest flag. if newest < FeatureFlag_UpdatedAt flag then FeatureFlag_UpdatedAt flag else newest) 0 listed"

definition listFlags :: "'w FeatureFlags \<Rightarrow> ('w, http_response) M" where
  "listFlags flags =
     bindE (tryE (FeatureFlags_List flags)) (\<lambda>r.
     case r of
       Inl err \<Rightarrow>
         ret \<lparr>http_Status = 503,
              http_Header = [(''Cache-Control'', ''no-cache''), (''Content-Type'', ''application/json'')],
              http_Body = ErrorBody ''flags unavailable''\<rparr>
     | Inr listed0 \<Rightarrow>
         (let listed = sort_key FeatureFlag_Name listed0; newest = newest_update listed in
          ret \<lparr>http_Status = 200,
               http_Header = [(''Cache-Control'', ''no-cache''), (''Content-Type'', ''application/json'')],
               http_Body = FlagsBody
                 \<lparr>flagsResponse_Version = (if IsZero newest then [] else RFC3339Nano newest),
                  flagsResponse_Flags = map flag_item listed\<rparr>\<rparr>))"

text \<open>
  What a client decodes from a response of the endpoint: the two structures have the same JSON fields,
  and a body of another shape has no flags. Encoding and decoding a string is the identity because it is valid
  UTF-8: \<open>json.Marshal\<close> replaces other bytes, but the texts come from a UTF-8 database, which holds none.
\<close>

definition document_of :: "flagsResponse \<Rightarrow> flagsDocument" where
  "document_of r =
     \<lparr>flagsDocument_Version = flagsResponse_Version r,
      flagsDocument_Flags = map (\<lambda>i. \<lparr>flagRecord_Name = flagItem_Name i, flagRecord_Enabled = flagItem_Enabled i,
        flagRecord_Description = flagItem_Description i\<rparr>) (flagsResponse_Flags r)\<rparr>"

definition fetch_of :: "http_response \<Rightarrow> flags_fetch" where
  "fetch_of r =
     FlagsResponse (http_Status r) []
       (case http_Body r of
          ErrorBody e \<Rightarrow> Inr \<lparr>flagsDocument_Version = [], flagsDocument_Flags = []\<rparr>
        | FlagsBody b \<Rightarrow> Inr (document_of b))"

section \<open>Lemmas\<close>

lemma lookup_foldl_update:
  "Mapping.lookup (foldl (\<lambda>m x. Mapping.update (k x) (v x) m) m0 xs) i =
     (case find (\<lambda>x. k x = i) (rev xs) of Some x \<Rightarrow> Some (v x) | None \<Rightarrow> Mapping.lookup m0 i)"
  by (induction xs arbitrary: m0 rule: rev_induct) (auto simp: lookup_update')

lemma find_distinct_set:
  assumes "distinct (map f xs)" and "set ys = set xs"
  shows "find (\<lambda>x. f x = i) ys = find (\<lambda>x. f x = i) xs"
proof (cases "find (\<lambda>x. f x = i) xs")
  case None
  then have "find (\<lambda>x. f x = i) ys = None" using assms(2) by (simp add: find_None_iff)
  with None show ?thesis by simp
next
  case (Some x)
  then have x: "x \<in> set ys" "f x = i" using assms(2) by (auto simp: find_Some_iff)
  then obtain y where y: "find (\<lambda>x. f x = i) ys = Some y"
    by (cases "find (\<lambda>x. f x = i) ys") (auto simp: find_None_iff)
  then have "y \<in> set xs" "f y = i" using assms(2) by (auto simp: find_Some_iff)
  with x have "y = x" using assms by (intro distinct_map_unique [OF assms(1)]) auto
  then show ?thesis using Some y by simp
qed

lemma find_map: "find p (map f xs) = map_option f (find (\<lambda>x. p (f x)) xs)"
  by (induction xs) auto

fun good_fetch :: "flags_fetch \<Rightarrow> bool" where
  "good_fetch (FlagsResponse code status (Inr doc)) = (code = 200)"
| "good_fetch r = False"

lemma refresh_bad: "\<not> good_fetch r \<Longrightarrow> snd (refresh r p) = p"
  by (cases r rule: good_fetch.cases) auto

lemma refresh_good: "good_fetch r \<Longrightarrow> provider_flags (snd (refresh r p)) = provider_flags (snd (refresh r q))"
  by (cases r rule: good_fetch.cases) auto

lemma listFlags_ok:
  assumes "listFlags (NewFeatureFlags (Some (store_Flags E))) w = (Inr r, w')" and "http_Status r = 200"
  obtains rows v where "Store_ListFeatureFlags E w = (Inr rows, w')"
    and "http_Body r = FlagsBody \<lparr>flagsResponse_Version = v, flagsResponse_Flags = map flag_item (sort_key FeatureFlag_Name rows)\<rparr>"
proof -
  obtain x w1 where x: "Store_ListFeatureFlags E w = (x, w1)" by fastforce
  then show thesis
    using assms that
    by (cases x) (auto simp: listFlags_def FeatureFlags_List_def NewFeatureFlags_def store_Flags_def effect_defs Let_def)
qed

section \<open>Properties\<close>

text \<open>
  C40. An outage never clears or changes flags: after any sequence of fetches, the cache of the provider
  is what the last successful fetch alone would have made of a new provider, and the initial cache if
  none was successful.
\<close>

theorem flags_last_good:
  "provider_flags (refreshLoop resps p) =
     (case find good_fetch (rev resps) of
        None \<Rightarrow> provider_flags p
      | Some r \<Rightarrow> provider_flags (snd (refresh r (newPlatformProvider url))))"
proof (induction resps rule: rev_induct)
  case (snoc r resps)
  show ?case
  proof (cases "good_fetch r")
    case True
    then show ?thesis using refresh_good by (simp add: refreshLoop_def)
  next
    case False
    then show ?thesis using snoc refresh_bad [OF False] by (simp add: refreshLoop_def)
  qed
qed (simp add: refreshLoop_def)

text \<open>
  C34. Published flags arrive: when the endpoint of this service answers a provider with status 200, the
  provider afterwards evaluates every flag of the table to its stored state and every other flag to the
  caller's default; with any other status it keeps its cache.
\<close>

theorem published_flags_arrive:
  assumes "distinct (map f_Name (feature_flags (w_db w)))"
    and "listFlags (NewFeatureFlags (Some (store_Flags E))) w = (Inr r, w')"
  shows "if http_Status r = 200
         then fst (BooleanEvaluation (snd (refresh (fetch_of r) p)) flag d) =
                (case find (\<lambda>f. f_Name f = flag) (feature_flags (w_db w)) of Some f \<Rightarrow> f_Enabled f | None \<Rightarrow> d)
         else snd (refresh (fetch_of r) p) = p"
proof (cases "http_Status r = 200")
  case False
  then show ?thesis by (simp add: fetch_of_def)
next
  case True
  let ?row = "\<lambda>f. \<lparr>FeatureFlag_Name = f_Name f, FeatureFlag_Enabled = f_Enabled f,
                    FeatureFlag_Description = f_Description f, FeatureFlag_UpdatedAt = f_UpdatedAt f\<rparr>"
  from listFlags_ok [OF assms(2) True] obtain rows v where rows: "Store_ListFeatureFlags E w = (Inr rows, w')"
    and b: "http_Body r = FlagsBody \<lparr>flagsResponse_Version = v, flagsResponse_Flags = map flag_item (sort_key FeatureFlag_Name rows)\<rparr>" .
  from rows have rows: "set rows = ?row ` set (feature_flags (w_db w))"
    by (auto simp: Store_ListFeatureFlags_def run q_ListFeatureFlags_def)
  define ys where "ys = rev (sort_key FeatureFlag_Name rows)"
  have "Mapping.lookup (provider_flags (snd (refresh (fetch_of r) p))) flag =
      map_option FeatureFlag_Enabled (find (\<lambda>x. FeatureFlag_Name x = flag) ys)"
    using True by (simp add: fetch_of_def b document_of_def lookup_foldl_update rev_map find_map comp_def
        flag_item_def ys_def lookup_empty split: option.split)
  also have "find (\<lambda>x. FeatureFlag_Name x = flag) ys = find (\<lambda>x. FeatureFlag_Name x = flag) (map ?row (feature_flags (w_db w)))"
    using assms(1) by (intro find_distinct_set) (simp_all add: ys_def comp_def rows)
  finally show ?thesis
    using True by (auto simp: BooleanEvaluation_def find_map comp_def option.map_comp split: option.split)
qed

text \<open>Witness of C34: a world with one flag, listed in the demo environment.\<close>

definition demo_flag :: FlagRow where
  "demo_flag = \<lparr>f_Name = ''manova.auth.email_otp'', f_Enabled = True, f_Description = [], f_UpdatedAt = 0\<rparr>"

definition demo_flags_response :: http_response where
  "demo_flags_response =
     \<lparr>http_Status = 200, http_Header = [(''Cache-Control'', ''no-cache''), (''Content-Type'', ''application/json'')],
      http_Body = FlagsBody \<lparr>flagsResponse_Version = [], flagsResponse_Flags =
        [\<lparr>flagItem_Name = ''manova.auth.email_otp'', flagItem_Enabled = True, flagItem_Description = []\<rparr>]\<rparr>\<rparr>"

theorem published_flags_arrive_witness:
  "if http_Status demo_flags_response = 200
   then fst (BooleanEvaluation (snd (refresh (fetch_of demo_flags_response) (newPlatformProvider defaultFlagsURL)))
          ''manova.auth.email_otp'' False) =
        (case find (\<lambda>f. f_Name f = ''manova.auth.email_otp'') (feature_flags (w_db (start_world [demo_flag] 0)))
         of Some f \<Rightarrow> f_Enabled f | None \<Rightarrow> False)
   else snd (refresh (fetch_of demo_flags_response) (newPlatformProvider defaultFlagsURL)) = newPlatformProvider defaultFlagsURL"
proof (rule published_flags_arrive)
  show "distinct (map f_Name (feature_flags (w_db (start_world [demo_flag] 0))))"
    by (simp add: start_world_def empty_db_def)
  show "listFlags (NewFeatureFlags (Some (store_Flags demo_env))) (start_world [demo_flag] 0) =
      (Inr demo_flags_response, start_world [demo_flag] 1)"
    by (simp add: listFlags_def FeatureFlags_List_def NewFeatureFlags_def store_Flags_def Store_ListFeatureFlags_def
        effect_defs exec_def q_ListFeatureFlags_def scan_def start_world_def empty_db_def demo_env_def demo_flag_def
        newest_update_def IsZero_def flag_item_def demo_flags_response_def)
qed

end
