(* ===== verification/UseCases.thy ===== *)
theory UseCases
  imports Service
begin

text \<open>
  The contract between the use cases of the application and the adapters behind its ports, as locales.
  \<open>lasting_ports\<close>: every operation of every port keeps an invariant \<open>I\<close> of the world; a demo user is only
  created with an identifier, and neither the revocation of an API token nor the purge is used. \<open>ports\<close> adds the revocation and
  \<open>ports_purge\<close> the purge. In them every use case keeps the invariant, and so does every sequence of use cases.
\<close>

section \<open>Sequences of use cases\<close>

text \<open>The exported methods of the service, with their arguments.\<close>

datatype use_case =
    Use_RequestOTP string string string
  | Use_VerifyOTP string string string
  | Use_Refresh string
  | Use_SelectOrg string string string
  | Use_IsActiveMember string string
  | Use_LoginWithPassword string string
  | Use_CreateApiToken string string "string list option" "Time option"
  | Use_ListApiTokens string
  | Use_RevokeApiToken string string
  | Use_ValidateApiToken string
  | Use_SeedDemoUsers
  | Use_CreateOrg string string
  | Use_ListOrgsForUser string
  | Use_ListMembers string
  | Use_AddMember string string
  | Use_SuspendMember string string
  | Use_RemoveMember string string
  | Use_InviteMember string string string
  | Use_AcceptInvite string string
  | Use_RevokeInvite string string string
  | Use_ListInvites string
  | Use_RegisterWithEmail string string string string string string
  | Use_VerifySignup string string string
  | Use_PurgeUnverifiedSignups Time

fun use_apply :: "unicode \<Rightarrow> 'w Service \<Rightarrow> use_case \<Rightarrow> 'w \<Rightarrow> 'w" where
  "use_apply U s (Use_RequestOTP i c corr) = snd \<circ> Service_RequestOTP s i c corr"
| "use_apply U s (Use_VerifyOTP i c code) = snd \<circ> Service_VerifyOTP s i c code"
| "use_apply U s (Use_Refresh t) = snd \<circ> Service_Refresh s t"
| "use_apply U s (Use_SelectOrg u t g) = snd \<circ> Service_SelectOrg s u t g"
| "use_apply U s (Use_IsActiveMember g u) = snd \<circ> Service_IsActiveMember s g u"
| "use_apply U s (Use_LoginWithPassword i pw) = snd \<circ> Service_LoginWithPassword U s i pw"
| "use_apply U s (Use_CreateApiToken u n sc e) = snd \<circ> Service_CreateApiToken s u n sc e"
| "use_apply U s (Use_ListApiTokens u) = snd \<circ> Service_ListApiTokens s u"
| "use_apply U s (Use_RevokeApiToken u t) = snd \<circ> Service_RevokeApiToken s u t"
| "use_apply U s (Use_ValidateApiToken t) = snd \<circ> Service_ValidateApiToken s t"
| "use_apply U s Use_SeedDemoUsers = snd \<circ> Service_SeedDemoUsers U s"
| "use_apply U s (Use_CreateOrg u n) = snd \<circ> Service_CreateOrg s u n"
| "use_apply U s (Use_ListOrgsForUser u) = snd \<circ> Service_ListOrgsForUser s u"
| "use_apply U s (Use_ListMembers g) = snd \<circ> Service_ListMembers s g"
| "use_apply U s (Use_AddMember g u) = snd \<circ> Service_AddMember s g u"
| "use_apply U s (Use_SuspendMember g u) = snd \<circ> Service_SuspendMember s g u"
| "use_apply U s (Use_RemoveMember g u) = snd \<circ> Service_RemoveMember s g u"
| "use_apply U s (Use_InviteMember g u e) = snd \<circ> Service_InviteMember U s g u e"
| "use_apply U s (Use_AcceptInvite u t) = snd \<circ> Service_AcceptInvite U s u t"
| "use_apply U s (Use_RevokeInvite g i u) = snd \<circ> Service_RevokeInvite s g i u"
| "use_apply U s (Use_ListInvites g) = snd \<circ> Service_ListInvites s g"
| "use_apply U s (Use_RegisterWithEmail e pw dn l on it) = snd \<circ> Service_RegisterWithEmail U s e pw dn l on it"
| "use_apply U s (Use_VerifySignup e c pw) = snd \<circ> Service_VerifySignup U s e c pw"
| "use_apply U s (Use_PurgeUnverifiedSignups before) = snd \<circ> Service_PurgeUnverifiedSignups s before"

fun is_purge_use :: "use_case \<Rightarrow> bool" where
  "is_purge_use (Use_PurgeUnverifiedSignups before) = True"
| "is_purge_use c = False"

definition use_runs :: "unicode \<Rightarrow> 'w Service \<Rightarrow> use_case list \<Rightarrow> 'w \<Rightarrow> 'w" where
  "use_runs U s cs w = fold (use_apply U s) cs w"

lemma keeps_apply: "keeps I m \<Longrightarrow> I w \<Longrightarrow> I (snd (m w))"
  by (simp add: keeps_def)

section \<open>The contract\<close>

locale lasting_ports =
  fixes I :: "'w \<Rightarrow> bool" and s :: "'w Service"
  assumes otp_laws:
      "svc_otp s = Some otp \<Longrightarrow> keeps I (otp_UpsertChallenge otp ch)"
      "svc_otp s = Some otp \<Longrightarrow> keeps I (otp_GetLatestChallenge otp i c)"
      "svc_otp s = Some otp \<Longrightarrow> keeps I (otp_IncrementAttempts otp i)"
      "svc_otp s = Some otp \<Longrightarrow> keeps I (otp_ConsumeChallenge otp i)"
      "svc_otp s = Some otp \<Longrightarrow> keeps I (otp_DeleteExpiredChallenges otp)"
    and user_laws:
      "svc_users s = Some us \<Longrightarrow> keeps I (users_FindOrCreateByEmail us e)"
      "svc_users s = Some us \<Longrightarrow> keeps I (users_FindOrCreateByMobile us m)"
      "svc_users s = Some us \<Longrightarrow> keeps I (users_FindByEmail us e)"
      "svc_users s = Some us \<Longrightarrow> keeps I (users_FindByMobile us m)"
      "svc_users s = Some us \<Longrightarrow> keeps I (users_FindByID us i)"
      "svc_users s = Some us \<Longrightarrow> keeps I (users_UpdateLastLogin us i)"
    and demo_law: "svc_users s = Some us \<Longrightarrow> e \<noteq> [] \<or> m \<noteq> [] \<Longrightarrow> keeps I (users_UpsertDemoUser us e m ph dn)"
    and signup_laws:
      "svc_signup s = Some sg \<Longrightarrow> keeps I (signup_CreateSignupUser sg user org iv at)"
      "svc_signup s = Some sg \<Longrightarrow> keeps I (signup_ReissuePendingSignup sg user cho iv at)"
      "svc_signup s = Some sg \<Longrightarrow> keeps I (signup_VerifySignup sg i at)"
    and refresh_laws:
      "svc_refresh s = Some rs \<Longrightarrow> keeps I (refresh_Store rs i g h at)"
      "svc_refresh s = Some rs \<Longrightarrow> keeps I (refresh_FindValid rs h)"
      "svc_refresh s = Some rs \<Longrightarrow> keeps I (refresh_Revoke rs h)"
    and token_laws:
      "svc_tokens s = Some ts \<Longrightarrow> keeps I (tokens_Create ts tok)"
      "svc_tokens s = Some ts \<Longrightarrow> keeps I (tokens_ListByUser ts i)"
      "svc_tokens s = Some ts \<Longrightarrow> keeps I (tokens_FindByPrefix ts p)"
    and org_laws:
      "svc_orgs s = Some os \<Longrightarrow> keeps I (orgs_CreateOrg os og i)"
      "svc_orgs s = Some os \<Longrightarrow> keeps I (orgs_GetOrg os g)"
      "svc_orgs s = Some os \<Longrightarrow> keeps I (orgs_ListOrgsForUser os i)"
      "svc_orgs s = Some os \<Longrightarrow> keeps I (orgs_ListMembers os g)"
      "svc_orgs s = Some os \<Longrightarrow> keeps I (orgs_AddMember os g i st)"
      "svc_orgs s = Some os \<Longrightarrow> keeps I (orgs_UpdateMemberStatus os g i st)"
      "svc_orgs s = Some os \<Longrightarrow> keeps I (orgs_RemoveMember os g i)"
      "svc_orgs s = Some os \<Longrightarrow> keeps I (orgs_GetMembership os g i)"
    and invite_laws:
      "svc_invites s = Some ivs \<Longrightarrow> keeps I (invites_CreateInvite ivs new)"
      "svc_invites s = Some ivs \<Longrightarrow> keeps I (invites_FindInviteByTokenHash ivs h)"
      "svc_invites s = Some ivs \<Longrightarrow> keeps I (invites_ListInvites ivs g)"
      "svc_invites s = Some ivs \<Longrightarrow> keeps I (invites_RevokeInvite ivs g i)"
      "svc_invites s = Some ivs \<Longrightarrow> keeps I (invites_AcceptInvite ivs i g u at)"
    and notifier_laws:
      "svc_notifier s = Some nt \<Longrightarrow> keeps I (notifier_SendOTP nt c r code corr)"
      "svc_notifier s = Some nt \<Longrightarrow> keeps I (notifier_SendSignupVerification nt r code n l corr)"
      "svc_notifier s = Some nt \<Longrightarrow> keeps I (notifier_SendOrgInvite nt note)"
    and runtime_laws:
      "svc_flags s = Some fl \<Longrightarrow> keeps I (flags_Bool fl name d)"
      "svc_clock s = Some cl \<Longrightarrow> keeps I (clock_Now cl)"
      "svc_ids s = Some gen \<Longrightarrow> keeps I (ids_NewID gen)"
      "svc_signer s = Some sn \<Longrightarrow> keeps I (signer_SignAccessToken sn sub at)"
      "svc_signer s = Some sn \<Longrightarrow> keeps I (signer_SignAccessTokenWithOrg sn sub g at)"
      "svc_hasher s = Some hs \<Longrightarrow> keeps I (hasher_Hash hs sec)"
      "svc_codes s = Some cg \<Longrightarrow> keeps I (codes_NewCode cg)"
      "svc_secrets s = Some sc \<Longrightarrow> keeps I (secrets_NewSecret sc)"
begin

lemmas laws = otp_laws user_laws signup_laws refresh_laws token_laws org_laws invite_laws notifier_laws runtime_laws

lemma keeps_flag [keep]: "keeps I (Service_flag s name)"
  unfolding Service_flag_def by (rule laws keep | assumption)+

lemma keeps_buildOTPChallenge [keep]: "keeps I (Service_buildOTPChallenge s i c)"
  unfolding Service_buildOTPChallenge_def by (rule laws keep | assumption)+

lemma keeps_newOTPChallenge [keep]: "keeps I (Service_newOTPChallenge s i c)"
  unfolding Service_newOTPChallenge_def by (rule laws keep | assumption)+

lemma keeps_RequestOTP [keep]: "keeps I (Service_RequestOTP s i c corr)"
  unfolding Service_RequestOTP_def by (rule laws keep | assumption)+

lemma keeps_IsActiveMember [keep]: "keeps I (Service_IsActiveMember s g u)"
  unfolding Service_IsActiveMember_def by (rule laws keep | assumption)+

lemma keeps_singleActiveOrg [keep]: "keeps I (Service_singleActiveOrg s u)"
  unfolding Service_singleActiveOrg_def by (rule laws keep | assumption)+

lemma keeps_activeOrg [keep]: "keeps I (Service_activeOrg s u g)"
  unfolding Service_activeOrg_def by (rule laws keep | assumption)+

lemma keeps_issueTokensForOrg [keep]: "keeps I (Service_issueTokensForOrg s u g)"
  unfolding Service_issueTokensForOrg_def by (rule laws keep | assumption)+

lemma keeps_issueTokens [keep]: "keeps I (Service_issueTokens s u)"
  unfolding Service_issueTokens_def by (rule laws keep | assumption)+

lemma keeps_VerifyOTP [keep]: "keeps I (Service_VerifyOTP s i c code)"
  unfolding Service_VerifyOTP_def by (rule laws keep | assumption)+

lemma keeps_Refresh [keep]: "keeps I (Service_Refresh s t)"
  unfolding Service_Refresh_def by (rule laws keep | assumption)+

lemma keeps_SelectOrg [keep]: "keeps I (Service_SelectOrg s u t g)"
  unfolding Service_SelectOrg_def by (rule laws keep | assumption)+

lemma keeps_LoginWithPassword [keep]: "keeps I (Service_LoginWithPassword U s i pw)"
  unfolding Service_LoginWithPassword_def by (rule laws keep | assumption)+

lemma keeps_CreateApiToken [keep]: "keeps I (Service_CreateApiToken s u n sc e)"
  unfolding Service_CreateApiToken_def by (rule laws keep | assumption)+

lemma keeps_ListApiTokens [keep]: "keeps I (Service_ListApiTokens s u)"
  unfolding Service_ListApiTokens_def by (rule laws keep | assumption)+

lemma keeps_ValidateApiToken [keep]: "keeps I (Service_ValidateApiToken s t)"
  unfolding Service_ValidateApiToken_def by (rule laws keep | assumption)+

lemma keeps_seed_loop [keep]: "keeps I (seed_loop U s us)"
  by (induction us) (simp_all only: seed_loop.simps, (rule laws keep | rule demo_law | assumption | blast)+)

lemma keeps_SeedDemoUsers [keep]: "keeps I (Service_SeedDemoUsers U s)"
  unfolding Service_SeedDemoUsers_def by (rule laws keep | assumption)+

lemma keeps_CreateOrg [keep]: "keeps I (Service_CreateOrg s u n)"
  unfolding Service_CreateOrg_def by (rule laws keep | assumption)+

lemma keeps_ListOrgsForUser [keep]: "keeps I (Service_ListOrgsForUser s u)"
  unfolding Service_ListOrgsForUser_def by (rule laws keep | assumption)+

lemma keeps_ListMembers [keep]: "keeps I (Service_ListMembers s g)"
  unfolding Service_ListMembers_def by (rule laws keep | assumption)+

lemma keeps_requireUser [keep]: "keeps I (Service_requireUser s u)"
  unfolding Service_requireUser_def by (rule laws keep | assumption)+

lemma keeps_AddMember [keep]: "keeps I (Service_AddMember s g u)"
  unfolding Service_AddMember_def by (rule laws keep | assumption)+

lemma keeps_SuspendMember [keep]: "keeps I (Service_SuspendMember s g u)"
  unfolding Service_SuspendMember_def by (rule laws keep | assumption)+

lemma keeps_RemoveMember [keep]: "keeps I (Service_RemoveMember s g u)"
  unfolding Service_RemoveMember_def by (rule laws keep | assumption)+

lemma keeps_InviteMember [keep]: "keeps I (Service_InviteMember U s g u e)"
  unfolding Service_InviteMember_def by (rule laws keep | assumption)+

lemma keeps_AcceptInvite [keep]: "keeps I (Service_AcceptInvite U s u t)"
  unfolding Service_AcceptInvite_def by (rule laws keep | assumption)+

lemma keeps_RevokeInvite [keep]: "keeps I (Service_RevokeInvite s g i u)"
  unfolding Service_RevokeInvite_def by (rule laws keep | assumption)+

lemma keeps_ListInvites [keep]: "keeps I (Service_ListInvites s g)"
  unfolding Service_ListInvites_def by (rule laws keep | assumption)+

lemma keeps_signupInvite [keep]: "keeps I (Service_signupInvite U s t e)"
  unfolding Service_signupInvite_def by (rule laws keep | assumption)+

lemma keeps_signupCooldownActive [keep]: "keeps I (Service_signupCooldownActive s e now)"
  unfolding Service_signupCooldownActive_def by (rule laws keep | assumption)+

lemma keeps_retry_pending [keep]: "svc_signup s = Some sg \<Longrightarrow> keeps I (retry_pending s sg user l now)"
  unfolding retry_pending_def by (rule laws keep | assumption)+

lemma keeps_retryPendingSignup [keep]: "keeps I (Service_retryPendingSignup s user iv l now)"
  unfolding Service_retryPendingSignup_def by (rule laws keep | assumption)+

lemma keeps_RegisterWithEmail [keep]: "keeps I (Service_RegisterWithEmail U s e pw dn l on it)"
  unfolding Service_RegisterWithEmail_def by (rule laws keep | assumption)+

lemma keeps_VerifySignup [keep]: "keeps I (Service_VerifySignup U s e c pw)"
  unfolding Service_VerifySignup_def Let_def by (rule laws keep | assumption)+

text \<open>Use cases without the purge, and with only those revocations that keep the invariant.\<close>

lemma keeps_allowed_use:
  "\<not> is_purge_use c \<Longrightarrow> (\<And>u t. c = Use_RevokeApiToken u t \<Longrightarrow> keeps I (Service_RevokeApiToken s u t)) \<Longrightarrow> I w \<Longrightarrow> I (use_apply U s c w)"
  by (cases c) (simp_all, (rule keeps_apply, (rule keep | assumption), assumption)+)

lemma keeps_allowed_runs:
  assumes "\<forall>c \<in> set cs. \<not> is_purge_use c" and "\<And>u t. Use_RevokeApiToken u t \<in> set cs \<Longrightarrow> keeps I (Service_RevokeApiToken s u t)" and "I w"
  shows "I (use_runs U s cs w)"
  using assms unfolding use_runs_def by (induction cs arbitrary: w) (auto intro!: keeps_allowed_use)

end

locale ports = lasting_ports +
  assumes revoke_law: "svc_tokens s = Some ts \<Longrightarrow> keeps I (tokens_RevokeToken ts i t)"
begin

lemma keeps_RevokeApiToken [keep]: "keeps I (Service_RevokeApiToken s u t)"
  unfolding Service_RevokeApiToken_def by (rule revoke_law keep | assumption)+

lemma keeps_use_apply: "\<not> is_purge_use c \<Longrightarrow> I w \<Longrightarrow> I (use_apply U s c w)"
  by (rule keeps_allowed_use) (simp_all add: keeps_RevokeApiToken)

lemma keeps_use_runs: "\<forall>c \<in> set cs. \<not> is_purge_use c \<Longrightarrow> I w \<Longrightarrow> I (use_runs U s cs w)"
  by (rule keeps_allowed_runs) (simp_all add: keeps_RevokeApiToken)

end

text \<open>The purge of unverified sign-ups keeps some of the invariants.\<close>

locale ports_purge = ports +
  assumes purge_law: "svc_signup s = Some sg \<Longrightarrow> keeps I (signup_PurgeUnverifiedSignups sg at)"
begin

lemma keeps_PurgeUnverifiedSignups [keep]: "keeps I (Service_PurgeUnverifiedSignups s before)"
  unfolding Service_PurgeUnverifiedSignups_def by (rule purge_law keep | assumption)+

lemma keeps_every_use: "I w \<Longrightarrow> I (use_apply U s c w)"
  using keeps_use_apply [of c w U] by (cases c) (simp_all, (rule keeps_apply, rule keep, assumption)+)

lemma keeps_every_run: "I w \<Longrightarrow> I (use_runs U s cs w)"
  unfolding use_runs_def by (induction cs arbitrary: w) (simp_all add: keeps_every_use)

end

end
