(* ===== verification/Deployment.thy ===== *)
theory Deployment
  imports StoreRuns Flags UseCases
begin

text \<open>
  The deployed service: the use cases of the application on the adapters that \<open>main.go\<close> wires, the
  Postgres store in the first place. The invariants of the store are interpreted as contracts of the
  ports, so they hold after every sequence of use cases.
\<close>

definition deployed ::
  "env \<Rightarrow> jwt_pkg \<Rightarrow> Signer \<Rightarrow> openfeature \<Rightarrow> (nat \<Rightarrow> FlagEvaluator) \<Rightarrow> DemoUser list \<Rightarrow> (string \<Rightarrow> string) \<Rightarrow> world Service" where
  "deployed E J signer F ev demoUsers getenv = main_service E J signer (flags_port F ev) demoUsers getenv"

section \<open>The adapters leave the tables alone\<close>

lemma keeps_ask [keep]: "keeps (on_db P) (ask f)"
  unfolding ask_def by (rule keep)+

lemma keeps_Client_Send [keep]: "keeps (on_db P) (Client_Send E req)"
  unfolding Client_Send_def by (rule keep | simp add: keeps_def)+

lemma keeps_adapters [keep]:
  "keeps (on_db P) (Hasher_Hash E x)" "keeps (on_db P) (Codes_NewCode E)" "keeps (on_db P) (Secrets_NewSecret E)"
  "keeps (on_db P) (Clock_Now E)" "keeps (on_db P) (Generator_NewID E)"
  "keeps (on_db P) (Client_SendOTP E c r code corr)" "keeps (on_db P) (Client_SendSignupVerification E r code n l corr)"
  "keeps (on_db P) (Client_SendOrgInvite E note)"
  unfolding Hasher_Hash_def Codes_NewCode_def Secrets_NewSecret_def Clock_Now_def Generator_NewID_def uuid_NewString_def
    Client_SendOTP_def Client_SendSignupVerification_def Client_SendOrgInvite_def
  by (rule keep)+

lemma keeps_signer [keep]:
  "keeps (on_db P) (Signer_SignAccessTokenWithOrg E J s sub g at)" "keeps (on_db P) (Signer_SignAccessToken E J s sub at)"
  unfolding Signer_SignAccessToken_def Signer_SignAccessTokenWithOrg_def SignAccessToken_def SignAccessTokenWithOrg_def
  by (rule keep)+

lemma keeps_flags_port [keep]: "keeps (on_db P) (flags_Bool (flags_port F ev) name d)"
  unfolding flags_port_def by simp (rule keep)+

section \<open>The ports of the deployed service\<close>

lemma deployed_ports [simp]:
  "svc_otp (deployed E J signer F ev du getenv) = Some (store_OTP E)"
  "svc_users (deployed E J signer F ev du getenv) = Some (store_Users E)"
  "svc_refresh (deployed E J signer F ev du getenv) = Some (store_Refresh E)"
  "svc_tokens (deployed E J signer F ev du getenv) = Some (store_Tokens E)"
  "svc_orgs (deployed E J signer F ev du getenv) = Some (store_Orgs E)"
  "svc_invites (deployed E J signer F ev du getenv) = Some (store_Invites E)"
  "svc_signup (deployed E J signer F ev du getenv) = Some (store_Signup E)"
  "svc_notifier (deployed E J signer F ev du getenv) = Some \<lparr>notifier_SendOTP = Client_SendOTP E,
     notifier_SendSignupVerification = Client_SendSignupVerification E, notifier_SendOrgInvite = Client_SendOrgInvite E\<rparr>"
  "svc_flags (deployed E J signer F ev du getenv) = Some (flags_port F ev)"
  "svc_clock (deployed E J signer F ev du getenv) = Some \<lparr>clock_Now = Clock_Now E\<rparr>"
  "svc_ids (deployed E J signer F ev du getenv) = Some \<lparr>ids_NewID = Generator_NewID E\<rparr>"
  "svc_signer (deployed E J signer F ev du getenv) = Some \<lparr>signer_SignAccessToken = Signer_SignAccessToken E J signer,
     signer_SignAccessTokenWithOrg = Signer_SignAccessTokenWithOrg E J signer\<rparr>"
  "svc_hasher (deployed E J signer F ev du getenv) = Some \<lparr>hasher_Hash = Hasher_Hash E, hasher_Compare = Hasher_Compare E\<rparr>"
  "svc_codes (deployed E J signer F ev du getenv) = Some \<lparr>codes_NewCode = Codes_NewCode E\<rparr>"
  "svc_secrets (deployed E J signer F ev du getenv) = Some \<lparr>secrets_NewSecret = Secrets_NewSecret E\<rparr>"
  by (simp_all add: deployed_def main_service_def NewService_def main_deps_def)

lemmas store_ports = store_OTP_def store_Users_def store_Refresh_def store_Tokens_def store_Orgs_def
  store_Invites_def store_Signup_def

interpretation pg_schema: ports_purge "on_db (schema_ok E)" "deployed E J signer F ev du getenv"
  for E J signer F ev du getenv
  by unfold_locales (clarsimp simp: store_ports; rule keep)+

interpretation pg_tenancy: ports "on_db (tenancy_ok E)" "deployed E J signer F ev du getenv"
  for E J signer F ev du getenv
  by unfold_locales (clarsimp simp: store_ports; rule keep)+

definition announced :: "env \<Rightarrow> db \<Rightarrow> bool" where
  "announced E d \<longleftrightarrow> (uuid_laws E \<longrightarrow> outbox_laws E \<longrightarrow> recorded E d)"

lemma keeps_announced: "(uuid_laws E \<Longrightarrow> outbox_laws E \<Longrightarrow> keeps (on_db (recorded E)) m) \<Longrightarrow> keeps (on_db (announced E)) m"
  by (auto simp: keeps_def announced_def)

interpretation pg_recorded: ports_purge "on_db (announced E)" "deployed E J signer F ev du getenv"
  for E J signer F ev du getenv
  by unfold_locales (clarsimp simp: store_ports; rule keeps_announced; rule keep; simp)+

section \<open>Properties\<close>

text \<open>
  C7. The deployed service keeps its books: after any sequence of use cases other than the purge, from a
  new installation and with any pattern of faults, every organization has an active member, the
  constraints of the schema hold, and every user, organization and membership has been announced in the
  outbox. So no use case reaches a store operation in a way that breaks these.
\<close>

theorem deployed_invariants:
  assumes "uuid_laws E" and "outbox_laws E" and "list_all (\<lambda>c. \<not> is_purge_use c) cs"
    and "w = use_runs U (deployed E J signer F ev du getenv) cs (start_world flags t)"
  shows "every_org_active (w_db w) \<and> schema_ok E (w_db w) \<and> recorded E (w_db w)"
proof (intro conjI)
  have "tenancy_ok E (w_db w)"
    unfolding assms(4) using assms(3) by (intro pg_tenancy.keeps_use_runs) (simp_all add: start_world_def tenancy_empty list_all_iff)
  then show "every_org_active (w_db w)" by (simp add: tenancy_ok_def)
  show "schema_ok E (w_db w)"
    unfolding assms(4) by (intro pg_schema.keeps_every_run) (simp add: start_world_def schema_empty)
  have "announced E (w_db w)"
    unfolding assms(4) by (intro pg_recorded.keeps_every_run) (simp add: start_world_def announced_def recorded_empty)
  then show "recorded E (w_db w)" using assms(1,2) by (simp add: announced_def)
qed

text \<open>Witness of C7: a sign-up and a login attempt at the deployed service in the demo environment.\<close>

definition demo_signer :: Signer where
  "demo_signer = \<lparr>signer_key = demo_key, signer_keyID = ''k1'', signer_keys = demo_keys\<rparr>"

definition demo_openfeature :: openfeature where
  "demo_openfeature =
     \<lparr>of_SetProvider = (\<lambda>p. None), of_BooleanValue = (\<lambda>p flag d. Inr (fst (BooleanEvaluation p flag d)))\<rparr>"

definition demo_service :: "world Service" where
  "demo_service =
     deployed demo_env demo_jwt demo_signer demo_openfeature (\<lambda>t. None) [] (\<lambda>k. if k = ''AUTH_SIGNUP'' then ''open'' else [])"

definition demo_uses :: "use_case list" where
  "demo_uses =
     [Use_RegisterWithEmail ''ann@x.io'' ''secret'' ''Ann'' ''en'' ''Acme'' [], Use_LoginWithPassword ''ann@x.io'' ''secret'']"

theorem deployed_invariants_witness:
  "uuid_laws demo_env \<and> outbox_laws demo_env \<and> list_all (\<lambda>c. \<not> is_purge_use c) demo_uses \<and>
   every_org_active (w_db (use_runs (env_unicode demo_env) demo_service demo_uses (start_world [] 0))) \<and>
   schema_ok demo_env (w_db (use_runs (env_unicode demo_env) demo_service demo_uses (start_world [] 0))) \<and>
   recorded demo_env (w_db (use_runs (env_unicode demo_env) demo_service demo_uses (start_world [] 0)))"
proof -
  have "list_all (\<lambda>c. \<not> is_purge_use c) demo_uses" by (simp add: demo_uses_def)
  with deployed_invariants [OF demo_laws(1,2) this refl] show ?thesis
    unfolding demo_service_def using demo_laws by blast
qed

end
