(* ===== verification/Tenancy.thy ===== *)
theory Tenancy
  imports Token
begin

text \<open>
  Package \<open>tenancy\<close>: the active organization of a request, taken from verified claims by HTTP and gRPC
  middleware, carried in the context, and set in a database transaction. A handler is a function of
  the context it is given; a refusal is the response of the middleware.
\<close>

section \<open>tenancy.go\<close>

definition WithOrg :: "Context \<Rightarrow> uuid \<Rightarrow> Context" where
  "WithOrg ctx orgID = (if orgID = 0 then ctx\<lparr>Ctx_Org := Some 0\<rparr> else ctx\<lparr>Ctx_Org := Some orgID\<rparr>)"

definition OrgFrom :: "Context \<Rightarrow> uuid option" where
  "OrgFrom ctx = (case Ctx_Org ctx of None \<Rightarrow> None | Some orgID \<Rightarrow> if orgID = 0 then None else Some orgID)"

definition MustOrg :: "Context \<Rightarrow> gerr + uuid" where
  "MustOrg ctx = (case OrgFrom ctx of None \<Rightarrow> Inl PanicError | Some orgID \<Rightarrow> Inr orgID)"

record tenancy_options =
  fallbackOrg :: uuid

type_synonym Option = "tenancy_options \<Rightarrow> tenancy_options"

definition WithFallbackOrg :: "uuid \<Rightarrow> Option" where
  "WithFallbackOrg orgID cfg = cfg\<lparr>fallbackOrg := orgID\<rparr>"

definition newOptions :: "Option option list \<Rightarrow> tenancy_options" where
  "newOptions opts = foldl (\<lambda>cfg opt. case opt of None \<Rightarrow> cfg | Some f \<Rightarrow> f cfg) \<lparr>fallbackOrg = 0\<rparr> opts"

definition resolveOrg :: "env \<Rightarrow> AccessClaims \<Rightarrow> uuid \<Rightarrow> gerr + uuid" where
  "resolveOrg E claims fallback =
     (let raw = TrimSpace (claims_OrgID claims) in
      if raw = [] then (if fallback \<noteq> 0 then Inr fallback else Inl ErrOrgRequired)
      else case uuid_Parse E raw of
             Inl err \<Rightarrow> Inl ErrOrgMalformed
           | Inr orgID \<Rightarrow> if orgID = 0 then Inl ErrOrgMalformed else Inr orgID)"

section \<open>http.go, grpc.go\<close>

text \<open>The status and the error code in the JSON body of a refused HTTP request.\<close>

type_synonym http_refusal = "int \<times> string"

definition writeJSONError :: "int \<Rightarrow> string \<Rightarrow> http_refusal" where
  "writeJSONError status errcode = (status, ''{\"error\":\"'' @ errcode @ ''\"}'')"

definition RequireOrg ::
  "env \<Rightarrow> ('req \<Rightarrow> AccessClaims option) option \<Rightarrow> Option option list \<Rightarrow> (Context \<Rightarrow> http_refusal + 'r) \<Rightarrow>
   Context \<Rightarrow> 'req \<Rightarrow> http_refusal + 'r" where
  "RequireOrg E claims opts next ctx r =
     (let cfg = newOptions opts in
      case claims of
        None \<Rightarrow> Inl (writeJSONError 401 ''unauthenticated'')
      | Some f \<Rightarrow>
          (case f r of
             None \<Rightarrow> Inl (writeJSONError 401 ''unauthenticated'')
           | Some verified \<Rightarrow>
               (case resolveOrg E verified (fallbackOrg cfg) of
                  Inl err \<Rightarrow>
                    if errors_Is err ErrOrgRequired then Inl (writeJSONError 403 ''org_required'')
                    else Inl (writeJSONError 401 ''invalid_org'')
                | Inr orgID \<Rightarrow> next (WithOrg ctx orgID))))"

definition UnaryServerInterceptor ::
  "env \<Rightarrow> (Context \<Rightarrow> AccessClaims option) option \<Rightarrow> Option option list \<Rightarrow> (Context \<Rightarrow> rpc_error + 'r) \<Rightarrow>
   Context \<Rightarrow> rpc_error + 'r" where
  "UnaryServerInterceptor E claims opts handler ctx =
     (let cfg = newOptions opts in
      case claims of
        None \<Rightarrow> Inl (Status Unauthenticated (Msg ''unauthenticated''))
      | Some f \<Rightarrow>
          (case f ctx of
             None \<Rightarrow> Inl (Status Unauthenticated (Msg ''unauthenticated''))
           | Some verified \<Rightarrow>
               (case resolveOrg E verified (fallbackOrg cfg) of
                  Inl err \<Rightarrow>
                    if errors_Is err ErrOrgRequired then Inl (Status PermissionDenied (Msg ''org_required''))
                    else Inl (Status Unauthenticated (Msg ''invalid_org''))
                | Inr orgID \<Rightarrow> handler (WithOrg ctx orgID))))"

section \<open>log.go, postgres.go\<close>

definition LogAttrs :: "env \<Rightarrow> Context \<Rightarrow> (string \<times> string) list" where
  "LogAttrs E ctx = (case OrgFrom ctx of None \<Rightarrow> [] | Some orgID \<Rightarrow> [(''org_id'', uuid_String E orgID)])"

text \<open>\<open>tx\<close> is the method \<open>ExecContext\<close> of the transaction: the statement and its arguments.\<close>

definition SetLocalOrg :: "env \<Rightarrow> Context \<Rightarrow> (string \<Rightarrow> string list \<Rightarrow> ('w, unit) M) \<Rightarrow> ('w, unit) M" where
  "SetLocalOrg E ctx tx =
     (case OrgFrom ctx of
        None \<Rightarrow> fail ErrOrgRequired
      | Some orgID \<Rightarrow> bindE (tx ''SELECT set_config('app.org_id', $1, true)'' [uuid_String E orgID]) (\<lambda>_. ret ()))"

section \<open>Lemmas\<close>

lemma OrgFrom_WithOrg [simp]: "OrgFrom (WithOrg ctx orgID) = (if orgID = 0 then None else Some orgID)"
  by (simp add: OrgFrom_def WithOrg_def)

lemma resolveOrg_nonzero: "resolveOrg E c f = Inr orgID \<Longrightarrow> orgID \<noteq> 0"
  by (auto simp: resolveOrg_def Let_def split: if_splits sum.splits)

lemma resolveOrg_errors: "resolveOrg E c f = Inl e \<Longrightarrow> e = ErrOrgRequired \<or> e = ErrOrgMalformed"
  by (auto simp: resolveOrg_def Let_def split: if_splits sum.splits)

lemma resolveOrg_claim: "OrganizationID E c = Some orgID \<Longrightarrow> orgID \<noteq> 0 \<Longrightarrow> resolveOrg E c f = Inr orgID"
  by (auto simp: resolveOrg_def OrganizationID_def Let_def split: if_splits sum.splits)

section \<open>Properties\<close>

text \<open>
  C24. The HTTP middleware and the gRPC interceptor are the same gate: for the same claims and options,
  either both refuse, with status 401 exactly where the code is \<open>Unauthenticated\<close> and 403 exactly where it
  is \<open>PermissionDenied\<close>, or both run the handler with the same context, which has an active organization,
  so that \<open>MustOrg\<close> does not panic there.
\<close>

theorem tenancy_gates_agree:
  "(\<exists>b m. RequireOrg E (Some (\<lambda>r. c)) opts Inr ctx r = Inl (401, b) \<and>
          UnaryServerInterceptor E (Some (\<lambda>x. c)) opts Inr ctx = Inl (Status Unauthenticated m)) \<or>
   (\<exists>b m. RequireOrg E (Some (\<lambda>r. c)) opts Inr ctx r = Inl (403, b) \<and>
          UnaryServerInterceptor E (Some (\<lambda>x. c)) opts Inr ctx = Inl (Status PermissionDenied m)) \<or>
   (\<exists>ctx' orgID. RequireOrg E (Some (\<lambda>r. c)) opts Inr ctx r = Inr ctx' \<and>
          UnaryServerInterceptor E (Some (\<lambda>x. c)) opts Inr ctx = Inr ctx' \<and> MustOrg ctx' = Inr orgID)"
proof (cases c)
  case None
  then show ?thesis by (simp add: RequireOrg_def UnaryServerInterceptor_def writeJSONError_def)
next
  case (Some v)
  show ?thesis
  proof (cases "resolveOrg E v (fallbackOrg (newOptions opts))")
    case (Inl e)
    with Some resolveOrg_errors [OF Inl] show ?thesis
      by (auto simp: RequireOrg_def UnaryServerInterceptor_def writeJSONError_def)
  next
    case (Inr orgID)
    with Some resolveOrg_nonzero [OF Inr] show ?thesis
      by (simp add: RequireOrg_def UnaryServerInterceptor_def MustOrg_def)
  qed
qed

text \<open>
  C22. A malformed claim is never replaced by the fallback: if the organization claim is not blank, the
  outcome of the gate does not depend on the fallback; it is the organization of the claim or a refusal.
\<close>

theorem malformed_claim_never_falls_back:
  assumes "TrimSpace (claims_OrgID v) \<noteq> []"
  shows "UnaryServerInterceptor E (Some (\<lambda>x. Some v)) [Some (WithFallbackOrg fallback)] Inr ctx =
           (case OrganizationID E v of
              Some orgID \<Rightarrow> if orgID = 0 then Inl (Status Unauthenticated (Msg ''invalid_org'')) else Inr (WithOrg ctx orgID)
            | None \<Rightarrow> Inl (Status Unauthenticated (Msg ''invalid_org'')))"
  using assms
  by (auto simp: UnaryServerInterceptor_def resolveOrg_def OrganizationID_def newOptions_def WithFallbackOrg_def Let_def
      split: sum.splits)

text \<open>Witness of C22: claims with an organization that is not a UUID.\<close>

theorem malformed_claim_never_falls_back_witness:
  "TrimSpace ''acme'' \<noteq> [] \<and>
   UnaryServerInterceptor demo_env (Some (\<lambda>x. Some (demo_claims\<lparr>claims_OrgID := ''acme''\<rparr>))) [Some (WithFallbackOrg 5)] Inr Background =
     (case OrganizationID demo_env (demo_claims\<lparr>claims_OrgID := ''acme''\<rparr>) of
        Some orgID \<Rightarrow> if orgID = 0 then Inl (Status Unauthenticated (Msg ''invalid_org'')) else Inr (WithOrg Background orgID)
      | None \<Rightarrow> Inl (Status Unauthenticated (Msg ''invalid_org'')))"
proof -
  have "TrimSpace ''acme'' \<noteq> []" by code_simp
  then show ?thesis using malformed_claim_never_falls_back [of "demo_claims\<lparr>claims_OrgID := ''acme''\<rparr>" demo_env 5 Background] by simp
qed

text \<open>
  C23. The tenant of a token reaches the database: when a token was signed for an organization and the
  service that receives it verifies it with the signer's key before it expires, the gRPC gate and
  \<open>SetLocalOrg\<close> together run exactly the statement that sets \<open>app.org_id\<close> to that organization in the
  transaction, whatever fallback is configured and whatever the context held before.
\<close>

theorem tenant_reaches_database:
  assumes "jwt_laws J" and "uuid_laws E"
    and "SignAccessTokenWithOrg E J (Some key) keyID subject orgID expires w = (Inr raw, w')"
    and "list_all is_ascii (TrimSpace keyID)" and "list_all is_ascii (TrimSpace subject)"
    and "Mapping.lookup keys (TrimSpace keyID) = Some (rsa_public_of key)"
    and "app_clock E (w_tick w) \<le> now" and "now < NewNumericDate expires"
    and "uuid_Parse E (TrimSpace orgID) = Inr g" and "g \<noteq> 0" and "TrimSpace orgID \<noteq> []"
  shows "UnaryServerInterceptor E
           (Some (\<lambda>x. case ParseAccessToken J now raw keys of Inl err \<Rightarrow> None | Inr c \<Rightarrow> Some c)) opts
           (\<lambda>c. Inr (SetLocalOrg E c tx)) ctx =
         Inr (bindE (tx ''SELECT set_config('app.org_id', $1, true)'' [uuid_text g]) (\<lambda>_. ret ()))"
proof -
  obtain c where "ParseAccessToken J now raw keys = Inr c" and "OrganizationID E c = Some g"
    using ParseAccessToken_issued [OF assms(1-8)] assms(9,11) by auto
  moreover have "uuid_String E g = uuid_text g" using assms(2) by (simp add: uuid_laws_def)
  ultimately show ?thesis
    using resolveOrg_claim [of E c g] assms(10) by (simp add: UnaryServerInterceptor_def SetLocalOrg_def)
qed

text \<open>Witness of C23: the demo token, with a transaction that records its statement.\<close>

theorem tenant_reaches_database_witness:
  "UnaryServerInterceptor demo_env
     (Some (\<lambda>x. case ParseAccessToken demo_jwt (demo_start + 30 * Minute) ''t'' demo_keys of Inl err \<Rightarrow> None | Inr c \<Rightarrow> Some c)) []
     (\<lambda>c. Inr (SetLocalOrg demo_env c (\<lambda>q as ss. (Inr (), ss @ [(q, as)])))) Background =
   Inr (bindE ((\<lambda>q as ss. (Inr (), ss @ [(q, as)])) ''SELECT set_config('app.org_id', $1, true)'' [uuid_text 7]) (\<lambda>_. ret ()))"
proof (rule tenant_reaches_database [OF demo_jwt_laws demo_laws(1) demo_sign])
  show "list_all is_ascii (TrimSpace ''k1'')" "list_all is_ascii (TrimSpace ''u1'')" by code_simp+
  have "TrimSpace ''k1'' = ''k1''" by code_simp
  then show "Mapping.lookup demo_keys (TrimSpace ''k1'') = Some (rsa_public_of demo_key)" by (simp add: demo_keys_def)
  show "app_clock demo_env (w_tick (start_world [] 0)) \<le> demo_start + 30 * Minute"
    "demo_start + 30 * Minute < NewNumericDate (demo_start + Hour)"
    unfolding NewNumericDate_demo by (simp_all add: demo_env_def start_world_def Hour_def Minute_def Second_def)
  show "uuid_Parse demo_env (TrimSpace (uuid_text 7)) = Inr 7"
    using demo_laws(1) by (simp add: TrimSpace_visible uuid_text_visible uuid_laws_def)
  show "TrimSpace (uuid_text 7) \<noteq> []"
    by (simp add: TrimSpace_visible uuid_text_visible) (simp add: uuid_text_def Let_def)
qed simp

end
