(* ===== verification/Grpc.thy ===== *)
theory Grpc
  imports Deployment Tenancy
begin

text \<open>
  \<open>internal/infrastructure/grpc\<close>: the access-token interceptor and the handlers of AuthService, OrgService
  and SignupService over the application. The fields of a request are the arguments of its handler, and a
  generated message is the record of the fields the code sets. Times are printed as in a process that runs
  in UTC. A handler is a function from the world to a response or an error of the call, and the next world.
\<close>

section \<open>Calls\<close>

type_synonym ('w, 'a) R = "'w \<Rightarrow> (rpc_error + 'a) \<times> 'w"

definition retR :: "'a \<Rightarrow> ('w, 'a) R" where
  "retR a w = (Inr a, w)"

definition failR :: "rpc_error \<Rightarrow> ('w, 'a) R" where
  "failR e w = (Inl e, w)"

definition bindR :: "('w, 'a) R \<Rightarrow> ('a \<Rightarrow> ('w, 'b) R) \<Rightarrow> ('w, 'b) R" where
  "bindR m f w = (case m w of (Inl e, w') \<Rightarrow> (Inl e, w') | (Inr a, w') \<Rightarrow> f a w')"

text \<open>A call of the application whose error becomes \<open>h err\<close>.\<close>

definition callR :: "(gerr \<Rightarrow> rpc_error) \<Rightarrow> ('w, 'a) M \<Rightarrow> ('w, 'a) R" where
  "callR h m w = (case m w of (Inl e, w') \<Rightarrow> (Inl (h e), w') | (Inr a, w') \<Rightarrow> (Inr a, w'))"

lemmas call_defs = retR_def failR_def bindR_def callR_def

section \<open>auth.go\<close>

definition authorizationMetadataKey :: string where "authorizationMetadataKey = ''authorization''"

definition withCallerID :: "Context \<Rightarrow> string \<Rightarrow> Context" where
  "withCallerID ctx callerID = ctx\<lparr>Ctx_CallerID := Some callerID\<rparr>"

definition callerIDFromContext :: "Context \<Rightarrow> string option" where
  "callerIDFromContext ctx =
     (case Ctx_CallerID ctx of
        None \<Rightarrow> None
      | Some c \<Rightarrow> let callerID = TrimSpace c in if callerID = [] then None else Some callerID)"

definition bearerToken :: "unicode \<Rightarrow> Context \<Rightarrow> gerr + string" where
  "bearerToken U ctx =
     (case Ctx_Metadata ctx of
        None \<Rightarrow> Inl (Errorf ''missing metadata'' [] None)
      | Some md \<Rightarrow>
          (case map_of md authorizationMetadataKey of
             None \<Rightarrow> Inl (Errorf ''missing authorization metadata'' [] None)
           | Some [] \<Rightarrow> Inl (Errorf ''missing authorization metadata'' [] None)
           | Some (v # vs) \<Rightarrow>
               (case SplitN2 (TrimSpace v) (CHR '' '') of
                  [scheme, rest] \<Rightarrow>
                    if \<not> EqualFold U scheme ''Bearer''
                    then Inl (Errorf ''authorization metadata is not a bearer token'' [] None)
                    else let raw = TrimSpace rest in
                         if raw = [] then Inl (Errorf ''bearer token is empty'' [] None) else Inr raw
                | _ \<Rightarrow> Inl (Errorf ''authorization metadata is not a bearer token'' [] None))))"

definition AccessTokenUnaryServerInterceptor ::
  "unicode \<Rightarrow> jwt_pkg \<Rightarrow> Time \<Rightarrow> KeySet \<Rightarrow> string \<Rightarrow> (Context \<Rightarrow> ('w, 'a) R) \<Rightarrow> Context \<Rightarrow> ('w, 'a) R" where
  "AccessTokenUnaryServerInterceptor U J now keys FullMethod handler ctx =
     (if \<not> HasPrefix FullMethod ''/auth.v1.OrgService/'' then handler ctx
      else case bearerToken U ctx of
        Inl err \<Rightarrow> failR (Status Unauthenticated (Msg ''authentication required''))
      | Inr raw \<Rightarrow>
          (case ParseAccessToken J now raw keys of
             Inl err \<Rightarrow> failR (Status Unauthenticated (Msg ''invalid or expired access token''))
           | Inr claims \<Rightarrow> handler (withCallerID ctx (claims_Subject claims))))"

section \<open>server.go\<close>

record TokenResponse =
  TokenResponse_AccessToken :: string
  TokenResponse_RefreshToken :: string
  TokenResponse_ExpiresAt :: string

record ApiTokenInfo =
  ApiTokenInfo_TokenId :: string
  ApiTokenInfo_Name :: string
  ApiTokenInfo_Prefix :: string
  ApiTokenInfo_Scopes :: "string list option"
  ApiTokenInfo_CreatedAt :: string
  ApiTokenInfo_ExpiresAt :: string

definition tokenResponse :: "token_pair \<Rightarrow> TokenResponse" where
  "tokenResponse = (\<lambda>(access, refresh, exp).
     \<lparr>TokenResponse_AccessToken = access, TokenResponse_RefreshToken = refresh, TokenResponse_ExpiresAt = RFC3339 exp\<rparr>)"

definition resolveIdentifierChannel :: "string \<Rightarrow> string \<Rightarrow> string \<Rightarrow> string \<times> string" where
  "resolveIdentifierChannel identifier0 channel0 legacyEmail =
     (let identifier1 = TrimSpace identifier0; channel1 = TrimSpace channel0;
          identifier = (if identifier1 = [] \<and> legacyEmail \<noteq> [] then TrimSpace legacyEmail else identifier1);
          channel = (if channel1 = [] \<and> identifier \<noteq> []
                     then (if CHR ''@'' \<in> set identifier then ChannelEmail else ChannelSMS) else channel1)
      in (identifier, channel))"

definition Server_RequestOTP :: "'w Service \<Rightarrow> string \<Rightarrow> string \<Rightarrow> string \<Rightarrow> string \<Rightarrow> ('w, string) R" where
  "Server_RequestOTP s identifier0 channel0 email correlationId =
     (let (identifier, channel) = resolveIdentifierChannel identifier0 channel0 email in
      bindR (callR (\<lambda>err. if errors_Is err ErrEmailOTPDisabled \<or> errors_Is err ErrMobileOTPDisabled
                          then Status FailedPrecondition (ErrorText err) else Plain err)
               (Service_RequestOTP s identifier channel correlationId)) (\<lambda>expires.
      retR (RFC3339 expires)))"

definition Server_VerifyOTP :: "'w Service \<Rightarrow> string \<Rightarrow> string \<Rightarrow> string \<Rightarrow> string \<Rightarrow> ('w, TokenResponse) R" where
  "Server_VerifyOTP s identifier0 channel0 email otpcode =
     (let (identifier, channel) = resolveIdentifierChannel identifier0 channel0 email in
      bindR (callR (\<lambda>err. Status Unauthenticated (ErrorText err)) (Service_VerifyOTP s identifier channel otpcode)) (\<lambda>p.
      retR (tokenResponse p)))"

definition Server_LoginWithPassword :: "unicode \<Rightarrow> 'w Service \<Rightarrow> string \<Rightarrow> string \<Rightarrow> string \<Rightarrow> ('w, TokenResponse) R" where
  "Server_LoginWithPassword U s identifier0 email password =
     (let identifier = (if identifier0 = [] then email else identifier0) in
      bindR (callR (\<lambda>err. if errors_Is err ErrInvalidCredentials then Status Unauthenticated (Msg ''invalid credentials'')
                          else if errors_Is err ErrUserDisabled then Status PermissionDenied (Msg ''user disabled'')
                          else Plain err)
               (Service_LoginWithPassword U s identifier password)) (\<lambda>p.
      retR (tokenResponse p)))"

definition Server_RefreshToken :: "'w Service \<Rightarrow> string \<Rightarrow> ('w, TokenResponse) R" where
  "Server_RefreshToken s refreshToken =
     bindR (callR (\<lambda>err. Status Unauthenticated (ErrorText err)) (Service_Refresh s refreshToken)) (\<lambda>p.
     retR (tokenResponse p))"

definition Server_CreateApiToken ::
  "'w Service \<Rightarrow> string \<Rightarrow> string \<Rightarrow> string list option \<Rightarrow> string \<Rightarrow> ('w, string \<times> string \<times> string) R" where
  "Server_CreateApiToken s userId name scopes expiresAt =
     bindR (if expiresAt \<noteq> []
            then case Parse_RFC3339 expiresAt of
                   None \<Rightarrow> failR (Status InvalidArgument (Msg ''invalid expires_at''))
                 | Some t \<Rightarrow> retR (Some t)
            else retR None) (\<lambda>exp.
     callR Plain (Service_CreateApiToken s userId name scopes exp))"

definition api_token_info :: "APITokenInfo \<Rightarrow> ApiTokenInfo" where
  "api_token_info t =
     \<lparr>ApiTokenInfo_TokenId = APITokenInfo_ID t, ApiTokenInfo_Name = APITokenInfo_Name t,
      ApiTokenInfo_Prefix = APITokenInfo_Prefix t, ApiTokenInfo_Scopes = APITokenInfo_Scopes t,
      ApiTokenInfo_CreatedAt = RFC3339 (APITokenInfo_CreatedAt t),
      ApiTokenInfo_ExpiresAt = (case APITokenInfo_ExpiresAt t of None \<Rightarrow> [] | Some e \<Rightarrow> RFC3339 e)\<rparr>"

definition Server_ListApiTokens :: "'w Service \<Rightarrow> string \<Rightarrow> ('w, ApiTokenInfo list) R" where
  "Server_ListApiTokens s userId =
     bindR (callR Plain (Service_ListApiTokens s userId)) (\<lambda>xs. retR (map api_token_info xs))"

definition Server_RevokeApiToken :: "'w Service \<Rightarrow> string \<Rightarrow> string \<Rightarrow> ('w, unit) R" where
  "Server_RevokeApiToken s userId tokenId = callR Plain (Service_RevokeApiToken s userId tokenId)"

definition Server_ValidateApiToken :: "'w Service \<Rightarrow> string \<Rightarrow> ('w, string \<times> string list option) R" where
  "Server_ValidateApiToken s secret =
     callR (\<lambda>err. Status Unauthenticated (Msg ''invalid token'')) (Service_ValidateApiToken s secret)"

section \<open>signup.go\<close>

definition signupError :: "gerr \<Rightarrow> rpc_error" where
  "signupError err =
     (if errors_Is err ErrSignupDisabled then Status FailedPrecondition (Msg ''sign-up is disabled'')
      else if errors_Is err ErrInvalidInvite then Status InvalidArgument (ErrorText ErrInvalidInvite)
      else if errors_Is err ErrInvalidEmail then Status InvalidArgument (ErrorText ErrInvalidEmail)
      else if errors_Is err ErrPasswordRequired then Status InvalidArgument (ErrorText ErrPasswordRequired)
      else Status Internal (Msg ''internal error''))"

definition SignupServer_RegisterWithEmail ::
  "unicode \<Rightarrow> 'w Service \<Rightarrow> string \<Rightarrow> string \<Rightarrow> string \<Rightarrow> string \<Rightarrow> string \<Rightarrow> string \<Rightarrow> ('w, unit) R" where
  "SignupServer_RegisterWithEmail U s email password displayName locale orgName inviteToken =
     callR signupError (Service_RegisterWithEmail U s email password displayName locale orgName inviteToken)"

definition SignupServer_VerifySignup :: "unicode \<Rightarrow> 'w Service \<Rightarrow> string \<Rightarrow> string \<Rightarrow> string \<Rightarrow> ('w, TokenResponse) R" where
  "SignupServer_VerifySignup U s email otpcode password =
     bindR (callR (\<lambda>err. if errors_Is err ErrSignupDisabled then Status FailedPrecondition (Msg ''sign-up is disabled'')
                         else if errors_Is err ErrInvalidOTPCode \<or> errors_Is err ErrTooManyOTPAttempts
                         then Status Unauthenticated (ErrorText err)
                         else Status Internal (Msg ''internal error''))
              (Service_VerifySignup U s email otpcode password)) (\<lambda>p.
     retR (tokenResponse p))"

section \<open>orgs.go\<close>

record OrganizationProto =
  OrganizationProto_Id :: string
  OrganizationProto_Name :: string
  OrganizationProto_CreatedAt :: string
  OrganizationProto_UpdatedAt :: string

record MembershipProto =
  MembershipProto_OrgId :: string
  MembershipProto_UserId :: string
  MembershipProto_Status :: string
  MembershipProto_CreatedAt :: string
  MembershipProto_UpdatedAt :: string

record InviteProto =
  InviteProto_Id :: string
  InviteProto_OrgId :: string
  InviteProto_Email :: string
  InviteProto_InviterId :: string
  InviteProto_Status :: string
  InviteProto_ExpiresAt :: string
  InviteProto_CreatedAt :: string
  InviteProto_AcceptedAt :: string

definition organizationProto :: "Organization \<Rightarrow> OrganizationProto" where
  "organizationProto org =
     \<lparr>OrganizationProto_Id = Organization_ID org, OrganizationProto_Name = Organization_Name org,
      OrganizationProto_CreatedAt = RFC3339 (Organization_CreatedAt org),
      OrganizationProto_UpdatedAt = RFC3339 (Organization_UpdatedAt org)\<rparr>"

definition membershipProto :: "Membership \<Rightarrow> MembershipProto" where
  "membershipProto m =
     \<lparr>MembershipProto_OrgId = Membership_OrgID m, MembershipProto_UserId = Membership_UserID m,
      MembershipProto_Status = Membership_Status m,
      MembershipProto_CreatedAt = RFC3339 (Membership_CreatedAt m),
      MembershipProto_UpdatedAt = RFC3339 (Membership_UpdatedAt m)\<rparr>"

definition inviteProto :: "Invite \<Rightarrow> InviteProto" where
  "inviteProto i =
     \<lparr>InviteProto_Id = Invite_ID i, InviteProto_OrgId = Invite_OrgID i, InviteProto_Email = Invite_Email i,
      InviteProto_InviterId = Invite_InviterID i, InviteProto_Status = Invite_Status i,
      InviteProto_ExpiresAt = RFC3339 (Invite_ExpiresAt i), InviteProto_CreatedAt = RFC3339 (Invite_CreatedAt i),
      InviteProto_AcceptedAt = (case Invite_AcceptedAt i of None \<Rightarrow> [] | Some t \<Rightarrow> RFC3339 t)\<rparr>"

definition isUUID :: "env \<Rightarrow> string \<Rightarrow> bool" where
  "isUUID E value = (case uuid_Parse E value of Inl err \<Rightarrow> False | Inr _ \<Rightarrow> True)"

definition orgError :: "gerr \<Rightarrow> rpc_error" where
  "orgError err =
     (if errors_Is err ErrLastActiveMember then Status FailedPrecondition (ErrorText err)
      else if errors_Is err ErrUserNotFound then Status NotFound (Msg ''user not found'')
      else if errors_Is err ErrOrgNotFound \<or> errors_Is err ErrNotMember then Status NotFound (Msg ''organization not found'')
      else if errors_Is err ErrInvalidOrgName then Status InvalidArgument (ErrorText err)
      else if errors_Is err ErrInvalidInvite then Status InvalidArgument (ErrorText ErrInvalidInvite)
      else if errors_Is err ErrInvalidEmail then Status InvalidArgument (ErrorText ErrInvalidEmail)
      else if errors_Is err ErrInviteNotFound then Status NotFound (Msg ''invite not found'')
      else Status Internal (Msg ''internal error''))"

definition caller :: "Context \<Rightarrow> ('w, string) R" where
  "caller ctx =
     (case callerIDFromContext ctx of
        None \<Rightarrow> failR (Status Unauthenticated (Msg ''authentication required''))
      | Some callerID \<Rightarrow> retR callerID)"

text \<open>\<open>rawUserID\<close> is \<open>None\<close> when the call has no user ID; the second result is then empty.\<close>

definition requireActiveMember ::
  "env \<Rightarrow> 'w Service \<Rightarrow> Context \<Rightarrow> string \<Rightarrow> string option \<Rightarrow> ('w, string \<times> string) R" where
  "requireActiveMember E s ctx rawOrgID rawUserID =
     bindR (caller ctx) (\<lambda>callerID.
     (let orgID = TrimSpace rawOrgID; userID = (case rawUserID of None \<Rightarrow> [] | Some u \<Rightarrow> TrimSpace u) in
      if \<not> isUUID E orgID then failR (Status InvalidArgument (Msg ''invalid org_id''))
      else if rawUserID \<noteq> None \<and> \<not> isUUID E userID then failR (Status InvalidArgument (Msg ''invalid user_id''))
      else
        bindR (callR orgError (Service_IsActiveMember s orgID callerID)) (\<lambda>active.
        if \<not> active then failR (Status NotFound (Msg ''organization not found''))
        else retR (orgID, userID))))"

definition OrgServer_CreateOrg :: "'w Service \<Rightarrow> Context \<Rightarrow> string \<Rightarrow> ('w, OrganizationProto) R" where
  "OrgServer_CreateOrg s ctx name =
     bindR (caller ctx) (\<lambda>callerID.
     bindR (callR orgError (Service_CreateOrg s callerID name)) (\<lambda>org.
     retR (organizationProto org)))"

definition OrgServer_ListMyOrgs :: "'w Service \<Rightarrow> Context \<Rightarrow> ('w, OrganizationProto list) R" where
  "OrgServer_ListMyOrgs s ctx =
     bindR (caller ctx) (\<lambda>callerID.
     bindR (callR orgError (Service_ListOrgsForUser s callerID)) (\<lambda>orgs.
     retR (map organizationProto orgs)))"

definition OrgServer_ListMembers :: "env \<Rightarrow> 'w Service \<Rightarrow> Context \<Rightarrow> string \<Rightarrow> ('w, MembershipProto list) R" where
  "OrgServer_ListMembers E s ctx orgId =
     bindR (requireActiveMember E s ctx orgId None) (\<lambda>(orgID, _).
     bindR (callR orgError (Service_ListMembers s orgID)) (\<lambda>members.
     retR (map membershipProto members)))"

definition OrgServer_AddMember :: "env \<Rightarrow> 'w Service \<Rightarrow> Context \<Rightarrow> string \<Rightarrow> string \<Rightarrow> ('w, unit) R" where
  "OrgServer_AddMember E s ctx orgId userId =
     bindR (requireActiveMember E s ctx orgId (Some userId)) (\<lambda>(orgID, userID).
     callR orgError (Service_AddMember s orgID userID))"

definition OrgServer_RemoveMember :: "env \<Rightarrow> 'w Service \<Rightarrow> Context \<Rightarrow> string \<Rightarrow> string \<Rightarrow> ('w, unit) R" where
  "OrgServer_RemoveMember E s ctx orgId userId =
     bindR (requireActiveMember E s ctx orgId (Some userId)) (\<lambda>(orgID, userID).
     callR orgError (Service_RemoveMember s orgID userID))"

definition OrgServer_SuspendMember :: "env \<Rightarrow> 'w Service \<Rightarrow> Context \<Rightarrow> string \<Rightarrow> string \<Rightarrow> ('w, unit) R" where
  "OrgServer_SuspendMember E s ctx orgId userId =
     bindR (requireActiveMember E s ctx orgId (Some userId)) (\<lambda>(orgID, userID).
     callR orgError (Service_SuspendMember s orgID userID))"

definition OrgServer_InviteMember :: "env \<Rightarrow> unicode \<Rightarrow> 'w Service \<Rightarrow> Context \<Rightarrow> string \<Rightarrow> string \<Rightarrow> ('w, InviteProto) R" where
  "OrgServer_InviteMember E U s ctx orgId email =
     bindR (requireActiveMember E s ctx orgId None) (\<lambda>(orgID, _).
     bindR (caller ctx) (\<lambda>callerID.
     bindR (callR orgError (Service_InviteMember U s orgID callerID email)) (\<lambda>invite.
     retR (inviteProto invite))))"

definition OrgServer_AcceptInvite :: "unicode \<Rightarrow> 'w Service \<Rightarrow> Context \<Rightarrow> string \<Rightarrow> ('w, InviteProto) R" where
  "OrgServer_AcceptInvite U s ctx token =
     bindR (caller ctx) (\<lambda>callerID.
     bindR (callR orgError (Service_AcceptInvite U s callerID token)) (\<lambda>invite.
     retR (inviteProto invite)))"

definition OrgServer_RevokeInvite :: "env \<Rightarrow> 'w Service \<Rightarrow> Context \<Rightarrow> string \<Rightarrow> string \<Rightarrow> ('w, unit) R" where
  "OrgServer_RevokeInvite E s ctx orgId inviteId =
     bindR (requireActiveMember E s ctx orgId None) (\<lambda>(orgID, _).
     (let inviteID = TrimSpace inviteId in
      if \<not> isUUID E inviteID then failR (Status InvalidArgument (Msg ''invalid invite_id''))
      else
        bindR (caller ctx) (\<lambda>callerID.
        callR orgError (Service_RevokeInvite s orgID inviteID callerID))))"

definition OrgServer_ListInvites :: "env \<Rightarrow> 'w Service \<Rightarrow> Context \<Rightarrow> string \<Rightarrow> ('w, InviteProto list) R" where
  "OrgServer_ListInvites E s ctx orgId =
     bindR (requireActiveMember E s ctx orgId None) (\<lambda>(orgID, _).
     bindR (callR orgError (Service_ListInvites s orgID)) (\<lambda>invites.
     retR (map inviteProto invites)))"

definition OrgServer_SelectOrg :: "env \<Rightarrow> 'w Service \<Rightarrow> Context \<Rightarrow> string \<Rightarrow> string \<Rightarrow> ('w, TokenResponse) R" where
  "OrgServer_SelectOrg E s ctx orgId refreshToken =
     bindR (requireActiveMember E s ctx orgId None) (\<lambda>(orgID, _).
     bindR (caller ctx) (\<lambda>callerID.
     bindR (callR (\<lambda>err. if errors_Is err ErrInvalidRefresh then Status Unauthenticated (Msg ''invalid refresh token'')
                         else orgError err)
              (Service_SelectOrg s callerID refreshToken orgID)) (\<lambda>p.
     retR (tokenResponse p))))"

section \<open>Organization-scoped calls\<close>

text \<open>The calls of OrgService that name an organization, with the method name of each and its response dropped.\<close>

datatype org_request =
    ListMembersRequest string
  | AddMemberRequest string string
  | RemoveMemberRequest string string
  | SuspendMemberRequest string string
  | InviteMemberRequest string string
  | RevokeInviteRequest string string
  | ListInvitesRequest string
  | SelectOrgRequest string string

fun request_org :: "org_request \<Rightarrow> string" where
  "request_org (ListMembersRequest g) = g"
| "request_org (AddMemberRequest g u) = g"
| "request_org (RemoveMemberRequest g u) = g"
| "request_org (SuspendMemberRequest g u) = g"
| "request_org (InviteMemberRequest g e) = g"
| "request_org (RevokeInviteRequest g i) = g"
| "request_org (ListInvitesRequest g) = g"
| "request_org (SelectOrgRequest g t) = g"

definition dropR :: "('w, 'a) R \<Rightarrow> ('w, unit) R" where
  "dropR m = bindR m (\<lambda>_. retR ())"

fun org_handler :: "env \<Rightarrow> unicode \<Rightarrow> 'w Service \<Rightarrow> org_request \<Rightarrow> Context \<Rightarrow> ('w, unit) R" where
  "org_handler E U s (ListMembersRequest g) ctx = dropR (OrgServer_ListMembers E s ctx g)"
| "org_handler E U s (AddMemberRequest g u) ctx = OrgServer_AddMember E s ctx g u"
| "org_handler E U s (RemoveMemberRequest g u) ctx = OrgServer_RemoveMember E s ctx g u"
| "org_handler E U s (SuspendMemberRequest g u) ctx = OrgServer_SuspendMember E s ctx g u"
| "org_handler E U s (InviteMemberRequest g e) ctx = dropR (OrgServer_InviteMember E U s ctx g e)"
| "org_handler E U s (RevokeInviteRequest g i) ctx = OrgServer_RevokeInvite E s ctx g i"
| "org_handler E U s (ListInvitesRequest g) ctx = dropR (OrgServer_ListInvites E s ctx g)"
| "org_handler E U s (SelectOrgRequest g t) ctx = dropR (OrgServer_SelectOrg E s ctx g t)"

end
