(* ===== verification/StoreContract.thy ===== *)
theory StoreContract
  imports StoreSignup
begin

text \<open>
  The contract between the statements and the methods of the store: a property of the tables that
  every statement keeps is kept by every method, by the methods' code alone. The statements that take a
  membership away and the one that revokes an API token are contracts of their own, so that a property which only
  they break is an invariant of all the other methods.
\<close>

section \<open>An invariant of the statements is one of the methods\<close>

locale lasting_statements =
  fixes P :: "db \<Rightarrow> bool" and E :: env
  assumes user_stmts:
      "stmt_keeps P (q_CreateSignupUser i email ph dn st v)" "stmt_keeps P (q_CreateUserWithEmail i email st)"
      "stmt_keeps P (q_CreateUserWithMobile i mobile)" "stmt_keeps P (q_ReissueSignupUser ph dn email)"
      "stmt_keeps P (q_UpdateLastLogin i)" "stmt_keeps P (q_VerifySignupUser v i)"
      "stmt_keeps P (q_UpsertDemoUserByEmail i em mo ph dn)" "stmt_keeps P (q_UpsertDemoUserByMobile i em mo ph dn)"
    and challenge_stmts:
      "stmt_keeps P (q_ConsumeChallenge i)" "stmt_keeps P (q_DeleteChallengesForIdentifier identifier channel)"
      "stmt_keeps P q_DeleteExpiredChallenges" "stmt_keeps P (q_IncrementChallengeAttempts i)"
      "stmt_keeps P (q_UpsertChallenge i identifier channel h e c)"
    and token_stmts:
      "stmt_keeps P (q_RevokeRefreshToken h)" "stmt_keeps P (q_StoreRefreshToken i u g' h at)"
      "stmt_keeps P (q_CreateAPIToken i u name prefix h sc at)"
    and org_stmts:
      "stmt_keeps P (q_CreateOrganization i name at at')" "stmt_keeps P (q_AddOrganizationMembership g u st)"
      "stmt_keeps P (q_AddActiveOrganizationMembership g u)"
    and invite_stmts:
      "stmt_keeps P (q_CreateOrganizationInvite E i g email h who st at at')"
      "stmt_keeps P (q_AcceptOrganizationInvite at i g)" "stmt_keeps P (q_RevokeOrganizationInvite i g)"
      "stmt_keeps P (q_RevokePendingOrganizationInvitesForEmail E g email)"
    and outbox_stmt: "stmt_keeps P (q_outbox_Insert E s en)"
begin

lemmas stmts [keep] = user_stmts challenge_stmts token_stmts org_stmts invite_stmts outbox_stmt

lemma emits [keep]: "keeps (on_db P) (Emit E ev)" "keeps (on_db P) (emitEvents E evs)"
  by (rule keeps_Emit keeps_emitEvents, rule outbox_stmt)+

lemma login_methods [keep]:
  "keeps (on_db P) (Store_UpsertChallenge E ch)" "keeps (on_db P) (Store_GetLatestChallenge E identifier channel)"
  "keeps (on_db P) (Store_IncrementAttempts E i)" "keeps (on_db P) (Store_ConsumeChallenge E i)"
  "keeps (on_db P) (Store_DeleteExpiredChallenges E)" "keeps (on_db P) (Store_FindOrCreateByEmail E email)"
  "keeps (on_db P) (Store_FindOrCreateByMobile E mobile)" "keeps (on_db P) (Store_FindByEmail E email)"
  "keeps (on_db P) (Store_FindByMobile E mobile)" "keeps (on_db P) (Store_FindByID E userID)"
  "keeps (on_db P) (Store_UpdateLastLogin E userID)" "keeps (on_db P) (Store_UpsertDemoUser E email mobile ph dn)"
  unfolding Store_UpsertChallenge_def Store_GetLatestChallenge_def Store_IncrementAttempts_def Store_ConsumeChallenge_def
    Store_DeleteExpiredChallenges_def Store_FindOrCreateByEmail_def Store_FindOrCreateByMobile_def Store_FindByEmail_def
    Store_FindByMobile_def Store_FindByID_def Store_UpdateLastLogin_def Store_UpsertDemoUser_def Store_findByEmail_def
    Store_findByMobile_def Let_def
  by (intro keep)+

lemma token_methods [keep]:
  "keeps (on_db P) (Store_Store E userID orgID h at)" "keeps (on_db P) (Store_FindValid E h)"
  "keeps (on_db P) (Store_Revoke E h)" "keeps (on_db P) (Store_Create E t)" "keeps (on_db P) (Store_ListByUser E userID)"
  "keeps (on_db P) (Store_FindByPrefix E prefix)"
  unfolding Store_Store_def Store_FindValid_def Store_Revoke_def Store_Create_def Store_ListByUser_def
    Store_FindByPrefix_def
  by (intro keep)+

lemma org_methods [keep]:
  "keeps (on_db P) (Store_CreateOrg E org creatorID)" "keeps (on_db P) (Store_GetOrg E orgID)"
  "keeps (on_db P) (Store_ListOrgsForUser E userID)" "keeps (on_db P) (Store_ListMembers E orgID)"
  "keeps (on_db P) (Store_AddMember E orgID userID status)" "keeps (on_db P) (Store_GetMembership E orgID userID)"
  "keeps (on_db P) (Store_CreateInvite E invite)" "keeps (on_db P) (Store_FindInviteByTokenHash E h)"
  "keeps (on_db P) (Store_ListInvites E orgID)" "keeps (on_db P) (Store_RevokeInvite E orgID inviteID)"
  "keeps (on_db P) (Store_AcceptInvite E inviteID orgID userID at)"
  unfolding Store_CreateOrg_def Store_GetOrg_def Store_ListOrgsForUser_def Store_ListMembers_def Store_AddMember_def
    Store_GetMembership_def Store_CreateInvite_def
    Store_FindInviteByTokenHash_def Store_ListInvites_def Store_RevokeInvite_def Store_AcceptInvite_def tx_defs
  by (intro keep)+

lemma signup_methods [keep]:
  "keeps (on_db P) (Store_CreateSignupUser E user org invite at)"
  "keeps (on_db P) (Store_ReissuePendingSignup E user challenge invite at)"
  "keeps (on_db P) (Store_VerifySignup E userID at)"
  unfolding Store_CreateSignupUser_def Store_ReissuePendingSignup_def Store_VerifySignup_def accept_signup_invite_def
    create_signup_tx_def reissue_tx_def Let_def
  by (intro keep)+

lemmas lasting_methods = login_methods token_methods org_methods signup_methods

end

locale growing_statements = lasting_statements +
  assumes revoke_stmt: "stmt_keeps P (q_RevokeAPIToken i u)"
begin

lemma revoke_methods [keep]: "keeps (on_db P) (Store_RevokeToken E userID tokenID)"
  unfolding Store_RevokeToken_def by (intro keep revoke_stmt)

lemmas growing_methods = lasting_methods revoke_methods

end

locale demoting_statements = lasting_statements +
  assumes demote_stmts:
      "stmt_keeps P (q_UpdateOrganizationMembershipStatus st g u)" "stmt_keeps P (q_DeleteOrganizationMembership g u)"
begin

lemma demote_methods [keep]:
  "keeps (on_db P) (Store_UpdateMemberStatus E orgID userID status)" "keeps (on_db P) (Store_RemoveMember E orgID userID)"
  unfolding Store_UpdateMemberStatus_def Store_RemoveMember_def update_member_tx_def remove_member_tx_def
  by (intro keep demote_stmts)+

lemmas demoting_methods = lasting_methods demote_methods

end

locale statements = growing_statements + demoting_statements
begin

lemmas methods = growing_methods demote_methods

end

end
