(* ===== verification/Settled.thy ===== *)
theory Settled
  imports Deployment StoreContract
begin

text \<open>
  States that are final: a revoked refresh token or API token, an invitation that was accepted or revoked,
  an account that has left the sign-up. The contract of the statements gives an invariant of every
  method of the store, and the contracts of the ports carry it to every sequence of use cases.
\<close>

section \<open>Final states\<close>

datatype final_state =
    RefreshRevoked uuid string
  | TokenOwned uuid uuid
  | TokenRevoked uuid
  | InviteClosed uuid string
  | AccountVerified uuid

fun is_final :: "db \<Rightarrow> final_state \<Rightarrow> bool" where
  "is_final d (RefreshRevoked i h) \<longleftrightarrow> (\<exists>r \<in> set (refresh_tokens d). r_ID r = i \<and> r_TokenHash r = h \<and> r_RevokedAt r \<noteq> None)"
| "is_final d (TokenOwned i u) \<longleftrightarrow> (\<exists>t \<in> set (api_tokens d). t_ID t = i \<and> t_UserID t = u)"
| "is_final d (TokenRevoked i) \<longleftrightarrow> (\<exists>t \<in> set (api_tokens d). t_ID t = i \<and> t_RevokedAt t \<noteq> None)"
| "is_final d (InviteClosed i h) \<longleftrightarrow> (\<exists>x \<in> set (invites d). i_ID x = i \<and> i_TokenHash x = h \<and> i_Status x \<noteq> ''pending'')"
| "is_final d (AccountVerified i) \<longleftrightarrow> (\<exists>u \<in> set (users d). u_ID u = i \<and> u_Status u \<noteq> ''signup_pending'')"

lemma final_stmtI: "(\<And>now rank d a d'. q now rank d = Inr (a, d') \<Longrightarrow> is_final d x \<Longrightarrow> is_final d' x) \<Longrightarrow> stmt_keeps (\<lambda>d. is_final d x) q"
  unfolding stmt_keeps_def by blast

lemma final_frame:
  assumes "refresh_tokens d' = refresh_tokens d" and "api_tokens d' = api_tokens d" and "invites d' = invites d" and "users d' = users d"
  shows "is_final d' x = is_final d x"
  by (cases x) (simp_all add: assms)

lemma bex_map: "\<exists>x \<in> set xs. Q x \<Longrightarrow> (\<And>x. Q x \<Longrightarrow> Q (f x)) \<Longrightarrow> \<exists>x \<in> set (map f xs @ ys). Q x"
  by auto

lemma final_users:
  assumes "\<And>u. u_Status u \<noteq> ''signup_pending'' \<Longrightarrow> u_Status (f u) \<noteq> ''signup_pending'' \<and> u_ID (f u) = u_ID u" and "is_final d x"
  shows "is_final (d\<lparr>users := map f (users d) @ us\<rparr>) x"
  using assms(2) by (cases x) (simp_all del: set_append set_map, erule bex_map, use assms(1) in auto)

lemma final_invites:
  assumes "\<And>u. i_Status u \<noteq> ''pending'' \<Longrightarrow> i_Status (f u) \<noteq> ''pending'' \<and> i_ID (f u) = i_ID u \<and> i_TokenHash (f u) = i_TokenHash u" and "is_final d x"
  shows "is_final (d\<lparr>invites := map f (invites d) @ us\<rparr>) x"
  using assms(2) by (cases x) (simp_all del: set_append set_map, erule bex_map, use assms(1) in auto)

lemma final_refresh:
  assumes "\<And>u. r_RevokedAt u \<noteq> None \<Longrightarrow> r_RevokedAt (f u) \<noteq> None \<and> r_ID (f u) = r_ID u \<and> r_TokenHash (f u) = r_TokenHash u" and "is_final d x"
  shows "is_final (d\<lparr>refresh_tokens := map f (refresh_tokens d) @ us\<rparr>) x"
  using assms(2) by (cases x) (simp_all del: set_append set_map, erule bex_map, use assms(1) in auto)

lemma final_tokens:
  assumes "\<And>u. t_ID (f u) = t_ID u \<and> t_UserID (f u) = t_UserID u \<and> (t_RevokedAt u \<noteq> None \<longrightarrow> t_RevokedAt (f u) \<noteq> None)" and "is_final d x"
  shows "is_final (d\<lparr>api_tokens := map f (api_tokens d) @ us\<rparr>) x"
  using assms(2) by (cases x) (simp_all del: set_append set_map, (erule bex_map, use assms(1) in force)+)

lemmas final_insert = final_users [where f = "\<lambda>x. x", simplified] final_invites [where f = "\<lambda>x. x", simplified]
  final_refresh [where f = "\<lambda>x. x", simplified] final_tokens [where f = "\<lambda>x. x", simplified]
lemmas final_update = final_users [where us = "[]", simplified] final_invites [where us = "[]", simplified]
  final_refresh [where us = "[]", simplified] final_tokens [where us = "[]", simplified]

lemma final_user_stmts:
  "stmt_keeps (\<lambda>d. is_final d x) (q_CreateSignupUser i email ph dn st v)"
  "stmt_keeps (\<lambda>d. is_final d x) (q_CreateUserWithEmail i email st)"
  "stmt_keeps (\<lambda>d. is_final d x) (q_CreateUserWithMobile i mobile)"
  "stmt_keeps (\<lambda>d. is_final d x) (q_ReissueSignupUser ph dn email)"
  "stmt_keeps (\<lambda>d. is_final d x) (q_UpdateLastLogin i)"
  "stmt_keeps (\<lambda>d. is_final d x) (q_VerifySignupUser v i)"
  by (rule final_stmtI; auto simp: q_CreateSignupUser_def q_CreateUserWithEmail_def q_CreateUserWithMobile_def q_ReissueSignupUser_def
      q_UpdateLastLogin_def q_VerifySignupUser_def update_users_def Let_def affected_Inr one_Inr split: if_splits
      dest!: insert_user_frame intro: final_insert intro!: final_update)+

lemma final_upsert_demo: "stmt_keeps (\<lambda>d. is_final d x) (upsert_demo key i em mo ph dn)"
  by (rule final_stmtI) (auto simp: upsert_demo_def demo_update_def update_users_def Let_def affected_Inr split: if_splits
      dest!: insert_user_frame intro: final_insert intro!: final_update)

lemma final_token_stmts:
  "stmt_keeps (\<lambda>d. is_final d x) (q_RevokeRefreshToken h)" "stmt_keeps (\<lambda>d. is_final d x) (q_StoreRefreshToken i u g' h at)"
  "stmt_keeps (\<lambda>d. is_final d x) (q_CreateAPIToken i u name prefix h sc at)" "stmt_keeps (\<lambda>d. is_final d x) (q_RevokeAPIToken i u)"
  by (rule final_stmtI; auto simp: q_RevokeRefreshToken_def q_StoreRefreshToken_def q_CreateAPIToken_def q_RevokeAPIToken_def
      split: if_splits option.splits intro: final_insert intro!: final_update)+

lemma final_invite_stmts:
  "stmt_keeps (\<lambda>d. is_final d x) (q_CreateOrganizationInvite E i g email h who st at at')"
  "stmt_keeps (\<lambda>d. is_final d x) (q_AcceptOrganizationInvite at i g)" "stmt_keeps (\<lambda>d. is_final d x) (q_RevokeOrganizationInvite i g)"
  "stmt_keeps (\<lambda>d. is_final d x) (q_RevokePendingOrganizationInvitesForEmail E g email)"
  by (rule final_stmtI; auto simp: q_CreateOrganizationInvite_def q_AcceptOrganizationInvite_def q_RevokeOrganizationInvite_def
      q_RevokePendingOrganizationInvitesForEmail_def Let_def split: if_splits option.splits intro: final_insert intro!: final_update)+

lemma final_other_stmts:
  "stmt_keeps (\<lambda>d. is_final d x) (q_ConsumeChallenge i)"
  "stmt_keeps (\<lambda>d. is_final d x) (q_DeleteChallengesForIdentifier identifier channel)"
  "stmt_keeps (\<lambda>d. is_final d x) q_DeleteExpiredChallenges" "stmt_keeps (\<lambda>d. is_final d x) (q_IncrementChallengeAttempts i)"
  "stmt_keeps (\<lambda>d. is_final d x) (q_UpsertChallenge i identifier channel h e c)"
  "stmt_keeps (\<lambda>d. is_final d x) (q_CreateOrganization i name at at')" "stmt_keeps (\<lambda>d. is_final d x) (q_AddOrganizationMembership g u st)"
  "stmt_keeps (\<lambda>d. is_final d x) (q_UpdateOrganizationMembershipStatus st g u)"
  "stmt_keeps (\<lambda>d. is_final d x) (q_DeleteOrganizationMembership g u)"
  "stmt_keeps (\<lambda>d. is_final d x) (q_AddActiveOrganizationMembership g u)" "stmt_keeps (\<lambda>d. is_final d x) (q_outbox_Insert E s en)"
  by (rule final_stmtI; subst final_frame;
      fastforce simp: q_ConsumeChallenge_def q_DeleteChallengesForIdentifier_def q_DeleteExpiredChallenges_def
        q_IncrementChallengeAttempts_def q_UpsertChallenge_def q_CreateOrganization_def q_AddOrganizationMembership_def
        q_UpdateOrganizationMembershipStatus_def q_DeleteOrganizationMembership_def q_AddActiveOrganizationMembership_def
        q_outbox_Insert_def affected_Inr insert_member_Inr one_Inr Let_def split: if_splits option.splits sum.splits)+

interpretation pg_final: statements "\<lambda>d. is_final d x" E for x E
  by unfold_locales (rule final_user_stmts final_token_stmts final_invite_stmts final_other_stmts
      | simp add: q_UpsertDemoUserByEmail_def q_UpsertDemoUserByMobile_def final_upsert_demo)+

interpretation pg_settled: ports "on_db (\<lambda>d. is_final d x)" "deployed E J signer F ev du getenv"
  for x E J signer F ev du getenv
  by unfold_locales (clarsimp simp: store_ports; rule pg_final.methods keep)+

section \<open>Properties\<close>

text \<open>
  C14. Final states are final: whatever use cases follow, other than the purge, and whatever statements of
  the database fail, a refresh token that was revoked stays revoked, so does an API token, an API token keeps its owner, an invitation
  that was accepted or revoked never becomes pending again, and an account that is not
  pending never returns to the sign-up.
\<close>

theorem final_states_stay:
  assumes "list_all (\<lambda>c. \<not> is_purge_use c) cs" and "is_final (w_db w) x"
  shows "is_final (w_db (use_runs U (deployed E J signer F ev du getenv) cs w)) x"
  by (rule pg_settled.keeps_use_runs) (use assms in \<open>simp_all add: list_all_iff\<close>)

text \<open>Witness of C14: a verified account before a sign-up and a login with its address.\<close>

definition verified_world :: world where
  "verified_world = (start_world [] 0)\<lparr>w_db := (empty_db [])\<lparr>users := [(new_user_row 1 demo_start)\<lparr>u_Email := Some ''ann@x.io''\<rparr>]\<rparr>\<rparr>"

theorem final_states_stay_witness:
  "list_all (\<lambda>c. \<not> is_purge_use c) demo_uses \<and> is_final (w_db verified_world) (AccountVerified 1) \<and>
   is_final (w_db (use_runs (env_unicode demo_env) demo_service demo_uses verified_world)) (AccountVerified 1)"
proof -
  have "list_all (\<lambda>c. \<not> is_purge_use c) demo_uses" by (simp add: demo_uses_def)
  moreover have "is_final (w_db verified_world) (AccountVerified 1)" by (simp add: verified_world_def empty_db_def new_user_row_def)
  ultimately show ?thesis unfolding demo_service_def by (intro conjI final_states_stay)
qed

end
