(* ===== verification/Sessions.thy ===== *)
theory Sessions
  imports Settled
begin

text \<open>
  What a session of the deployed service is worth: the organization an access token names and the rotation
  of refresh tokens. The statements are about the use cases of the
  application on the Postgres store.
\<close>

section \<open>Vocabulary\<close>

definition active_member :: "env \<Rightarrow> db \<Rightarrow> string \<Rightarrow> string \<Rightarrow> bool" where
  "active_member E d orgID userID \<longleftrightarrow>
     (\<exists>g u m. uuid_Parse E (TrimSpace orgID) = Inr g \<and> uuid_Parse E (TrimSpace userID) = Inr u \<and>
              m \<in> set (memberships d) \<and> is_member g u m \<and> m_Status m = MembershipActive)"

text \<open>The use cases that issue a token pair.\<close>

fun issues :: "unicode \<Rightarrow> 'w Service \<Rightarrow> use_case \<Rightarrow> ('w, token_pair) M option" where
  "issues U s (Use_VerifyOTP i c code) = Some (Service_VerifyOTP s i c code)"
| "issues U s (Use_Refresh t) = Some (Service_Refresh s t)"
| "issues U s (Use_SelectOrg u t g) = Some (Service_SelectOrg s u t g)"
| "issues U s (Use_LoginWithPassword i pw) = Some (Service_LoginWithPassword U s i pw)"
| "issues U s (Use_VerifySignup e c pw) = Some (Service_VerifySignup U s e c pw)"
| "issues U s _ = None"

text \<open>
  An access token that the signer made of claims which name no organization, or one of which the subject
  is an active member.
\<close>

definition session_ok :: "env \<Rightarrow> jwt_pkg \<Rightarrow> Signer \<Rightarrow> db \<Rightarrow> string \<Rightarrow> bool" where
  "session_ok E J signer d access \<longleftrightarrow>
     (\<exists>c. jwt_SignedString J Algorithm (TrimSpace (signer_keyID signer)) c (signer_key signer) = Inr access \<and>
          (claims_OrgID c = [] \<or> active_member E d (claims_OrgID c) (claims_Subject c)))"

section \<open>Membership checks\<close>

text \<open>A call whose error is inspected, in one step.\<close>

definition handleE :: "('w, 'a) M \<Rightarrow> (gerr \<Rightarrow> ('w, 'b) M) \<Rightarrow> ('a \<Rightarrow> ('w, 'b) M) \<Rightarrow> ('w, 'b) M" where
  "handleE m f g w = (case m w of (Inl e, w') \<Rightarrow> f e w' | (Inr a, w') \<Rightarrow> g a w')"

lemma try_case: "bindE (tryE m) (case_sum f g) = handleE m f g"
  by (auto simp: fun_eq_iff effect_defs handleE_def split: prod.splits sum.splits)

lemma run_handleE [run]:
  "handleE m f g w = r \<longleftrightarrow> (\<exists>e w'. m w = (Inl e, w') \<and> f e w' = r) \<or> (\<exists>a w'. m w = (Inr a, w') \<and> g a w' = r)"
  by (auto simp: handleE_def split: prod.splits sum.splits)

lemma IsActiveMember_reads [keep]: "keeps (on_db P) (Service_IsActiveMember (deployed E J signer F ev du getenv) g u)"
  unfolding Service_IsActiveMember_def Let_def deployed_ports use_simps store_Orgs_def OrgStore.simps
    Store_GetMembership_def membershipIDs_def getMembership_def
  by (rule keep)+

lemma IsActiveMember_True:
  assumes "Service_IsActiveMember (deployed E J signer F ev du getenv) g u w = (Inr True, w')"
  shows "active_member E (w_db w) g u \<and> w_db w' = w_db w"
proof -
  from assms obtain m where found: "Store_GetMembership E (TrimSpace g) (TrimSpace u) w = (Inr m, w')"
    and m: "Membership_Status m = MembershipActive"
    by (auto simp: Service_IsActiveMember_def try_case Let_def store_Orgs_def run split: if_splits)
  have "yields (Store_GetMembership E (TrimSpace g) (TrimSpace u)) (w_db w) m (w_db w')" by (rule yieldsI) (rule found)
  then show ?thesis using m unfolding Store_GetMembership_def active_member_def by (fastforce dest!: yieldD)
qed

lemma ListOrgsForUser_active:
  assumes "Store_ListOrgsForUser E u w = (Inr orgs, w')" and "org \<in> set orgs" and "TrimSpace u = u" and "uuid_laws E"
  shows "active_member E (w_db w) (Organization_ID org) u \<and> w_db w' = w_db w"
proof -
  have "yields (Store_ListOrgsForUser E u) (w_db w) orgs (w_db w')" by (rule yieldsI) (rule assms(1))
  then obtain g now rank where g: "uuid_Parse E u = Inr g"
    and q: "orgs \<in> map organization_of_row ` {rows. q_ListOrganizationsForUser g now rank (w_db w) = Inr (rows, w_db w')}"
    unfolding Store_ListOrgsForUser_def by (force dest!: yieldD)
  then have "w_db w' = w_db w" and "\<exists>(x :: OrgRow) m. Organization_ID org = uuid_text (o_ID x) \<and> m \<in> set (memberships (w_db w)) \<and>
      is_member (o_ID x) g m \<and> m_Status m = MembershipActive"
    using assms(2) by (auto simp: q_ListOrganizationsForUser_def organization_of_row_def organization_row_def is_member_def
        MembershipActive_def)
  with g show ?thesis using assms(3,4) unfolding active_member_def uuid_laws_def
    by (auto simp: TrimSpace_visible uuid_text_visible)
qed

section \<open>Issuing a pair\<close>

lemma memberships_frame [keep]:
  "keeps (on_db (\<lambda>d. memberships d = ms)) (Store_Store E u g h e)"
  "keeps (on_db (\<lambda>d. memberships d = ms)) (Store_Revoke E h)"
  "keeps (on_db (\<lambda>d. memberships d = ms)) (Store_FindValid E h)"
proof -
  have [keep]: "stmt_keeps (\<lambda>d. memberships d = ms) (q_StoreRefreshToken i u g h e)"
    "stmt_keeps (\<lambda>d. memberships d = ms) (q_RevokeRefreshToken h)" for i u g h e
    by (auto simp: stmt_keeps_def q_StoreRefreshToken_def q_RevokeRefreshToken_def split: option.splits if_splits)
  show "keeps (on_db (\<lambda>d. memberships d = ms)) (Store_Store E u g h e)"
    "keeps (on_db (\<lambda>d. memberships d = ms)) (Store_Revoke E h)"
    "keeps (on_db (\<lambda>d. memberships d = ms)) (Store_FindValid E h)"
    unfolding Store_Store_def Store_Revoke_def Store_FindValid_def by (rule keep)+
qed

lemma active_member_frame: "memberships d = memberships d' \<Longrightarrow> active_member E d g u \<longleftrightarrow> active_member E d' g u"
  by (simp add: active_member_def)

lemma keeps_memberships:
  "keeps (on_db (\<lambda>d. memberships d = memberships (w_db w))) m \<Longrightarrow> m w = (r, w') \<Longrightarrow> memberships (w_db w') = memberships (w_db w)"
  by (drule keepsD) auto

lemma sign_claims:
  assumes "SignAccessTokenWithOrg E J (Some key) keyID u g expires w = (Inr access, w')" and "uuid_laws E"
  shows "\<exists>c. jwt_SignedString J Algorithm (TrimSpace keyID) c key = Inr access \<and> claims_Subject c = TrimSpace u \<and>
             (if TrimSpace g = [] then claims_OrgID c = []
              else \<exists>x. uuid_Parse E (TrimSpace g) = Inr x \<and> claims_OrgID c = uuid_text x) \<and> w_db w' = w_db w"
  using assms unfolding SignAccessTokenWithOrg_def Let_def
  by (auto simp: run uuid_laws_def split: if_splits sum.splits)

lemma issueTokensForOrg_run:
  assumes "Service_issueTokensForOrg (deployed E J signer F ev du getenv) u g w = (Inr (access, rt, expires), w')"
  obtains w1 w2 w3 w4 h e where "Clock_Now E w = (Inr (expires - AccessTokenTTL), w1)"
    and "SignAccessTokenWithOrg E J (Some (signer_key signer)) (signer_keyID signer) u g expires w1 = (Inr access, w2)"
    and "bindE (Generator_NewID E) (\<lambda>a. bindE (Generator_NewID E) (\<lambda>b. ret (a @ b))) w2 = (Inr rt, w4)"
    and "Store_Store E u g (HashRefreshToken rt) (expires - AccessTokenTTL + RefreshTokenTTL) w4 = (Inr (), w')"
  using assms unfolding Service_issueTokensForOrg_def Let_def
  by (auto simp: run store_Refresh_def Signer_SignAccessToken_def SignAccessToken_def Signer_SignAccessTokenWithOrg_def split: if_splits)

lemma issueTokensForOrg_session:
  assumes issued: "Service_issueTokensForOrg (deployed E J signer F ev du getenv) u g w = (Inr (access, rt, expires), w')"
    and uuid: "uuid_laws E" and g: "g = [] \<or> active_member E (w_db w) g u"
  shows "session_ok E J signer (w_db w') access"
proof (rule issueTokensForOrg_run [OF issued])
  fix w1 w2 w3 w4 h e
  assume now: "Clock_Now E w = (Inr (expires - AccessTokenTTL), w1)"
    and sign: "SignAccessTokenWithOrg E J (Some (signer_key signer)) (signer_keyID signer) u g expires w1 = (Inr access, w2)"
    and ids: "bindE (Generator_NewID E) (\<lambda>a. bindE (Generator_NewID E) (\<lambda>b. ret (a @ b))) w2 = (Inr rt, w4)"
    and store: "Store_Store E u g (HashRefreshToken rt) (expires - AccessTokenTTL + RefreshTokenTTL) w4 = (Inr (), w')"
  have "memberships (w_db w') = memberships (w_db w4)"
    by (rule keeps_memberships [where m = "Store_Store E u g (HashRefreshToken rt) (expires - AccessTokenTTL + RefreshTokenTTL)"])
      (rule keep store)+
  also have "\<dots> = memberships (w_db w2)" using ids by (auto simp: run Generator_NewID_def)
  also have "\<dots> = memberships (w_db w)"
    using sign_claims [OF sign uuid] now by (auto simp: Clock_Now_def run)
  finally have frame: "memberships (w_db w') = memberships (w_db w)" .
  from sign_claims [OF sign uuid] obtain c where
    c: "jwt_SignedString J Algorithm (TrimSpace (signer_keyID signer)) c (signer_key signer) = Inr access"
      "claims_Subject c = TrimSpace u"
      "if TrimSpace g = [] then claims_OrgID c = []
       else \<exists>x. uuid_Parse E (TrimSpace g) = Inr x \<and> claims_OrgID c = uuid_text x"
    by blast
  moreover have "claims_OrgID c = [] \<or> active_member E (w_db w') (claims_OrgID c) (claims_Subject c)"
    using c(2,3) g uuid active_member_frame [OF frame]
    by (auto simp: active_member_def uuid_laws_def TrimSpace_visible uuid_text_visible split: if_splits)
  ultimately show ?thesis unfolding session_ok_def by blast
qed

text \<open>The IDs of the users that the store returns are canonical texts.\<close>

definition canonical :: "string \<Rightarrow> bool" where
  "canonical s \<longleftrightarrow> (\<exists>u. s = uuid_text u)"

lemma canonical_text [simp]: "canonical (uuid_text u)"
  by (auto simp: canonical_def)

lemma TrimSpace_canonical: "canonical s \<Longrightarrow> TrimSpace s = s"
  by (auto simp: canonical_def TrimSpace_visible uuid_text_visible)

lemma found_user_canonical:
  "Store_findByEmail E e w = (Inr u, w') \<Longrightarrow> canonical (User_ID u)"
  "Store_findByMobile E e w = (Inr u, w') \<Longrightarrow> canonical (User_ID u)"
  by (auto simp: Store_findByEmail_def Store_findByMobile_def run q_FindUserByEmail_def q_FindUserByMobile_def one_Inr
      user_of_row_def find_user_row_def)

lemma created_user_canonical:
  assumes "uuid_laws E"
  shows "Store_FindOrCreateByEmail E e w = (Inr u, w') \<Longrightarrow> canonical (User_ID u)"
    and "Store_FindOrCreateByMobile E e w = (Inr u, w') \<Longrightarrow> canonical (User_ID u)"
  using assms
  by (auto simp: Store_FindOrCreateByEmail_def Store_FindOrCreateByMobile_def try_case run Let_def uuid_laws_def
      dest: found_user_canonical dest!: run_in_tx_Inr split: if_splits sum.splits)

lemma issueTokens_session:
  assumes issued: "Service_issueTokens (deployed E J signer F ev du getenv) u w = (Inr (access, rt, expires), w')"
    and uuid: "uuid_laws E" and u: "canonical u"
  shows "session_ok E J signer (w_db w') access"
proof -
  let ?s = "deployed E J signer F ev du getenv"
  obtain g w1 where g: "g = [] \<or> active_member E (w_db w1) g u"
    and i: "Service_issueTokensForOrg ?s u g w1 = (Inr (access, rt, expires), w')"
  proof (cases "svc_autoSelectSingleOrg ?s")
    case False
    then show thesis using issued by (intro that [of "[]" w]) (simp_all add: Service_issueTokens_def)
  next
    case True
    then obtain g w1 where g: "Service_singleActiveOrg ?s u w = (Inr g, w1)"
      and i: "Service_issueTokensForOrg ?s u g w1 = (Inr (access, rt, expires), w')"
      using issued by (auto simp: Service_issueTokens_def run)
    obtain r w2 where "Store_ListOrgsForUser E u w = (r, w2)" by fastforce
    then have "g = [] \<or> (\<exists>orgs org. Store_ListOrgsForUser E u w = (Inr orgs, w1) \<and> org \<in> set orgs \<and> g = Organization_ID org)"
      using g by (cases r) (auto simp: Service_singleActiveOrg_def try_case handleE_def run store_Orgs_def split: list.splits)
    then have "g = [] \<or> active_member E (w_db w1) g u"
      using ListOrgsForUser_active [OF _ _ TrimSpace_canonical [OF u] uuid] by metis
    then show thesis using i that by blast
  qed
  show ?thesis by (rule issueTokensForOrg_session [OF i uuid g])
qed

lemma activeOrg_reads:
  "Service_activeOrg (deployed E J signer F ev du getenv) u g w = (r, w') \<Longrightarrow> w_db w' = w_db w"
proof -
  have "keeps (on_db (\<lambda>d. d = w_db w)) (Service_activeOrg (deployed E J signer F ev du getenv) u g)"
    unfolding Service_activeOrg_def by (rule keep)+
  then show "Service_activeOrg (deployed E J signer F ev du getenv) u g w = (r, w') \<Longrightarrow> ?thesis" by (auto dest: keepsD)
qed

lemma activeOrg_active:
  assumes "Service_activeOrg (deployed E J signer F ev du getenv) u g w = (Inr g', w')"
  shows "g' = [] \<or> active_member E (w_db w') g' u"
proof -
  have "g' = [] \<or> Service_IsActiveMember (deployed E J signer F ev du getenv) g' u w = (Inr True, w')"
    using assms by (auto simp: Service_activeOrg_def try_case run split: if_splits)
  then show ?thesis using IsActiveMember_True by metis
qed

lemma VerifyOTP_session:
  assumes "uuid_laws E" and "Service_VerifyOTP (deployed E J signer F ev du getenv) i ch code w = (Inr (access, rt, expires), w')"
  shows "session_ok E J signer (w_db w') access"
proof -
  obtain user w0 w1 where "Store_FindOrCreateByEmail E (TrimSpace i) w0 = (Inr user, w1) \<or>
      Store_FindOrCreateByMobile E (TrimSpace i) w0 = (Inr user, w1)"
    and t: "Service_issueTokens (deployed E J signer F ev du getenv) (User_ID user) w1 = (Inr (access, rt, expires), w')"
    using assms(2) by (auto simp: Service_VerifyOTP_def Let_def run store_OTP_def store_Users_def split: if_splits)
  then have "canonical (User_ID user)" using created_user_canonical [OF assms(1)] by blast
  then show ?thesis by (rule issueTokens_session [OF t assms(1)])
qed

lemma Refresh_session:
  assumes "uuid_laws E" and "Service_Refresh (deployed E J signer F ev du getenv) t w = (Inr (access, rt, expires), w')"
  shows "session_ok E J signer (w_db w') access"
proof -
  obtain u g g' w0 w1 where g: "Service_activeOrg (deployed E J signer F ev du getenv) u g w0 = (Inr g', w1)"
    and i: "Service_issueTokensForOrg (deployed E J signer F ev du getenv) u g' w1 = (Inr (access, rt, expires), w')"
    using assms(2) by (auto simp: Service_Refresh_def Let_def run store_Refresh_def)
  show ?thesis by (rule issueTokensForOrg_session [OF i assms(1) activeOrg_active [OF g]])
qed

lemma SelectOrg_session:
  assumes "uuid_laws E" and "Service_SelectOrg (deployed E J signer F ev du getenv) u t g w = (Inr (access, rt, expires), w')"
  shows "session_ok E J signer (w_db w') access"
proof -
  let ?s = "deployed E J signer F ev du getenv"
  obtain w1 p w2 where a: "Service_IsActiveMember ?s (TrimSpace g) (TrimSpace u) w = (Inr True, w1)"
    and f: "Store_FindValid E (HashRefreshToken t) w1 = (Inr p, w2)"
    and i: "Service_issueTokensForOrg ?s (TrimSpace u) (TrimSpace g) (snd (Store_Revoke E (HashRefreshToken t) w2)) =
        (Inr (access, rt, expires), w')"
    using assms(2) by (auto simp: Service_SelectOrg_def Let_def run store_Refresh_def split: if_splits)
  have "memberships (w_db w2) = memberships (w_db w1)"
    by (rule keeps_memberships [where m = "Store_FindValid E (HashRefreshToken t)"]) (rule keep f)+
  moreover have "memberships (w_db (snd (Store_Revoke E (HashRefreshToken t) w2))) = memberships (w_db w2)"
    using memberships_frame(2) by (auto simp: keeps_def)
  ultimately have "active_member E (w_db (snd (Store_Revoke E (HashRefreshToken t) w2))) (TrimSpace g) (TrimSpace u)"
    using IsActiveMember_True [OF a] by (simp add: active_member_def)
  then show ?thesis by (intro issueTokensForOrg_session [OF i assms(1)]) simp
qed

lemma LoginWithPassword_session:
  assumes "uuid_laws E"
    and "Service_LoginWithPassword U (deployed E J signer F ev du getenv) i pw w = (Inr (access, rt, expires), w')"
  shows "session_ok E J signer (w_db w') access"
proof -
  obtain user w0 w1 w2 where "Store_findByEmail E (ToLower U (TrimSpace i)) w0 = (Inr user, w1) \<or>
      Store_findByMobile E (TrimSpace i) w0 = (Inr user, w1)"
    and t: "Service_issueTokens (deployed E J signer F ev du getenv) (User_ID user) w2 = (Inr (access, rt, expires), w')"
    using assms(2)
    by (auto simp: Service_LoginWithPassword_def Let_def run store_Users_def Store_FindByEmail_def Store_FindByMobile_def
        split: if_splits)
  then have "canonical (User_ID user)" using found_user_canonical by blast
  then show ?thesis by (rule issueTokens_session [OF t assms(1)])
qed

lemma VerifySignup_session:
  assumes "uuid_laws E"
    and "Service_VerifySignup U (deployed E J signer F ev du getenv) e code pw w = (Inr (access, rt, expires), w')"
  shows "session_ok E J signer (w_db w') access"
proof -
  obtain user w0 w1 w2 where f: "Store_findByEmail E (NormalizeEmail U e) w0 = (Inr user, w1)"
    and t: "Service_issueTokens (deployed E J signer F ev du getenv) (User_ID user) w2 = (Inr (access, rt, expires), w')"
    using assms(2)
    by (auto simp: Service_VerifySignup_def Let_def try_case run store_Users_def store_OTP_def store_Signup_def Store_FindByEmail_def
        split: if_splits)
  show ?thesis by (rule issueTokens_session [OF t assms(1) found_user_canonical(1) [OF f]])
qed

section \<open>Properties\<close>

text \<open>
  C4. A session names an organization only for its active members: whenever a login with a one-time code
  or a password, a refresh, a selection of an organization or the verification of a sign-up returns an
  access token, the signer made it of claims that carry no organization or one in which the subject has
  an active membership in the database at that moment. So neither the automatic selection nor a refresh
  after a suspension can carry an organization along.
\<close>

theorem session_names_active_membership:
  assumes "uuid_laws E" and "issues U (deployed E J signer F ev du getenv) c = Some m"
    and "m w = (Inr (access, rt, expires), w')"
  shows "session_ok E J signer (w_db w') access"
  using assms(2,3)
  by (cases c) (auto dest: VerifyOTP_session [OF assms(1)] Refresh_session [OF assms(1)] SelectOrg_session [OF assms(1)]
      LoginWithPassword_session [OF assms(1)] VerifySignup_session [OF assms(1)])

text \<open>
  A deployed service for the witnesses, with a JWT package that signs everything with the same text, and a
  world with one refresh token, of a member of one organization.
\<close>

definition plain_jwt :: jwt_pkg where
  "plain_jwt =
     \<lparr>jwt_SignedString = (\<lambda>alg kid c key. Inr ''t''), jwt_ParseUnverified = (\<lambda>raw. Inr None),
      jwt_ParseWithClaims = (\<lambda>raw kf ms iss now. Inl PanicError)\<rparr>"

definition plain_service :: "world Service" where
  "plain_service = deployed demo_env plain_jwt demo_signer demo_openfeature (\<lambda>t. None) [] (\<lambda>k. [])"

definition session_db :: db where
  "session_db = (empty_db [])
     \<lparr>memberships := [\<lparr>m_OrgID = 9, m_UserID = 1, m_Status = MembershipActive, m_CreatedAt = demo_start, m_UpdatedAt = demo_start\<rparr>],
      refresh_tokens := [\<lparr>r_ID = 0, r_UserID = 1, r_TokenHash = HashRefreshToken ''x'', r_ExpiresAt = demo_start + Hour,
        r_RevokedAt = None, r_CreatedAt = demo_start, r_OrgID = Some 9\<rparr>]\<rparr>"

definition session_world :: world where
  "session_world = (start_world [] 0)\<lparr>w_db := session_db\<rparr>"

lemma demo_uuids [simp]:
  "uuid_Parse demo_env (uuid_text u) = Inr u" "uuid_String demo_env u = uuid_text u" "fault demo_env t = None"
  "uuid_New demo_env t = of_nat (Suc t)" "app_clock demo_env t = demo_start + int t * Second"
  "db_clock demo_env t = demo_start + int t * Second" "scan_rank demo_env t i = i"
  using demo_laws(1) by (simp_all add: uuid_laws_def) (simp_all add: demo_env_def)

lemma uuid_text_neq_Nil [simp]: "uuid_text u \<noteq> []"
  by (simp add: uuid_text_def Let_def)

lemma demo_world [simp]: "w_db session_world = session_db" "w_tick session_world = 0" "w_tx session_world = None"
  by (simp_all add: session_world_def start_world_def)

lemma demo_FindValid:
  "Store_FindValid demo_env (HashRefreshToken ''x'') session_world =
     (Inr (uuid_text 1, uuid_text 9), session_world\<lparr>w_tick := 1\<rparr>)"
  by (simp add: Store_FindValid_def effect_defs exec_def q_FindValidRefreshToken_def
      session_db_def scan_def live_refresh_def tx_time_def demo_start_def Hour_def Minute_def Second_def
      one_def pg_ts_def coalesce_def)

definition revoked_world :: world where
  "revoked_world = session_world\<lparr>w_tick := 2, w_db := session_db\<lparr>refresh_tokens :=
     map (\<lambda>r. r\<lparr>r_RevokedAt := Some (pg_ts (demo_start + Second))\<rparr>) (refresh_tokens session_db)\<rparr>\<rparr>"

lemma demo_Revoke: "snd (Store_Revoke demo_env (HashRefreshToken ''x'') (session_world\<lparr>w_tick := 1\<rparr>)) = revoked_world"
  by (simp add: Store_Revoke_def exec_def q_RevokeRefreshToken_def session_db_def tx_time_def revoked_world_def)

lemma demo_activeOrg:
  "Service_activeOrg plain_service (uuid_text 1) (uuid_text 9) revoked_world = (Inr (uuid_text 9), revoked_world\<lparr>w_tick := 3\<rparr>)"
  unfolding plain_service_def
  by (simp add: Service_activeOrg_def Service_IsActiveMember_def store_Orgs_def Store_GetMembership_def membershipIDs_def
      getMembership_def parse_uuid_def effect_defs exec_def q_GetOrganizationMembership_def one_def scan_def is_member_def
      membership_of_row_def membership_row_def TrimSpace_visible uuid_text_visible revoked_world_def session_db_def empty_db_def)

lemma TrimSpace_k1 [simp]: "TrimSpace ''k1'' = ''k1''"
  by code_simp

lemma demo_issue:
  "\<exists>rt e w'. Service_issueTokensForOrg plain_service (uuid_text 1) (uuid_text 9) (revoked_world\<lparr>w_tick := 3\<rparr>) = (Inr (''t'', rt, e), w')"
  unfolding plain_service_def
  by (simp add: Service_issueTokensForOrg_def Clock_Now_def time_Now_def tick_def effect_defs Signer_SignAccessTokenWithOrg_def
      SignAccessTokenWithOrg_def demo_signer_def plain_jwt_def TrimSpace_visible uuid_text_visible Generator_NewID_def
      uuid_NewString_def store_Refresh_def Store_Store_def parse_uuid_def new_uuid_def exec_def q_StoreRefreshToken_def
      timestamptz_def IsZero_def revoked_world_def session_db_def empty_db_def demo_start_def RefreshTokenTTL_def Hour_def
      Minute_def Second_def Let_def)

lemma demo_refresh: "\<exists>rt e w'. Service_Refresh plain_service ''x'' session_world = (Inr (''t'', rt, e), w')"
proof -
  obtain rt e w' where
    "Service_issueTokensForOrg plain_service (uuid_text 1) (uuid_text 9) (revoked_world\<lparr>w_tick := 3\<rparr>) = (Inr (''t'', rt, e), w')"
    using demo_issue by blast
  then show ?thesis
    using demo_activeOrg demo_FindValid demo_Revoke
    by (simp add: Service_Refresh_def plain_service_def store_Refresh_def Let_def bindE_def mapErr_def ignoreE_def)
qed

text \<open>Witness of C4: the refresh of the demo session, which stays in its organization.\<close>

theorem session_names_active_membership_witness:
  "\<exists>rt expires w'. Service_Refresh plain_service ''x'' session_world = (Inr (''t'', rt, expires), w') \<and>
     session_ok demo_env plain_jwt demo_signer (w_db w') ''t''"
proof -
  obtain rt e w' where r: "Service_Refresh plain_service ''x'' session_world = (Inr (''t'', rt, e), w')"
    using demo_refresh by blast
  then show ?thesis
    using session_names_active_membership [OF demo_laws(1), of "env_unicode demo_env" plain_jwt demo_signer demo_openfeature
        "\<lambda>t. None" "[]" "\<lambda>k. []" "Use_Refresh ''x''" "Service_Refresh plain_service ''x''"]
    by (auto simp: plain_service_def)
qed

section \<open>Refresh tokens\<close>

text \<open>Two tokens of the table with one hash.\<close>

definition hash_collision :: "string \<Rightarrow> db \<Rightarrow> bool" where
  "hash_collision h d \<longleftrightarrow> (\<exists>r \<in> set (refresh_tokens d). \<exists>r' \<in> set (refresh_tokens d). r \<noteq> r' \<and> r_TokenHash r = h \<and> r_TokenHash r' = h)"

lemma FindValid_live:
  assumes "Store_FindValid E h w = (Inr p, w')"
  shows "\<exists>r \<in> set (refresh_tokens (w_db w)). r_TokenHash r = h \<and> r_RevokedAt r = None" and "w_db w' = w_db w"
proof -
  have "yields (Store_FindValid E h) (w_db w) p (w_db w')" by (rule yieldsI) (rule assms)
  then show "\<exists>r \<in> set (refresh_tokens (w_db w)). r_TokenHash r = h \<and> r_RevokedAt r = None" and "w_db w' = w_db w"
    unfolding Store_FindValid_def
    by (force simp: q_FindValidRefreshToken_def stmt_inv live_refresh_def dest!: yieldD filter_scan_Cons)+
qed

lemma Revoke_final:
  assumes "Store_FindValid E h w = (Inr p, w1)" and "fault E (w_tick w1) = None"
  obtains i where "is_final (w_db (snd (Store_Revoke E h w1))) (RefreshRevoked i h)"
proof -
  from FindValid_live [OF assms(1)] obtain r where r: "r \<in> set (refresh_tokens (w_db w1))" "r_TokenHash r = h" by auto
  let ?f = "\<lambda>r. if r_TokenHash r = h then r\<lparr>r_RevokedAt := Some (tx_time E w1)\<rparr> else r"
  have "?f r \<in> set (map ?f (refresh_tokens (w_db w1)))" unfolding set_map using r(1) by (rule imageI)
  then have "\<exists>r' \<in> set (map ?f (refresh_tokens (w_db w1))). r_ID r' = r_ID r \<and> r_TokenHash r' = h \<and> r_RevokedAt r' \<noteq> None"
    by (rule bexI [rotated]) (simp add: r(2))
  then have "is_final (w_db (snd (Store_Revoke E h w1))) (RefreshRevoked (r_ID r) h)"
    by (simp add: Store_Revoke_def exec_def q_RevokeRefreshToken_def assms(2) Let_def del: set_map)
  then show ?thesis by (rule that)
qed

lemma Refresh_of_revoked:
  assumes "is_final (w_db w) (RefreshRevoked i (HashRefreshToken t))"
  shows "fst (Service_Refresh (deployed E J signer F ev du getenv) t w) = Inl ErrInvalidRefresh \<or>
         hash_collision (HashRefreshToken t) (w_db w)"
proof (cases "Store_FindValid E (HashRefreshToken t) w")
  case (Pair x w')
  show ?thesis
  proof (cases x)
    case (Inl e)
    with Pair show ?thesis by (simp add: Service_Refresh_def Let_def store_Refresh_def bindE_def mapErr_def)
  next
    case (Inr p)
    with FindValid_live(1) [of E "HashRefreshToken t" w p w'] Pair assms show ?thesis
      by (fastforce simp: hash_collision_def)
  qed
qed

lemma IsActiveMember_tick:
  "Service_IsActiveMember (deployed E J signer F ev du getenv) g u w = (Inr True, w') \<Longrightarrow> w_tick w' = Suc (w_tick w)"
  by (auto simp: Service_IsActiveMember_def Let_def store_Orgs_def Store_GetMembership_def getMembership_def membershipIDs_def
      bindE_def tryE_def mapErr_def parse_uuid_def exec_def ret_def fail_def split: if_splits sum.split_asm option.splits prod.splits)

text \<open>
  C9. Refresh tokens rotate: once a refresh token has been exchanged for a new pair, by a refresh or by
  selecting an organization, and the statements of the exchange up to the revocation, at most three, did not fail, the old token
  is refused for ever, whatever use cases other than the purge follow and whatever fails in them, unless the table holds
  two tokens with its SHA-256 hash. The hypothesis on the revocation is needed: the code ignores its error.
\<close>

theorem refresh_token_single_use:
  assumes "\<forall>j<3. fault E (w_tick w + j) = None" and "c = Use_Refresh t \<or> c = Use_SelectOrg u t g"
    and "issues U (deployed E J signer F ev du getenv) c = Some m" and "m w = (Inr (access, t', expires), w')"
    and "list_all (\<lambda>c. \<not> is_purge_use c) cs" and "w2 = use_runs U (deployed E J signer F ev du getenv) cs w'"
  shows "fst (Service_Refresh (deployed E J signer F ev du getenv) t w2) = Inl ErrInvalidRefresh \<or>
         hash_collision (HashRefreshToken t) (w_db w2)"
proof -
  let ?s = "deployed E J signer F ev du getenv" and ?h = "HashRefreshToken t"
  obtain v x y p gg w1 where issued: "Service_issueTokensForOrg ?s v gg w1 = (Inr (access, t', expires), w')"
    and found: "Store_FindValid E ?h y = (Inr p, x)" and w1: "w_db w1 = w_db (snd (Store_Revoke E ?h x))"
    and y: "w_tick y = w_tick w \<or> w_tick y = Suc (w_tick w)"
  proof (cases "c = Use_Refresh t")
    case True
    then show thesis
      using assms(3,4) activeOrg_reads that [of _ _ _ w] by (fastforce simp: Service_Refresh_def Let_def run store_Refresh_def)
  next
    case False
    then show thesis
      using assms(2-4) that by (auto simp: Service_SelectOrg_def Let_def run store_Refresh_def split: if_splits dest!: IsActiveMember_tick)
  qed
  have "w_tick x = Suc (w_tick y)" using found by (auto simp: Store_FindValid_def run)
  then have "fault E (w_tick x) = None"
    using y assms(1) [THEN spec, of 1] assms(1) [THEN spec, of 2] by (auto simp: numeral_2_eq_2)
  with found obtain i where "is_final (w_db w1) (RefreshRevoked i ?h)"
    unfolding w1 by (rule Revoke_final)
  then have "is_final (w_db w') (RefreshRevoked i ?h)"
    by (rule keepsD [OF pg_settled.keeps_issueTokensForOrg, where w = w1]) (rule issued)
  then have "is_final (w_db w2) (RefreshRevoked i ?h)"
    unfolding assms(6) by (rule pg_settled.keeps_use_runs [rotated]) (use assms(5) in \<open>simp add: list_all_iff\<close>)
  then show ?thesis by (rule Refresh_of_revoked)
qed

text \<open>Witness of C9: the token of the demo session is presented again after a login attempt.\<close>

theorem refresh_token_single_use_witness:
  "\<exists>rt expires w' w2. Service_Refresh plain_service ''x'' session_world = (Inr (''t'', rt, expires), w') \<and>
     w2 = use_runs (env_unicode demo_env) plain_service [Use_LoginWithPassword ''ann@x.io'' ''secret''] w' \<and>
     (fst (Service_Refresh plain_service ''x'' w2) = Inl ErrInvalidRefresh \<or> hash_collision (HashRefreshToken ''x'') (w_db w2))"
proof -
  obtain rt e w' where r: "Service_Refresh plain_service ''x'' session_world = (Inr (''t'', rt, e), w')"
    using demo_refresh by blast
  have "list_all (\<lambda>c. \<not> is_purge_use c) [Use_LoginWithPassword ''ann@x.io'' ''secret'']" by simp
  then show ?thesis
    using refresh_token_single_use [where E = demo_env and c = "Use_Refresh ''x''" and t = "''x''" and u = "[]" and g = "[]"
        and U = "env_unicode demo_env" and J = plain_jwt and signer = demo_signer and F = demo_openfeature and ev = "\<lambda>t. None"
        and du = "[]" and getenv = "\<lambda>k. []" and m = "Service_Refresh plain_service ''x''" and w = session_world] r
    unfolding plain_service_def [symmetric] by simp
qed

end
