(* ===== verification/OneTimeCodes.thy ===== *)
theory OneTimeCodes
  imports Sessions
begin

text \<open>
  The life of a one-time code at the deployed service: how many guesses it stands, and that it is gone
  once it has been used.
\<close>

abbreviation for_login :: "string \<Rightarrow> string \<Rightarrow> ChallengeRow \<Rightarrow> bool" where
  "for_login i ch c \<equiv> c_Identifier c = TrimSpace i \<and> c_Channel c = TrimSpace ch"

lemma GetLatestChallenge_single:
  assumes "fault E (w_tick w) = None" and "filter (\<lambda>c. c_Identifier c = i \<and> c_Channel c = ch) (challenges (w_db w)) = [c]"
  shows "Store_GetLatestChallenge E i ch w =
     (Inr \<lparr>OTPChallenge_ID = uuid_text (c_ID c), OTPChallenge_Identifier = c_Identifier c, OTPChallenge_Channel = c_Channel c,
           OTPChallenge_CodeHash = c_CodeHash c, OTPChallenge_ExpiresAt = c_ExpiresAt c,
           OTPChallenge_CreatedAt = c_CreatedAt c, OTPChallenge_Attempts = c_Attempts c\<rparr>, w\<lparr>w_tick := Suc (w_tick w)\<rparr>)"
  using assms filter_scan_single [OF assms(2)]
  by (simp add: Store_GetLatestChallenge_def effect_defs exec_def q_GetLatestChallenge_def one_def challenge_of_row_def ts_Time_def)

lemma IncrementAttempts_run:
  assumes "fault E (w_tick w) = None" and "uuid_laws E"
  shows "snd (Store_IncrementAttempts E (uuid_text i) w) =
     w\<lparr>w_tick := Suc (w_tick w), w_db := (w_db w)\<lparr>challenges :=
       map (\<lambda>c. if c_ID c = i then c\<lparr>c_Attempts := c_Attempts c + 1\<rparr> else c) (challenges (w_db w))\<rparr>\<rparr>"
  using assms by (simp add: Store_IncrementAttempts_def effect_defs parse_uuid_def uuid_laws_def exec_def q_IncrementChallengeAttempts_def)

text \<open>The outcome of a guess with a code that does not match the only challenge.\<close>

lemma VerifyOTP_wrong:
  assumes "\<And>k. fault E k = None" and "uuid_laws E"
    and "filter (for_login i ch) (challenges (w_db w)) = [c]"
    and "TrimSpace i \<noteq> []" and "TrimSpace ch \<noteq> []" and "code \<noteq> []" and "\<not> bcrypt_Compare E (c_CodeHash c) code"
  shows "Service_VerifyOTP (deployed E J signer F ev du getenv) i ch code w =
     (if c_ExpiresAt c < app_clock E (Suc (w_tick w)) then (Inl ErrInvalidOTPCode, w\<lparr>w_tick := Suc (Suc (w_tick w))\<rparr>)
      else if MaxOTPAttempts \<le> c_Attempts c then (Inl ErrTooManyOTPAttempts, w\<lparr>w_tick := Suc (Suc (w_tick w))\<rparr>)
      else (Inl ErrInvalidOTPCode, w\<lparr>w_tick := Suc (Suc (Suc (w_tick w))), w_db := (w_db w)\<lparr>challenges :=
              map (\<lambda>x. if c_ID x = c_ID c then x\<lparr>c_Attempts := c_Attempts x + 1\<rparr> else x) (challenges (w_db w))\<rparr>\<rparr>))"
  using assms
  by (simp add: Service_VerifyOTP_def Let_def store_OTP_def bindE_def mapErr_def ignoreE_def GetLatestChallenge_single
      Clock_Now_def time_Now_def tick_def fail_def ret_def Hasher_Compare_def IncrementAttempts_run)

lemma VerifyOTP_refused:
  assumes "\<And>k. fault E k = None" and "filter (for_login i ch) (challenges (w_db w)) = [c]"
    and "c_ExpiresAt c < app_clock E (Suc (w_tick w)) \<or> MaxOTPAttempts \<le> c_Attempts c"
  shows "\<exists>e w'. Service_VerifyOTP (deployed E J signer F ev du getenv) i ch code w = (Inl e, w') \<and>
           (e = ErrInvalidOTPCode \<or> e = ErrTooManyOTPAttempts) \<and> w_db w' = w_db w"
  using assms
  by (auto simp: Service_VerifyOTP_def Let_def store_OTP_def bindE_def mapErr_def GetLatestChallenge_single
      Clock_Now_def time_Now_def tick_def fail_def ret_def)

text \<open>The only challenge has been guessed \<open>n\<close> times in vain, or has expired.\<close>

definition tried :: "env \<Rightarrow> string \<Rightarrow> string \<Rightarrow> string \<Rightarrow> int \<Rightarrow> world \<Rightarrow> bool" where
  "tried E i ch h n w \<longleftrightarrow>
     (\<exists>c. filter (for_login i ch) (challenges (w_db w)) = [c] \<and> c_CodeHash c = h \<and>
          (min n MaxOTPAttempts \<le> c_Attempts c \<or> c_ExpiresAt c < app_clock E (w_tick w)))"

lemma tried_step:
  assumes "\<And>k. fault E k = None" and "uuid_laws E" and "mono (app_clock E)"
    and "TrimSpace i \<noteq> []" and "TrimSpace ch \<noteq> []" and "code \<noteq> []" and "\<not> bcrypt_Compare E h code"
    and "tried E i ch h n w"
  shows "tried E i ch h (n + 1) (snd (Service_VerifyOTP (deployed E J signer F ev du getenv) i ch code w))"
proof -
  from assms(8) obtain c where c: "filter (for_login i ch) (challenges (w_db w)) = [c]" "c_CodeHash c = h"
    and n: "min n MaxOTPAttempts \<le> c_Attempts c \<or> c_ExpiresAt c < app_clock E (w_tick w)"
    unfolding tried_def by blast
  have t: "app_clock E k \<le> app_clock E k'" if "k \<le> k'" for k k' using monoD [OF assms(3) that] .
  note wrong = VerifyOTP_wrong [OF assms(1,2) c(1) assms(4,5,6), of J signer F ev du getenv]
  show ?thesis
  proof (cases "c_ExpiresAt c < app_clock E (Suc (w_tick w)) \<or> MaxOTPAttempts \<le> c_Attempts c")
    case True
    then show ?thesis
      using wrong assms(7) c t [of "Suc (w_tick w)" "Suc (Suc (w_tick w))"] unfolding tried_def by (auto simp: min_def)
  next
    case False
    then have "min n MaxOTPAttempts \<le> c_Attempts c" using n t [of "w_tick w" "Suc (w_tick w)"] by auto
    then have "min (n + 1) MaxOTPAttempts \<le> c_Attempts c + 1" by linarith
    moreover have "filter (for_login i ch) (map (\<lambda>x. if c_ID x = c_ID c then x\<lparr>c_Attempts := c_Attempts x + 1\<rparr> else x)
        (challenges (w_db w))) = [c\<lparr>c_Attempts := c_Attempts c + 1\<rparr>]"
      using c(1) by (simp add: filter_map comp_def if_distrib cong: if_cong)
    ultimately show ?thesis using wrong assms(7) c False unfolding tried_def by simp
  qed
qed

definition guesses :: "world Service \<Rightarrow> string \<Rightarrow> string \<Rightarrow> string list \<Rightarrow> world \<Rightarrow> world" where
  "guesses s i ch codes w = fold (\<lambda>code w. snd (Service_VerifyOTP s i ch code w)) codes w"

section \<open>Properties\<close>

text \<open>
  C11. A one-time code stands five guesses: when a login has one challenge and the database does not fail,
  then after any five wrong guesses, with nothing but guesses for that login in between, every further attempt is refused, with the
  right code as well, and no session is issued; refusals of the expired code included. The clock of the service must not run
  backwards.
\<close>

theorem otp_lockout:
  assumes "\<And>k. fault E k = None" and "uuid_laws E" and "mono (app_clock E)"
    and "TrimSpace i \<noteq> []" and "TrimSpace ch \<noteq> []"
    and "filter (for_login i ch) (challenges (w_db w)) = [c]" and "0 \<le> c_Attempts c"
    and "list_all (\<lambda>code. code \<noteq> [] \<and> \<not> bcrypt_Compare E (c_CodeHash c) code) wrong"
    and "MaxOTPAttempts \<le> int (length wrong)"
    and "s = deployed E J signer F ev du getenv"
  shows "\<exists>e w'. Service_VerifyOTP s i ch code (guesses s i ch wrong w) = (Inl e, w') \<and>
           (e = ErrInvalidOTPCode \<or> e = ErrTooManyOTPAttempts)"
proof -
  have run: "tried E i ch (c_CodeHash c) (n + int (length wrong)) (guesses s i ch wrong w)" if "tried E i ch (c_CodeHash c) n w" for n
    using assms(8) that unfolding guesses_def
  proof (induction wrong arbitrary: n w)
    case (Cons code wrong)
    then have "tried E i ch (c_CodeHash c) (n + 1) (snd (Service_VerifyOTP s i ch code w))"
      unfolding assms(10) by (intro tried_step assms(1-5)) simp_all
    then have "tried E i ch (c_CodeHash c) (n + 1 + int (length wrong))
        (fold (\<lambda>code w. snd (Service_VerifyOTP s i ch code w)) wrong (snd (Service_VerifyOTP s i ch code w)))"
      using Cons.prems by (intro Cons.IH) simp_all
    then show ?case by (simp add: add.assoc)
  qed simp
  have "tried E i ch (c_CodeHash c) 0 w" using assms(6,7) by (simp add: tried_def min_def)
  from run [OF this] have "tried E i ch (c_CodeHash c) (int (length wrong)) (guesses s i ch wrong w)" by simp
  then obtain c' where c': "filter (for_login i ch) (challenges (w_db (guesses s i ch wrong w))) = [c']"
    "MaxOTPAttempts \<le> c_Attempts c' \<or> c_ExpiresAt c' < app_clock E (w_tick (guesses s i ch wrong w))"
    using min_absorb2 [OF assms(9)] unfolding tried_def by auto
  moreover have "app_clock E (w_tick (guesses s i ch wrong w)) \<le> app_clock E (Suc (w_tick (guesses s i ch wrong w)))"
    using assms(3) by (simp add: monoD)
  ultimately show ?thesis
    using VerifyOTP_refused [OF assms(1) c'(1), of J signer F ev du getenv code] unfolding assms(10) by fastforce
qed

text \<open>Witness of C11: five wrong guesses at a code in the demo environment.\<close>

definition otp_challenge :: ChallengeRow where
  "otp_challenge = \<lparr>c_ID = 0, c_Identifier = ''a@x.io'', c_CodeHash = ''bcrypt:123456'', c_ExpiresAt = demo_start + Hour,
     c_Attempts = 0, c_CreatedAt = demo_start, c_Channel = ''email''\<rparr>"

definition otp_world :: world where
  "otp_world = (start_world [] 0)\<lparr>w_db := (empty_db [])\<lparr>challenges := [otp_challenge]\<rparr>\<rparr>"

theorem otp_lockout_witness:
  "\<exists>e w'. Service_VerifyOTP plain_service ''a@x.io'' ''email'' ''123456''
            (guesses plain_service ''a@x.io'' ''email'' [''1'', ''2'', ''3'', ''4'', ''5''] otp_world) = (Inl e, w') \<and>
          (e = ErrInvalidOTPCode \<or> e = ErrTooManyOTPAttempts)"
proof (rule otp_lockout [of demo_env "''a@x.io''" "''email''" otp_world otp_challenge "[''1'', ''2'', ''3'', ''4'', ''5'']"])
  have t: "TrimSpace ''a@x.io'' = ''a@x.io''" "TrimSpace ''email'' = ''email''" by code_simp+
  then show "TrimSpace ''a@x.io'' \<noteq> []" "TrimSpace ''email'' \<noteq> []"
    "filter (for_login ''a@x.io'' ''email'') (challenges (w_db otp_world)) = [otp_challenge]"
    by (simp_all add: otp_world_def otp_challenge_def)
  show "mono (app_clock demo_env)" by (rule monoI) (simp add: Second_def)
  show "list_all (\<lambda>code. code \<noteq> [] \<and> \<not> bcrypt_Compare demo_env (c_CodeHash otp_challenge) code) [''1'', ''2'', ''3'', ''4'', ''5'']"
    by (simp add: demo_env_def otp_challenge_def)
qed (use demo_laws in \<open>simp_all add: plain_service_def otp_challenge_def MaxOTPAttempts_def\<close>)

section \<open>A used code is gone\<close>

definition gone :: "uuid \<Rightarrow> db \<Rightarrow> bool" where
  "gone i d \<longleftrightarrow> i \<notin> c_ID ` set (challenges d)"

lemma gone_frame: "(\<And>now rank d a d'. q now rank d = Inr (a, d') \<Longrightarrow> challenges d' = challenges d) \<Longrightarrow> stmt_keeps (gone i) q"
  unfolding stmt_keeps_def gone_def by metis

lemma gone_stmts [keep]:
  "stmt_keeps (gone i) (q_CreateUserWithEmail u e st)" "stmt_keeps (gone i) (q_CreateUserWithMobile u m)"
  "stmt_keeps (gone i) (q_StoreRefreshToken r u g h at)" "stmt_keeps (gone i) (q_outbox_Insert E s ev)"
  by (rule gone_frame; auto simp: q_CreateUserWithEmail_def q_CreateUserWithMobile_def q_StoreRefreshToken_def q_outbox_Insert_def
      affected_Inr dest: insert_user_frame split: option.splits if_splits sum.splits)+

lemma gone_login [keep]:
  "keeps (on_db (gone i)) (Store_FindOrCreateByEmail E e)" "keeps (on_db (gone i)) (Store_FindOrCreateByMobile E e)"
  "keeps (on_db (gone i)) (Service_issueTokens (deployed E J signer F ev du getenv) u)"
  unfolding Store_FindOrCreateByEmail_def Store_FindOrCreateByMobile_def Store_findByEmail_def Store_findByMobile_def Let_def
    Service_issueTokens_def Service_singleActiveOrg_def Service_issueTokensForOrg_def deployed_ports use_simps option.case
    store_Orgs_def OrgStore.simps Store_ListOrgsForUser_def store_Refresh_def RefreshTokenStore.simps Store_Store_def
    Clock.simps IDGenerator.simps TokenSigner.simps
  by (rule keep)+

lemma GetLatestChallenge_found:
  assumes "Store_GetLatestChallenge E i ch w = (Inr x, w')"
  shows "\<exists>c \<in> set (challenges (w_db w)). c_Identifier c = i \<and> c_Channel c = ch \<and> OTPChallenge_ID x = uuid_text (c_ID c) \<and>
    OTPChallenge_CodeHash x = c_CodeHash c \<and> OTPChallenge_ExpiresAt x = c_ExpiresAt c \<and>
    OTPChallenge_Attempts x = c_Attempts c \<and> w_tick w' = Suc (w_tick w)"
proof -
  let ?cs = "sort_key (\<lambda>c. - c_CreatedAt c) (filter (\<lambda>c. c_Identifier c = i \<and> c_Channel c = ch)
      (scan (scan_rank E (w_tick w)) (challenges (w_db w))))"
  obtain c cs where c: "?cs = c # cs"
    and x: "x = challenge_of_row \<lparr>GetLatestChallengeRow_ID = uuid_text (c_ID c), GetLatestChallengeRow_Identifier = c_Identifier c,
      GetLatestChallengeRow_Channel = c_Channel c, GetLatestChallengeRow_CodeHash = c_CodeHash c,
      GetLatestChallengeRow_ExpiresAt = Some (c_ExpiresAt c), GetLatestChallengeRow_CreatedAt = Some (c_CreatedAt c),
      GetLatestChallengeRow_Attempts = c_Attempts c\<rparr>" "w_tick w' = Suc (w_tick w)"
    using assms by (cases ?cs) (auto simp: Store_GetLatestChallenge_def run q_GetLatestChallenge_def one_def)
  then have "c \<in> set ?cs" by simp
  then show ?thesis using x by (auto simp: challenge_of_row_def ts_Time_def)
qed

text \<open>
  C31. A login with a one-time code spends it: when it returns a session, a challenge for the identifier
  and channel was in the table, had not expired and had attempts left, its hash matches the code that was
  given, and afterwards the table has no row with its ID, so the same challenge cannot be used again.
\<close>

theorem otp_login_spends_code:
  assumes "uuid_laws E"
    and "Service_VerifyOTP (deployed E J signer F ev du getenv) i ch code w = (Inr p, w')"
  shows "\<exists>c \<in> set (challenges (w_db w)).
           c_Identifier c = TrimSpace i \<and> c_Channel c = TrimSpace ch \<and> bcrypt_Compare E (c_CodeHash c) code \<and>
           app_clock E (Suc (w_tick w)) \<le> c_ExpiresAt c \<and> c_Attempts c < MaxOTPAttempts \<and>
           c_ID c \<notin> c_ID ` set (challenges (w_db w'))"
proof -
  let ?s = "deployed E J signer F ev du getenv"
  from assms(2) obtain x w1 w2 w3 user w4 where
    x: "Store_GetLatestChallenge E (TrimSpace i) (TrimSpace ch) w = (Inr x, w1)"
    and ok: "app_clock E (w_tick w1) \<le> OTPChallenge_ExpiresAt x" "OTPChallenge_Attempts x < MaxOTPAttempts"
      "bcrypt_Compare E (OTPChallenge_CodeHash x) code"
    and consume: "Store_ConsumeChallenge E (OTPChallenge_ID x) w2 = (Inr (), w3)"
    and user: "Store_FindOrCreateByEmail E (TrimSpace i) w3 = (Inr user, w4) \<or>
      Store_FindOrCreateByMobile E (TrimSpace i) w3 = (Inr user, w4)"
    and issued: "Service_issueTokens ?s (User_ID user) w4 = (Inr p, w')"
    by (auto simp: Service_VerifyOTP_def Let_def run store_OTP_def store_Users_def Clock_Now_def Hasher_Compare_def not_less not_le split: if_splits) blast+
  from x obtain c where c: "c \<in> set (challenges (w_db w))" "c_Identifier c = TrimSpace i" "c_Channel c = TrimSpace ch"
    "OTPChallenge_ID x = uuid_text (c_ID c)" "OTPChallenge_CodeHash x = c_CodeHash c"
    "OTPChallenge_ExpiresAt x = c_ExpiresAt c" "OTPChallenge_Attempts x = c_Attempts c" "w_tick w1 = Suc (w_tick w)"
    using GetLatestChallenge_found by blast
  have "gone (c_ID c) (w_db w3)"
    using consume assms(1) c(4) by (auto simp: Store_ConsumeChallenge_def run q_ConsumeChallenge_def gone_def uuid_laws_def)
  then have "gone (c_ID c) (w_db w4)" using user keepsD [OF gone_login(1)] keepsD [OF gone_login(2)] by blast
  then have "gone (c_ID c) (w_db w')" using issued keepsD [OF gone_login(3)] by blast
  then show ?thesis using c ok by (auto simp: gone_def)
qed

text \<open>Witness of C31: the owner of the challenge logs in with the code.\<close>

definition owner :: UserRow where
  "owner = \<lparr>u_ID = 1, u_Email = Some ''a@x.io'', u_CreatedAt = demo_start, u_Mobile = None, u_PasswordHash = None,
     u_DisplayName = None, u_Status = UserActive, u_UpdatedAt = demo_start, u_LastLoginAt = None, u_EmailVerifiedAt = None\<rparr>"

definition login_world :: world where
  "login_world = otp_world\<lparr>w_db := (w_db otp_world)\<lparr>users := [owner]\<rparr>\<rparr>"

definition consumed_world :: world where
  "consumed_world = login_world\<lparr>w_tick := 4, w_db := (w_db login_world)\<lparr>challenges := []\<rparr>\<rparr>"

lemmas login_defs = login_world_def consumed_world_def otp_world_def otp_challenge_def owner_def start_world_def empty_db_def

lemma demo_login_challenge:
  "Store_GetLatestChallenge demo_env ''a@x.io'' ''email'' login_world =
     (Inr \<lparr>OTPChallenge_ID = uuid_text 0, OTPChallenge_Identifier = ''a@x.io'', OTPChallenge_Channel = ''email'',
        OTPChallenge_CodeHash = ''bcrypt:123456'', OTPChallenge_ExpiresAt = demo_start + Hour,
        OTPChallenge_CreatedAt = demo_start, OTPChallenge_Attempts = 0\<rparr>, login_world\<lparr>w_tick := 1\<rparr>)"
  by (simp add: Store_GetLatestChallenge_def effect_defs exec_def q_GetLatestChallenge_def login_defs scan_def one_def
      challenge_of_row_def ts_Time_def)

lemma demo_login_consume:
  "Store_ConsumeChallenge demo_env (uuid_text 0) (login_world\<lparr>w_tick := Suc (Suc 0)\<rparr>) = (Inr (), consumed_world\<lparr>w_tick := 3\<rparr>)"
  by (simp add: Store_ConsumeChallenge_def parse_uuid_def effect_defs exec_def q_ConsumeChallenge_def login_defs)

lemma demo_login_user:
  "\<exists>u. Store_FindOrCreateByEmail demo_env ''a@x.io'' (consumed_world\<lparr>w_tick := 3\<rparr>) = (Inr u, consumed_world) \<and>
     User_ID u = uuid_text 1 \<and> User_Status u = UserActive"
  by (simp add: Store_FindOrCreateByEmail_def Store_findByEmail_def effect_defs exec_def q_FindUserByEmail_def login_defs scan_def
      one_def user_of_row_def find_user_row_def)

lemma demo_login_org:
  "Service_singleActiveOrg plain_service (uuid_text 1) consumed_world = (Inr [], consumed_world\<lparr>w_tick := 5\<rparr>)"
  unfolding plain_service_def
  by (simp add: Service_singleActiveOrg_def store_Orgs_def Store_ListOrgsForUser_def parse_uuid_def effect_defs exec_def
      q_ListOrganizationsForUser_def scan_def login_defs)

lemma demo_login_sign:
  "Signer_SignAccessToken demo_env plain_jwt demo_signer (uuid_text 1) t w = (Inr ''t'', w\<lparr>w_tick := Suc (w_tick w)\<rparr>)"
  by (simp add: Signer_SignAccessToken_def SignAccessToken_def SignAccessTokenWithOrg_def demo_signer_def plain_jwt_def TrimSpace_visible
      uuid_text_visible time_Now_def tick_def effect_defs Let_def)

lemma demo_login_tokens:
  "\<exists>rt e w'. Service_issueTokensForOrg plain_service (uuid_text 1) [] consumed_world = (Inr (''t'', rt, e), w')"
  "\<exists>rt e w'. Service_issueTokensForOrg plain_service (uuid_text 1) [] (consumed_world\<lparr>w_tick := 5\<rparr>) = (Inr (''t'', rt, e), w')"
  unfolding plain_service_def
  by (simp_all add: Service_issueTokensForOrg_def Clock_Now_def time_Now_def tick_def effect_defs demo_login_sign Generator_NewID_def
      uuid_NewString_def store_Refresh_def Store_Store_def parse_uuid_def new_uuid_def exec_def q_StoreRefreshToken_def
      timestamptz_def IsZero_def login_defs demo_start_def RefreshTokenTTL_def Hour_def Minute_def Second_def Let_def)

lemma demo_login_issue:
  "\<exists>rt e w'. Service_issueTokens plain_service (uuid_text 1) consumed_world = (Inr (''t'', rt, e), w')"
  using demo_login_org demo_login_tokens by (simp add: Service_issueTokens_def bindE_def ret_def)

theorem otp_login_spends_code_witness:
  "\<exists>p w'. Service_VerifyOTP plain_service ''a@x.io'' ''email'' ''123456'' login_world = (Inr p, w') \<and>
     c_ID otp_challenge \<notin> c_ID ` set (challenges (w_db w'))"
proof -
  have t: "TrimSpace ''a@x.io'' = ''a@x.io''" "TrimSpace ''email'' = ''email''" by code_simp+
  have cmp: "bcrypt_Compare demo_env ''bcrypt:123456'' ''123456''" by (simp add: demo_env_def)
  obtain rt e w' where issue: "Service_issueTokens plain_service (uuid_text 1) consumed_world = (Inr (''t'', rt, e), w')"
    using demo_login_issue by blast
  obtain u where "Store_FindOrCreateByEmail demo_env ''a@x.io'' (consumed_world\<lparr>w_tick := 3\<rparr>) = (Inr u, consumed_world)"
    "User_ID u = uuid_text 1" "User_Status u = UserActive"
    using demo_login_user by blast
  then have r: "Service_VerifyOTP plain_service ''a@x.io'' ''email'' ''123456'' login_world = (Inr (''t'', rt, e), w')"
    using issue t cmp demo_login_challenge demo_login_consume unfolding plain_service_def
    by (simp add: Service_VerifyOTP_def Let_def bindE_def mapErr_def store_OTP_def store_Users_def Clock_Now_def time_Now_def tick_def
        effect_defs Hasher_Compare_def demo_start_def Hour_def Minute_def Second_def MaxOTPAttempts_def ChannelEmail_def
        UserActive_def UserSignupPending_def)
  from otp_login_spends_code [OF demo_laws(1) this [unfolded plain_service_def]]
  have "c_ID otp_challenge \<notin> c_ID ` set (challenges (w_db w'))"
    by (simp add: login_defs)
  then show ?thesis using r by blast
qed

end
