(* ===== verification/OrgAccess.thy ===== *)
theory OrgAccess
  imports Grpc OneTimeCodes
begin

text \<open>
  Who reaches the data of an organization over gRPC: the interceptor of the server, the guard of the
  handlers and the membership check of the application composed over the Postgres store.
\<close>

section \<open>Calls as they arrive\<close>

text \<open>The full method name of each call that names an organization, as the generated server has it.\<close>

fun request_method :: "org_request \<Rightarrow> string" where
  "request_method (ListMembersRequest g) = ''/auth.v1.OrgService/ListMembers''"
| "request_method (AddMemberRequest g u) = ''/auth.v1.OrgService/AddMember''"
| "request_method (RemoveMemberRequest g u) = ''/auth.v1.OrgService/RemoveMember''"
| "request_method (SuspendMemberRequest g u) = ''/auth.v1.OrgService/SuspendMember''"
| "request_method (InviteMemberRequest g e) = ''/auth.v1.OrgService/InviteMember''"
| "request_method (RevokeInviteRequest g i) = ''/auth.v1.OrgService/RevokeInvite''"
| "request_method (ListInvitesRequest g) = ''/auth.v1.OrgService/ListInvites''"
| "request_method (SelectOrgRequest g t) = ''/auth.v1.OrgService/SelectOrg''"

fun request_user :: "org_request \<Rightarrow> string option" where
  "request_user (AddMemberRequest g u) = Some u"
| "request_user (RemoveMemberRequest g u) = Some u"
| "request_user (SuspendMemberRequest g u) = Some u"
| "request_user _ = None"

text \<open>A call through the interceptor at time \<open>now\<close>, with the keys the server verifies against.\<close>

definition org_call ::
  "env \<Rightarrow> unicode \<Rightarrow> jwt_pkg \<Rightarrow> 'w Service \<Rightarrow> Time \<Rightarrow> KeySet \<Rightarrow> org_request \<Rightarrow> Context \<Rightarrow> ('w, unit) R" where
  "org_call E U J s now keys req ctx =
     AccessTokenUnaryServerInterceptor U J now keys (request_method req) (org_handler E U s req) ctx"

definition authenticated :: "unicode \<Rightarrow> jwt_pkg \<Rightarrow> Time \<Rightarrow> KeySet \<Rightarrow> Context \<Rightarrow> string \<Rightarrow> bool" where
  "authenticated U J now keys ctx subject \<longleftrightarrow>
     (\<exists>raw claims. bearerToken U ctx = Inr raw \<and> ParseAccessToken J now raw keys = Inr claims \<and> claims_Subject claims = subject)"

section \<open>The guard\<close>

text \<open>A handler is its guard and then the rest of its body: nothing runs before the guard.\<close>

lemma bindR_assoc: "bindR (bindR m f) g = bindR m (\<lambda>a. bindR (f a) g)"
  by (auto simp: fun_eq_iff bindR_def split: prod.splits sum.splits)

lemma org_handler_guard:
  "\<exists>body. org_handler E U s req ctx = bindR (requireActiveMember E s ctx (request_org req) (request_user req)) body"
  by (cases req) (auto simp: dropR_def bindR_assoc OrgServer_ListMembers_def OrgServer_AddMember_def OrgServer_RemoveMember_def
      OrgServer_SuspendMember_def OrgServer_InviteMember_def OrgServer_RevokeInvite_def OrgServer_ListInvites_def
      OrgServer_SelectOrg_def)

lemma request_method_org: "HasPrefix (request_method req) ''/auth.v1.OrgService/''"
  by (cases req) (simp_all add: HasPrefix_def has_prefix_def)

lemma org_call_step:
  "org_call E U J s now keys req ctx =
     (case bearerToken U ctx of
        Inl err \<Rightarrow> failR (Status Unauthenticated (Msg ''authentication required''))
      | Inr raw \<Rightarrow>
          (case ParseAccessToken J now raw keys of
             Inl err \<Rightarrow> failR (Status Unauthenticated (Msg ''invalid or expired access token''))
           | Inr claims \<Rightarrow> org_handler E U s req (withCallerID ctx (claims_Subject claims))))"
  by (simp add: org_call_def AccessTokenUnaryServerInterceptor_def request_method_org)

lemma caller_subject:
  "caller (withCallerID ctx u) w =
     (if TrimSpace u = [] then (Inl (Status Unauthenticated (Msg ''authentication required'')), w) else (Inr (TrimSpace u), w))"
  by (simp add: caller_def callerIDFromContext_def withCallerID_def Let_def call_defs)

lemma active_member_trim [simp]:
  "active_member E d (TrimSpace g) u = active_member E d g u" "active_member E d g (TrimSpace u) = active_member E d g u"
  by (simp_all add: active_member_def)

lemma requireActiveMember_passes:
  assumes "requireActiveMember E (deployed E' J signer F ev du getenv) (withCallerID ctx u) g v w = (r, w')"
  shows "w_db w' = w_db w \<and> ((\<exists>e. r = Inl e) \<or> active_member E' (w_db w) g u)"
proof -
  let ?m = "Service_IsActiveMember (deployed E' J signer F ev du getenv) (TrimSpace g) (TrimSpace u)"
  have db: "w_db (snd (?m w)) = w_db w"
    using IsActiveMember_reads [of "\<lambda>d. d = w_db w"] by (simp add: keeps_def)
  obtain a w1 where m: "?m w = (a, w1)" by (cases "?m w")
  note step = assms [unfolded requireActiveMember_def bindR_def caller_subject callR_def Let_def]
  show ?thesis
  proof (cases "a = Inr True")
    case True
    then have "active_member E' (w_db w) g u" using IsActiveMember_True [of E' J signer F ev du getenv] m by fastforce
    then show ?thesis using step m db True by (simp add: failR_def retR_def split: if_splits)
  next
    case False
    then show ?thesis using step m db by (auto simp: failR_def retR_def split: if_splits sum.splits)
  qed
qed

section \<open>Properties\<close>

text \<open>
  C5. The data of an organization is reached by its active members only: a call that names an
  organization either carries an access token that verifies and whose subject is an active member of that
  organization in the tables the call starts from, or it is answered with an error and leaves every table
  as it was. This holds for every call, token, key set, request and state, database failures included.
\<close>

theorem org_calls_need_membership:
  "case org_call E U J (deployed E J' signer F ev du getenv) now keys req ctx w of (r, w') \<Rightarrow>
     (\<exists>u. authenticated U J now keys ctx u \<and> active_member E (w_db w) (request_org req) u) \<or>
     ((\<exists>e. r = Inl e) \<and> w_db w' = w_db w)"
proof -
  let ?s = "deployed E J' signer F ev du getenv"
  have guard: "active_member E (w_db w) (request_org req) u \<or> (\<exists>e. r = Inl e) \<and> w_db w' = w_db w"
    if run': "org_handler E U ?s req (withCallerID ctx u) w = (r, w')" for u r w'
  proof -
    obtain body where "org_handler E U ?s req (withCallerID ctx u) =
        bindR (requireActiveMember E ?s (withCallerID ctx u) (request_org req) (request_user req)) body"
      using org_handler_guard by blast
    then show ?thesis
      using run' requireActiveMember_passes [of E E J' signer F ev du getenv ctx u "request_org req" "request_user req" w]
      by (auto simp: bindR_def split: prod.splits sum.splits)
  qed
  show ?thesis
    using guard by (auto simp: org_call_step failR_def authenticated_def split: sum.splits prod.splits)
qed

lemma IsActiveMember_outsider:
  assumes "\<And>k. fault E k = None" and "uuid_Parse E (TrimSpace g) = Inr g'" and "uuid_Parse E (TrimSpace u) = Inr u'"
    and "TrimSpace g \<noteq> []" and "TrimSpace u \<noteq> []" and "\<not> active_member E (w_db w) g u"
  shows "\<exists>w'. Service_IsActiveMember (deployed E J signer F ev du getenv) g u w = (Inr False, w')"
proof -
  let ?ms = "filter (is_member g' u') (scan (scan_rank E (w_tick w)) (memberships (w_db w)))"
  have "m_Status m \<noteq> MembershipActive" if "m \<in> set ?ms" for m
    using assms(2,3,6) that by (auto simp: active_member_def)
  then have "?ms = [] \<or> (\<exists>m ms. ?ms = m # ms \<and> m_Status m \<noteq> MembershipActive)" by (cases ?ms) auto
  then show ?thesis
    using assms(1-5)
    by (auto simp: Service_IsActiveMember_def Let_def store_Orgs_def Store_GetMembership_def membershipIDs_def getMembership_def
        parse_uuid_def effect_defs exec_def q_GetOrganizationMembership_def one_def membership_of_row_def membership_row_def)
qed

text \<open>
  C32. An outsider cannot find out which organizations exist: when the database does not fail and the IDs of
  a call are well formed, a caller who is not an active member gets one and the same answer, whether
  the organization has no membership for them, a suspended one, or does not exist at all.
\<close>

theorem org_existence_hidden:
  assumes "\<And>k. fault E k = None" and "authenticated U J now keys ctx u" and "\<not> active_member E (w_db w) (request_org req) u"
    and "uuid_Parse E (TrimSpace (request_org req)) = Inr g" and "uuid_Parse E (TrimSpace u) = Inr v"
    and "TrimSpace (request_org req) \<noteq> []" and "list_all (\<lambda>x. isUUID E (TrimSpace x)) (case request_user req of None \<Rightarrow> [] | Some x \<Rightarrow> [x])"
  shows "fst (org_call E U J (deployed E J' signer F ev du getenv) now keys req ctx w) =
           Inl (Status NotFound (Msg ''organization not found''))"
proof -
  let ?s = "deployed E J' signer F ev du getenv"
  from assms(2) obtain raw claims where bearer: "bearerToken U ctx = Inr raw" and parsed: "ParseAccessToken J now raw keys = Inr claims"
    and u: "claims_Subject claims = u" unfolding authenticated_def by blast
  then have "TrimSpace u \<noteq> []" by (auto simp: ParseAccessToken_def split: sum.splits option.splits if_splits)
  moreover obtain w' where "Service_IsActiveMember ?s (TrimSpace (request_org req)) (TrimSpace u) w = (Inr False, w')"
    using IsActiveMember_outsider [of E "TrimSpace (request_org req)" g "TrimSpace u" v w J' signer F ev du getenv] assms calculation by auto
  ultimately have "requireActiveMember E ?s (withCallerID ctx u) (request_org req) (request_user req) w =
      (Inl (Status NotFound (Msg ''organization not found'')), w')"
    using assms(4,7) unfolding requireActiveMember_def bindR_def caller_subject callR_def Let_def
    by (auto simp: isUUID_def failR_def split: option.splits sum.splits)
  moreover obtain body where "org_handler E U ?s req (withCallerID ctx u) =
      bindR (requireActiveMember E ?s (withCallerID ctx u) (request_org req) (request_user req)) body"
    using org_handler_guard by blast
  ultimately show ?thesis using bearer parsed u by (simp add: org_call_step bindR_def)
qed

text \<open>Witness of C32: the member of one organization asks for the members of another one.\<close>

definition member_jwt :: jwt_pkg where
  "member_jwt = plain_jwt\<lparr>jwt_ParseUnverified := (\<lambda>raw. Inr (Some (Some ''k1''))),
     jwt_ParseWithClaims := (\<lambda>raw kf ms iss now. Inr (True, demo_claims\<lparr>claims_Subject := uuid_text 1\<rparr>))\<rparr>"

definition member_ctx :: Context where
  "member_ctx = Background\<lparr>Ctx_Metadata := Some [(''authorization'', [''Bearer t''])]\<rparr>"

definition plain_unicode :: unicode where
  "plain_unicode = \<lparr>ulower = (\<lambda>s. s), ufold = (=)\<rparr>"

lemma member_authenticated: "authenticated plain_unicode member_jwt demo_start demo_keys member_ctx (uuid_text 1)"
proof -
  have "bearerToken plain_unicode member_ctx = Inr ''t''" by code_simp
  then show ?thesis
    by (simp add: authenticated_def ParseAccessToken_def header_kid_def member_jwt_def demo_keys_def uuid_text_visible TrimSpace_visible)
qed

theorem org_existence_hidden_witness:
  "fst (org_call demo_env plain_unicode member_jwt plain_service demo_start demo_keys (ListMembersRequest (uuid_text 8))
          member_ctx session_world) =
     Inl (Status NotFound (Msg ''organization not found''))"
  unfolding plain_service_def
proof (rule org_existence_hidden [OF _ member_authenticated])
  show "\<not> active_member demo_env (w_db session_world) (request_org (ListMembersRequest (uuid_text 8))) (uuid_text 1)"
    by (simp add: active_member_def TrimSpace_visible uuid_text_visible session_db_def is_member_def)
qed (simp_all add: TrimSpace_visible uuid_text_visible)

end
