(* ===== verification/SchemaChanges.thy ===== *)
theory SchemaChanges
  imports Queries
begin

text \<open>
  The migration files of \<open>internal/infrastructure/postgres/migrations\<close> as lists of statements, and what the
  statements do to a schema: its tables with their columns, and its indexes. Goose runs a file as one
  transaction, so a statement that fails undoes the file. Of the statements that write rows (the
  backfill of 007, the first flag of 009) only what they need of the schema is modelled. The index that a key or a unique constraint implies is part of the constraint.
\<close>

section \<open>Schemas\<close>

datatype pg_type = UUID | TEXT | TEXT_ARRAY | TIMESTAMPTZ | INTEGER | BIGSERIAL | JSONB | BOOLEAN

record column =
  col_Name :: string
  col_Type :: pg_type
  col_NotNull :: bool
  col_Default :: "string option"
  col_Unique :: bool
  col_References :: "(string \<times> bool) option"
  col_Check :: "string list"

record pg_table =
  tab_Name :: string
  tab_Columns :: "column list"
  tab_Key :: "string list"

datatype index_key = Asc (key_column: string) | Desc (key_column: string) | Lower (key_column: string)

record pg_index =
  ix_Name :: string
  ix_Table :: string
  ix_Keys :: "index_key list"
  ix_Unique :: bool
  ix_Where :: "(string \<times> string) option"

record schema =
  sch_Tables :: "pg_table list"
  sch_Indexes :: "pg_index list"

definition no_schema :: schema where
  "no_schema = \<lparr>sch_Tables = [], sch_Indexes = []\<rparr>"

text \<open>
  The first flag of \<open>CreateTable\<close>, \<open>DropTable\<close>, \<open>CreateIndex\<close> is \<open>IF (NOT) EXISTS\<close>. \<open>Write\<close> is a
  statement that writes rows, with the columns it names.
\<close>

datatype ddl =
    CreateTable bool pg_table
  | DropTable bool string
  | AddColumn string column
  | DropColumn string string
  | RenameColumn string string string
  | DropNotNull string string
  | CreateIndex bool pg_index
  | DropIndex string
  | Write string "string list"

definition undefined_table :: gerr where "undefined_table = DriverError ''42P01''"
definition duplicate_table :: gerr where "duplicate_table = DriverError ''42P07''"
definition undefined_column :: gerr where "undefined_column = DriverError ''42703''"
definition duplicate_column :: gerr where "duplicate_column = DriverError ''42701''"
definition dependent_objects :: gerr where "dependent_objects = DriverError ''2BP01''"

definition find_table :: "schema \<Rightarrow> string \<Rightarrow> pg_table option" where
  "find_table S t = find (\<lambda>x. tab_Name x = t) (sch_Tables S)"

definition has_column :: "pg_table \<Rightarrow> string \<Rightarrow> bool" where
  "has_column t c = list_ex (\<lambda>x. col_Name x = c) (tab_Columns t)"

definition map_table :: "string \<Rightarrow> (pg_table \<Rightarrow> pg_table) \<Rightarrow> schema \<Rightarrow> schema" where
  "map_table t f S = S\<lparr>sch_Tables := map (\<lambda>x. if tab_Name x = t then f x else x) (sch_Tables S)\<rparr>"

definition map_column :: "string \<Rightarrow> (column \<Rightarrow> column) \<Rightarrow> pg_table \<Rightarrow> pg_table" where
  "map_column c f t = t\<lparr>tab_Columns := map (\<lambda>x. if col_Name x = c then f x else x) (tab_Columns t)\<rparr>"

definition refers_to :: "string \<Rightarrow> pg_table \<Rightarrow> bool" where
  "refers_to t x = list_ex (\<lambda>c. case col_References c of None \<Rightarrow> False | Some (r, _) \<Rightarrow> r = t) (tab_Columns x)"

definition index_uses :: "string \<Rightarrow> pg_index \<Rightarrow> bool" where
  "index_uses c i = (list_ex (\<lambda>k. key_column k = c) (ix_Keys i) \<or> (case ix_Where i of None \<Rightarrow> False | Some (w, _) \<Rightarrow> w = c))"

fun rename_key :: "string \<Rightarrow> string \<Rightarrow> index_key \<Rightarrow> index_key" where
  "rename_key a b (Asc c) = Asc (if c = a then b else c)"
| "rename_key a b (Desc c) = Desc (if c = a then b else c)"
| "rename_key a b (Lower c) = Lower (if c = a then b else c)"

definition rename_in_index :: "string \<Rightarrow> string \<Rightarrow> string \<Rightarrow> pg_index \<Rightarrow> pg_index" where
  "rename_in_index t a b i =
     (if ix_Table i \<noteq> t then i
      else i\<lparr>ix_Keys := map (rename_key a b) (ix_Keys i),
             ix_Where := map_option (\<lambda>(c, p). (if c = a then b else c, p)) (ix_Where i)\<rparr>)"

text \<open>A column of a table, or the error that it is not there.\<close>

definition on_column :: "schema \<Rightarrow> string \<Rightarrow> string \<Rightarrow> schema \<Rightarrow> gerr + schema" where
  "on_column S t c S' =
     (case find_table S t of
        None \<Rightarrow> Inl undefined_table
      | Some x \<Rightarrow> if has_column x c then Inr S' else Inl undefined_column)"

section \<open>Statements\<close>

fun run_ddl :: "ddl \<Rightarrow> schema \<Rightarrow> gerr + schema" where
  "run_ddl (CreateTable ine t) S =
     (case find_table S (tab_Name t) of
        Some _ \<Rightarrow> if ine then Inr S else Inl duplicate_table
      | None \<Rightarrow>
          if list_all (\<lambda>c. case col_References c of None \<Rightarrow> True | Some (r, _) \<Rightarrow> find_table S r \<noteq> None) (tab_Columns t)
          then Inr (S\<lparr>sch_Tables := sch_Tables S @ [t]\<rparr>) else Inl undefined_table)"
| "run_ddl (DropTable ie t) S =
     (case find_table S t of
        None \<Rightarrow> if ie then Inr S else Inl undefined_table
      | Some _ \<Rightarrow>
          if list_ex (\<lambda>x. tab_Name x \<noteq> t \<and> refers_to t x) (sch_Tables S) then Inl dependent_objects
          else Inr \<lparr>sch_Tables = filter (\<lambda>x. tab_Name x \<noteq> t) (sch_Tables S),
                    sch_Indexes = filter (\<lambda>i. ix_Table i \<noteq> t) (sch_Indexes S)\<rparr>)"
| "run_ddl (AddColumn t c) S =
     (case find_table S t of
        None \<Rightarrow> Inl undefined_table
      | Some x \<Rightarrow>
          if has_column x (col_Name c) then Inr S
          else Inr (map_table t (\<lambda>x. x\<lparr>tab_Columns := tab_Columns x @ [c]\<rparr>) S))"
| "run_ddl (DropColumn t c) S =
     (case find_table S t of
        None \<Rightarrow> Inl undefined_table
      | Some x \<Rightarrow>
          Inr ((map_table t (\<lambda>x. x\<lparr>tab_Columns := filter (\<lambda>y. col_Name y \<noteq> c) (tab_Columns x)\<rparr>) S)
            \<lparr>sch_Indexes := filter (\<lambda>i. \<not> (ix_Table i = t \<and> index_uses c i)) (sch_Indexes S)\<rparr>))"
| "run_ddl (RenameColumn t a b) S =
     (case find_table S t of
        None \<Rightarrow> Inl undefined_table
      | Some x \<Rightarrow>
          if \<not> has_column x a then Inl undefined_column
          else if has_column x b then Inl duplicate_column
          else Inr ((map_table t (\<lambda>x. (map_column a (\<lambda>c. c\<lparr>col_Name := b\<rparr>) x)
                \<lparr>tab_Key := map (\<lambda>k. if k = a then b else k) (tab_Key x)\<rparr>) S)
            \<lparr>sch_Indexes := map (rename_in_index t a b) (sch_Indexes S)\<rparr>))"
| "run_ddl (DropNotNull t c) S = on_column S t c (map_table t (map_column c (\<lambda>x. x\<lparr>col_NotNull := False\<rparr>)) S)"
| "run_ddl (CreateIndex ine i) S =
     (if list_ex (\<lambda>x. ix_Name x = ix_Name i) (sch_Indexes S) then (if ine then Inr S else Inl duplicate_table)
      else case find_table S (ix_Table i) of
        None \<Rightarrow> Inl undefined_table
      | Some x \<Rightarrow>
          if list_all (\<lambda>k. has_column x (key_column k)) (ix_Keys i) \<and>
             (case ix_Where i of None \<Rightarrow> True | Some (c, _) \<Rightarrow> has_column x c)
          then Inr (S\<lparr>sch_Indexes := sch_Indexes S @ [i]\<rparr>) else Inl undefined_column)"
| "run_ddl (DropIndex i) S = Inr (S\<lparr>sch_Indexes := filter (\<lambda>x. ix_Name x \<noteq> i) (sch_Indexes S)\<rparr>)"
| "run_ddl (Write t cs) S =
     (case find_table S t of
        None \<Rightarrow> Inl undefined_table
      | Some x \<Rightarrow> if list_all (has_column x) cs then Inr S else Inl undefined_column)"

fun run_file :: "ddl list \<Rightarrow> schema \<Rightarrow> gerr + schema" where
  "run_file [] S = Inr S"
| "run_file (x # xs) S = (case run_ddl x S of Inl e \<Rightarrow> Inl e | Inr S' \<Rightarrow> run_file xs S')"

section \<open>The files\<close>

definition col :: "string \<Rightarrow> pg_type \<Rightarrow> bool \<Rightarrow> column" where
  "col name ty notnull = \<lparr>col_Name = name, col_Type = ty, col_NotNull = notnull, col_Default = None, col_Unique = False,
     col_References = None, col_Check = []\<rparr>"

record migration =
  mig_Version :: int
  mig_File :: string
  mig_Up :: "ddl list"
  mig_Down :: "ddl list"

definition m001 :: migration where
  "m001 = \<lparr>mig_Version = 1, mig_File = ''001_auth.sql'', mig_Up =
    [CreateTable True \<lparr>tab_Name = ''otp_challenges'', tab_Columns =
       [col ''id'' UUID True,
        col ''email'' TEXT True,
        col ''code_hash'' TEXT True,
        col ''expires_at'' TIMESTAMPTZ True,
        (col ''attempts'' INTEGER True)\<lparr>col_Default := Some ''0''\<rparr>,
        (col ''created_at'' TIMESTAMPTZ True)\<lparr>col_Default := Some ''now()''\<rparr>],
       tab_Key = [''id'']\<rparr>,
     CreateIndex True \<lparr>ix_Name = ''otp_challenges_email_idx'', ix_Table = ''otp_challenges'', ix_Keys = [Asc ''email'', Desc ''created_at''],
       ix_Unique = False, ix_Where = None\<rparr>,
     CreateTable True \<lparr>tab_Name = ''refresh_tokens'', tab_Columns =
       [col ''id'' UUID True,
        col ''user_id'' UUID True,
        col ''token_hash'' TEXT True,
        col ''expires_at'' TIMESTAMPTZ True,
        col ''revoked_at'' TIMESTAMPTZ False,
        (col ''created_at'' TIMESTAMPTZ True)\<lparr>col_Default := Some ''now()''\<rparr>],
       tab_Key = [''id'']\<rparr>,
     CreateTable True \<lparr>tab_Name = ''users'', tab_Columns =
       [col ''id'' UUID True,
        (col ''email'' TEXT True)\<lparr>col_Unique := True\<rparr>,
        (col ''created_at'' TIMESTAMPTZ True)\<lparr>col_Default := Some ''now()''\<rparr>],
       tab_Key = [''id'']\<rparr>],
    mig_Down =
    [DropTable True ''refresh_tokens'',
     DropTable True ''otp_challenges'',
     DropTable True ''users'']\<rparr>"

definition m002 :: migration where
  "m002 = \<lparr>mig_Version = 2, mig_File = ''002_mobile_otp.sql'', mig_Up =
    [RenameColumn ''otp_challenges'' ''email'' ''identifier'',
     AddColumn ''otp_challenges'' ((col ''channel'' TEXT True)\<lparr>col_Default := Some ''email''\<rparr>),
     DropIndex ''otp_challenges_email_idx'',
     CreateIndex True \<lparr>ix_Name = ''otp_challenges_identifier_idx'', ix_Table = ''otp_challenges'', ix_Keys = [Asc ''identifier'', Asc ''channel'', Desc ''created_at''],
       ix_Unique = False, ix_Where = None\<rparr>,
     AddColumn ''users'' ((col ''mobile'' TEXT False)\<lparr>col_Unique := True\<rparr>),
     DropNotNull ''users'' ''email'',
     CreateIndex True \<lparr>ix_Name = ''users_mobile_idx'', ix_Table = ''users'', ix_Keys = [Asc ''mobile''],
       ix_Unique = True, ix_Where = Some (''mobile'', ''IS NOT NULL'')\<rparr>],
    mig_Down =
    [DropIndex ''users_mobile_idx'',
     DropColumn ''users'' ''mobile'',
     DropIndex ''otp_challenges_identifier_idx'',
     DropColumn ''otp_challenges'' ''channel'',
     RenameColumn ''otp_challenges'' ''identifier'' ''email'',
     CreateIndex True \<lparr>ix_Name = ''otp_challenges_email_idx'', ix_Table = ''otp_challenges'', ix_Keys = [Asc ''email'', Desc ''created_at''],
       ix_Unique = False, ix_Where = None\<rparr>]\<rparr>"

definition m003 :: migration where
  "m003 = \<lparr>mig_Version = 3, mig_File = ''003_password_api_tokens.sql'', mig_Up =
    [AddColumn ''users'' (col ''password_hash'' TEXT False),
     AddColumn ''users'' (col ''display_name'' TEXT False),
     AddColumn ''users'' ((col ''status'' TEXT True)\<lparr>col_Default := Some ''active''\<rparr>),
     AddColumn ''users'' ((col ''updated_at'' TIMESTAMPTZ True)\<lparr>col_Default := Some ''now()''\<rparr>),
     AddColumn ''users'' (col ''last_login_at'' TIMESTAMPTZ False),
     CreateTable True \<lparr>tab_Name = ''api_tokens'', tab_Columns =
       [col ''id'' UUID True,
        (col ''user_id'' UUID True)\<lparr>col_References := Some (''users'', False)\<rparr>,
        col ''name'' TEXT True,
        col ''prefix'' TEXT True,
        col ''token_hash'' TEXT True,
        (col ''scopes'' TEXT_ARRAY True)\<lparr>col_Default := Some ''{}''\<rparr>,
        col ''expires_at'' TIMESTAMPTZ False,
        col ''revoked_at'' TIMESTAMPTZ False,
        (col ''created_at'' TIMESTAMPTZ True)\<lparr>col_Default := Some ''now()''\<rparr>],
       tab_Key = [''id'']\<rparr>,
     CreateIndex True \<lparr>ix_Name = ''api_tokens_prefix_idx'', ix_Table = ''api_tokens'', ix_Keys = [Asc ''prefix''],
       ix_Unique = False, ix_Where = Some (''revoked_at'', ''IS NULL'')\<rparr>,
     CreateIndex True \<lparr>ix_Name = ''api_tokens_user_idx'', ix_Table = ''api_tokens'', ix_Keys = [Asc ''user_id'', Desc ''created_at''],
       ix_Unique = False, ix_Where = None\<rparr>],
    mig_Down =
    [DropTable True ''api_tokens'',
     DropColumn ''users'' ''last_login_at'',
     DropColumn ''users'' ''updated_at'',
     DropColumn ''users'' ''status'',
     DropColumn ''users'' ''display_name'',
     DropColumn ''users'' ''password_hash'']\<rparr>"

definition m004 :: migration where
  "m004 = \<lparr>mig_Version = 4, mig_File = ''004_organizations.sql'', mig_Up =
    [CreateTable True \<lparr>tab_Name = ''organizations'', tab_Columns =
       [col ''id'' UUID True,
        col ''name'' TEXT True,
        (col ''created_at'' TIMESTAMPTZ True)\<lparr>col_Default := Some ''now()''\<rparr>,
        (col ''updated_at'' TIMESTAMPTZ True)\<lparr>col_Default := Some ''now()''\<rparr>],
       tab_Key = [''id'']\<rparr>,
     CreateTable True \<lparr>tab_Name = ''organization_memberships'', tab_Columns =
       [(col ''org_id'' UUID True)\<lparr>col_References := Some (''organizations'', True)\<rparr>,
        (col ''user_id'' UUID True)\<lparr>col_References := Some (''users'', True)\<rparr>,
        (col ''status'' TEXT True)\<lparr>col_Default := Some ''active'', col_Check := [''active'', ''invited'', ''suspended'']\<rparr>,
        (col ''created_at'' TIMESTAMPTZ True)\<lparr>col_Default := Some ''now()''\<rparr>,
        (col ''updated_at'' TIMESTAMPTZ True)\<lparr>col_Default := Some ''now()''\<rparr>],
       tab_Key = [''org_id'', ''user_id'']\<rparr>,
     CreateIndex True \<lparr>ix_Name = ''organization_memberships_user_idx'', ix_Table = ''organization_memberships'', ix_Keys = [Asc ''user_id''],
       ix_Unique = False, ix_Where = None\<rparr>],
    mig_Down =
    [DropTable True ''organization_memberships'',
     DropTable True ''organizations'']\<rparr>"

definition m005 :: migration where
  "m005 = \<lparr>mig_Version = 5, mig_File = ''005_refresh_token_org.sql'', mig_Up =
    [AddColumn ''refresh_tokens'' (col ''org_id'' UUID False)],
    mig_Down =
    [DropColumn ''refresh_tokens'' ''org_id'']\<rparr>"

definition m006 :: migration where
  "m006 = \<lparr>mig_Version = 6, mig_File = ''006_organization_invites.sql'', mig_Up =
    [CreateTable True \<lparr>tab_Name = ''organization_invites'', tab_Columns =
       [col ''id'' UUID True,
        (col ''org_id'' UUID True)\<lparr>col_References := Some (''organizations'', True)\<rparr>,
        col ''email'' TEXT True,
        (col ''token_hash'' TEXT True)\<lparr>col_Unique := True\<rparr>,
        (col ''inviter_id'' UUID True)\<lparr>col_References := Some (''users'', True)\<rparr>,
        (col ''status'' TEXT True)\<lparr>col_Default := Some ''pending'', col_Check := [''pending'', ''accepted'', ''revoked'']\<rparr>,
        col ''expires_at'' TIMESTAMPTZ True,
        col ''accepted_at'' TIMESTAMPTZ False,
        (col ''created_at'' TIMESTAMPTZ True)\<lparr>col_Default := Some ''now()''\<rparr>],
       tab_Key = [''id'']\<rparr>,
     CreateIndex True \<lparr>ix_Name = ''organization_invites_pending_email_idx'', ix_Table = ''organization_invites'', ix_Keys = [Asc ''org_id'', Lower ''email''],
       ix_Unique = True, ix_Where = Some (''status'', ''= pending'')\<rparr>,
     CreateIndex True \<lparr>ix_Name = ''organization_invites_org_idx'', ix_Table = ''organization_invites'', ix_Keys = [Asc ''org_id'', Desc ''created_at''],
       ix_Unique = False, ix_Where = None\<rparr>],
    mig_Down =
    [DropTable True ''organization_invites'']\<rparr>"

definition m007 :: migration where
  "m007 = \<lparr>mig_Version = 7, mig_File = ''007_signup_verification.sql'', mig_Up =
    [AddColumn ''users'' (col ''email_verified_at'' TIMESTAMPTZ False),
     Write ''users'' [''email_verified_at'', ''created_at'', ''email'']],
    mig_Down =
    [DropColumn ''users'' ''email_verified_at'']\<rparr>"

definition m008 :: migration where
  "m008 = \<lparr>mig_Version = 8, mig_File = ''008_outbox.sql'', mig_Up =
    [CreateTable False \<lparr>tab_Name = ''outbox_events'', tab_Columns =
       [col ''id'' BIGSERIAL True,
        col ''subject'' TEXT True,
        col ''envelope'' JSONB True,
        (col ''created_at'' TIMESTAMPTZ True)\<lparr>col_Default := Some ''now()''\<rparr>,
        col ''published_at'' TIMESTAMPTZ False,
        (col ''attempts'' INTEGER True)\<lparr>col_Default := Some ''0''\<rparr>,
        col ''last_error'' TEXT False],
       tab_Key = [''id'']\<rparr>,
     CreateIndex False \<lparr>ix_Name = ''outbox_events_pending_idx'', ix_Table = ''outbox_events'', ix_Keys = [Asc ''id''],
       ix_Unique = False, ix_Where = Some (''published_at'', ''IS NULL'')\<rparr>],
    mig_Down =
    [DropTable False ''outbox_events'']\<rparr>"

definition m009 :: migration where
  "m009 = \<lparr>mig_Version = 9, mig_File = ''009_feature_flags.sql'', mig_Up =
    [CreateTable True \<lparr>tab_Name = ''feature_flags'', tab_Columns =
       [col ''name'' TEXT True,
        (col ''enabled'' BOOLEAN True)\<lparr>col_Default := Some ''FALSE''\<rparr>,
        (col ''description'' TEXT True)\<lparr>col_Default := Some []\<rparr>,
        (col ''updated_at'' TIMESTAMPTZ True)\<lparr>col_Default := Some ''now()''\<rparr>],
       tab_Key = [''name'']\<rparr>,
     Write ''feature_flags'' [''name'', ''enabled'', ''description'']],
    mig_Down =
    [DropTable False ''feature_flags'']\<rparr>"

definition migrations :: "migration list" where
  "migrations = [m001, m002, m003, m004, m005, m006, m007, m008, m009]"

fun run_ups :: "migration list \<Rightarrow> schema \<Rightarrow> gerr + schema" where
  "run_ups [] S = Inr S"
| "run_ups (m # ms) S = (case run_file (mig_Up m) S of Inl e \<Rightarrow> Inl e | Inr S' \<Rightarrow> run_ups ms S')"

definition after :: "nat \<Rightarrow> schema" where
  "after k = (case run_ups (take k migrations) no_schema of Inl _ \<Rightarrow> no_schema | Inr S \<Rightarrow> S)"

section \<open>The row types of the generated code\<close>

text \<open>
  \<open>sqlcgen/models.go\<close>: the structure of each table with its fields and their Go types. A pointer and a
  \<open>pgtype\<close> value can hold NULL, the others cannot.
\<close>

datatype go_type =
    Go_UUID | Go_pgtype_UUID | Go_string | Go_string_ptr | Go_strings | Go_Timestamptz | Go_bool | Go_int32 | Go_int64 | Go_bytes

definition models :: "(string \<times> (string \<times> go_type) list) list" where
  "models =
     [(''api_tokens'',
       [(''ID'', Go_UUID), (''UserID'', Go_UUID), (''Name'', Go_string), (''Prefix'', Go_string),
        (''TokenHash'', Go_string), (''Scopes'', Go_strings), (''ExpiresAt'', Go_Timestamptz),
        (''RevokedAt'', Go_Timestamptz), (''CreatedAt'', Go_Timestamptz)]),
      (''feature_flags'',
       [(''Name'', Go_string), (''Enabled'', Go_bool), (''Description'', Go_string),
        (''UpdatedAt'', Go_Timestamptz)]),
      (''organizations'',
       [(''ID'', Go_UUID), (''Name'', Go_string), (''CreatedAt'', Go_Timestamptz), (''UpdatedAt'', Go_Timestamptz)]),
      (''organization_invites'',
       [(''ID'', Go_UUID), (''OrgID'', Go_UUID), (''Email'', Go_string), (''TokenHash'', Go_string),
        (''InviterID'', Go_UUID), (''Status'', Go_string), (''ExpiresAt'', Go_Timestamptz),
        (''AcceptedAt'', Go_Timestamptz), (''CreatedAt'', Go_Timestamptz)]),
      (''organization_memberships'',
       [(''OrgID'', Go_UUID), (''UserID'', Go_UUID), (''Status'', Go_string), (''CreatedAt'', Go_Timestamptz),
        (''UpdatedAt'', Go_Timestamptz)]),
      (''otp_challenges'',
       [(''ID'', Go_UUID), (''Identifier'', Go_string), (''CodeHash'', Go_string), (''ExpiresAt'', Go_Timestamptz),
        (''Attempts'', Go_int32), (''CreatedAt'', Go_Timestamptz), (''Channel'', Go_string)]),
      (''outbox_events'',
       [(''ID'', Go_int64), (''Subject'', Go_string), (''Envelope'', Go_bytes), (''CreatedAt'', Go_Timestamptz),
        (''PublishedAt'', Go_Timestamptz), (''Attempts'', Go_int32), (''LastError'', Go_string_ptr)]),
      (''refresh_tokens'',
       [(''ID'', Go_UUID), (''UserID'', Go_UUID), (''TokenHash'', Go_string), (''ExpiresAt'', Go_Timestamptz),
        (''RevokedAt'', Go_Timestamptz), (''CreatedAt'', Go_Timestamptz), (''OrgID'', Go_pgtype_UUID)]),
      (''users'',
       [(''ID'', Go_UUID), (''Email'', Go_string_ptr), (''CreatedAt'', Go_Timestamptz), (''Mobile'', Go_string_ptr),
        (''PasswordHash'', Go_string_ptr), (''DisplayName'', Go_string_ptr), (''Status'', Go_string),
        (''UpdatedAt'', Go_Timestamptz), (''LastLoginAt'', Go_Timestamptz), (''EmailVerifiedAt'', Go_Timestamptz)])]"

definition nullable_holds :: "(go_type \<times> pg_type) list" where
  "nullable_holds = [(Go_pgtype_UUID, UUID), (Go_string_ptr, TEXT), (Go_Timestamptz, TIMESTAMPTZ)]"

definition holds :: "go_type \<Rightarrow> pg_type \<Rightarrow> bool \<Rightarrow> bool" where
  "holds g t notnull \<longleftrightarrow>
     (g, t) \<in> set nullable_holds \<or>
     notnull \<and> (g, t) \<in> set [(Go_UUID, UUID), (Go_string, TEXT), (Go_strings, TEXT_ARRAY), (Go_bool, BOOLEAN),
       (Go_int32, INTEGER), (Go_int64, BIGSERIAL), (Go_bytes, JSONB)]"

text \<open>
  The Go name of a column: its words capitalized, with \<open>ID\<close> for \<open>id\<close>. The words are of lower-case letters,
  which differ from capitals in the bit of weight 32.
\<close>

fun split_words :: "string \<Rightarrow> string \<Rightarrow> string list" where
  "split_words acc [] = [rev acc]"
| "split_words acc (c # cs) = (if c = CHR ''_'' then rev acc # split_words [] cs else split_words (c # acc) cs)"

definition ascii_upper :: "char \<Rightarrow> char" where
  "ascii_upper c = (case c of Char b0 b1 b2 b3 b4 b5 b6 b7 \<Rightarrow>
     if b5 \<and> b6 \<and> \<not> b7 then Char b0 b1 b2 b3 b4 False b6 b7 else c)"

definition capitalize :: "string \<Rightarrow> string" where
  "capitalize w = (if w = ''id'' then ''ID'' else case w of [] \<Rightarrow> [] | c # cs \<Rightarrow> ascii_upper c # cs)"

definition go_name :: "string \<Rightarrow> string" where
  "go_name c = concat (map capitalize (split_words [] c))"

definition model_fits :: "schema \<Rightarrow> string \<times> (string \<times> go_type) list \<Rightarrow> bool" where
  "model_fits S = (\<lambda>(t, fields).
     case find_table S t of
       None \<Rightarrow> False
     | Some x \<Rightarrow>
         length fields = length (tab_Columns x) \<and>
         list_all2 (\<lambda>(f, ty) c. f = go_name (col_Name c) \<and> holds ty (col_Type c) (col_NotNull c)) fields (tab_Columns x))"

section \<open>Other tables of the database\<close>

text \<open>
  The database may hold more than the tables of the service, the version table of goose to begin with. A schema is
  foreign to the files when none of its tables and indexes has a name that the files use, and none of them refers to a
  table of the files.
\<close>

definition beside :: "schema \<Rightarrow> schema \<Rightarrow> schema" where
  "beside S T = \<lparr>sch_Tables = sch_Tables S @ sch_Tables T, sch_Indexes = sch_Indexes S @ sch_Indexes T\<rparr>"

fun ddl_tables :: "ddl \<Rightarrow> string list" where
  "ddl_tables (CreateTable ine t) = tab_Name t # map fst (List.map_filter col_References (tab_Columns t))"
| "ddl_tables (DropTable ie t) = [t]"
| "ddl_tables (AddColumn t c) = [t]"
| "ddl_tables (DropColumn t c) = [t]"
| "ddl_tables (RenameColumn t a b) = [t]"
| "ddl_tables (DropNotNull t c) = [t]"
| "ddl_tables (CreateIndex ine i) = [ix_Table i]"
| "ddl_tables (DropIndex i) = []"
| "ddl_tables (Write t cs) = [t]"

fun ddl_indexes :: "ddl \<Rightarrow> string list" where
  "ddl_indexes (CreateIndex ine i) = [ix_Name i]"
| "ddl_indexes (DropIndex i) = [i]"
| "ddl_indexes x = []"

definition foreign :: "string list \<Rightarrow> string list \<Rightarrow> schema \<Rightarrow> bool" where
  "foreign ts is S \<longleftrightarrow>
     list_all (\<lambda>x. tab_Name x \<notin> set ts \<and> list_all (\<lambda>t. \<not> refers_to t x) ts) (sch_Tables S) \<and>
     list_all (\<lambda>i. ix_Name i \<notin> set is \<and> ix_Table i \<notin> set ts) (sch_Indexes S)"

lemma find_skip: "\<forall>x \<in> set xs. \<not> P x \<Longrightarrow> find P (xs @ ys) = find P ys"
  by (induction xs) simp_all

lemma find_beside: "foreign ts is S \<Longrightarrow> t \<in> set ts \<Longrightarrow> find_table (beside S T) t = find_table T t"
  unfolding foreign_def find_table_def beside_def by (auto simp: list_all_iff intro!: find_skip)

lemma map_table_beside: "foreign ts is S \<Longrightarrow> t \<in> set ts \<Longrightarrow> map_table t f (beside S T) = beside S (map_table t f T)"
  unfolding foreign_def map_table_def beside_def by (auto simp: list_all_iff intro!: map_idI)

lemma filter_beside:
  assumes "foreign ts is S" and "t \<in> set ts"
  shows "filter (\<lambda>x. tab_Name x \<noteq> t) (sch_Tables S) = sch_Tables S" and "filter (\<lambda>i. ix_Table i \<noteq> t) (sch_Indexes S) = sch_Indexes S"
    and "filter (\<lambda>i. \<not> (ix_Table i = t \<and> P i)) (sch_Indexes S) = sch_Indexes S"
    and "map (rename_in_index t a b) (sch_Indexes S) = sch_Indexes S" and "\<not> list_ex (\<lambda>x. tab_Name x \<noteq> t \<and> refers_to t x) (sch_Tables S)"
  using assms by (auto simp: foreign_def list_all_iff list_ex_iff filter_id_conv rename_in_index_def intro!: map_idI)

lemma index_beside:
  assumes "foreign ts is S" and "i \<in> set is"
  shows "filter (\<lambda>x. ix_Name x \<noteq> i) (sch_Indexes S) = sch_Indexes S" and "\<not> list_ex (\<lambda>x. ix_Name x = i) (sch_Indexes S)"
  using assms by (auto simp: foreign_def list_all_iff list_ex_iff filter_id_conv)

text \<open>A statement of the files does to the tables of the service what it does to them alone.\<close>

definition around :: "schema \<Rightarrow> gerr + schema \<Rightarrow> gerr + schema" where
  "around S r = (case r of Inl e \<Rightarrow> Inl e | Inr T \<Rightarrow> Inr (beside S T))"

lemma references_beside:
  assumes "foreign ts is S" and "set (map fst (List.map_filter col_References cs)) \<subseteq> set ts"
  shows "list_all (\<lambda>c. case col_References c of None \<Rightarrow> True | Some (r, _) \<Rightarrow> find_table (beside S T) r \<noteq> None) cs \<longleftrightarrow>
         list_all (\<lambda>c. case col_References c of None \<Rightarrow> True | Some (r, _) \<Rightarrow> find_table T r \<noteq> None) cs"
  using assms(2)
proof (induction cs)
  case (Cons c cs)
  then show ?case using find_beside [OF assms(1)] by (cases "col_References c") (auto simp: map_filter_simps)
qed simp

lemma ddl_beside:
  assumes "foreign ts is S" and "set (ddl_tables x) \<subseteq> set ts" and "set (ddl_indexes x) \<subseteq> set is"
  shows "run_ddl x (beside S T) = around S (run_ddl x T)"
proof (cases x)
  case (CreateTable ine t)
  have t: "find_table (beside S T) (tab_Name t) = find_table T (tab_Name t)" using find_beside [OF assms(1)] assms(2) CreateTable by simp
  have "set (map fst (List.map_filter col_References (tab_Columns t))) \<subseteq> set ts" using assms(2) CreateTable by simp
  note refs = references_beside [OF assms(1) this, of T]
  show ?thesis
    unfolding CreateTable run_ddl.simps t refs by (cases "find_table T (tab_Name t)") (simp_all add: around_def beside_def)
next
  case (DropTable ie t)
  then show ?thesis
    using find_beside [OF assms(1), of t T] filter_beside [OF assms(1), of t] assms(2)
    by (auto simp: around_def beside_def list_ex_iff split: option.splits)
next
  case (AddColumn t c)
  then show ?thesis
    using find_beside [OF assms(1), of t T] map_table_beside [OF assms(1), of t] assms(2) by (auto simp: around_def split: option.splits)
next
  case (DropColumn t c)
  then show ?thesis
    using find_beside [OF assms(1), of t T] map_table_beside [OF assms(1), of t] filter_beside [OF assms(1), of t] assms(2)
    by (auto simp: around_def beside_def map_table_def split: option.splits)
next
  case (RenameColumn t a b)
  then show ?thesis
    using find_beside [OF assms(1), of t T] map_table_beside [OF assms(1), of t] filter_beside [OF assms(1), of t] assms(2)
    by (auto simp: around_def beside_def map_table_def split: option.splits)
next
  case (DropNotNull t c)
  then show ?thesis
    using find_beside [OF assms(1), of t T] map_table_beside [OF assms(1), of t] assms(2)
    by (auto simp: around_def on_column_def split: option.splits)
next
  case (CreateIndex ine i)
  then show ?thesis
    using find_beside [OF assms(1), of "ix_Table i" T] index_beside [OF assms(1), of "ix_Name i"] assms(2,3)
    by (auto simp: around_def beside_def split: option.splits)
next
  case (DropIndex i)
  then show ?thesis using index_beside [OF assms(1), of i] assms(3) by (simp add: around_def beside_def)
next
  case (Write t cs)
  then show ?thesis using find_beside [OF assms(1), of t T] assms(2) by (auto simp: around_def split: option.splits)
qed

definition own_tables :: "string list" where
  "own_tables = map fst models"

definition own_indexes :: "string list" where
  "own_indexes = concat (map (\<lambda>m. concat (map ddl_indexes (mig_Up m @ mig_Down m))) migrations)"

abbreviation own :: "ddl list \<Rightarrow> bool" where
  "own \<equiv> list_all (\<lambda>x. set (ddl_tables x) \<subseteq> set own_tables \<and> set (ddl_indexes x) \<subseteq> set own_indexes)"

lemma file_beside: "foreign own_tables own_indexes S \<Longrightarrow> own xs \<Longrightarrow> run_file xs (beside S T) = around S (run_file xs T)"
proof (induction xs arbitrary: T)
  case (Cons x xs)
  then show ?case using ddl_beside [of own_tables own_indexes S x T] by (cases "run_ddl x T") (auto simp: around_def)
qed (simp add: around_def)

lemma files_own: "list_all (\<lambda>m. own (mig_Up m) \<and> own (mig_Down m)) migrations"
  by code_simp

lemma ups_beside:
  "foreign own_tables own_indexes S \<Longrightarrow> list_all (\<lambda>m. own (mig_Up m)) ms \<Longrightarrow> run_ups ms (beside S T) = around S (run_ups ms T)"
proof (induction ms arbitrary: T)
  case (Cons m ms)
  then show ?case using file_beside [of S "mig_Up m" T] by (cases "run_file (mig_Up m) T") (auto simp: around_def)
qed (simp add: around_def)

lemma beside_no_schema [simp]: "beside S no_schema = S"
  by (simp add: beside_def no_schema_def)

lemma ups_alone: "run_ups migrations no_schema = Inr (after 9) \<and> list_all (model_fits (after 9)) models \<and>
    list_all (\<lambda>t. tab_Name t \<in> set own_tables) (sch_Tables (after 9))"
  by code_simp

lemma downs_alone:
  "list_all (\<lambda>k. run_file (mig_Down (migrations ! k)) (after (Suc k)) =
      Inr (if k = 1 then map_table ''users'' (map_column ''email'' (\<lambda>c. c\<lparr>col_NotNull := False\<rparr>)) (after 1) else after k))
     [0..<9]"
  by code_simp

lemma model_fits_beside: "foreign own_tables own_indexes S \<Longrightarrow> fst m \<in> set own_tables \<Longrightarrow> model_fits (beside S T) m = model_fits T m"
  by (cases m) (simp add: model_fits_def find_beside)

section \<open>Properties\<close>

text \<open>
  C35. The migrations and the generated code agree, in any database: whatever other tables it has, as long as their names and
  references keep away from those of the service, the nine files run one after the other, leave everything else
  as it was, and add exactly the tables of the generated row types, each with the fields of its structure in order, every
  field of a Go type that can hold whatever its column can.
\<close>

theorem migrations_match_models:
  assumes "foreign own_tables own_indexes S"
  shows "\<exists>T. run_ups migrations S = Inr (beside S T) \<and> list_all (model_fits (beside S T)) models \<and>
             set (map tab_Name (sch_Tables T)) = set (map fst models)"
proof (intro exI [of _ "after 9"] conjI)
  have "list_all (\<lambda>m. own (mig_Up m)) migrations" using files_own by (simp add: list_all_iff)
  from ups_beside [OF assms this, of no_schema] show "run_ups migrations S = Inr (beside S (after 9))"
    using ups_alone by (simp add: around_def)
  show "list_all (model_fits (beside S (after 9))) models"
    using ups_alone model_fits_beside [OF assms] by (auto simp: list_all_iff own_tables_def)
  show "set (map tab_Name (sch_Tables (after 9))) = set (map fst models)" by code_simp
qed

text \<open>
  C36. Every migration but one can be rolled back, in any such database: the down part of file number \<open>k\<close>, run where the files
  up to it have been applied, succeeds and restores the schema from before that file, the other tables
  included. The second file leaves one trace: the email of a user may be missing from then on.
\<close>

theorem migrations_roll_back:
  assumes "foreign own_tables own_indexes S" and "k < 9" and "run_ups (take k migrations) S = Inr before"
    and "run_file (mig_Up (migrations ! k)) before = Inr applied"
  shows "run_file (mig_Down (migrations ! k)) applied =
     Inr (if k = 1 then map_table ''users'' (map_column ''email'' (\<lambda>c. c\<lparr>col_NotNull := False\<rparr>)) before else before)"
proof -
  have own: "own (mig_Up m)" "own (mig_Down m)" if "m \<in> set migrations" for m using files_own that by (auto simp: list_all_iff)
  have mem: "migrations ! k \<in> set migrations" using assms(2) by (intro nth_mem) (simp add: migrations_def)
  have "list_all (\<lambda>k. run_ups (take k migrations) no_schema = Inr (after k) \<and>
      run_file (mig_Up (migrations ! k)) (after k) = Inr (after (Suc k))) [0..<9]" by code_simp
  then have ups: "run_ups (take k migrations) no_schema = Inr (after k)" "run_file (mig_Up (migrations ! k)) (after k) = Inr (after (Suc k))"
    using assms(2) by (simp_all add: list_all_iff)
  have "list_all (\<lambda>m. own (mig_Up m)) (take k migrations)" using own(1) by (auto simp: list_all_iff dest: in_set_takeD)
  from ups_beside [OF assms(1) this, of no_schema] have before: "before = beside S (after k)"
    using ups(1) assms(3) by (simp add: around_def)
  from file_beside [OF assms(1) own(1) [OF mem], of "after k"] have applied: "applied = beside S (after (Suc k))"
    using ups(2) assms(4) before by (simp add: around_def)
  have "''users'' \<in> set own_tables" by code_simp
  then show ?thesis
    using file_beside [OF assms(1) own(2) [OF mem], of "after (Suc k)"] downs_alone assms(2)
      map_table_beside [OF assms(1), of "''users''"] unfolding before applied by (simp add: around_def list_all_iff)
qed

section \<open>A database with the table of goose\<close>

definition goose_schema :: schema where
  "goose_schema = \<lparr>sch_Tables = [\<lparr>tab_Name = ''goose_db_version'', tab_Columns =
       [col ''id'' INTEGER True, col ''version_id'' INTEGER True, col ''is_applied'' BOOLEAN True], tab_Key = [''id'']\<rparr>],
     sch_Indexes = []\<rparr>"

text \<open>Witness of C35: the migrations beside the version table.\<close>

theorem migrations_match_models_witness:
  "\<exists>T. run_ups migrations goose_schema = Inr (beside goose_schema T) \<and> list_all (model_fits (beside goose_schema T)) models"
proof -
  have "foreign own_tables own_indexes goose_schema" by code_simp
  from migrations_match_models [OF this] show ?thesis by blast
qed

text \<open>Witness of C36: the sixth file is taken back.\<close>

theorem migrations_roll_back_witness:
  "\<exists>before applied. run_ups (take 5 migrations) goose_schema = Inr before \<and> run_file (mig_Up m006) before = Inr applied \<and>
     run_file (mig_Down m006) applied = Inr before"
proof -
  have S: "foreign own_tables own_indexes goose_schema" by code_simp
  have m: "migrations ! 5 = m006" by (simp add: migrations_def)
  have "case run_ups (take 5 migrations) goose_schema of Inl _ \<Rightarrow> False
      | Inr b \<Rightarrow> (case run_file (mig_Up m006) b of Inl _ \<Rightarrow> False | Inr _ \<Rightarrow> True)" by code_simp
  then obtain b a where "run_ups (take 5 migrations) goose_schema = Inr b" "run_file (mig_Up m006) b = Inr a"
    by (auto split: sum.splits)
  then show ?thesis using migrations_roll_back [OF S, of 5 b a] unfolding m by auto
qed

text \<open>
  The up parts of the first, second and eighth file cannot be run a second time on a current schema, which is what
  adopting the versions of an older runner has to avoid.
\<close>

lemma migrations_not_repeatable:
  "run_file (mig_Up m001) (after 9) = Inl undefined_column" "run_file (mig_Up m002) (after 9) = Inl undefined_column"
  "run_file (mig_Up m008) (after 9) = Inl duplicate_table"
  by code_simp+

end
