(* ===== verification/Migrations.thy ===== *)
theory Migrations
  imports SchemaChanges GoTime Token
begin

text \<open>
  \<open>internal/infrastructure/postgres/migrations/migrations.go\<close>: the migrator over goose, and the adoption of the
  versions that an older runner recorded in its own table. Goose is a parameter with what the code
  relies on as laws. A call of the database may fail at any tick; an adoption that fails is rolled
  back, and a commit whose acknowledgement is lost may have happened. The advisory lock orders
  adoptions of several processes, which is why an adoption runs here without interruption.
\<close>

section \<open>State\<close>

record goose_row =
  goose_version_id :: int
  goose_is_applied :: bool

text \<open>A table that may be absent is an option. The identity and time stamp of a version row are not read.\<close>

record catalog =
  cat_goose :: "goose_row list option"
  cat_legacy :: "string list option"
  cat_schema :: schema

record mworld =
  mw_cat :: catalog
  mw_tick :: nat

record Source =
  Source_Path :: string
  Source_Version :: int

text \<open>
  The driver: the error of the call at a tick, if it fails, and whether a commit that fails has happened.
  The provider of goose: the sources in the order of their versions, and its operations.
\<close>

record goose_pkg =
  sql_Open :: "string \<Rightarrow> gerr option"
  goose_NewProvider :: "gerr option"
  sql_fault :: "nat \<Rightarrow> gerr option"
  sql_commit_lost :: "nat \<Rightarrow> bool"
  ListSources :: "Source list"
  provider_Up :: "(mworld, Source list) M"
  provider_Down :: "(mworld, Source) M"
  provider_Status :: "(mworld, (Source \<times> bool) list) M"
  provider_GetVersions :: "(mworld, int \<times> int) M"

definition defaultTableName :: string where "defaultTableName = ''goose_db_version''"
definition legacyTableName :: string where "legacyTableName = ''schema_migrations''"

text \<open>One call of the driver: it fails, with its error wrapped in the format, or does \<open>f\<close> to the catalog.\<close>

definition sql_call :: "goose_pkg \<Rightarrow> string \<Rightarrow> string list \<Rightarrow> (catalog \<Rightarrow> 'a \<times> catalog) \<Rightarrow> (mworld, 'a) M" where
  "sql_call G fmt as f w =
     (let w' = w\<lparr>mw_tick := Suc (mw_tick w)\<rparr> in
      case sql_fault G (mw_tick w) of
        Some e \<Rightarrow> (Inl (Errorf fmt as (Some e)), w')
      | None \<Rightarrow> (case f (mw_cat w) of (a, c) \<Rightarrow> (Inr a, w'\<lparr>mw_cat := c\<rparr>)))"

abbreviation sql_read :: "goose_pkg \<Rightarrow> string \<Rightarrow> (catalog \<Rightarrow> 'a) \<Rightarrow> (mworld, 'a) M" where
  "sql_read G fmt f \<equiv> sql_call G fmt [] (\<lambda>c. (f c, c))"

text \<open>A transaction: every return of the body is a commit, every error a roll back.\<close>

definition sql_tx :: "goose_pkg \<Rightarrow> string \<Rightarrow> (mworld, unit) M \<Rightarrow> (mworld, unit) M" where
  "sql_tx G fmt body =
     bindE (sql_read G fmt (\<lambda>_. ())) (\<lambda>_ w.
       case body w of
         (Inl e, w') \<Rightarrow> (Inl e, w'\<lparr>mw_cat := mw_cat w\<rparr>)
       | (Inr _, w') \<Rightarrow>
           (let t = mw_tick w'; w'' = w'\<lparr>mw_tick := Suc t\<rparr> in
            case sql_fault G t of
              None \<Rightarrow> (Inr (), w'')
            | Some e \<Rightarrow> (Inl e, if sql_commit_lost G t then w'' else w''\<lparr>mw_cat := mw_cat w\<rparr>)))"

section \<open>Adoption\<close>

definition is_applied :: "int \<Rightarrow> goose_row list \<Rightarrow> bool" where
  "is_applied v rows = list_ex (\<lambda>r. goose_version_id r = v \<and> goose_is_applied r) rows"

definition insertVersion :: "goose_pkg \<Rightarrow> int \<Rightarrow> (mworld, unit) M" where
  "insertVersion G version =
     sql_call G ''migrations: record adopted version %d: %w'' [Itoa version] (\<lambda>c.
       ((), c\<lparr>cat_goose := map_option (\<lambda>rows.
          if is_applied version rows then rows
          else rows @ [\<lparr>goose_version_id = version, goose_is_applied = True\<rparr>]) (cat_goose c)\<rparr>))"

fun scan_names :: "goose_pkg \<Rightarrow> string list \<Rightarrow> string set \<Rightarrow> (mworld, string set) M" where
  "scan_names G [] names = bindE (sql_read G ''migrations: read legacy versions: %w'' (\<lambda>_. ())) (\<lambda>_. ret names)"
| "scan_names G (name # rows) names =
     bindE (sql_read G ''migrations: scan legacy version: %w'' (\<lambda>_. ())) (\<lambda>_. scan_names G rows (insert name names))"

definition legacyNames :: "goose_pkg \<Rightarrow> (mworld, string set) M" where
  "legacyNames G =
     bindE (sql_read G ''migrations: read legacy versions: %w'' (\<lambda>c. case cat_legacy c of None \<Rightarrow> [] | Some rows \<Rightarrow> rows)) (\<lambda>rows.
     scan_names G rows {})"

fun adopt_sources :: "goose_pkg \<Rightarrow> bool \<Rightarrow> string set \<Rightarrow> Source list \<Rightarrow> (mworld, unit) M" where
  "adopt_sources G applyAll names [] = ret ()"
| "adopt_sources G applyAll names (source # sources) =
     (if \<not> applyAll \<and> path_Base (Source_Path source) \<notin> names then adopt_sources G applyAll names sources
      else bindE (insertVersion G (Source_Version source)) (\<lambda>_. adopt_sources G applyAll names sources))"

definition adopt_into :: "goose_pkg \<Rightarrow> bool \<Rightarrow> bool \<Rightarrow> string set \<Rightarrow> (mworld, unit) M" where
  "adopt_into G gooseExists applyAll names =
     bindE (if \<not> gooseExists
            then bindE (sql_call G ''migrations: create version table: %w'' [] (\<lambda>c. ((), c\<lparr>cat_goose := Some []\<rparr>))) (\<lambda>_.
                 insertVersion G 0)
            else ret ()) (\<lambda>_.
     adopt_sources G applyAll names (ListSources G))"

definition applied_count :: "catalog \<Rightarrow> nat" where
  "applied_count c =
     (case cat_goose c of
        None \<Rightarrow> 0
      | Some rows \<Rightarrow> length (filter (\<lambda>r. 0 < goose_version_id r \<and> goose_is_applied r) rows))"

definition adopt_table :: "goose_pkg \<Rightarrow> bool \<Rightarrow> (mworld, unit) M" where
  "adopt_table G gooseExists =
     bindE (sql_read G ''migrations: inspect legacy table: %w'' (\<lambda>c. cat_legacy c \<noteq> None)) (\<lambda>legacyExists.
     if \<not> legacyExists then ret ()
     else
       bindE (legacyNames G) (\<lambda>names.
       if names = {}
       then bindE (sql_read G ''migrations: inspect legacy users table: %w''
                     (\<lambda>c. find_table (cat_schema c) ''users'' \<noteq> None)) (\<lambda>hasUsers.
            if \<not> hasUsers then ret () else adopt_into G gooseExists True names)
       else adopt_into G gooseExists False names))"

definition adoption :: "goose_pkg \<Rightarrow> (mworld, unit) M" where
  "adoption G =
     bindE (sql_read G ''migrations: lock adoption: %w'' (\<lambda>_. ())) (\<lambda>_.
     bindE (sql_read G ''migrations: inspect version table: %w'' (\<lambda>c. cat_goose c \<noteq> None)) (\<lambda>gooseExists.
     if gooseExists
     then bindE (sql_read G ''migrations: read version table: %w'' applied_count) (\<lambda>applied.
          if 0 < applied then ret () else adopt_table G gooseExists)
     else adopt_table G gooseExists))"

definition adoptLegacy :: "goose_pkg \<Rightarrow> (mworld, unit) M" where
  "adoptLegacy G = sql_tx G ''migrations: begin adoption: %w'' (adoption G)"

section \<open>The migrator\<close>

definition Open :: "goose_pkg \<Rightarrow> string \<Rightarrow> gerr + goose_pkg" where
  "Open G databaseURL =
     (case sql_Open G databaseURL of
        Some err \<Rightarrow> Inl (Errorf ''migrations: open database: %w'' [] (Some err))
      | None \<Rightarrow>
          (case goose_NewProvider G of
             Some err \<Rightarrow> Inl (Errorf ''migrations: prepare embedded migrations: %w'' [] (Some err))
           | None \<Rightarrow> Inr G))"

definition Migrator_Up :: "goose_pkg \<Rightarrow> (mworld, Source list) M" where
  "Migrator_Up G =
     bindE (adoptLegacy G) (\<lambda>_. mapErr (\<lambda>err. Errorf ''migrations: up: %w'' [] (Some err)) (provider_Up G))"

definition Migrator_Down :: "goose_pkg \<Rightarrow> (mworld, Source) M" where
  "Migrator_Down G =
     bindE (adoptLegacy G) (\<lambda>_. mapErr (\<lambda>err. Errorf ''migrations: down: %w'' [] (Some err)) (provider_Down G))"

definition Migrator_Status :: "goose_pkg \<Rightarrow> (mworld, (Source \<times> bool) list) M" where
  "Migrator_Status G =
     bindE (adoptLegacy G) (\<lambda>_. mapErr (\<lambda>err. Errorf ''migrations: status: %w'' [] (Some err)) (provider_Status G))"

definition Migrator_Version :: "goose_pkg \<Rightarrow> (mworld, int \<times> int) M" where
  "Migrator_Version G =
     bindE (adoptLegacy G) (\<lambda>_. mapErr (\<lambda>err. Errorf ''migrations: version: %w'' [] (Some err)) (provider_GetVersions G))"

section \<open>What adoption promises\<close>

text \<open>
  The specification: adoption changes nothing but the version table, and that only when no version is
  applied yet and the older runner has left its table, where it then records the files the table names, or
  all files when the table is empty and there are users.
\<close>

definition record_version :: "int \<Rightarrow> goose_row list \<Rightarrow> goose_row list" where
  "record_version v rows =
     (if is_applied v rows then rows else rows @ [\<lparr>goose_version_id = v, goose_is_applied = True\<rparr>])"

definition version_table :: "catalog \<Rightarrow> goose_row list" where
  "version_table c = (case cat_goose c of None \<Rightarrow> record_version 0 [] | Some rows \<Rightarrow> rows)"

definition legacy_sources :: "goose_pkg \<Rightarrow> string list \<Rightarrow> Source list" where
  "legacy_sources G names = filter (\<lambda>s. names = [] \<or> path_Base (Source_Path s) \<in> set names) (ListSources G)"

definition adopted :: "goose_pkg \<Rightarrow> catalog \<Rightarrow> catalog" where
  "adopted G c =
     (case cat_legacy c of
        None \<Rightarrow> c
      | Some names \<Rightarrow>
          if 0 < applied_count c \<or> (names = [] \<and> find_table (cat_schema c) ''users'' = None) then c
          else c\<lparr>cat_goose := Some (foldl (\<lambda>rows s. record_version (Source_Version s) rows) (version_table c) (legacy_sources G names))\<rparr>)"

section \<open>Adoption meets its specification\<close>

lemma run_sql_call [run]:
  "sql_call G fmt as f w = (Inr a, w') \<longleftrightarrow>
     sql_fault G (mw_tick w) = None \<and> (\<exists>c. f (mw_cat w) = (a, c) \<and> w' = w\<lparr>mw_tick := Suc (mw_tick w), mw_cat := c\<rparr>)"
  by (auto simp: sql_call_def Let_def split: option.splits prod.splits)

lemma insertVersion_run:
  "insertVersion G v w = (Inr (), w') \<Longrightarrow>
     mw_cat w' = (mw_cat w)\<lparr>cat_goose := map_option (record_version v) (cat_goose (mw_cat w))\<rparr>"
  unfolding insertVersion_def run record_version_def by auto

lemma adopt_sources_run:
  assumes "adopt_sources G applyAll names ss w = (Inr (), w')" and "cat_goose (mw_cat w) = Some rows"
  shows "mw_cat w' = (mw_cat w)\<lparr>cat_goose := Some (foldl (\<lambda>rows s. record_version (Source_Version s) rows) rows
    (filter (\<lambda>s. applyAll \<or> path_Base (Source_Path s) \<in> names) ss))\<rparr>"
  using assms
proof (induction ss arbitrary: w rows)
  case (Cons s ss)
  show ?case
  proof (cases "applyAll \<or> path_Base (Source_Path s) \<in> names")
    case True
    then obtain w1 where "insertVersion G (Source_Version s) w = (Inr (), w1)" and rest: "adopt_sources G applyAll names ss w1 = (Inr (), w')"
      using Cons.prems by (auto simp: run split: if_splits)
    from insertVersion_run [OF this(1)]
    have "mw_cat w1 = (mw_cat w)\<lparr>cat_goose := Some (record_version (Source_Version s) rows)\<rparr>" using Cons.prems by simp
    then show ?thesis using Cons.IH [OF rest] True by simp
  next
    case False
    then show ?thesis using Cons by simp
  qed
qed (simp add: ret_def)

lemma scan_names_run: "scan_names G rows names w = (Inr ns, w') \<Longrightarrow> ns = set rows \<union> names \<and> mw_cat w' = mw_cat w"
  by (induction rows arbitrary: names w) (auto simp: run)

lemma legacyNames_run:
  "legacyNames G w = (Inr ns, w') \<Longrightarrow>
     ns = set (case cat_legacy (mw_cat w) of None \<Rightarrow> [] | Some rows \<Rightarrow> rows) \<and> mw_cat w' = mw_cat w"
  unfolding legacyNames_def run by (auto dest!: scan_names_run)

lemma adopt_into_run:
  assumes "adopt_into G e applyAll names w = (Inr (), w')" and "e \<longleftrightarrow> cat_goose (mw_cat w) \<noteq> None"
  shows "mw_cat w' = (mw_cat w)\<lparr>cat_goose := Some (foldl (\<lambda>rows s. record_version (Source_Version s) rows) (version_table (mw_cat w))
    (filter (\<lambda>s. applyAll \<or> path_Base (Source_Path s) \<in> names) (ListSources G)))\<rparr>"
proof (cases "cat_goose (mw_cat w)")
  case None
  then obtain w1 where "insertVersion G 0 (w\<lparr>mw_tick := Suc (mw_tick w), mw_cat := (mw_cat w)\<lparr>cat_goose := Some []\<rparr>\<rparr>) = (Inr (), w1)"
    and rest: "adopt_sources G applyAll names (ListSources G) w1 = (Inr (), w')"
    using assms by (auto simp: adopt_into_def run)
  from insertVersion_run [OF this(1)]
  have "mw_cat w1 = (mw_cat w)\<lparr>cat_goose := Some (record_version 0 [])\<rparr>" by simp
  then show ?thesis using adopt_sources_run [OF rest, of "record_version 0 []"] None by (simp add: version_table_def)
next
  case (Some rows)
  then have "adopt_sources G applyAll names (ListSources G) w = (Inr (), w')" using assms by (simp add: adopt_into_def)
  from adopt_sources_run [OF this Some] show ?thesis using Some by (simp add: version_table_def)
qed

lemma adopt_table_run:
  assumes "adopt_table G e w = (Inr (), w')" and "e \<longleftrightarrow> cat_goose (mw_cat w) \<noteq> None" and "applied_count (mw_cat w) = 0"
  shows "mw_cat w' = adopted G (mw_cat w)"
proof (cases "cat_legacy (mw_cat w)")
  case None
  then show ?thesis using assms by (auto simp: adopt_table_def run adopted_def)
next
  case (Some names)
  let ?t = "w\<lparr>mw_tick := Suc (mw_tick w)\<rparr>"
  from assms(1) Some obtain ns w1 where "legacyNames G ?t = (Inr ns, w1)"
    and rest: "(if ns = {} then bindE (sql_read G ''migrations: inspect legacy users table: %w''
         (\<lambda>c. find_table (cat_schema c) ''users'' \<noteq> None)) (\<lambda>hasUsers. if \<not> hasUsers then ret () else adopt_into G e True ns)
       else adopt_into G e False ns) w1 = (Inr (), w')"
    by (auto simp: adopt_table_def run)
  from legacyNames_run [OF this(1)] Some have ns: "ns = set names" and c: "mw_cat w1 = mw_cat w" by simp_all
  show ?thesis
  proof (cases "names = []")
    case True
    then show ?thesis
      using rest ns c Some assms(2,3) adopt_into_run [of G e True "{}" "w1\<lparr>mw_tick := Suc (mw_tick w1), mw_cat := mw_cat w\<rparr>" w']
      by (auto simp: run adopted_def legacy_sources_def split: if_splits)
  next
    case False
    then show ?thesis
      using rest ns c Some assms(2,3) adopt_into_run [of G e False ns w1 w'] by (simp add: adopted_def legacy_sources_def)
  qed
qed

lemma adoption_run:
  assumes "adoption G w = (Inr (), w')"
  shows "mw_cat w' = adopted G (mw_cat w)"
proof -
  let ?w = "\<lambda>k. w\<lparr>mw_tick := k + mw_tick w\<rparr>"
  have none: "cat_goose (mw_cat w) = None \<Longrightarrow> applied_count (mw_cat w) = 0" by (simp add: applied_count_def)
  have skip: "0 < applied_count (mw_cat w) \<Longrightarrow> adopted G (mw_cat w) = mw_cat w" by (simp add: adopted_def split: option.splits)
  show ?thesis
    using assms none skip adopt_table_run [of G False "?w (Suc (Suc 0))" w'] adopt_table_run [of G True "?w (Suc (Suc (Suc 0)))" w']
    unfolding adoption_def by (auto simp: run split: if_splits)
qed

section \<open>Adoption is atomic, total and idempotent\<close>

lemma sql_tx_outcome:
  assumes "sql_tx G fmt body w = (r, w')"
  shows "((\<exists>e. r = Inl e) \<and> mw_cat w' = mw_cat w) \<or>
    (\<exists>w1. body (w\<lparr>mw_tick := Suc (mw_tick w)\<rparr>) = (Inr (), w1) \<and> mw_cat w' = mw_cat w1)"
proof (cases "sql_fault G (mw_tick w)")
  case (Some e)
  then show ?thesis using assms by (auto simp: sql_tx_def bindE_def sql_call_def Let_def)
next
  case None
  obtain c t where w: "w = \<lparr>mw_cat = c, mw_tick = t\<rparr>" by (cases w)
  obtain a w1 where body: "body \<lparr>mw_cat = c, mw_tick = Suc t\<rparr> = (a, w1)" by (cases "body \<lparr>mw_cat = c, mw_tick = Suc t\<rparr>")
  note step = assms [symmetric] None body
  show ?thesis
  proof (cases a)
    case (Inl e)
    then have "r = Inl e \<and> w' = w1\<lparr>mw_cat := c\<rparr>" using step unfolding w by (simp add: sql_tx_def bindE_def sql_call_def Let_def)
    then show ?thesis by (simp add: w)
  next
    case (Inr u)
    then have "mw_cat w' = mw_cat w1 \<or> (\<exists>e. r = Inl e) \<and> mw_cat w' = c"
      using step unfolding w
      by (cases "sql_fault G (mw_tick w1)") (simp_all add: sql_tx_def bindE_def sql_call_def Let_def)
    then show ?thesis using body Inr by (auto simp: w)
  qed
qed

lemma adoptLegacy_cat:
  assumes "adoptLegacy G w = (r, w')"
  shows "mw_cat w' = adopted G (mw_cat w) \<or> ((\<exists>e. r = Inl e) \<and> mw_cat w' = mw_cat w)"
  using sql_tx_outcome [OF assms [unfolded adoptLegacy_def]] adoption_run [of G "w\<lparr>mw_tick := Suc (mw_tick w)\<rparr>"] by auto

definition total :: "(mworld, 'a) M \<Rightarrow> bool" where
  "total m \<longleftrightarrow> (\<forall>w. \<exists>a w'. m w = (Inr a, w'))"

lemma total_bindE: "total m \<Longrightarrow> (\<And>a. total (f a)) \<Longrightarrow> total (bindE m f)"
  unfolding total_def bindE_def by (metis (no_types, lifting) case_prod_conv sum.case(2))

lemma total_ret: "total (ret a)"
  by (simp add: total_def ret_def)

lemma total_if: "total m \<Longrightarrow> total m' \<Longrightarrow> total (if b then m else m')"
  by simp

lemma total_sql_call: "(\<And>k. sql_fault G k = None) \<Longrightarrow> total (sql_call G fmt as f)"
  by (auto simp: total_def sql_call_def Let_def split: prod.splits)

lemma total_adoption:
  assumes "\<And>k. sql_fault G k = None"
  shows "total (adoption G)"
proof -
  note intros = total_bindE total_ret total_if total_sql_call [OF assms]
  have "total (scan_names G rows names)" for rows names by (induction rows arbitrary: names) (simp_all add: intros)
  moreover have "total (adopt_sources G applyAll names ss)" for applyAll names ss
    by (induction ss) (simp_all add: insertVersion_def intros)
  ultimately show ?thesis
    unfolding adoption_def adopt_table_def legacyNames_def adopt_into_def insertVersion_def by (intro intros)
qed

lemma adoptLegacy_total:
  assumes "\<And>k. sql_fault G k = None"
  shows "\<exists>w'. adoptLegacy G w = (Inr (), w')"
proof -
  obtain c t where w: "w = \<lparr>mw_cat = c, mw_tick = t\<rparr>" by (cases w)
  obtain u w1 where "adoption G \<lparr>mw_cat = c, mw_tick = Suc t\<rparr> = (Inr u, w1)"
    using total_adoption [OF assms] unfolding total_def by blast
  then show ?thesis using assms unfolding w by (simp add: adoptLegacy_def sql_tx_def bindE_def sql_call_def Let_def)
qed

lemma is_applied_Nil [simp]: "\<not> is_applied v []"
  by (simp add: is_applied_def)

lemma is_applied_record [simp]: "is_applied v (record_version u rows) \<longleftrightarrow> v = u \<or> is_applied v rows"
  by (auto simp: record_version_def is_applied_def)

abbreviation record_all :: "goose_row list \<Rightarrow> Source list \<Rightarrow> goose_row list" where
  "record_all \<equiv> foldl (\<lambda>rows s. record_version (Source_Version s) rows)"

lemma is_applied_record_all: "is_applied v (record_all rows ss) \<longleftrightarrow> v \<in> Source_Version ` set ss \<or> is_applied v rows"
  by (induction ss arbitrary: rows) auto

lemma record_all_again: "\<forall>s \<in> set ss. is_applied (Source_Version s) rows \<Longrightarrow> record_all rows ss = rows"
  by (induction ss) (simp_all add: record_version_def)

lemma adopted_idem: "adopted G (adopted G c) = adopted G c"
proof (cases "adopted G c = c")
  case False
  then obtain names where c: "cat_legacy c = Some names" "\<not> (names = [] \<and> find_table (cat_schema c) ''users'' = None)"
    and d: "adopted G c = c\<lparr>cat_goose := Some (record_all (version_table c) (legacy_sources G names))\<rparr>"
    by (auto simp: adopted_def split: option.splits if_splits)
  have "record_all (version_table (adopted G c)) (legacy_sources G names) = version_table (adopted G c)"
    by (rule record_all_again) (simp add: d version_table_def is_applied_record_all)
  then show ?thesis unfolding d using c by (simp add: adopted_def version_table_def)
qed simp

lemma adopted_frame: "cat_legacy (adopted G c) = cat_legacy c \<and> cat_schema (adopted G c) = cat_schema c"
  by (simp add: adopted_def split: option.splits)

text \<open>
  C18. Adoption meets its specification whatever fails: when it returns without an error the catalog is the
  adopted one, and after an error it is the old one or, if only the acknowledgement of the commit was lost, the
  adopted one. Without faults it always returns. Adopting twice is adopting once, and neither the table
  of the older runner nor any other table is touched.
\<close>

theorem adoption_refines_specification:
  "(case adoptLegacy G w of
      (Inr _, w') \<Rightarrow> mw_cat w' = adopted G (mw_cat w)
    | (Inl e, w') \<Rightarrow> mw_cat w' = mw_cat w \<or> mw_cat w' = adopted G (mw_cat w)) \<and>
   ((\<exists>k. sql_fault G k \<noteq> None) \<or> (\<exists>w'. adoptLegacy G w = (Inr (), w'))) \<and>
   adopted G (adopted G c) = adopted G c \<and> cat_legacy (adopted G c) = cat_legacy c \<and> cat_schema (adopted G c) = cat_schema c"
proof (intro conjI)
  show "case adoptLegacy G w of
      (Inr _, w') \<Rightarrow> mw_cat w' = adopted G (mw_cat w)
    | (Inl e, w') \<Rightarrow> mw_cat w' = mw_cat w \<or> mw_cat w' = adopted G (mw_cat w)"
    using adoptLegacy_cat by (fastforce split: prod.splits sum.splits)
  show "(\<exists>k. sql_fault G k \<noteq> None) \<or> (\<exists>w'. adoptLegacy G w = (Inr (), w'))" using adoptLegacy_total by blast
qed (simp_all add: adopted_idem adopted_frame)

section \<open>Migrations of an adopted database\<close>

text \<open>
  What the code relies on of goose: the sources have distinct positive versions; \<open>Up\<close>, when it succeeds, has
  run the sources whose version is not applied, in the order of the sources, all versions are
  applied afterwards, and when it had nothing to run the schema is the same; \<open>Status\<close> and \<open>GetVersions\<close> change nothing but
  that they create the version table where there is none, without any version of a file.
\<close>

definition versions :: "catalog \<Rightarrow> goose_row list" where
  "versions c = (case cat_goose c of None \<Rightarrow> [] | Some rows \<Rightarrow> rows)"

definition pending_sources :: "goose_pkg \<Rightarrow> catalog \<Rightarrow> Source list" where
  "pending_sources G c = filter (\<lambda>s. \<not> is_applied (Source_Version s) (versions c)) (ListSources G)"

definition queried :: "catalog \<Rightarrow> catalog \<Rightarrow> bool" where
  "queried c c' \<longleftrightarrow>
     c' = c \<or> (cat_goose c = None \<and> (\<exists>rows. (\<forall>r \<in> set rows. goose_version_id r = 0) \<and> c' = c\<lparr>cat_goose := Some rows\<rparr>))"

definition goose_laws :: "goose_pkg \<Rightarrow> bool" where
  "goose_laws G \<longleftrightarrow>
     distinct (map Source_Version (ListSources G)) \<and> (\<forall>s \<in> set (ListSources G). 0 < Source_Version s) \<and>
     (\<forall>w ss w'. provider_Up G w = (Inr ss, w') \<longrightarrow>
        ss = pending_sources G (mw_cat w) \<and> pending_sources G (mw_cat w') = [] \<and>
        (ss = [] \<longrightarrow> cat_schema (mw_cat w') = cat_schema (mw_cat w))) \<and>
     (\<forall>w. queried (mw_cat w) (mw_cat (snd (provider_Status G w))) \<and> queried (mw_cat w) (mw_cat (snd (provider_GetVersions G w))))"

text \<open>Any number of \<open>migrate status\<close> and version queries, whatever they return.\<close>

datatype inspection = InspectStatus | InspectVersion

fun inspect :: "goose_pkg \<Rightarrow> inspection list \<Rightarrow> mworld \<Rightarrow> mworld" where
  "inspect G [] w = w"
| "inspect G (InspectStatus # is) w = inspect G is (snd (Migrator_Status G w))"
| "inspect G (InspectVersion # is) w = inspect G is (snd (Migrator_Version G w))"

text \<open>Catalogs that differ at most in rows of the version table that belong to no file.\<close>

definition alike :: "catalog \<Rightarrow> catalog \<Rightarrow> bool" where
  "alike c c' \<longleftrightarrow> cat_legacy c' = cat_legacy c \<and> cat_schema c' = cat_schema c \<and>
     (\<forall>v>0. is_applied v (versions c') \<longleftrightarrow> is_applied v (versions c))"

lemma alike_refl: "alike c c"
  by (simp add: alike_def)

lemma alike_trans: "alike a b \<Longrightarrow> alike b c \<Longrightarrow> alike a c"
  by (simp add: alike_def)

lemma queried_alike: "queried c c' \<Longrightarrow> alike c c'"
  by (auto simp: queried_def alike_def versions_def is_applied_def list_ex_iff)

lemma applied_count_alike: "alike c c' \<Longrightarrow> 0 < applied_count c' \<longleftrightarrow> 0 < applied_count c"
proof -
  have "0 < applied_count c \<longleftrightarrow> (\<exists>v>0. is_applied v (versions c))" for c
    by (auto simp: applied_count_def versions_def is_applied_def list_ex_iff filter_empty_conv split: option.splits)
  then show "alike c c' \<Longrightarrow> ?thesis" by (auto simp: alike_def)
qed

lemma applied_version_table: "0 < v \<Longrightarrow> is_applied v (version_table c) \<longleftrightarrow> is_applied v (versions c)"
  by (simp add: version_table_def versions_def split: option.splits)

lemma adopted_alike: "alike c c' \<Longrightarrow> alike (adopted G c) (adopted G c')"
  using applied_count_alike [of c c']
  by (auto simp: adopted_def alike_def versions_def [of "_\<lparr>cat_goose := _\<rparr>"] is_applied_record_all applied_version_table
      split: option.splits)

lemma pending_alike: "goose_laws G \<Longrightarrow> alike c c' \<Longrightarrow> pending_sources G c' = pending_sources G c"
  by (auto simp: pending_sources_def goose_laws_def alike_def intro!: filter_cong)

lemma adopt_then_query:
  assumes "\<And>w. queried (mw_cat w) (mw_cat (snd (m w)))"
  shows "alike (adopted G (mw_cat w)) (adopted G (mw_cat (snd (bindE (adoptLegacy G) (\<lambda>_. mapErr h m) w))))"
proof -
  obtain r w1 where a: "adoptLegacy G w = (r, w1)" by (cases "adoptLegacy G w")
  have same: "adopted G (mw_cat w1) = adopted G (mw_cat w)" using adoptLegacy_cat [OF a] adopted_idem by metis
  have "mw_cat (snd (mapErr h m w1)) = mw_cat (snd (m w1))" by (auto simp: mapErr_def split: prod.splits sum.splits)
  then have "alike (mw_cat w1) (mw_cat (snd (mapErr h m w1)))" using queried_alike [OF assms [of w1]] by simp
  from adopted_alike [OF this, of G] show ?thesis
    using a alike_refl unfolding same bindE_def by (auto simp: same split: sum.splits)
qed

lemma inspect_alike: "goose_laws G \<Longrightarrow> alike (adopted G (mw_cat w)) (adopted G (mw_cat (inspect G is w)))"
proof (induction G "is" w rule: inspect.induct)
  case (2 G "is" w)
  have "alike (adopted G (mw_cat w)) (adopted G (mw_cat (snd (Migrator_Status G w))))"
    unfolding Migrator_Status_def by (rule adopt_then_query) (use 2 in \<open>simp add: goose_laws_def\<close>)
  then show ?case using 2 alike_trans by auto
next
  case (3 G "is" w)
  have "alike (adopted G (mw_cat w)) (adopted G (mw_cat (snd (Migrator_Version G w))))"
    unfolding Migrator_Version_def by (rule adopt_then_query) (use 3 in \<open>simp add: goose_laws_def\<close>)
  then show ?case using 3 alike_trans by auto
qed (simp add: alike_refl)

lemma Up_run:
  assumes "goose_laws G" and "Migrator_Up G w = (Inr ss, w')"
  shows "ss = pending_sources G (adopted G (mw_cat w)) \<and> pending_sources G (mw_cat w') = [] \<and>
    (ss = [] \<longrightarrow> cat_schema (mw_cat w') = cat_schema (mw_cat w))"
proof -
  obtain w1 where a: "adoptLegacy G w = (Inr (), w1)" and up: "provider_Up G w1 = (Inr ss, w')"
    using assms(2) by (auto simp: Migrator_Up_def run)
  from adoptLegacy_cat [OF a] have "mw_cat w1 = adopted G (mw_cat w)" by simp
  then show ?thesis using assms(1) up adopted_frame unfolding goose_laws_def by metis
qed

lemma adopted_mono: "is_applied v (versions c) \<Longrightarrow> is_applied v (versions (adopted G c))"
  by (auto simp: versions_def adopted_def version_table_def is_applied_record_all split: option.splits)

lemma adopted_pending:
  assumes "goose_laws G" and "applied_count c = 0" and "cat_legacy c = Some names"
    and "names \<noteq> [] \<or> find_table (cat_schema c) ''users'' \<noteq> None"
  shows "pending_sources G (adopted G c) = filter (\<lambda>s. s \<notin> set (legacy_sources G names)) (ListSources G)"
proof -
  have inj: "inj_on Source_Version (set (ListSources G))" using assms(1) by (simp add: goose_laws_def distinct_map)
  have fresh: "\<not> is_applied v (version_table c)" if "0 < v" for v
    using assms(2) that
    by (auto simp: version_table_def applied_count_def is_applied_def record_version_def list_ex_iff filter_empty_conv split: option.splits)
  have "versions (adopted G c) = record_all (version_table c) (legacy_sources G names)"
    using assms(2-4) by (auto simp: adopted_def versions_def)
  moreover have "Source_Version s \<in> Source_Version ` set (legacy_sources G names) \<longleftrightarrow> s \<in> set (legacy_sources G names)"
    if "s \<in> set (ListSources G)" for s
    using inj_on_image_mem_iff [OF inj that, of "set (legacy_sources G names)"] by (auto simp: legacy_sources_def)
  moreover have "0 < Source_Version s" if "s \<in> set (ListSources G)" for s using assms(1) that by (simp add: goose_laws_def)
  ultimately show ?thesis
    unfolding pending_sources_def using fresh by (auto simp: is_applied_record_all intro!: filter_cong)
qed

text \<open>
  C19. A migration that the older runner has applied is never run again: on a database where goose has
  applied nothing yet and the table of the older runner names some files, \<open>Up\<close>, when it succeeds, has
  run exactly the other files, in order, however many status and version queries came before it and
  whatever they returned; and a second \<open>Up\<close> runs nothing.
\<close>

theorem legacy_migrations_not_rerun:
  assumes "goose_laws G" and "applied_count (mw_cat w) = 0" and "cat_legacy (mw_cat w) = Some names" and "names \<noteq> []"
    and "Migrator_Up G (inspect G is w) = (Inr ss, w')"
  shows "ss = filter (\<lambda>s. path_Base (Source_Path s) \<notin> set names) (ListSources G) \<and>
         (case Migrator_Up G w' of (Inr ss', w'') \<Rightarrow> ss' = [] | (Inl e, w'') \<Rightarrow> True)"
proof
  have "pending_sources G (adopted G (mw_cat (inspect G is w))) = pending_sources G (adopted G (mw_cat w))"
    by (rule pending_alike [OF assms(1) inspect_alike [OF assms(1)]])
  then have "ss = filter (\<lambda>s. s \<notin> set (legacy_sources G names)) (ListSources G)"
    using Up_run [OF assms(1,5)] adopted_pending [OF assms(1-3)] assms(4) by simp
  then show "ss = filter (\<lambda>s. path_Base (Source_Path s) \<notin> set names) (ListSources G)"
    using assms(4) by (simp add: legacy_sources_def cong: filter_cong)
  have "pending_sources G (adopted G (mw_cat w')) = []"
    using Up_run [OF assms(1,5)] adopted_mono by (auto simp: pending_sources_def filter_empty_conv)
  then show "case Migrator_Up G w' of (Inr ss', w'') \<Rightarrow> ss' = [] | (Inl e, w'') \<Rightarrow> True"
    using Up_run [OF assms(1), of w'] by (auto split: prod.splits sum.splits)
qed

text \<open>
  C39. An older database whose table of versions is empty is taken as it is: when there is a users table, \<open>Up\<close>, if it succeeds, runs no
  file, whatever status and version queries came before it, and afterwards every file counts as applied although the schema has not changed.
\<close>

theorem empty_legacy_runs_nothing:
  assumes "goose_laws G" and "applied_count (mw_cat w) = 0" and "cat_legacy (mw_cat w) = Some []"
    and "find_table (cat_schema (mw_cat w)) ''users'' \<noteq> None" and "Migrator_Up G (inspect G is w) = (Inr ss, w')"
  shows "ss = [] \<and> list_all (\<lambda>s. is_applied (Source_Version s) (versions (mw_cat w'))) (ListSources G) \<and>
         cat_schema (mw_cat w') = cat_schema (mw_cat w)"
proof -
  have "pending_sources G (adopted G (mw_cat (inspect G is w))) = []"
    using pending_alike [OF assms(1) inspect_alike [OF assms(1)]] adopted_pending [OF assms(1-3)] assms(4)
    by (simp add: legacy_sources_def filter_empty_conv)
  then have "ss = []" "pending_sources G (mw_cat w') = []" "cat_schema (mw_cat w') = cat_schema (mw_cat (inspect G is w))"
    using Up_run [OF assms(1,5)] by simp_all
  moreover have "cat_schema (mw_cat (inspect G is w)) = cat_schema (mw_cat w)"
    using inspect_alike [OF assms(1), of w "is"] adopted_frame by (simp add: alike_def)
  ultimately show ?thesis by (auto simp: pending_sources_def filter_empty_conv list_all_iff)
qed

section \<open>A provider that runs the files\<close>

definition source_of :: "migration \<Rightarrow> Source" where
  "source_of m = \<lparr>Source_Path = mig_File m, Source_Version = mig_Version m\<rparr>"

definition demo_Up :: "mworld \<Rightarrow> (gerr + Source list) \<times> mworld" where
  "demo_Up w =
     (let todo = filter (\<lambda>m. \<not> is_applied (mig_Version m) (versions (mw_cat w))) migrations; c = mw_cat w in
      case run_ups todo (cat_schema c) of
        Inl e \<Rightarrow> (Inl e, w)
      | Inr S \<Rightarrow>
          (Inr (map source_of todo),
           w\<lparr>mw_cat := c\<lparr>cat_schema := S, cat_goose := Some (record_all (version_table c) (map source_of todo))\<rparr>\<rparr>))"

definition create_version_table :: "mworld \<Rightarrow> mworld" where
  "create_version_table w = w\<lparr>mw_cat := (mw_cat w)\<lparr>cat_goose := Some (version_table (mw_cat w))\<rparr>\<rparr>"

definition demo_goose :: goose_pkg where
  "demo_goose =
     \<lparr>sql_Open = (\<lambda>url. None), goose_NewProvider = None, sql_fault = (\<lambda>k. None), sql_commit_lost = (\<lambda>k. False),
      ListSources = map source_of migrations, provider_Up = demo_Up, provider_Down = (\<lambda>w. (Inl PanicError, w)),
      provider_Status = (\<lambda>w. (Inr [], create_version_table w)), provider_GetVersions = (\<lambda>w. (Inr (0, 9), create_version_table w))\<rparr>"

lemma demo_sources: "distinct (map Source_Version (map source_of migrations)) \<and> list_all (\<lambda>s. 0 < Source_Version s) (map source_of migrations)"
  by code_simp

lemma demo_goose_laws: "goose_laws demo_goose"
proof -
  have "queried (mw_cat w) (mw_cat (create_version_table w))" for w
    by (cases w; cases "mw_cat w"; cases "cat_goose (mw_cat w)") (auto simp: queried_def create_version_table_def version_table_def record_version_def)
  moreover have "ss = pending_sources demo_goose (mw_cat w) \<and> pending_sources demo_goose (mw_cat w') = [] \<and>
      (ss = [] \<longrightarrow> cat_schema (mw_cat w') = cat_schema (mw_cat w))"
    if "demo_Up w = (Inr ss, w')" for w ss w'
    using that
    by (auto simp: demo_Up_def Let_def pending_sources_def demo_goose_def filter_map comp_def source_of_def versions_def
        is_applied_record_all filter_empty_conv version_table_def image_iff split: sum.splits option.splits) blast+
  ultimately show ?thesis using demo_sources unfolding goose_laws_def by (auto simp: demo_goose_def list_all_iff)
qed

text \<open>A database of the older runner after its three files, and one whose runner has recorded nothing.\<close>

definition legacy_world :: mworld where
  "legacy_world = \<lparr>mw_cat = \<lparr>cat_goose = None,
     cat_legacy = Some [''001_auth.sql'', ''002_mobile_otp.sql'', ''003_password_api_tokens.sql''], cat_schema = after 3\<rparr>, mw_tick = 0\<rparr>"

definition unrecorded_world :: mworld where
  "unrecorded_world = \<lparr>mw_cat = \<lparr>cat_goose = None, cat_legacy = Some [], cat_schema = after 3\<rparr>, mw_tick = 0\<rparr>"

lemma demo_Migrator_Up:
  assumes "adopted demo_goose (mw_cat w) = d"
    and "run_ups (filter (\<lambda>m. \<not> is_applied (mig_Version m) (versions d)) migrations) (cat_schema d) = Inr S"
  shows "\<exists>ss w'. Migrator_Up demo_goose w = (Inr ss, w') \<and> cat_schema (mw_cat w') = S"
proof -
  obtain w1 where "adoptLegacy demo_goose w = (Inr (), w1)" using adoptLegacy_total [of demo_goose w] by (auto simp: demo_goose_def)
  moreover from adoptLegacy_cat [OF this] have "mw_cat w1 = d" using assms(1) by simp
  ultimately show ?thesis
    using assms(2) by (simp add: Migrator_Up_def bindE_def mapErr_def demo_goose_def demo_Up_def)
qed

lemma legacy_unversioned: "applied_count (mw_cat legacy_world) = 0"
  by code_simp

lemma unrecorded_adopted: "applied_count (mw_cat unrecorded_world) = 0 \<and> find_table (cat_schema (mw_cat unrecorded_world)) ''users'' \<noteq> None \<and>
   run_ups (filter (\<lambda>m. \<not> is_applied (mig_Version m) (versions (adopted demo_goose (mw_cat unrecorded_world)))) migrations)
     (cat_schema (adopted demo_goose (mw_cat unrecorded_world))) = Inr (after 3) \<and> find_table (after 3) ''organizations'' = None"
  by code_simp

text \<open>Witness of C19: the older database is brought to the current schema by the six files it lacks.\<close>

theorem legacy_migrations_not_rerun_witness:
  "\<exists>ss w'. Migrator_Up demo_goose (inspect demo_goose [InspectStatus] legacy_world) = (Inr ss, w') \<and> cat_schema (mw_cat w') = after 9 \<and>
     ss = filter (\<lambda>s. path_Base (Source_Path s) \<notin> set [''001_auth.sql'', ''002_mobile_otp.sql'', ''003_password_api_tokens.sql''])
       (map source_of migrations)"
proof -
  let ?w = "inspect demo_goose [InspectStatus] legacy_world"
  have l: "cat_legacy (mw_cat legacy_world) = Some [''001_auth.sql'', ''002_mobile_otp.sql'', ''003_password_api_tokens.sql'']"
    by (simp add: legacy_world_def)
  have "run_ups (filter (\<lambda>m. \<not> is_applied (mig_Version m) (versions (adopted demo_goose (mw_cat ?w)))) migrations)
      (cat_schema (adopted demo_goose (mw_cat ?w))) = Inr (after 9)" by code_simp
  then obtain ss w' where up: "Migrator_Up demo_goose ?w = (Inr ss, w')" "cat_schema (mw_cat w') = after 9"
    using demo_Migrator_Up [of ?w] by blast
  moreover have "ss = filter (\<lambda>s. path_Base (Source_Path s) \<notin> set [''001_auth.sql'', ''002_mobile_otp.sql'', ''003_password_api_tokens.sql''])
      (ListSources demo_goose)"
    using legacy_migrations_not_rerun [OF demo_goose_laws legacy_unversioned l _ up(1)] by simp
  ultimately show ?thesis by (simp add: demo_goose_def)
qed

text \<open>
  Witness of C39: such a database with the schema of the third file stays there, without the tables that later
  files create.
\<close>

theorem empty_legacy_runs_nothing_witness:
  "\<exists>w'. Migrator_Up demo_goose unrecorded_world = (Inr [], w') \<and> cat_schema (mw_cat w') = after 3 \<and>
     find_table (cat_schema (mw_cat w')) ''organizations'' = None"
proof -
  have l: "cat_legacy (mw_cat unrecorded_world) = Some []" by (simp add: unrecorded_world_def)
  obtain ss w' where up: "Migrator_Up demo_goose unrecorded_world = (Inr ss, w')" "cat_schema (mw_cat w') = after 3"
    using demo_Migrator_Up [of unrecorded_world] unrecorded_adopted by blast
  moreover have "ss = []"
    using empty_legacy_runs_nothing [OF demo_goose_laws _ l, of "[]" ss w'] up(1) unrecorded_adopted by simp
  ultimately show ?thesis using unrecorded_adopted by simp
qed

end
