(* ===== verification/Startup.thy ===== *)
theory Startup
  imports OrgAccess Migrations
begin

text \<open>
  \<open>cmd/auth/main.go\<close>: the start of the process, from the environment and the arguments to a served
  application or an exit, and the subcommand \<open>migrate\<close>. The calls of other packages that may fail are
  parameters; log lines are left out, except that an exit carries the message of its error line. The outbox
  relay that \<open>main\<close> starts is in the theory Relay.
\<close>

section \<open>The process\<close>

text \<open>The database as the migrator and as the store see it.\<close>

record process =
  proc_mig :: mworld
  proc_world :: world

record main_env =
  os_Getenv :: "string \<Rightarrow> string"
  os_Args :: "string list"
  observability_Configure :: "gerr option"
  main_goose :: goose_pkg
  pgxpool_New :: "string \<Rightarrow> gerr option"
  main_files :: key_files
  observability_GRPCDialOptions :: "string list"
  observability_InternalAuthDialOption :: string
  grpc_NewClient :: "string \<Rightarrow> string DialOption list \<Rightarrow> gerr option"
  json_Unmarshal :: "string \<Rightarrow> gerr + DemoUser list"
  transport_FromEnv :: "gerr option"
  main_openfeature :: openfeature
  main_refreshed :: "FlagEvaluator \<Rightarrow> nat \<Rightarrow> FlagEvaluator"
  net_Listen :: "string \<Rightarrow> gerr option"
  main_world :: env
  main_jwt :: jwt_pkg

text \<open>
  How \<open>main\<close> ends: a panic, \<open>os.Exit(1)\<close> after an error line, a return, or serving, with the service, the keys
  of the interceptor, and the addresses of the gRPC and the HTTP server.
\<close>

datatype main_outcome =
    Panicked gerr
  | Exit1 string
  | Returned
  | Serving "world Service" KeySet string string

type_synonym 'a step = "process \<Rightarrow> (main_outcome + 'a) \<times> process"

definition proceed :: "'a \<Rightarrow> 'a step" where
  "proceed a p = (Inr a, p)"

definition stop :: "main_outcome \<Rightarrow> 'a step" where
  "stop r p = (Inl r, p)"

definition andThen :: "'a step \<Rightarrow> ('a \<Rightarrow> 'b step) \<Rightarrow> 'b step" where
  "andThen m f p = (case m p of (Inl r, p') \<Rightarrow> (Inl r, p') | (Inr a, p') \<Rightarrow> f a p')"

text \<open>A call whose error is logged with a message before the process exits.\<close>

definition orExit :: "string \<Rightarrow> (gerr + 'a) \<Rightarrow> 'a step" where
  "orExit msg r = (case r of Inl err \<Rightarrow> stop (Exit1 msg) | Inr a \<Rightarrow> proceed a)"

abbreviation failing :: "gerr option \<Rightarrow> gerr + unit" where
  "failing e \<equiv> (case e of Some err \<Rightarrow> Inl err | None \<Rightarrow> Inr ())"

definition on_mig :: "(mworld, 'a) M \<Rightarrow> process \<Rightarrow> (gerr + 'a) \<times> process" where
  "on_mig m p = (case m (proc_mig p) of (r, w) \<Rightarrow> (r, p\<lparr>proc_mig := w\<rparr>))"

definition on_world :: "(world, 'a) M \<Rightarrow> process \<Rightarrow> (gerr + 'a) \<times> process" where
  "on_world m p = (case m (proc_world p) of (r, w) \<Rightarrow> (r, p\<lparr>proc_world := w\<rparr>))"

definition callExit :: "string \<Rightarrow> (process \<Rightarrow> (gerr + 'a) \<times> process) \<Rightarrow> 'a step" where
  "callExit msg m p = (case m p of (r, p') \<Rightarrow> orExit msg r p')"

section \<open>migrate\<close>

definition migrateUp :: "main_env \<Rightarrow> string \<Rightarrow> (mworld, unit) M" where
  "migrateUp S dsn =
     (case Open (main_goose S) dsn of
        Inl err \<Rightarrow> fail err
      | Inr m \<Rightarrow> bindE (Migrator_Up m) (\<lambda>results. ret ()))"

definition migrateDown :: "main_env \<Rightarrow> string \<Rightarrow> (mworld, unit) M" where
  "migrateDown S dsn =
     (case Open (main_goose S) dsn of
        Inl err \<Rightarrow> fail err
      | Inr m \<Rightarrow> bindE (Migrator_Down m) (\<lambda>result. ret ()))"

definition migrateStatus :: "main_env \<Rightarrow> string \<Rightarrow> (mworld, unit) M" where
  "migrateStatus S dsn =
     (case Open (main_goose S) dsn of
        Inl err \<Rightarrow> fail err
      | Inr m \<Rightarrow> bindE (Migrator_Status m) (\<lambda>statuses. bindE (Migrator_Version m) (\<lambda>_. ret ())))"

definition runMigrate :: "main_env \<Rightarrow> string \<Rightarrow> string list \<Rightarrow> unit step" where
  "runMigrate S dsn args =
     (let action = (case args of [] \<Rightarrow> ''up'' | a # _ \<Rightarrow> a) in
      callExit ''migrate failed''
        (on_mig (if action = ''up'' then migrateUp S dsn
                 else if action = ''down'' then migrateDown S dsn
                 else if action = ''status'' then migrateStatus S dsn
                 else fail (Errorf ''unknown migrate action %q (want up, down or status)'' [action] None))))"

section \<open>main\<close>

definition serverOptions :: "Signer \<Rightarrow> KeySet" where
  "serverOptions signer = Signer_KeySet signer"

definition main_serve :: "main_env \<Rightarrow> string \<Rightarrow> unit step" where
  "main_serve S dsn =
     (let getenv = os_Getenv S; E = main_world S; F = main_openfeature S in
      andThen (orExit ''db connect failed'' (failing (pgxpool_New S dsn))) (\<lambda>_.
      andThen (if getenv ''JWT_PRIVATE_KEY_FILE'' = [] \<or> getenv ''JWT_ACTIVE_KEY_ID'' = [] \<or> getenv ''JWT_PUBLIC_KEYS_DIR'' = []
               then stop (Exit1 ''JWT_PRIVATE_KEY_FILE, JWT_ACTIVE_KEY_ID, and JWT_PUBLIC_KEYS_DIR are required'')
               else proceed ()) (\<lambda>_.
      andThen (orExit ''jwt config failed'' (NewFromEnv (main_files S) getenv)) (\<lambda>signer.
      (let notifAddr = envOr getenv ''NOTIFICATIONS_GRPC_ADDR'' ''localhost:10012'';
           dialOpts = observability_GRPCDialOptions S @ [observability_InternalAuthDialOption S] in
       andThen (orExit ''notifications client failed'' (NewClient (grpc_NewClient S) notifAddr dialOpts)) (\<lambda>_.
       andThen (orExit ''demo mode config failed'' (demoUsersFromEnv (json_Unmarshal S) getenv)) (\<lambda>demoUsers.
       andThen (orExit ''message bus config failed'' (failing (transport_FromEnv S))) (\<lambda>_.
       (let flags = flags_NewFromEnv (env_unicode E) F getenv;
            svc = deployed E (main_jwt S) signer F (main_refreshed S flags) demoUsers getenv in
        andThen (callExit ''demo seed failed'' (on_world (Service_SeedDemoUsers (env_unicode E) svc))) (\<lambda>_.
        (let grpcPort = envOr getenv ''GRPC_PORT'' ''10010'' in
         andThen (orExit ''listen failed'' (failing (net_Listen S (CHR '':'' # grpcPort)))) (\<lambda>_.
         (let healthPort = envOr getenv ''HEALTH_PORT'' ''10011'' in
          stop (Serving svc (serverOptions signer) (CHR '':'' # grpcPort) (CHR '':'' # healthPort)))))))))))))))"

definition main_steps :: "main_env \<Rightarrow> unit step" where
  "main_steps S =
     andThen (case observability_Configure S of Some err \<Rightarrow> stop (Panicked err) | None \<Rightarrow> proceed ()) (\<lambda>_.
     (let dsn = os_Getenv S ''DATABASE_URL'' in
      if dsn = [] then stop (Exit1 ''DATABASE_URL is required'')
      else if length (os_Args S) > 1 \<and> os_Args S ! 1 = ''migrate'' then runMigrate S dsn (drop 2 (os_Args S))
      else
        andThen (if \<not> EqualFold (env_unicode (main_world S)) (envOr (os_Getenv S) ''MIGRATE_ON_START'' ''true'') ''false''
                 then callExit ''migrate failed'' (on_mig (migrateUp S dsn)) else proceed ()) (\<lambda>_.
        main_serve S dsn)))"

definition main :: "main_env \<Rightarrow> process \<Rightarrow> main_outcome \<times> process" where
  "main S p = (case main_steps S p of (Inl r, p') \<Rightarrow> (r, p') | (Inr _, p') \<Rightarrow> (Returned, p'))"

section \<open>Runs that end in serving\<close>

lemma andThen_Inl: "andThen m f p = (Inl r, p') \<longleftrightarrow> m p = (Inl r, p') \<or> (\<exists>a p1. m p = (Inr a, p1) \<and> f a p1 = (Inl r, p'))"
  by (auto simp: andThen_def split: prod.splits sum.splits)

lemma orExit_outcome:
  "orExit msg x p \<noteq> (Inl (Serving svc keys a h), p')" "orExit msg x p = (Inr v, p') \<longleftrightarrow> x = Inr v \<and> p' = p"
  by (auto simp: orExit_def stop_def proceed_def split: sum.splits)

lemma callExit_outcome:
  "callExit msg m p \<noteq> (Inl (Serving svc keys a h), p')" "callExit msg m p = (Inr v, p') \<longleftrightarrow> m p = (Inr v, p')"
  by (auto simp: callExit_def orExit_outcome split: prod.splits)

lemma step_outcome:
  "on_world m p = (Inr v, p') \<longleftrightarrow> (\<exists>w. m (proc_world p) = (Inr v, w) \<and> p' = p\<lparr>proc_world := w\<rparr>)"
  "on_mig n p = (Inr v', p') \<longleftrightarrow> (\<exists>w. n (proc_mig p) = (Inr v', w) \<and> p' = p\<lparr>proc_mig := w\<rparr>)"
  by (auto simp: on_world_def on_mig_def split: prod.splits)

lemmas outcomes = andThen_Inl orExit_outcome callExit_outcome step_outcome stop_def proceed_def

lemma NewFromEnv_key:
  assumes "NewFromEnv F getenv = Inr signer"
  shows "signer_keyID signer = TrimSpace (getenv ''JWT_ACTIVE_KEY_ID'')"
    and "Mapping.lookup (Signer_KeySet signer) (signer_keyID signer) = Some (rsa_public_of (signer_key signer))"
  using assms by (auto simp: NewFromEnv_def Signer_KeySet_def rsa_public_of_def Let_def split: if_splits sum.splits option.splits)

lemma main_serve_Serving:
  assumes "main_serve S dsn p = (Inl (Serving svc keys a h), p')"
  shows "\<exists>signer du. NewFromEnv (main_files S) (os_Getenv S) = Inr signer \<and> keys = Signer_KeySet signer \<and>
    demoUsersFromEnv (json_Unmarshal S) (os_Getenv S) = Inr du \<and> proc_mig p' = proc_mig p \<and>
    pgxpool_New S dsn = None \<and> transport_FromEnv S = None \<and> net_Listen S a = None \<and>
    svc = deployed (main_world S) (main_jwt S) signer (main_openfeature S)
      (main_refreshed S (flags_NewFromEnv (env_unicode (main_world S)) (main_openfeature S) (os_Getenv S))) du (os_Getenv S)"
  using assms unfolding main_serve_def Let_def
  by (auto simp: outcomes serverOptions_def split: if_splits option.splits)

lemma main_Serving:
  assumes "main S p = (Serving svc keys a h, p')"
  shows "\<exists>p1. main_serve S (os_Getenv S ''DATABASE_URL'') p1 = (Inl (Serving svc keys a h), p') \<and> os_Getenv S ''DATABASE_URL'' \<noteq> [] \<and>
    (EqualFold (env_unicode (main_world S)) (envOr (os_Getenv S) ''MIGRATE_ON_START'' ''true'') ''false'' \<and> p1 = p \<or>
     migrateUp S (os_Getenv S ''DATABASE_URL'') (proc_mig p) = (Inr (), proc_mig p1))"
  using assms unfolding main_def main_steps_def Let_def runMigrate_def
  by (auto simp: outcomes split: if_splits prod.splits sum.splits option.splits)

text \<open>
  C20. The service starts only when it is safe to: if \<open>main\<close> serves, a database was configured and its pool was created, the
  message bus was configured, the address of the gRPC server could be bound, every migration has been applied unless migrating at the start was switched off, the keys of the interceptor are those of a
  signer whose active key is among them, and demo mode is off or the deployment is a development one.
\<close>

theorem startup_fails_closed:
  assumes "main S p = (Serving svc keys a h, p')" and "goose_laws (main_goose S)"
  shows "os_Getenv S ''DATABASE_URL'' \<noteq> [] \<and> pgxpool_New S (os_Getenv S ''DATABASE_URL'') = None \<and>
         transport_FromEnv S = None \<and> net_Listen S a = None \<and>
         (EqualFold (env_unicode (main_world S)) (envOr (os_Getenv S) ''MIGRATE_ON_START'' ''true'') ''false'' \<or>
          pending_sources (main_goose S) (mw_cat (proc_mig p')) = []) \<and>
         (\<exists>signer. NewFromEnv (main_files S) (os_Getenv S) = Inr signer \<and> keys = Signer_KeySet signer \<and>
            Mapping.lookup keys (signer_keyID signer) = Some (rsa_public_of (signer_key signer))) \<and>
         (if svc_demoMode svc then os_Getenv S ''DEPLOYMENT_ENVIRONMENT'' = ''dev'' else svc_demoUsers svc = [])"
proof -
  from main_Serving [OF assms(1)] obtain p1 where serve: "main_serve S (os_Getenv S ''DATABASE_URL'') p1 = (Inl (Serving svc keys a h), p')"
    and dsn: "os_Getenv S ''DATABASE_URL'' \<noteq> []"
    and mig: "EqualFold (env_unicode (main_world S)) (envOr (os_Getenv S) ''MIGRATE_ON_START'' ''true'') ''false'' \<or>
      migrateUp S (os_Getenv S ''DATABASE_URL'') (proc_mig p) = (Inr (), proc_mig p1)" by blast
  from main_serve_Serving [OF serve] obtain signer du where signer: "NewFromEnv (main_files S) (os_Getenv S) = Inr signer"
    "keys = Signer_KeySet signer" and du: "demoUsersFromEnv (json_Unmarshal S) (os_Getenv S) = Inr du" and same: "proc_mig p' = proc_mig p1"
    and calls: "pgxpool_New S (os_Getenv S ''DATABASE_URL'') = None" "transport_FromEnv S = None" "net_Listen S a = None"
    and svc: "svc = deployed (main_world S) (main_jwt S) signer (main_openfeature S)
      (main_refreshed S (flags_NewFromEnv (env_unicode (main_world S)) (main_openfeature S) (os_Getenv S))) du (os_Getenv S)"
    by blast
  have "pending_sources (main_goose S) (mw_cat (proc_mig p1)) = []"
    if "migrateUp S (os_Getenv S ''DATABASE_URL'') (proc_mig p) = (Inr (), proc_mig p1)"
    using that Up_run [OF assms(2)] by (auto simp: migrateUp_def Open_def run split: sum.splits option.splits)
  moreover have "if svc_demoMode svc then os_Getenv S ''DEPLOYMENT_ENVIRONMENT'' = ''dev'' else svc_demoUsers svc = []"
    using du by (auto simp: svc deployed_def main_service_def NewService_def main_deps_def demoUsersFromEnv_def split: if_splits)
  ultimately show ?thesis using dsn mig signer same calls NewFromEnv_key(2) by auto
qed

section \<open>A start\<close>

text \<open>Files with one key pair, and an environment that names them and a database.\<close>

definition demo_files :: key_files where
  "demo_files =
     \<lparr>ReadFile = (\<lambda>path. Inr ''pem''), pem_Decode = Some, ParsePKCS8PrivateKey = (\<lambda>block. Inr (Some demo_key)),
      ParsePKCS1PrivateKey = (\<lambda>block. Inl PanicError), rsa_Validate = (\<lambda>key. None),
      ParsePKIXPublicKey = (\<lambda>block. Inr (Some (rsa_public_of demo_key))), ParsePKCS1PublicKey = (\<lambda>block. Inl PanicError),
      Glob_pem = (\<lambda>dir. Inr [''keys/k1.pem''])\<rparr>"

definition demo_getenv :: "string \<Rightarrow> string" where
  "demo_getenv k =
     (if k = ''DATABASE_URL'' then ''postgres://db'' else if k = ''JWT_PRIVATE_KEY_FILE'' then ''k''
      else if k = ''JWT_ACTIVE_KEY_ID'' then ''k1'' else if k = ''JWT_PUBLIC_KEYS_DIR'' then ''keys'' else [])"

definition demo_main :: main_env where
  "demo_main =
     \<lparr>os_Getenv = demo_getenv, os_Args = [''auth''], observability_Configure = None, main_goose = demo_goose,
      pgxpool_New = (\<lambda>dsn. None), main_files = demo_files,
      observability_GRPCDialOptions = [], observability_InternalAuthDialOption = ''internal auth'', grpc_NewClient = (\<lambda>addr opts. None),
      json_Unmarshal = (\<lambda>raw. Inl PanicError), transport_FromEnv = None, main_openfeature = demo_openfeature,
      main_refreshed = (\<lambda>e t. e), net_Listen = (\<lambda>addr. None), main_world = demo_env, main_jwt = demo_jwt\<rparr>"

definition demo_process :: process where
  "demo_process = \<lparr>proc_mig = \<lparr>mw_cat = \<lparr>cat_goose = None, cat_legacy = None, cat_schema = no_schema\<rparr>, mw_tick = 0\<rparr>,
     proc_world = start_world [] 0\<rparr>"

lemma demo_NewFromEnv: "NewFromEnv demo_files demo_getenv = Inr demo_signer"
proof -
  have t: "TrimSpace ''k'' = ''k''" "TrimSpace ''k1'' = ''k1''" "TrimSpace ''keys'' = ''keys''" "TrimSpace ''keys/k1.pem'' = ''keys/k1.pem''"
    "TrimSuffix (path_Base ''keys/k1.pem'') (path_Ext ''keys/k1.pem'') = ''k1''" by code_simp+
  have "\<not> BitLen (2 ^ 2047) < Suc 2047" unfolding BitLen_less by simp
  then have "\<not> BitLen (2 ^ 2047) < 2048" by simp
  then show ?thesis
    by (simp add: NewFromEnv_def LoadRSAPrivateKey_def LoadKeySet_def LoadRSAPublicKey_def demo_files_def demo_getenv_def t Let_def
        demo_key_def rsa_public_of_def demo_signer_def demo_keys_def)
qed

lemma demo_migrates: "\<exists>w. migrateUp demo_main dsn (proc_mig demo_process) = (Inr (), w)"
proof -
  have "adopted demo_goose (mw_cat (proc_mig demo_process)) = mw_cat (proc_mig demo_process)"
    by (simp add: adopted_def demo_process_def)
  moreover have "run_ups (filter (\<lambda>m. \<not> is_applied (mig_Version m) (versions (mw_cat (proc_mig demo_process)))) migrations)
      (cat_schema (mw_cat (proc_mig demo_process))) = Inr (after 9)" by code_simp
  ultimately obtain ss w where "Migrator_Up demo_goose (proc_mig demo_process) = (Inr ss, w)"
    using demo_Migrator_Up [of "proc_mig demo_process"] by blast
  then show ?thesis by (simp add: migrateUp_def Open_def demo_main_def demo_goose_def bindE_def ret_def)
qed

definition demo_served :: "world Service" where
  "demo_served = deployed demo_env demo_jwt demo_signer demo_openfeature
     (\<lambda>t. flags_NewFromEnv (env_unicode demo_env) demo_openfeature demo_getenv) [] demo_getenv"

lemma demo_serves:
  "\<exists>p'. main demo_main demo_process = (Serving demo_served demo_keys '':10010'' '':10011'', p')"
proof -
  obtain w where up: "migrateUp demo_main ''postgres://db'' (proc_mig demo_process) = (Inr (), w)" using demo_migrates by blast
  have f: "\<not> EqualFold (env_unicode demo_env) ''true'' ''false''"
  proof -
    have "list_all is_ascii ''true''" "list_all is_ascii ''false''" "map ascii_lower ''true'' \<noteq> map ascii_lower ''false''" by code_simp+
    then show ?thesis unfolding EqualFold_def by (simp only: simp_thms if_True)
  qed
  have seed: "Service_SeedDemoUsers U demo_served w = (Inr (), w)" for U w
    by (simp add: Service_SeedDemoUsers_def demo_served_def deployed_def main_service_def NewService_def main_deps_def demo_getenv_def ret_def)
  have env: "envOr demo_getenv ''MIGRATE_ON_START'' ''true'' = ''true''" "demo_getenv ''DATABASE_URL'' = ''postgres://db''"
    "envOr demo_getenv ''GRPC_PORT'' ''10010'' = ''10010''" "envOr demo_getenv ''HEALTH_PORT'' ''10011'' = ''10011''"
    "demo_getenv ''JWT_PRIVATE_KEY_FILE'' \<noteq> []" "demo_getenv ''JWT_ACTIVE_KEY_ID'' \<noteq> []" "demo_getenv ''JWT_PUBLIC_KEYS_DIR'' \<noteq> []"
    "demo_getenv ''DEMO_MODE'' \<noteq> ''true''"
    by (simp_all add: envOr_def demo_getenv_def)
  have S: "os_Getenv demo_main = demo_getenv" "main_world demo_main = demo_env" "main_files demo_main = demo_files"
    "main_openfeature demo_main = demo_openfeature" "main_jwt demo_main = demo_jwt" "main_refreshed demo_main = (\<lambda>e t. e)"
    "os_Args demo_main = [''auth'']" "observability_Configure demo_main = None" "pgxpool_New demo_main = (\<lambda>dsn. None)"
    "grpc_NewClient demo_main = (\<lambda>addr opts. None)" "transport_FromEnv demo_main = None" "net_Listen demo_main = (\<lambda>addr. None)"
    by (simp_all add: demo_main_def)
  have serve: "main_serve demo_main ''postgres://db'' p = (Inl (Serving demo_served demo_keys '':10010'' '':10011''), p)" for p
    unfolding main_serve_def S Let_def
    using seed [unfolded demo_served_def]
    by (simp add: andThen_def orExit_def proceed_def stop_def env demo_NewFromEnv demoUsersFromEnv_def callExit_def on_world_def NewClient_def
        serverOptions_def Signer_KeySet_def demo_signer_def demo_served_def)
  show ?thesis
    unfolding main_def main_steps_def S Let_def env
    using f up serve by (simp add: andThen_def proceed_def callExit_def on_mig_def orExit_def)
qed

text \<open>Witness of C20: a start on an empty database.\<close>

theorem startup_fails_closed_witness:
  "\<exists>p'. main demo_main demo_process = (Serving demo_served demo_keys '':10010'' '':10011'', p') \<and>
     (EqualFold (env_unicode demo_env) (envOr demo_getenv ''MIGRATE_ON_START'' ''true'') ''false'' \<or>
      pending_sources demo_goose (mw_cat (proc_mig p')) = [])"
proof -
  obtain p' where m: "main demo_main demo_process = (Serving demo_served demo_keys '':10010'' '':10011'', p')"
    using demo_serves by blast
  moreover have "goose_laws (main_goose demo_main)" using demo_goose_laws by (simp add: demo_main_def)
  ultimately show ?thesis
    using startup_fails_closed [OF m] by (auto simp: demo_main_def)
qed

text \<open>
  C33. A started service accepts its own tokens: whatever access token the signer of the service that \<open>main\<close>
  serves makes for a subject and an organization, the key set of its interceptor verifies until it expires, with that
  subject and organization; an active key that does not match its public key keeps the service from starting.
\<close>

theorem served_tokens_verify:
  assumes "main S p = (Serving svc keys a h, p')" and "jwt_laws (main_jwt S)" and "uuid_laws (main_world S)"
    and "svc_signer svc = Some port" and "signer_SignAccessTokenWithOrg port subject orgID expires w = (Inr raw, w')"
    and "list_all is_ascii (TrimSpace (os_Getenv S ''JWT_ACTIVE_KEY_ID''))" and "list_all is_ascii (TrimSpace subject)"
    and "app_clock (main_world S) (w_tick w) \<le> now" and "now < NewNumericDate expires"
  shows "\<exists>c. ParseAccessToken (main_jwt S) now raw keys = Inr c \<and> claims_Subject c = TrimSpace subject \<and>
             (if TrimSpace orgID = [] then OrganizationID (main_world S) c = None
              else \<exists>u. uuid_Parse (main_world S) (TrimSpace orgID) = Inr u \<and> OrganizationID (main_world S) c = Some u)"
proof -
  from main_Serving [OF assms(1)] main_serve_Serving obtain signer du where signer: "NewFromEnv (main_files S) (os_Getenv S) = Inr signer"
    "keys = Signer_KeySet signer" and svc: "svc = deployed (main_world S) (main_jwt S) signer (main_openfeature S)
      (main_refreshed S (flags_NewFromEnv (env_unicode (main_world S)) (main_openfeature S) (os_Getenv S))) du (os_Getenv S)"
    by blast
  have "SignAccessTokenWithOrg (main_world S) (main_jwt S) (Some (signer_key signer)) (signer_keyID signer) subject orgID expires w = (Inr raw, w')"
    using assms(4,5) by (auto simp: svc Signer_SignAccessTokenWithOrg_def)
  then show ?thesis
    using assms(2,3,6-9) NewFromEnv_key [OF signer(1)] signer(2)
    by (intro ParseAccessToken_issued [where key = "signer_key signer" and keyID = "signer_keyID signer"]) simp_all
qed

text \<open>Witness of C33: a token for the demo subject, half an hour after it was signed.\<close>

theorem served_tokens_verify_witness:
  "\<exists>c. ParseAccessToken demo_jwt (demo_start + 30 * Minute) ''t'' demo_keys = Inr c \<and> claims_Subject c = TrimSpace ''u1'' \<and>
       (if TrimSpace (uuid_text 7) = [] then OrganizationID demo_env c = None
        else \<exists>u. uuid_Parse demo_env (TrimSpace (uuid_text 7)) = Inr u \<and> OrganizationID demo_env c = Some u)"
proof -
  obtain p' where m: "main demo_main demo_process = (Serving demo_served demo_keys '':10010'' '':10011'', p')" using demo_serves by blast
  have S: "main_jwt demo_main = demo_jwt" "main_world demo_main = demo_env" "os_Getenv demo_main ''JWT_ACTIVE_KEY_ID'' = ''k1''"
    by (simp_all add: demo_main_def demo_getenv_def)
  have ascii: "list_all is_ascii (TrimSpace ''k1'')" "list_all is_ascii (TrimSpace ''u1'')" by code_simp+
  have time: "app_clock demo_env (w_tick (start_world [] 0)) \<le> demo_start + 30 * Minute"
    "demo_start + 30 * Minute < NewNumericDate (demo_start + Hour)"
    unfolding NewNumericDate_demo by (simp_all add: start_world_def Hour_def Minute_def Second_def)
  have sign: "signer_SignAccessTokenWithOrg \<lparr>signer_SignAccessToken = Signer_SignAccessToken demo_env demo_jwt demo_signer,
      signer_SignAccessTokenWithOrg = Signer_SignAccessTokenWithOrg demo_env demo_jwt demo_signer\<rparr> ''u1'' (uuid_text 7) (demo_start + Hour)
      (start_world [] 0) = (Inr ''t'', start_world [] (Suc 0))"
    using demo_sign by (simp add: Signer_SignAccessTokenWithOrg_def demo_signer_def)
  have port: "svc_signer demo_served = Some \<lparr>signer_SignAccessToken = Signer_SignAccessToken demo_env demo_jwt demo_signer,
      signer_SignAccessTokenWithOrg = Signer_SignAccessTokenWithOrg demo_env demo_jwt demo_signer\<rparr>" by (simp add: demo_served_def)
  show ?thesis
    using served_tokens_verify [OF m _ _ port sign, unfolded S] demo_jwt_laws demo_laws(1) ascii time by blast
qed

end
