(* ===== verification/Roster.thy ===== *)
theory Roster
  imports OrgInvariant DemoEnv
begin

text \<open>
  What the membership methods of the store promise, without tables, transactions and events: a roster
  gives every organization and user a status or none, and the three operations change one entry, under
  the rule that an organization keeps an active member. The methods are shown to implement it.
\<close>

section \<open>The specification\<close>

type_synonym roster = "uuid \<Rightarrow> uuid \<Rightarrow> MembershipStatus option"

datatype roster_op =
    RosterAdd uuid uuid MembershipStatus
  | RosterUpdate uuid uuid MembershipStatus
  | RosterRemove uuid uuid

definition set_entry :: "uuid \<Rightarrow> uuid \<Rightarrow> MembershipStatus option \<Rightarrow> roster \<Rightarrow> roster" where
  "set_entry g u s R = R(g := (R g)(u := s))"

definition sole_active :: "roster \<Rightarrow> uuid \<Rightarrow> uuid \<Rightarrow> bool" where
  "sole_active R g u \<longleftrightarrow> R g u = Some MembershipActive \<and> (\<forall>v. R g v = Some MembershipActive \<longrightarrow> v = u)"

fun roster_step :: "roster_op \<Rightarrow> roster \<Rightarrow> gerr + roster" where
  "roster_step (RosterAdd g u s) R = Inr (if R g u = None then set_entry g u (Some s) R else R)"
| "roster_step (RosterUpdate g u s) R =
     (if R g u = None then Inl ErrNotMember
      else if s \<noteq> MembershipActive \<and> sole_active R g u then Inl ErrLastActiveMember
      else Inr (set_entry g u (Some s) R))"
| "roster_step (RosterRemove g u) R =
     (if R g u = None then Inl ErrNotMember
      else if sole_active R g u then Inl ErrLastActiveMember
      else Inr (set_entry g u None R))"

section \<open>The tables as a roster\<close>

definition roster :: "db \<Rightarrow> roster" where
  "roster d g u = map_option m_Status (find (is_member g u) (memberships d))"

fun roster_call :: "env \<Rightarrow> roster_op \<Rightarrow> (world, unit) M" where
  "roster_call E (RosterAdd g u s) = Store_AddMember E (uuid_text g) (uuid_text u) s"
| "roster_call E (RosterUpdate g u s) = Store_UpdateMemberStatus E (uuid_text g) (uuid_text u) s"
| "roster_call E (RosterRemove g u) = Store_RemoveMember E (uuid_text g) (uuid_text u)"

lemma roster_upto_outbox: "upto_outbox d d' \<Longrightarrow> roster d' = roster d"
  by (simp add: roster_def fun_eq_iff upto_outbox_fields)

lemma roster_row:
  assumes "schema_ok E d" and "r \<in> set (memberships d)" and "is_member g u r"
  shows "roster d g u = Some (m_Status r)"
proof -
  from assms(2,3) obtain r' where r': "find (is_member g u) (memberships d) = Some r'"
    by (cases "find (is_member g u) (memberships d)") (auto simp: find_None_iff)
  then have "r' \<in> set (memberships d)" "is_member g u r'" by (auto simp: find_Some_iff)
  then show ?thesis using unique_member [OF assms(1,2) _ assms(3)] r' by (simp add: roster_def)
qed

lemma roster_None: "roster d g u = None \<longleftrightarrow> (\<forall>m \<in> set (memberships d). \<not> is_member g u m)"
  by (auto simp: roster_def find_None_iff)

lemma roster_Some: "roster d g u = Some s \<Longrightarrow> \<exists>m \<in> set (memberships d). is_member g u m \<and> m_Status m = s"
  by (auto simp: roster_def find_Some_iff)

lemma other_active:
  assumes "schema_ok E d" and "\<not> length (filter (\<lambda>m. m_OrgID m = g \<and> m_Status m = ''active'') (memberships d)) \<le> Suc 0"
  shows "\<not> sole_active (roster d) g u"
proof -
  have "distinct (map (\<lambda>m. (m_OrgID m, m_UserID m)) (memberships d))" using assms(1) by (simp add: schema_ok_def members_ok_def)
  from two_active [OF this assms(2), of u] obtain m where m: "m \<in> set (memberships d)" "m_OrgID m = g" "m_Status m = ''active''" "m_UserID m \<noteq> u"
    by blast
  then have "roster d g (m_UserID m) = Some ''active''" using roster_row [OF assms(1) m(1), of g "m_UserID m"] by (simp add: is_member_def)
  then show ?thesis using m(4) by (auto simp: sole_active_def MembershipActive_def)
qed

lemma find_update:
  "find (is_member g u) (map (\<lambda>m. if is_member g' u' m then m\<lparr>m_Status := s, m_UpdatedAt := t\<rparr> else m) ms) =
     map_option (\<lambda>m. if is_member g' u' m then m\<lparr>m_Status := s, m_UpdatedAt := t\<rparr> else m) (find (is_member g u) ms)"
  unfolding is_member_def [abs_def] by (induction ms) auto

lemma find_delete:
  "find (is_member g u) (filter (\<lambda>m. \<not> is_member g' u' m) ms) = (if g = g' \<and> u = u' then None else find (is_member g u) ms)"
  unfolding is_member_def [abs_def] by (induction ms) auto

lemma find_is_member: "find (is_member g u) ms = Some m \<Longrightarrow> is_member g' u' m \<longleftrightarrow> g' = g \<and> u' = u"
  by (auto simp: find_Some_iff is_member_def)

section \<open>Each transaction takes a step of the roster\<close>

lemma roster_update:
  assumes "memberships d' = map (\<lambda>m. if is_member g u m then m\<lparr>m_Status := s, m_UpdatedAt := t\<rparr> else m) (memberships d)"
    and "roster d g u \<noteq> None"
  shows "roster d' = set_entry g u (Some s) (roster d)"
proof (intro ext)
  fix h v
  show "roster d' h v = set_entry g u (Some s) (roster d) h v"
    using assms(2) find_is_member [of h v "memberships d" _ g u]
    unfolding roster_def assms(1) find_update set_entry_def fun_upd_def
    by (cases "find (is_member h v) (memberships d)") auto
qed

lemma roster_delete:
  assumes "memberships d' = filter (\<lambda>m. \<not> is_member g u m) (memberships d)"
  shows "roster d' = set_entry g u None (roster d)"
  unfolding roster_def assms find_delete set_entry_def by (auto simp: fun_eq_iff)

lemma roster_insert:
  assumes "memberships d' = memberships d @ [r]" and "roster d g u = None" and "is_member g u r"
  shows "roster d' = set_entry g u (Some (m_Status r)) (roster d)"
proof (intro ext)
  fix h v
  have "find p (xs @ [x]) = (case find p xs of None \<Rightarrow> if p x then Some x else None | Some y \<Rightarrow> Some y)" for p xs and x :: MemberRow
    by (induction xs) auto
  then show "roster d' h v = set_entry g u (Some (m_Status r)) (roster d) h v"
    using assms(2,3) unfolding roster_def assms(1) set_entry_def fun_upd_def by (auto simp: is_member_def split: option.splits)
qed

lemma add_step:
  assumes "yields (add_member_tx E orgID userID s g u) d x d'"
  shows "roster_step (RosterAdd g u s) (roster d) = Inr (roster d')"
proof -
  from assms consider (old) "roster d g u \<noteq> None" "d' = d"
    | (new) now rank d1 where "q_AddOrganizationMembership g u s now rank d = Inr ((), d1)" "upto_outbox d1 d'"
    unfolding add_member_tx_def
    by (force simp: roster_None dest!: yieldD yields_case_sum yields_if breaks_getMembership)
  then show ?thesis
  proof cases
    case (new now rank d1)
    then show ?thesis
      using roster_upto_outbox [OF new(2)] roster_insert [of d1 d "\<lparr>m_OrgID = g, m_UserID = u, m_Status = s, m_CreatedAt = now, m_UpdatedAt = now\<rparr>" g u]
      by (auto simp: q_AddOrganizationMembership_def affected_Inr insert_member_Inr roster_None is_member_def split: if_splits)
  qed auto
qed

lemma update_step:
  assumes ok: "schema_ok E d" and run: "yields (update_member_tx E orgID userID s g u) d x d'"
  shows "roster_step (RosterUpdate g u s) (roster d) = Inr (roster d')"
proof -
  from run obtain r now rank d1 where r: "r \<in> set (memberships d)" "is_member g u r"
    and two: "s \<noteq> ''active'' \<and> m_Status r = ''active'' \<longrightarrow>
       \<not> length (filter (\<lambda>m. m_OrgID m = g \<and> m_Status m = ''active'') (memberships d)) \<le> Suc 0"
    and upd: "q_UpdateOrganizationMembershipStatus s g u now rank d = Inr ((), d1)" and d': "upto_outbox d1 d'"
    unfolding update_member_tx_def
    by (clarsimp simp: membership_defs dest!: yields_guard yields_emit_when yieldD)
  have row: "roster d g u = Some (m_Status r)" by (rule roster_row [OF ok r])
  have "\<not> (s \<noteq> MembershipActive \<and> sole_active (roster d) g u)"
    using two other_active [OF ok] row by (auto simp: sole_active_def MembershipActive_def)
  moreover have "roster d' = set_entry g u (Some s) (roster d)"
    using upd row roster_upto_outbox [OF d'] roster_update [where d' = d1 and d = d and g = g and u = u and s = s and t = now]
    by (auto simp: q_UpdateOrganizationMembershipStatus_def split: if_splits)
  ultimately show ?thesis using row by simp
qed

lemma remove_step:
  assumes ok: "schema_ok E d" and run: "yields (remove_member_tx E orgID userID g u) d x d'"
  shows "roster_step (RosterRemove g u) (roster d) = Inr (roster d')"
proof -
  from run obtain r now rank d1 where r: "r \<in> set (memberships d)" "is_member g u r"
    and two: "m_Status r = ''active'' \<longrightarrow>
       \<not> length (filter (\<lambda>m. m_OrgID m = g \<and> m_Status m = ''active'') (memberships d)) \<le> Suc 0"
    and del: "q_DeleteOrganizationMembership g u now rank d = Inr ((), d1)" and d': "upto_outbox d1 d'"
    unfolding remove_member_tx_def
    by (clarsimp simp: membership_defs dest!: yields_guard yields_emit_when yieldD)
  have row: "roster d g u = Some (m_Status r)" by (rule roster_row [OF ok r])
  have "\<not> sole_active (roster d) g u" using two other_active [OF ok] row by (auto simp: sole_active_def MembershipActive_def)
  moreover have "roster d' = set_entry g u None (roster d)"
    using del roster_upto_outbox [OF d'] roster_delete [of d1 g u d] by (auto simp: q_DeleteOrganizationMembership_def)
  ultimately show ?thesis using row by simp
qed

text \<open>A call that parses its two IDs and runs a transaction leaves the tables alone or takes the step of the transaction.\<close>

lemma roster_tx:
  assumes call: "bindE (membershipIDs E (uuid_text g) (uuid_text u)) (\<lambda>(org, user). in_tx E b (body org user)) w = (r, w')"
    and uuid: "uuid_laws E" and step: "\<And>x d'. yields (body g u) (w_db w) x d' \<Longrightarrow> P d' \<and> (\<exists>c v. x = Commit c v)"
  shows "P (w_db w') \<or> ((\<exists>e. r = Inl e) \<and> w_db w' = w_db w)"
proof -
  have tx: "in_tx E b (body g u) w = (r, w')"
    using call uuid by (simp add: membershipIDs_def parse_uuid_def uuid_laws_def)
  show ?thesis
  proof (cases r)
    case (Inl e)
    from tx show ?thesis
    proof (cases rule: in_tx_cases)
      case (committed w0 cmsg a w1)
      then have "yields (body g u) (w_db w) (Commit cmsg a) (w_db w1)" using yieldsI by metis
      then show ?thesis using step committed by simp
    qed (use Inl in simp)
  next
    case (Inr a)
    have "yields (in_tx E b (body g u)) (w_db w) a (w_db w')" by (rule yieldsI) (use tx Inr in simp)
    then show ?thesis using step by (fastforce dest!: yields_in_tx)
  qed
qed

lemma commits:
  "yields (add_member_tx E orgID userID s g u) d x d' \<Longrightarrow> \<exists>c v. x = Commit c v"
  "yields (update_member_tx E orgID userID s g u) d x d' \<Longrightarrow> \<exists>c v. x = Commit c v"
  "yields (remove_member_tx E orgID userID g u) d x d' \<Longrightarrow> \<exists>c v. x = Commit c v"
  unfolding add_member_tx_def update_member_tx_def remove_member_tx_def
  by (force dest!: yieldD yields_case_sum yields_if)+

section \<open>Refusals\<close>

text \<open>A computation that does not end with \<open>ErrLastActiveMember\<close>.\<close>

definition unrefused :: "(world, 'a) M \<Rightarrow> bool" where
  "unrefused m \<longleftrightarrow> (\<forall>w w'. m w \<noteq> (Inl ErrLastActiveMember, w'))"

lemma unrefused_mapErr:
  "(\<And>e. h e \<noteq> ErrLastActiveMember) \<Longrightarrow> unrefused (mapErr h m)"
  "unrefused m \<Longrightarrow> unrefused (mapErr (\<lambda>err. if errors_Is err e then f else err) m)" if "f \<noteq> ErrLastActiveMember"
  using that by (auto simp: unrefused_def run split: if_splits) (metis that)+

lemma unrefused_intros:
  "unrefused (ret a)" "unrefused tick" "e \<noteq> ErrLastActiveMember \<Longrightarrow> unrefused (fail e)"
  "unrefused m \<Longrightarrow> (\<And>a. unrefused (f a)) \<Longrightarrow> unrefused (bindE m f)"
  "(\<And>now rank d. q now rank d \<noteq> Inl ErrLastActiveMember) \<Longrightarrow> unrefused (exec E q)"
  by (auto simp: unrefused_def run tick_def ret_def fail_def exec_def Let_def split: option.splits sum.splits if_splits)

lemma unrefused_emit: "unrefused (emitEvents E evs)"
  by (induction evs)
     (auto simp: emitEvents.simps Emit_def time_Now_def Let_def split: option.splits sum.splits intro!: unrefused_intros unrefused_mapErr(1))

lemma unrefused_store: "unrefused (lockOrganization E g)" "unrefused (getMembership E g u)" "unrefused (time_Now E)"
  "unrefused (exec E (q_UpdateOrganizationMembershipStatus s g u))" "unrefused (exec E (q_DeleteOrganizationMembership g u))"
  "unrefused (exec E (q_CountActiveOrganizationMembers g))"
  unfolding lockOrganization_def getMembership_def time_Now_def
  by (intro unrefused_intros unrefused_mapErr(2); simp add: q_LockOrganization_def q_GetOrganizationMembership_def one_def
      q_UpdateOrganizationMembershipStatus_def q_DeleteOrganizationMembership_def q_CountActiveOrganizationMembers_def check_violation_def
      split: list.splits)+

lemma guard_refuses:
  assumes "(if c then bindE (exec E (q_CountActiveOrganizationMembers g)) (\<lambda>count.
                               if count \<le> 1 then fail ErrLastActiveMember else ret ())
            else ret ()) w = (Inl ErrLastActiveMember, w')"
  shows "c \<and> length (filter (\<lambda>m. m_OrgID m = g \<and> m_Status m = ''active'') (memberships (w_db w))) \<le> Suc 0"
  using assms unrefused_store(6) [of E g]
  by (auto simp: run q_CountActiveOrganizationMembers_def unrefused_def split: if_splits)

lemma sole_activeI:
  assumes ok: "schema_ok E d" and few: "length (filter (\<lambda>m. m_OrgID m = g \<and> m_Status m = ''active'') (memberships d)) \<le> Suc 0"
    and row: "roster d g u = Some ''active''"
  shows "sole_active (roster d) g u"
  unfolding sole_active_def MembershipActive_def
proof (intro conjI allI impI row)
  let ?fs = "filter (\<lambda>m. m_OrgID m = g \<and> m_Status m = ''active'') (memberships d)"
  fix v assume "roster d g v = Some ''active''"
  with row obtain m m' where m: "m \<in> set ?fs" "m' \<in> set ?fs" "m_UserID m = u" "m_UserID m' = v"
    by (auto simp: is_member_def dest!: roster_Some)
  moreover from few have "?fs = [] \<or> (\<exists>x. ?fs = [x])" by (cases ?fs) auto
  ultimately show "v = u" by (elim disjE exE) (simp_all only: list.set empty_iff insert_iff, auto)
qed

lemma unrefused_bind:
  assumes "bindE m f w = (Inl ErrLastActiveMember, w')" and "unrefused m"
  obtains a w1 where "m w = (Inr a, w1)" and "f a w1 = (Inl ErrLastActiveMember, w')"
  using assms by (auto simp: unrefused_def run)

lemma refused_prefix:
  assumes "bindE (lockOrganization E g) (\<lambda>_. bindE (getMembership E g u) (\<lambda>current.
             bindE (if P (Membership_Status current) then bindE (exec E (q_CountActiveOrganizationMembers g)) (\<lambda>count.
                      if count \<le> 1 then fail ErrLastActiveMember else ret ()) else ret ()) (\<lambda>_. rest current))) w
           = (Inl ErrLastActiveMember, w')"
    and rest: "\<And>c. unrefused (rest c)" and ok: "schema_ok E (w_db w)" and P: "\<And>s. P s \<Longrightarrow> s = ''active''"
  shows "sole_active (roster (w_db w)) g u \<and> P ''active''"
proof -
  from assms(1) obtain a w1 where 1: "lockOrganization E g w = (Inr a, w1)" and "bindE (getMembership E g u) (\<lambda>current.
             bindE (if P (Membership_Status current) then bindE (exec E (q_CountActiveOrganizationMembers g)) (\<lambda>count.
                      if count \<le> 1 then fail ErrLastActiveMember else ret ()) else ret ()) (\<lambda>_. rest current)) w1
           = (Inl ErrLastActiveMember, w')"
    using unrefused_store(1) by (rule unrefused_bind)
  then obtain c w2 where 2: "getMembership E g u w1 = (Inr c, w2)" and guard:
      "bindE (if P (Membership_Status c) then bindE (exec E (q_CountActiveOrganizationMembers g)) (\<lambda>count.
                      if count \<le> 1 then fail ErrLastActiveMember else ret ()) else ret ()) (\<lambda>_. rest c) w2
           = (Inl ErrLastActiveMember, w')"
    using unrefused_store(2) by (auto elim: unrefused_bind)
  have "yields (lockOrganization E g) (w_db w) a (w_db w1)" "yields (getMembership E g u) (w_db w1) c (w_db w2)"
    by (rule yieldsI, rule 1) (rule yieldsI, rule 2)
  then obtain r where r: "w_db w2 = w_db w" "r \<in> set (memberships (w_db w))" "is_member g u r" "Membership_Status c = m_Status r"
    by (auto simp: membership_defs dest!: yieldD)
  from guard rest have "P (m_Status r) \<and> length (filter (\<lambda>m. m_OrgID m = g \<and> m_Status m = ''active'') (memberships (w_db w))) \<le> Suc 0"
    unfolding run_bindE_Inl by (auto simp: r unrefused_def dest!: guard_refuses)
  then show ?thesis using P roster_row [OF ok r(2,3)] sole_activeI [OF ok] by force
qed

lemma refusal_justified:
  assumes ok: "schema_ok E (w_db w)"
  shows "update_member_tx E orgID userID s g u w = (Inl ErrLastActiveMember, w') \<Longrightarrow>
           roster_step (RosterUpdate g u s) (roster (w_db w)) = Inl ErrLastActiveMember"
    and "remove_member_tx E orgID userID g u w = (Inl ErrLastActiveMember, w') \<Longrightarrow>
           roster_step (RosterRemove g u) (roster (w_db w)) = Inl ErrLastActiveMember"
proof -
  assume "update_member_tx E orgID userID s g u w = (Inl ErrLastActiveMember, w')"
  then have "sole_active (roster (w_db w)) g u \<and> s \<noteq> MembershipActive \<and> ''active'' = MembershipActive"
    unfolding update_member_tx_def
    by (rule refused_prefix [where P = "\<lambda>st. s \<noteq> MembershipActive \<and> st = MembershipActive"])
       (auto simp: ok MembershipActive_def intro!: unrefused_intros unrefused_store unrefused_emit)
  then show "roster_step (RosterUpdate g u s) (roster (w_db w)) = Inl ErrLastActiveMember" by (auto simp: sole_active_def)
next
  assume "remove_member_tx E orgID userID g u w = (Inl ErrLastActiveMember, w')"
  then have "sole_active (roster (w_db w)) g u \<and> ''active'' = MembershipActive"
    unfolding remove_member_tx_def
    by (rule refused_prefix [where P = "\<lambda>st. st = MembershipActive"])
       (auto simp: ok MembershipActive_def intro!: unrefused_intros unrefused_store unrefused_emit)
  then show "roster_step (RosterRemove g u) (roster (w_db w)) = Inl ErrLastActiveMember" by (auto simp: sole_active_def)
qed

lemma in_tx_refused:
  assumes "in_tx E b body w = (Inl ErrLastActiveMember, w')"
  obtains w0 w1 where "w_db w0 = w_db w" and "body w0 = (Inl ErrLastActiveMember, w1)"
proof -
  let ?w0 = "w\<lparr>w_tick := Suc (w_tick w), w_tx := Some (db_clock E (w_tick w))\<rparr>"
  obtain x w1 where b: "body ?w0 = (x, w1)" by fastforce
  have "x = Inl ErrLastActiveMember"
    using assms b by (cases x; cases "projr x") (auto simp: in_tx_def Let_def split: option.splits if_splits)
  with b that [of ?w0] show ?thesis by simp
qed

lemma unrefused_try:
  assumes "unrefused m" and "\<And>e. e \<noteq> ErrLastActiveMember \<Longrightarrow> unrefused (f (Inl e))" and "\<And>a. unrefused (f (Inr a))"
  shows "unrefused (bindE (tryE m) f)"
  unfolding unrefused_def
proof (intro allI notI)
  fix w w' assume "bindE (tryE m) f w = (Inl ErrLastActiveMember, w')"
  then obtain x w1 where x: "m w = (x, w1)" "f x w1 = (Inl ErrLastActiveMember, w')" by (auto simp: run)
  show False
  proof (cases x)
    case (Inl e)
    then show ?thesis using x assms(1) assms(2) [of e] by (cases "e = ErrLastActiveMember") (auto simp: unrefused_def)
  qed (use x assms(3) in \<open>auto simp: unrefused_def\<close>)
qed

lemma unrefused_insert: "q_AddOrganizationMembership g u s now rank d \<noteq> Inl ErrLastActiveMember"
  by (simp add: q_AddOrganizationMembership_def affected_def insert_member_def check_violation_def foreign_key_violation_def)

lemma unrefused_add: "unrefused (add_member_tx E orgID userID s g u)"
  unfolding add_member_tx_def
  by (intro unrefused_intros(4) unrefused_try unrefused_store(1,2); simp only: sum.case split: if_splits;
      intro conjI impI unrefused_intros unrefused_store(3) unrefused_emit unrefused_insert; assumption)

section \<open>The methods implement the specification\<close>

lemma roster_call_steps:
  assumes "uuid_laws E" and "schema_ok E (w_db w)" and "roster_call E op w = (r, w')"
  shows "roster_step op (roster (w_db w)) = Inr (roster (w_db w')) \<or> ((\<exists>e. r = Inl e) \<and> w_db w' = w_db w)"
  using assms(3)
proof (cases op)
  case (RosterAdd g u s)
  show ?thesis
    using assms(3) unfolding RosterAdd roster_call.simps Store_AddMember_def
    by (rule roster_tx [OF _ assms(1)]) (use add_step commits(1) in blast)
next
  case (RosterUpdate g u s)
  show ?thesis
    using assms(3) unfolding RosterUpdate roster_call.simps Store_UpdateMemberStatus_def
    by (rule roster_tx [OF _ assms(1)]) (use update_step [OF assms(2)] commits(2) in blast)
next
  case (RosterRemove g u)
  show ?thesis
    using assms(3) unfolding RosterRemove roster_call.simps Store_RemoveMember_def
    by (rule roster_tx [OF _ assms(1)]) (use remove_step [OF assms(2)] commits(3) in blast)
qed

lemma roster_call_refusals:
  assumes "uuid_laws E" and "schema_ok E (w_db w)" and "roster_call E op w = (r, w')" and "r = Inl ErrLastActiveMember"
  shows "roster_step op (roster (w_db w)) = Inl ErrLastActiveMember"
proof -
  have ids: "membershipIDs E (uuid_text g) (uuid_text u) = ret (g, u)" for g u
    using assms(1) by (simp add: membershipIDs_def parse_uuid_def uuid_laws_def)
  show ?thesis
  proof (cases op)
    case (RosterAdd g u s)
    with assms(3,4) have "in_tx E ''postgres: begin add membership: %w'' (add_member_tx E (uuid_text g) (uuid_text u) s g u) w =
        (Inl ErrLastActiveMember, w')"
      by (simp add: Store_AddMember_def ids)
    then show ?thesis using unrefused_add by (auto simp: unrefused_def elim: in_tx_refused)
  next
    case (RosterUpdate g u s)
    with assms(3,4) have "in_tx E ''postgres: begin update membership: %w'' (update_member_tx E (uuid_text g) (uuid_text u) s g u) w =
        (Inl ErrLastActiveMember, w')"
      by (simp add: Store_UpdateMemberStatus_def ids)
    then show ?thesis unfolding RosterUpdate by (rule in_tx_refused) (use refusal_justified(1) assms(2) in metis)
  next
    case (RosterRemove g u)
    with assms(3,4) have "in_tx E ''postgres: begin remove membership: %w'' (remove_member_tx E (uuid_text g) (uuid_text u) g u) w =
        (Inl ErrLastActiveMember, w')"
      by (simp add: Store_RemoveMember_def ids)
    then show ?thesis unfolding RosterRemove by (rule in_tx_refused) (use refusal_justified(2) assms(2) in metis)
  qed
qed

text \<open>
  C6. The membership methods of the store implement the roster: on tables that satisfy the schema, with any
  faults of the database, a call that returns has taken the step of the specification, which refuses to
  leave an organization without an active member; a call that fails has changed nothing, or has taken that step
  when only the acknowledgement of its commit was lost. In particular a step that the specification
  refuses changes nothing. Conversely \<open>ErrLastActiveMember\<close> is returned only where the specification refuses with it.
\<close>

theorem membership_calls_refine_roster:
  assumes "uuid_laws E" and "schema_ok E (w_db w)" and "roster_call E op w = (r, w')"
  shows "(roster_step op (roster (w_db w)) = Inr (roster (w_db w')) \<or> ((\<exists>e. r = Inl e) \<and> w_db w' = w_db w)) \<and>
         (r = Inl ErrLastActiveMember \<longrightarrow> roster_step op (roster (w_db w)) = Inl ErrLastActiveMember)"
  using roster_call_steps [OF assms] roster_call_refusals [OF assms] by blast

definition roster_world :: world where
  "roster_world = (start_world [] 0)\<lparr>w_db := (empty_db [])
     \<lparr>users := [new_user_row 1 demo_start], organizations := [\<lparr>o_ID = 9, o_Name = ''o'', o_CreatedAt = demo_start, o_UpdatedAt = demo_start\<rparr>],
      memberships := [\<lparr>m_OrgID = 9, m_UserID = 1, m_Status = MembershipActive, m_CreatedAt = demo_start, m_UpdatedAt = demo_start\<rparr>]\<rparr>\<rparr>"

lemma roster_world_refuses:
  "fst (roster_call demo_env (RosterRemove 9 1) roster_world) = Inl ErrLastActiveMember"
  using demo_laws(1)
  by (simp add: uuid_laws_def Store_RemoveMember_def remove_member_tx_def membershipIDs_def parse_uuid_def effect_defs in_tx_def
      Let_def exec_def demo_env_def lockOrganization_def q_LockOrganization_def getMembership_def q_GetOrganizationMembership_def one_def scan_def
      is_member_def q_CountActiveOrganizationMembers_def roster_world_def start_world_def empty_db_def MembershipActive_def membership_of_row_def membership_row_def)

text \<open>Witness of C6: the only active member of an organization cannot be removed.\<close>

theorem membership_calls_refine_roster_witness:
  "\<exists>w'. roster_call demo_env (RosterRemove 9 1) roster_world = (Inl ErrLastActiveMember, w') \<and> w_db w' = w_db roster_world \<and>
        roster_step (RosterRemove 9 1) (roster (w_db roster_world)) = Inl ErrLastActiveMember"
proof -
  obtain r w' where call: "roster_call demo_env (RosterRemove 9 1) roster_world = (r, w')" by fastforce
  have "schema_ok demo_env (w_db roster_world)"
    by (simp add: roster_world_def start_world_def empty_db_def schema_ok_def users_ok_def members_ok_def tokens_ok_def invites_ok_def
        uniq_def new_user_row_def membership_statuses_def MembershipActive_def)
  from membership_calls_refine_roster [OF demo_laws(1) this call] call roster_world_refuses show ?thesis by auto
qed

end
