(* ===== verification/Credentials.thy ===== *)
theory Credentials
  imports Sessions
begin

text \<open>
  API tokens of the deployed service: what a created token is worth until its owner revokes it.
\<close>

section \<open>The text of a token\<close>

definition token_text :: "string \<Rightarrow> string" where
  "token_text raw = APITokenScheme @ take APITokenPrefixLength raw @ ''.'' @ drop APITokenPrefixLength raw"

lemma secret_format:
  assumes "length b = 32" and "raw = EncodeRawURL b"
  shows "SplitN2 (TrimPrefix (TrimSpace (token_text raw)) APITokenScheme) (CHR ''.'') =
           [take APITokenPrefixLength raw, drop APITokenPrefixLength raw]"
    and "length (take APITokenPrefixLength raw) = APITokenPrefixLength" and "drop APITokenPrefixLength raw \<noteq> []"
proof -
  have len: "length raw = 43" using assms by (simp add: length_EncodeRawURL)
  have c: "visible c" "c \<noteq> CHR ''.''" if "c \<in> set raw" for c
    using set_b64_alphabet [OF set_EncodeRawURL] that assms(2) by auto
  have "list_all visible (token_text raw)"
    using c(1) by (auto simp: token_text_def APITokenScheme_def list_all_iff visible_def byte_def dest: in_set_takeD in_set_dropD)
  moreover have "\<forall>d \<in> set (take APITokenPrefixLength raw). d \<noteq> CHR ''.''" using c(2) by (auto dest: in_set_takeD)
  then have "takeWhile (\<lambda>d. d \<noteq> CHR ''.'') (take APITokenPrefixLength raw @ ''.'' @ x) = take APITokenPrefixLength raw"
    "dropWhile (\<lambda>d. d \<noteq> CHR ''.'') (take APITokenPrefixLength raw @ ''.'' @ x) = ''.'' @ x" for x
    by (simp_all add: takeWhile_append2 dropWhile_append2)
  ultimately show "SplitN2 (TrimPrefix (TrimSpace (token_text raw)) APITokenScheme) (CHR ''.'') =
           [take APITokenPrefixLength raw, drop APITokenPrefixLength raw]"
    by (simp add: TrimSpace_visible TrimPrefix_def has_prefix_def token_text_def SplitN2_def)
qed (use assms in \<open>simp_all add: length_EncodeRawURL APITokenPrefixLength_def\<close>)

text \<open>A row that a presented secret matches.\<close>

definition matches :: "env \<Rightarrow> string \<Rightarrow> ApiTokenRow \<Rightarrow> bool" where
  "matches E secret t \<longleftrightarrow>
     (case SplitN2 (TrimPrefix (TrimSpace secret) APITokenScheme) (CHR ''.'') of
        [prefix, rest] \<Rightarrow> t_Prefix t = prefix \<and> bcrypt_Compare E (t_TokenHash t) (prefix @ rest)
      | _ \<Rightarrow> False)"

section \<open>Creating\<close>

lemma yields_ask [yieldD]: "yields (ask f) d a d' \<Longrightarrow> d' = d \<and> (\<exists>t. f t = Inr a)"
  unfolding ask_def by (auto dest!: yieldD split: sum.splits)

lemma CreateApiToken_run:
  assumes "Service_CreateApiToken (deployed E J signer F ev du getenv) userID name scopes expiresAt w = (Inr (tokenID, prefix, secret), w')"
    and "uuid_laws E" and "rand_laws E"
  obtains b raw h k now i u sc where "length b = 32" and "raw = EncodeRawURL b" and "bcrypt_Generate E k raw = Inr h"
    and "tokenID = uuid_text i" and "prefix = take APITokenPrefixLength raw" and "secret = token_text raw"
    and "uuid_Parse E userID = Inr u" and "scopes = Some sc" and "i \<notin> t_ID ` set (api_tokens (w_db w))"
    and "api_tokens (w_db w') = api_tokens (w_db w) @
      [\<lparr>t_ID = i, t_UserID = u, t_Name = name, t_Prefix = prefix, t_TokenHash = h, t_Scopes = sc,
        t_ExpiresAt = map_option pg_ts expiresAt, t_RevokedAt = None, t_CreatedAt = now\<rparr>]"
proof -
  have "yields (Service_CreateApiToken (deployed E J signer F ev du getenv) userID name scopes expiresAt) (w_db w)
          (tokenID, prefix, secret) (w_db w')" by (rule yieldsI) (rule assms(1))
  then obtain b t k h i i' u now rank where b: "rand_Read E t = Inr b"
    and h: "bcrypt_Generate E k (EncodeRawURL b) = Inr h"
    and ids: "uuid_Parse E (uuid_String E i) = Inr i'" "uuid_Parse E userID = Inr u"
    and ins: "q_CreateAPIToken i' u name (take APITokenPrefixLength (EncodeRawURL b)) h scopes (timestamptzPtr expiresAt) now rank (w_db w) = Inr ((), w_db w')"
    and out: "tokenID = uuid_String E i" "prefix = take APITokenPrefixLength (EncodeRawURL b)" "secret = token_text (EncodeRawURL b)"
    by (auto simp: Service_CreateApiToken_def Let_def store_Tokens_def Store_Create_def Secrets_NewSecret_def Hasher_Hash_def
        Generator_NewID_def token_text_def split: if_splits dest!: yieldD)
  from ids have "i' = i" using assms(2) by (simp add: uuid_laws_def)
  then obtain sc where "scopes = Some sc" "i \<notin> t_ID ` set (api_tokens (w_db w))"
    "w_db w' = (w_db w)\<lparr>api_tokens := api_tokens (w_db w) @ [\<lparr>t_ID = i, t_UserID = u, t_Name = name, t_Prefix = prefix,
       t_TokenHash = h, t_Scopes = sc, t_ExpiresAt = map_option pg_ts expiresAt, t_RevokedAt = None, t_CreatedAt = now\<rparr>]\<rparr>"
    using ins out by (auto simp: q_CreateAPIToken_def timestamptzPtr_def split: option.splits if_splits)
  with that [OF _ refl h _ out(2,3) ids(2)] b out(1) assms(2,3) show ?thesis by (auto simp: rand_laws_def uuid_laws_def)
qed

section \<open>Validating\<close>

lemma FindByPrefix_run:
  assumes "Store_FindByPrefix E prefix w = (Inr t, w')"
  obtains r where "r \<in> set (api_tokens (w_db w))" and "t_Prefix r = prefix" and "t_RevokedAt r = None"
    and "APIToken_UserID t = uuid_text (t_UserID r)" and "APIToken_Scopes t = Some (t_Scopes r)" and "APIToken_TokenHash t = t_TokenHash r"
proof -
  have "yields (Store_FindByPrefix E prefix) (w_db w) t (w_db w')" by (rule yieldsI) (rule assms)
  then obtain r zs rank where t: "APIToken_UserID t = uuid_text (t_UserID r)" "APIToken_Scopes t = Some (t_Scopes r)"
      "APIToken_TokenHash t = t_TokenHash r"
    and r: "sort_key (\<lambda>t. - t_CreatedAt t) (filter (\<lambda>t. t_Prefix t = prefix \<and> t_RevokedAt t = None)
        (scan rank (api_tokens (w_db w)))) = r # zs"
    unfolding Store_FindByPrefix_def by (auto simp: q_FindAPITokenByPrefix_def stmt_inv dest!: yieldD)
  have "r \<in> set (r # zs)" by simp
  then have "r \<in> set (api_tokens (w_db w)) \<and> t_Prefix r = prefix \<and> t_RevokedAt r = None" unfolding r [symmetric] by simp
  then show ?thesis using t that by blast
qed

lemma Validate_split:
  "Service_ValidateApiToken s secret w = (Inr x, w') \<Longrightarrow>
     \<exists>prefix rest. SplitN2 (TrimPrefix (TrimSpace secret) APITokenScheme) (CHR ''.'') = [prefix, rest]"
  by (auto simp: Service_ValidateApiToken_def Let_def fail_def split: list.splits)

lemma Validate_sound:
  assumes "Service_ValidateApiToken (deployed E J signer F ev du getenv) secret w = (Inr (u, sc), w')"
  shows "\<exists>t \<in> set (api_tokens (w_db w)). t_RevokedAt t = None \<and> matches E secret t \<and> u = uuid_text (t_UserID t) \<and> sc = Some (t_Scopes t)"
proof -
  obtain prefix rest where split: "SplitN2 (TrimPrefix (TrimSpace secret) APITokenScheme) (CHR ''.'') = [prefix, rest]"
    using Validate_split [OF assms] by blast
  then obtain t w1 where find: "Store_FindByPrefix E prefix w = (Inr t, w1)"
    and t: "u = APIToken_UserID t" "sc = APIToken_Scopes t" "bcrypt_Compare E (APIToken_TokenHash t) (prefix @ rest)"
    using assms by (auto simp: Service_ValidateApiToken_def Let_def store_Tokens_def run Hasher_Compare_def split: if_splits)
  from FindByPrefix_run [OF find] obtain r where "r \<in> set (api_tokens (w_db w))" "t_Prefix r = prefix" "t_RevokedAt r = None"
    "u = uuid_text (t_UserID r)" "sc = Some (t_Scopes r)" "bcrypt_Compare E (t_TokenHash r) (prefix @ rest)"
    using t by metis
  then show ?thesis by (intro bexI [of _ r]) (simp_all add: matches_def split)
qed

lemma Validate_live:
  assumes row: "filter (\<lambda>t. t_Prefix t = prefix \<and> t_RevokedAt t = None) (api_tokens (w_db w)) = [row]"
    and split: "SplitN2 (TrimPrefix (TrimSpace secret) APITokenScheme) (CHR ''.'') = [prefix, rest]"
    and "length prefix = APITokenPrefixLength" and "rest \<noteq> []" and "fault E (w_tick w) = None"
    and "bcrypt_Compare E (t_TokenHash row) (prefix @ rest)"
    and "\<And>e. t_ExpiresAt row = Some e \<Longrightarrow> app_clock E (Suc (w_tick w)) \<le> e"
  shows "fst (Service_ValidateApiToken (deployed E J signer F ev du getenv) secret w) = Inr (uuid_text (t_UserID row), Some (t_Scopes row))"
proof -
  have "t_RevokedAt row = None" using row by (metis (mono_tags, lifting) filter_eq_Cons_iff)
  with assms filter_scan_single [OF row] show ?thesis
    by (auto simp: Service_ValidateApiToken_def Let_def store_Tokens_def Store_FindByPrefix_def effect_defs exec_def
        q_FindAPITokenByPrefix_def one_def timePtr_def Clock_Now_def time_Now_def tick_def Hasher_Compare_def split: option.splits)
qed

section \<open>A token stays as it is\<close>

definition stored :: "ApiTokenRow \<Rightarrow> db \<Rightarrow> bool" where
  "stored t d \<longleftrightarrow> t \<in> set (api_tokens d)"

lemma stored_frame: "(\<And>now rank d a d'. q now rank d = Inr (a, d') \<Longrightarrow> api_tokens d' = api_tokens d) \<Longrightarrow> stmt_keeps (stored t) q"
  unfolding stmt_keeps_def stored_def by metis

lemma stored_insert: "stmt_keeps (stored t) (q_CreateAPIToken i u name prefix h sc at)"
  by (auto simp: stmt_keeps_def stored_def q_CreateAPIToken_def split: if_splits option.splits)

lemma stored_revoke: "i \<noteq> t_ID t \<Longrightarrow> stmt_keeps (stored t) (q_RevokeAPIToken i u)"
  by (auto simp: stmt_keeps_def stored_def q_RevokeAPIToken_def image_iff intro!: bexI [of _ t])

interpretation pg_token: demoting_statements "stored t" E for t E
  by unfold_locales
     (rule stored_insert | rule stored_frame,
       auto simp: q_CreateSignupUser_def q_CreateUserWithEmail_def q_CreateUserWithMobile_def q_ReissueSignupUser_def q_UpdateLastLogin_def
         q_VerifySignupUser_def q_UpsertDemoUserByEmail_def q_UpsertDemoUserByMobile_def upsert_demo_def q_ConsumeChallenge_def
         q_DeleteChallengesForIdentifier_def q_DeleteExpiredChallenges_def q_IncrementChallengeAttempts_def q_UpsertChallenge_def
         q_RevokeRefreshToken_def q_StoreRefreshToken_def q_CreateOrganization_def q_AddOrganizationMembership_def
         q_AddActiveOrganizationMembership_def q_UpdateOrganizationMembershipStatus_def q_DeleteOrganizationMembership_def
         q_CreateOrganizationInvite_def q_AcceptOrganizationInvite_def q_RevokeOrganizationInvite_def
         q_RevokePendingOrganizationInvitesForEmail_def q_outbox_Insert_def update_users_def insert_member_Inr affected_Inr one_Inr Let_def
         dest!: insert_user_frame split: if_splits option.splits sum.splits)+

interpretation pg_stored: lasting_ports "on_db (stored t)" "deployed E J signer F ev du getenv"
  for t E J signer F ev du getenv
  by unfold_locales (clarsimp simp: store_ports; rule pg_token.demoting_methods keep)+

lemma other_revoked:
  assumes "uuid_Parse E tokenID \<noteq> Inr (t_ID t)"
  shows "keeps (on_db (stored t)) (Service_RevokeApiToken (deployed E J signer F ev du getenv) u tokenID)"
proof -
  have "keeps (on_db (stored t)) (Store_RevokeToken E u tokenID)"
  proof (cases "uuid_Parse E tokenID")
    case (Inr i)
    then have "stmt_keeps (stored t) (q_RevokeAPIToken i v)" for v using assms stored_revoke by simp
    then show ?thesis unfolding Store_RevokeToken_def parse_uuid_def Inr sum.case by (auto intro!: keep)
  qed (auto simp: Store_RevokeToken_def parse_uuid_def intro!: keep)
  then show ?thesis unfolding Service_RevokeApiToken_def by (auto simp: store_Tokens_def intro!: keep)
qed

section \<open>Revoking\<close>

lemma RevokeApiToken_final:
  assumes "Service_RevokeApiToken (deployed E J signer F ev du getenv) userID (uuid_text i) w = (Inr x, w')"
    and "uuid_laws E" and "uuid_Parse E userID = Inr u" and "is_final (w_db w) (TokenOwned i u)"
  shows "is_final (w_db w') (TokenRevoked i)"
proof -
  let ?f = "\<lambda>t. if t_ID t = i \<and> t_UserID t = u \<and> t_RevokedAt t = None then t\<lparr>t_RevokedAt := Some (tx_time E w)\<rparr> else t"
  from assms(4) obtain t where t: "t \<in> set (api_tokens (w_db w))" "t_ID t = i" "t_UserID t = u" by auto
  have "?f t \<in> set (map ?f (api_tokens (w_db w)))" unfolding set_map using t(1) by (rule imageI)
  then have "\<exists>r \<in> set (map ?f (api_tokens (w_db w))). t_ID r = i \<and> t_RevokedAt r \<noteq> None"
    by (rule bexI [rotated]) (simp add: t)
  moreover have "api_tokens (w_db w') = map ?f (api_tokens (w_db w))"
    using assms(1-3) by (auto simp: Service_RevokeApiToken_def store_Tokens_def Store_RevokeToken_def uuid_laws_def run
        q_RevokeAPIToken_def split: if_splits)
  ultimately show ?thesis by (simp del: set_map)
qed

lemma Validate_of_revoked:
  assumes "is_final (w_db w) (TokenRevoked i)" and "schema_ok E (w_db w)"
    and "Service_ValidateApiToken (deployed E J signer F ev du getenv) secret w = (Inr x, w')"
  shows "\<exists>t \<in> set (api_tokens (w_db w)). t_ID t \<noteq> i \<and> matches E secret t"
proof -
  obtain t where t: "t \<in> set (api_tokens (w_db w))" "t_RevokedAt t = None" "matches E secret t"
    using Validate_sound [where u = "fst x" and sc = "snd x"] assms(3) by (metis prod.collapse)
  have inj: "inj_on t_ID (set (api_tokens (w_db w)))" using assms(2) by (simp add: schema_ok_def tokens_ok_def distinct_map)
  from assms(1) obtain r where r: "r \<in> set (api_tokens (w_db w))" "t_ID r = i" "t_RevokedAt r \<noteq> None" unfolding is_final.simps by blast
  then have "t_ID t \<noteq> i" using inj_onD [OF inj _ t(1) r(1)] t(2) by metis
  with t show ?thesis by blast
qed

lemma revoked_for_good:
  assumes "uuid_laws E" and s: "s = deployed E J signer F ev du getenv"
    and "schema_ok E (w_db w)" and "is_final (w_db w) (TokenOwned i u)" and "uuid_Parse E userID = Inr u"
    and "list_all (\<lambda>c. \<not> is_purge_use c) (cs @ cs')"
    and "Service_RevokeApiToken s userID (uuid_text i) (use_runs U s cs w) = (Inr x, w1)"
    and "Service_ValidateApiToken s secret (use_runs U s cs' w1) = (Inr y, w2)"
  shows "\<exists>t \<in> set (api_tokens (w_db (use_runs U s cs' w1))). t_ID t \<noteq> i \<and> matches E secret t"
proof (rule Validate_of_revoked [where E = E and J = J and signer = signer and F = F and ev = ev and du = du and getenv = getenv, folded s])
  note pure = assms(6) [unfolded list_all_append list_all_iff]
  have "is_final (w_db (use_runs U s cs w)) (TokenOwned i u)"
    unfolding s by (rule pg_settled.keeps_use_runs) (use assms(4) pure in simp_all)
  then have "is_final (w_db w1) (TokenRevoked i)" by (rule RevokeApiToken_final [OF assms(7) [unfolded s] assms(1,5), folded s])
  then show "is_final (w_db (use_runs U s cs' w1)) (TokenRevoked i)"
    unfolding s by (intro pg_settled.keeps_use_runs) (use pure in simp_all)
  have "schema_ok E (w_db (use_runs U s cs w))"
    unfolding s by (rule pg_schema.keeps_every_run) (rule assms(3))
  then have "schema_ok E (w_db w1)" using keepsD [OF pg_schema.keeps_RevokeApiToken] assms(7) unfolding s by blast
  then show "schema_ok E (w_db (use_runs U s cs' w1))" unfolding s by (rule pg_schema.keeps_every_run)
qed (rule assms(8))

text \<open>The only live row of its prefix.\<close>

lemma only_live:
  assumes "schema_ok E d" and "row \<in> set (api_tokens d)" and "t_RevokedAt row = None"
    and "\<And>t. t \<in> set (api_tokens d) \<Longrightarrow> t_RevokedAt t = None \<Longrightarrow> t_Prefix t = t_Prefix row \<Longrightarrow> t_ID t = t_ID row"
  shows "filter (\<lambda>t. t_Prefix t = t_Prefix row \<and> t_RevokedAt t = None) (api_tokens d) = [row]"
proof -
  let ?live = "filter (\<lambda>t. t_Prefix t = t_Prefix row \<and> t_RevokedAt t = None) (api_tokens d)"
  have dist: "distinct (map t_ID (api_tokens d))" using assms(1) by (simp add: schema_ok_def tokens_ok_def)
  then have "t = row" if "t \<in> set ?live" for t
    using assms(2,4) that by (auto simp: distinct_map dest: inj_onD)
  moreover have "row \<in> set ?live" using assms(2,3) by simp
  moreover have "distinct ?live" using dist by (simp add: distinct_map)
  ultimately show ?thesis by (metis (no_types, lifting) distinct_length_2_or_more list.set_intros(1,2) neq_Nil_conv list.set_cases)
qed

section \<open>Properties\<close>

text \<open>
  C13. The life of an API token. After any use cases that follow its creation, other than the purge and a revocation that names it, and
  with any faults, a token validates with its owner and its scopes until it expires, provided that no other live token has the same
  eight-character prefix then and the statement that looks it up does not fail. Once its
  owner has revoked it, whatever use cases came in between and whatever follow, other than the purge, the token is refused, unless
  another token of the table matches the same secret. Hypotheses: bcrypt verifies what it hashed,
  \<open>crypto/rand\<close> fills its buffer and the tables satisfy the schema.
\<close>

theorem api_token_lifecycle:
  assumes "uuid_laws E" and "bcrypt_laws E" and "rand_laws E" and "schema_ok E (w_db w)"
    and s: "s = deployed E J signer F ev du getenv" and user: "uuid_Parse E userID = Inr u"
    and created: "Service_CreateApiToken s userID name scopes expiresAt w = (Inr (tokenID, prefix, secret), w')"
    and pure: "list_all (\<lambda>c. \<not> is_purge_use c) (cs @ cs')" and later: "w2 = use_runs U s cs w'"
  shows "((\<forall>v t. Use_RevokeApiToken v t \<in> set cs \<longrightarrow> uuid_Parse E t \<noteq> uuid_Parse E tokenID) \<and>
          (\<forall>t \<in> set (api_tokens (w_db w2)). t_RevokedAt t = None \<and> t_Prefix t = prefix \<longrightarrow> uuid_text (t_ID t) = tokenID) \<and>
          (\<forall>e. expiresAt = Some e \<longrightarrow> app_clock E (Suc (w_tick w2)) \<le> pg_ts e) \<and> fault E (w_tick w2) = None \<longrightarrow>
            fst (Service_ValidateApiToken s secret w2) = Inr (uuid_text u, scopes)) \<and>
         (Service_RevokeApiToken s userID tokenID w2 = (Inr (), w1) \<and>
          Service_ValidateApiToken s secret' (use_runs U s cs' w1) = (Inr x, w3) \<longrightarrow>
            (\<exists>t \<in> set (api_tokens (w_db (use_runs U s cs' w1))). uuid_text (t_ID t) \<noteq> tokenID \<and> matches E secret' t))"
proof -
  from created [unfolded s] assms(1,3) obtain b raw h k now i u' sc where
    raw: "length b = 32" "raw = EncodeRawURL b" and h: "bcrypt_Generate E k raw = Inr h"
    and out: "tokenID = uuid_text i" "prefix = take APITokenPrefixLength raw" "secret = token_text raw"
    and u: "uuid_Parse E userID = Inr u'" "scopes = Some sc"
    and rows: "api_tokens (w_db w') = api_tokens (w_db w) @
      [\<lparr>t_ID = i, t_UserID = u', t_Name = name, t_Prefix = prefix, t_TokenHash = h, t_Scopes = sc,
        t_ExpiresAt = map_option pg_ts expiresAt, t_RevokedAt = None, t_CreatedAt = now\<rparr>]"
    by (rule CreateApiToken_run)
  have [simp]: "u' = u" using u(1) user by simp
  have inj: "uuid_text a = uuid_text c \<longleftrightarrow> a = c" for a c using assms(1) by (metis uuid_laws_def sum.inject(2))
  have schema: "schema_ok E (w_db w')" using keepsD [OF pg_schema.keeps_CreateApiToken] created assms(4) unfolding s by blast
  let ?row = "\<lparr>t_ID = i, t_UserID = u, t_Name = name, t_Prefix = prefix, t_TokenHash = h, t_Scopes = sc,
        t_ExpiresAt = map_option pg_ts expiresAt, t_RevokedAt = None, t_CreatedAt = now\<rparr>"
  have "fst (Service_ValidateApiToken s secret w2) = Inr (uuid_text u, scopes)"
    if other: "\<forall>v t. Use_RevokeApiToken v t \<in> set cs \<longrightarrow> uuid_Parse E t \<noteq> uuid_Parse E tokenID"
      and only: "\<forall>t \<in> set (api_tokens (w_db w2)). t_RevokedAt t = None \<and> t_Prefix t = prefix \<longrightarrow> uuid_text (t_ID t) = tokenID"
      and time: "\<forall>e. expiresAt = Some e \<longrightarrow> app_clock E (Suc (w_tick w2)) \<le> pg_ts e" "fault E (w_tick w2) = None"
  proof -
    have "stored ?row (w_db w2)"
      unfolding later s
    proof (rule pg_stored.keeps_allowed_runs)
      show "keeps (on_db (stored ?row)) (Service_RevokeApiToken (deployed E J signer F ev du getenv) v t)"
        if "Use_RevokeApiToken v t \<in> set cs" for v t
        using other that assms(1) by (intro other_revoked) (simp add: out(1) uuid_laws_def)
    qed (use pure rows in \<open>simp_all add: stored_def list_all_iff\<close>)
    moreover have "schema_ok E (w_db w2)" unfolding later s by (rule pg_schema.keeps_every_run) (rule schema)
    ultimately have "filter (\<lambda>t. t_Prefix t = prefix \<and> t_RevokedAt t = None) (api_tokens (w_db w2)) = [?row]"
      using only_live [of E "w_db w2" ?row] only by (simp add: stored_def out(1) inj)
    moreover have "bcrypt_Compare E h raw" using h assms(2) by (auto simp: bcrypt_laws_def)
    ultimately show ?thesis
      unfolding s out(3) using secret_format [OF raw] time u(2) by (subst Validate_live) (auto simp: out(2))
  qed
  moreover have "\<exists>t \<in> set (api_tokens (w_db (use_runs U s cs' w1))). uuid_text (t_ID t) \<noteq> tokenID \<and> matches E secret' t"
    if revoked: "Service_RevokeApiToken s userID tokenID w2 = (Inr (), w1)"
      and valid: "Service_ValidateApiToken s secret' (use_runs U s cs' w1) = (Inr x, w3)"
  proof -
    have "is_final (w_db w') (TokenOwned i u)" using rows by simp
    from revoked_for_good [OF assms(1) s schema this user pure revoked [unfolded out(1) later] valid]
    show ?thesis by (auto simp: out(1) inj)
  qed
  ultimately show ?thesis by blast
qed

text \<open>Witness of C13: the demo user creates a token in an empty table and lists it.\<close>

definition token_world :: world where
  "token_world = (start_world [] 0)\<lparr>w_db := (empty_db [])\<lparr>users := [new_user_row 1 demo_start]\<rparr>\<rparr>"

lemma demo_rand: "rand_laws demo_env"
  by (simp add: rand_laws_def demo_env_def)

lemma demo_create:
  "\<exists>tokenID prefix secret w'.
     Service_CreateApiToken plain_service (uuid_text 1) ''ci'' (Some [''read'']) None token_world = (Inr (tokenID, prefix, secret), w')"
proof -
  have "TrimSpace ''ci'' = ''ci''" by (rule TrimSpace_visible) (simp add: visible_def byte_def)
  moreover have "rand_Read demo_env k = Inr (replicate 32 (char_of (k mod 256)))" "bcrypt_Generate demo_env k x = Inr (''bcrypt:'' @ x)" for k x
    by (simp_all add: demo_env_def)
  ultimately show ?thesis
    unfolding plain_service_def
    by (simp add: Service_CreateApiToken_def Let_def store_Tokens_def Store_Create_def Secrets_NewSecret_def Hasher_Hash_def
      Generator_NewID_def ask_def uuid_NewString_def parse_uuid_def effect_defs exec_def tick_def q_CreateAPIToken_def
      length_EncodeRawURL APITokenPrefixLength_def token_world_def start_world_def empty_db_def new_user_row_def)
qed

theorem api_token_lifecycle_witness:
  "\<exists>tokenID prefix secret w'.
     Service_CreateApiToken plain_service (uuid_text 1) ''ci'' (Some [''read'']) None token_world = (Inr (tokenID, prefix, secret), w') \<and>
     fst (Service_ValidateApiToken plain_service secret
       (use_runs (env_unicode demo_env) plain_service [Use_ListApiTokens (uuid_text 1)] w')) = Inr (uuid_text 1, Some [''read''])"
proof -
  obtain tokenID prefix secret w' where c:
    "Service_CreateApiToken plain_service (uuid_text 1) ''ci'' (Some [''read'']) None token_world = (Inr (tokenID, prefix, secret), w')"
    using demo_create by blast
  let ?w = "use_runs (env_unicode demo_env) plain_service [Use_ListApiTokens (uuid_text 1)] w'"
  have world: "schema_ok demo_env (w_db token_world)" "api_tokens (w_db token_world) = []"
    by (simp_all add: token_world_def start_world_def empty_db_def schema_ok_def users_ok_def members_ok_def tokens_ok_def invites_ok_def
        uniq_def new_user_row_def)
  have only: "uuid_text (t_ID t) = tokenID" if "t \<in> set (api_tokens (w_db w'))" for t
    by (rule CreateApiToken_run [OF c [unfolded plain_service_def] demo_laws(1) demo_rand]) (use that world(2) in auto)
  have "keeps (on_db (\<lambda>d. d = w_db w')) (Service_ListApiTokens plain_service (uuid_text 1))"
    unfolding plain_service_def Service_ListApiTokens_def deployed_ports use_simps store_Tokens_def APITokenStore.simps Store_ListByUser_def
    by (rule keep)+
  from keeps_apply [OF this, of w'] have "w_db ?w = w_db w'" by (simp add: use_runs_def)
  with api_token_lifecycle [OF demo_laws(1,3) demo_rand world(1) plain_service_def _ c, of 1 "[Use_ListApiTokens (uuid_text 1)]" "[]" ?w
      "env_unicode demo_env"] c only show ?thesis by auto
qed

end
