(* ===== verification/Invites.thy ===== *)
theory Invites
  imports Sessions
begin

text \<open>
  Invitations of the deployed service: who can accept one, what accepting does and that it can be done once.
\<close>

section \<open>The steps of accepting\<close>

lemma FindInvite_run:
  assumes "Store_FindInviteByTokenHash E h w = (Inr iv, w')"
  obtains x where "x \<in> set (invites (w_db w))" and "i_TokenHash x = h" and "Invite_ID iv = uuid_text (i_ID x)"
    and "Invite_OrgID iv = uuid_text (i_OrgID x)" and "Invite_Email iv = i_Email x" and "Invite_Status iv = i_Status x"
    and "Invite_ExpiresAt iv = i_ExpiresAt x" and "w_db w' = w_db w" and "w_tick w' = Suc (w_tick w)"
  using assms unfolding Store_FindInviteByTokenHash_def
  by (auto simp: run q_FindOrganizationInviteByTokenHash_def stmt_inv ts_Time_def dest!: filter_scan_Cons)

lemma FindByID_run:
  assumes "Store_FindByID E userID w = (Inr user, w')"
  obtains u where "u \<in> set (users (w_db w))" and "uuid_Parse E userID = Inr (u_ID u)" and "user = user_of_row (find_user_row u)"
    and "w_db w' = w_db w"
proof -
  have "yields (Store_FindByID E userID) (w_db w) user (w_db w')" by (rule yieldsI) (rule assms)
  then show ?thesis
    using that unfolding Store_FindByID_def by (auto simp: q_FindUserByID_def stmt_inv dest!: yieldD filter_scan_Cons)
qed

lemma AddActive_active:
  assumes "q_AddActiveOrganizationMembership g u now rank d = Inr (a, d')" and "schema_ok E d"
    and "\<And>m. m \<in> set (memberships d) \<Longrightarrow> is_member g u m \<Longrightarrow> m_Status m \<noteq> ''suspended''"
  shows "\<exists>m \<in> set (memberships d'). is_member g u m \<and> m_Status m = ''active''"
proof (cases "\<exists>m \<in> set (memberships d). is_member g u m")
  case True
  let ?f = "\<lambda>m. if is_member g u m \<and> m_Status m = ''invited'' then m\<lparr>m_Status := ''active'', m_UpdatedAt := now\<rparr> else m"
  from True obtain m where m: "m \<in> set (memberships d)" "is_member g u m" by blast
  have "m_Status m = ''active'' \<or> m_Status m = ''invited''"
    using assms(3) [OF m] schema_member_status [OF assms(2) m(1)] by (auto simp: membership_statuses_def)
  then have "is_member g u (?f m) \<and> m_Status (?f m) = ''active''" using m(2) by (auto simp: is_member_def)
  moreover have "?f m \<in> set (memberships d')" using assms(1) True m(1) by (auto simp: q_AddActiveOrganizationMembership_def)
  ultimately show ?thesis by blast
next
  case False
  with assms(1) have "insert_member g u ''active'' now d = Inr d'" by (simp add: q_AddActiveOrganizationMembership_def affected_Inr)
  then show ?thesis by (auto simp: insert_member_Inr is_member_def)
qed

lemma not_member:
  assumes "breaks (getMembership E g u) d e d'" and "errors_Is e ErrNotMember" and "m \<in> set (memberships d)"
  shows "\<not> is_member g u m"
proof
  assume "is_member g u m"
  then have "filter (is_member g u) (scan rank (memberships d)) \<noteq> []" for rank using assms(3) by (auto simp: filter_empty_conv)
  then show False
    using assms(1,2) unfolding breaks_def getMembership_def
    by (auto simp: run exec_def Let_def q_GetOrganizationMembership_def one_def split: option.splits list.splits if_splits sum.splits)
qed

lemma accept_guard:
  assumes "yields (tryE (getMembership E g u)) d cur d0"
    and "yields (case cur of Inr m \<Rightarrow> if Membership_Status m = MembershipSuspended then fail ErrInvalidInvite else ret ()
                 | Inl err \<Rightarrow> if \<not> errors_Is err ErrNotMember then fail err else ret ()) d0 a d1"
    and ok: "schema_ok E d"
  shows "d1 = d \<and> (\<forall>m \<in> set (memberships d). is_member g u m \<longrightarrow> m_Status m \<noteq> ''suspended'')"
proof (cases cur)
  case (Inl e)
  then have "breaks (getMembership E g u) d e d0" "d1 = d0" "errors_Is e ErrNotMember"
    using assms(1,2) by (auto dest!: yieldD split: if_splits)
  then show ?thesis using not_member breaks_getMembership by blast
next
  case (Inr m)
  then obtain r where "r \<in> set (memberships d)" "is_member g u r" "m_Status r \<noteq> ''suspended''" "d1 = d"
    using assms(1,2) by (auto simp: membership_defs dest!: yieldD split: if_splits)
  then show ?thesis using unique_member [OF ok] by metis
qed

lemma accept_tx_yields:
  assumes "yields (accept_invite_tx E orgID userID at g i u) d x d'" and ok: "schema_ok E d"
  shows "(\<exists>c v. x = Commit c v) \<and> (\<exists>m \<in> set (memberships d'). is_member g u m \<and> m_Status m = ''active'') \<and>
         invites d' = map (\<lambda>x. if i_ID x = i \<and> i_OrgID x = g \<and> i_Status x = ''pending''
                               then x\<lparr>i_Status := ''accepted'', i_AcceptedAt := map_option pg_ts (timestamptz at)\<rparr> else x) (invites d)"
proof -
  from assms(1) obtain cur d0 a da n now rank d1 now' rank' d2 c where
        guard: "yields (tryE (getMembership E g u)) d cur d0"
        "yields (case cur of Inr m \<Rightarrow> if Membership_Status m = MembershipSuspended then fail ErrInvalidInvite else ret ()
                 | Inl err \<Rightarrow> if \<not> errors_Is err ErrNotMember then fail err else ret ()) d0 a da"
    and acc: "q_AcceptOrganizationInvite (timestamptz at) i g now rank da = Inr (n, d1)"
    and add: "q_AddActiveOrganizationMembership g u now' rank' d1 = Inr ((), d2)"
    and d': "upto_outbox d2 d'" "x = Commit c ()"
    unfolding accept_invite_tx_def
    by (auto dest!: yields_bindE yields_lockOrganization yields_mapErr yields_exec yields_emitEvents_frame yields_ret yields_fail split: if_splits)
  note g = accept_guard [OF guard ok]
  have "stmt_keeps (schema_ok E) (q_AcceptOrganizationInvite (timestamptz at) i g)" by (rule keep)
  then have "schema_ok E d1" using acc g ok unfolding stmt_keeps_def by blast
  moreover have "memberships d1 = memberships d" using acc g by (auto simp: q_AcceptOrganizationInvite_def Let_def)
  ultimately have "\<exists>m \<in> set (memberships d2). is_member g u m \<and> m_Status m = ''active''"
    using AddActive_active [OF add] g by simp
  moreover have "invites d2 = invites d1" using add by (auto simp: q_AddActiveOrganizationMembership_def affected_Inr insert_member_Inr split: if_splits)
  ultimately show ?thesis using upto_outbox_fields [OF d'(1)] d'(2) acc g by (auto simp: q_AcceptOrganizationInvite_def Let_def)
qed

lemma AcceptInvite_store:
  assumes "Store_AcceptInvite E (uuid_text i) (uuid_text g) userID at w = (Inr a, w')" and "uuid_laws E" and "schema_ok E (w_db w)"
    and "uuid_Parse E userID = Inr u" and x: "x \<in> set (invites (w_db w))" "i_ID x = i" "i_OrgID x = g" "i_Status x = ''pending''"
  shows "(\<exists>m \<in> set (memberships (w_db w')). is_member g u m \<and> m_Status m = ''active'') \<and>
         is_final (w_db w') (InviteClosed i (i_TokenHash x))"
proof -
  let ?f = "\<lambda>x. if i_ID x = i \<and> i_OrgID x = g \<and> i_Status x = ''pending''
                then x\<lparr>i_Status := ''accepted'', i_AcceptedAt := map_option pg_ts (timestamptz at)\<rparr> else x"
  have "in_tx E ''postgres: begin accept invite: %w'' (accept_invite_tx E (uuid_text g) userID at g i u) w = (Inr a, w')"
    using assms(1,2,4) by (simp add: Store_AcceptInvite_def inviteIDs_def parse_uuid_def uuid_laws_def)
  then have "yields (in_tx E ''postgres: begin accept invite: %w'' (accept_invite_tx E (uuid_text g) userID at g i u)) (w_db w) a (w_db w')"
    by (rule yieldsI)
  then have *: "(\<exists>m \<in> set (memberships (w_db w')). is_member g u m \<and> m_Status m = ''active'')" "invites (w_db w') = map ?f (invites (w_db w))"
    by (auto dest!: yields_in_tx dest: accept_tx_yields [OF _ assms(3)])
  have "?f x \<in> set (invites (w_db w'))" unfolding *(2) set_map using x(1) by (rule imageI)
  then have "is_final (w_db w') (InviteClosed i (i_TokenHash x))"
    unfolding is_final.simps by (rule bexI [rotated]) (simp add: x)
  then show ?thesis using *(1) by blast
qed

lemma AcceptInvite_run:
  assumes "Service_AcceptInvite U (deployed E J signer F ev du getenv) userID token w = (Inr iv, w')"
  obtains x u w3 where "x \<in> set (invites (w_db w))" and "u \<in> set (users (w_db w))" and "i_TokenHash x = HashInviteToken (TrimSpace token)"
    and "i_Status x = ''pending''" and "app_clock E (Suc (w_tick w)) < i_ExpiresAt x" and "uuid_Parse E (TrimSpace userID) = Inr (u_ID u)"
    and "inviteRecipientMatches U (user_of_row (find_user_row u)) (i_Email x)" and "w_db w3 = w_db w"
    and "Store_AcceptInvite E (uuid_text (i_ID x)) (uuid_text (i_OrgID x)) (TrimSpace userID) (app_clock E (Suc (w_tick w))) w3 = (Inr (), w')"
proof -
  let ?now = "\<lambda>w1. app_clock E (w_tick w1)"
  from assms obtain inv w1 user w3 where find: "Store_FindInviteByTokenHash E (HashInviteToken (TrimSpace token)) w = (Inr inv, w1)"
    and inv: "Invite_Status inv = InvitePending" "?now w1 < Invite_ExpiresAt inv" "inviteRecipientMatches U user (Invite_Email inv)"
    and user: "Store_FindByID E (TrimSpace userID) (w1\<lparr>w_tick := Suc (w_tick w1)\<rparr>) = (Inr user, w3)"
    and acc: "Store_AcceptInvite E (Invite_ID inv) (Invite_OrgID inv) (TrimSpace userID) (?now w1) w3 = (Inr (), w')"
    by (auto simp: Service_AcceptInvite_def Let_def run store_Invites_def store_Users_def Clock_Now_def split: if_splits)
  from find obtain x where x: "x \<in> set (invites (w_db w))" "i_TokenHash x = HashInviteToken (TrimSpace token)" "Invite_ID inv = uuid_text (i_ID x)"
    "Invite_OrgID inv = uuid_text (i_OrgID x)" "Invite_Email inv = i_Email x" "Invite_Status inv = i_Status x"
    "Invite_ExpiresAt inv = i_ExpiresAt x" "w_db w1 = w_db w" "w_tick w1 = Suc (w_tick w)" by (rule FindInvite_run)
  from user obtain u where "u \<in> set (users (w_db w1))" "uuid_Parse E (TrimSpace userID) = Inr (u_ID u)"
    "user = user_of_row (find_user_row u)" "w_db w3 = w_db w1" by (rule FindByID_run) simp
  with that [of x u w3] x inv acc show ?thesis by (simp add: InvitePending_def)
qed

lemma AcceptInvite_closed:
  assumes "is_final (w_db w) (InviteClosed i (HashInviteToken (TrimSpace token)))" and "schema_ok E (w_db w)"
  shows "\<exists>e. fst (Service_AcceptInvite U (deployed E J signer F ev du getenv) userID token w) = Inl e"
proof (cases "Service_AcceptInvite U (deployed E J signer F ev du getenv) userID token w")
  case (Pair r w')
  show ?thesis
  proof (cases r)
    case (Inr iv)
    with Pair obtain x where x: "x \<in> set (invites (w_db w))" "i_TokenHash x = HashInviteToken (TrimSpace token)" "i_Status x = ''pending''"
      using AcceptInvite_run [of U E J signer F ev du getenv userID token w iv w'] by metis
    from assms(1) obtain y where y: "y \<in> set (invites (w_db w))" "i_TokenHash y = HashInviteToken (TrimSpace token)" "i_Status y \<noteq> ''pending''"
      unfolding is_final.simps by blast
    have ok: "uniq (\<lambda>x. True) i_TokenHash i_ID (invites (w_db w))" "inj_on i_ID (set (invites (w_db w)))"
      using assms(2) by (simp_all add: schema_ok_def invites_ok_def distinct_map)
    have "i_ID x = i_ID y" by (rule uniqD [OF ok(1) x(1) y(1)]) (simp_all add: x(2) y(2))
    then have "x = y" using inj_onD [OF ok(2)] x(1) y(1) by blast
    then show ?thesis using x(3) y(3) by simp
  qed (use Pair in simp)
qed

section \<open>Properties\<close>

text \<open>
  C12. An invitation admits its addressee, once. If the service accepts an invitation token for a user, then the
  token is that of a pending invitation that has not expired, the user is active and has proven an email address
  that equals the invited one up to case, and the user is now an active member of the inviting organization.
  From then on the token is refused for every user, whatever use cases other than the purge follow. The hypotheses on
  the tables are the constraints of the schema.
\<close>

theorem invite_accepted_once:
  assumes "uuid_laws E" and "schema_ok E (w_db w)" and s: "s = deployed E J signer F ev du getenv"
    and accepted: "Service_AcceptInvite U s userID token w = (Inr iv, w')" and "list_all (\<lambda>c. \<not> is_purge_use c) cs"
  shows "(\<exists>x \<in> set (invites (w_db w)). \<exists>u \<in> set (users (w_db w)).
            i_TokenHash x = HashInviteToken (TrimSpace token) \<and> i_Status x = InvitePending \<and>
            app_clock E (Suc (w_tick w)) < i_ExpiresAt x \<and> uuid_Parse E (TrimSpace userID) = Inr (u_ID u) \<and>
            u_Status u = UserActive \<and> u_EmailVerifiedAt u \<noteq> None \<and>
            (\<exists>email. u_Email u = Some email \<and> EqualFold U email (i_Email x)) \<and>
            (\<exists>m \<in> set (memberships (w_db w')). is_member (i_OrgID x) (u_ID u) m \<and> m_Status m = MembershipActive)) \<and>
         (\<exists>e. fst (Service_AcceptInvite U' s userID' token (use_runs U s cs w')) = Inl e)"
proof -
  from accepted [unfolded s] obtain x u w3 where x: "x \<in> set (invites (w_db w))" "i_TokenHash x = HashInviteToken (TrimSpace token)"
      "i_Status x = ''pending''" "app_clock E (Suc (w_tick w)) < i_ExpiresAt x"
    and u: "u \<in> set (users (w_db w))" "uuid_Parse E (TrimSpace userID) = Inr (u_ID u)"
      "inviteRecipientMatches U (user_of_row (find_user_row u)) (i_Email x)"
    and w3: "w_db w3 = w_db w" and acc: "Store_AcceptInvite E (uuid_text (i_ID x)) (uuid_text (i_OrgID x)) (TrimSpace userID)
        (app_clock E (Suc (w_tick w))) w3 = (Inr (), w')"
    by (rule AcceptInvite_run)
  have *: "(\<exists>m \<in> set (memberships (w_db w')). is_member (i_OrgID x) (u_ID u) m \<and> m_Status m = ''active'')"
    "is_final (w_db w') (InviteClosed (i_ID x) (i_TokenHash x))"
    using AcceptInvite_store [OF acc assms(1) _ u(2) _ refl refl x(3)] assms(2) x(1) unfolding w3 by blast+
  have "schema_ok E (w_db w')" using keepsD [OF pg_schema.keeps_AcceptInvite] accepted assms(2) unfolding s by blast
  then have "schema_ok E (w_db (use_runs U s cs w'))" unfolding s by (rule pg_schema.keeps_every_run)
  moreover have "is_final (w_db (use_runs U s cs w')) (InviteClosed (i_ID x) (HashInviteToken (TrimSpace token)))"
    unfolding s by (rule pg_settled.keeps_use_runs) (use assms(5) *(2) x(2) in \<open>simp_all add: list_all_iff\<close>)
  ultimately have "\<exists>e. fst (Service_AcceptInvite U' s userID' token (use_runs U s cs w')) = Inl e"
    unfolding s by (intro AcceptInvite_closed)
  moreover have "u_Status u = UserActive \<and> u_EmailVerifiedAt u \<noteq> None \<and> (\<exists>email. u_Email u = Some email \<and> EqualFold U email (i_Email x))"
    using u(3) by (auto simp: inviteRecipientMatches_def user_of_row_def find_user_row_def coalesce_def split: option.splits)
  ultimately show ?thesis
    unfolding InvitePending_def MembershipActive_def using x u(1,2) *(1) by blast
qed

text \<open>Witness of C12: a verified user accepts an invitation to an organization of another one.\<close>

definition invited_db :: db where
  "invited_db = (empty_db [])
     \<lparr>users := [(new_user_row 1 demo_start)\<lparr>u_Email := Some ''a@x.io'', u_EmailVerifiedAt := Some demo_start\<rparr>, new_user_row 2 demo_start],
      organizations := [\<lparr>o_ID = 9, o_Name = ''o'', o_CreatedAt = demo_start, o_UpdatedAt = demo_start\<rparr>],
      memberships := [\<lparr>m_OrgID = 9, m_UserID = 2, m_Status = MembershipActive, m_CreatedAt = demo_start, m_UpdatedAt = demo_start\<rparr>],
      invites := [\<lparr>i_ID = 5, i_OrgID = 9, i_Email = ''a@x.io'', i_TokenHash = HashInviteToken ''t'', i_InviterID = 2,
        i_Status = InvitePending, i_ExpiresAt = demo_start + Hour, i_AcceptedAt = None, i_CreatedAt = demo_start\<rparr>]\<rparr>"

definition invited_world :: world where
  "invited_world = (start_world [] 0)\<lparr>w_db := invited_db\<rparr>"

lemma demo_find_invite:
  "\<exists>iv. Store_FindInviteByTokenHash demo_env (HashInviteToken ''t'') invited_world = (Inr iv, invited_world\<lparr>w_tick := Suc 0\<rparr>) \<and>
     Invite_ID iv = uuid_text 5 \<and> Invite_OrgID iv = uuid_text 9 \<and> Invite_Email iv = ''a@x.io'' \<and> Invite_Status iv = InvitePending \<and>
     Invite_ExpiresAt iv = demo_start + Hour"
  by (simp add: Store_FindInviteByTokenHash_def effect_defs exec_def q_FindOrganizationInviteByTokenHash_def one_def scan_def
      invited_world_def invited_db_def start_world_def ts_Time_def)

lemma demo_find_user:
  "Store_FindByID demo_env (uuid_text 1) (invited_world\<lparr>w_tick := Suc (Suc 0)\<rparr>) =
     (Inr (user_of_row (find_user_row ((new_user_row 1 demo_start)\<lparr>u_Email := Some ''a@x.io'', u_EmailVerifiedAt := Some demo_start\<rparr>))),
      invited_world\<lparr>w_tick := Suc (Suc (Suc 0))\<rparr>)"
  by (simp add: Store_FindByID_def parse_uuid_def effect_defs exec_def q_FindUserByID_def one_def scan_def new_user_row_def
      invited_world_def invited_db_def start_world_def)

lemma demo_outbox:
  "NewEnvelope demo_env t s p src v = Inr \<lparr>Envelope_Subject = s, Envelope_Payload = p, Envelope_Source = src,
     Envelope_Version = v, Envelope_Timestamp = demo_start + int t * Second\<rparr>"
  "Envelope_Validate demo_env e = None"
  "outbox_Insert demo_env s e now xs = Inr (xs @ [\<lparr>OutboxEvent_Subject = s, OutboxEvent_Envelope = e, OutboxEvent_CreatedAt = now,
     OutboxEvent_PublishedAt = None, OutboxEvent_Attempts = 0, OutboxEvent_LastError = None\<rparr>])"
  by (simp_all add: demo_env_def)

lemma demo_emit: "\<exists>w'. emitEvents demo_env [NewMembershipAddedEvent g u st (demo_start + Second)] w = (Inr (), w')"
proof -
  have "json_Marshal_ok (MembershipAddedPayload g u st (demo_start + Second))" "\<not> IsZero (demo_start + Second)"
    by (simp_all add: json_Marshal_ok_def IsZero_def demo_start_def Hour_def Minute_def Second_def)
  then show ?thesis
    by (simp add: emitEvents.simps Emit_def NewMembershipAddedEvent_def effect_defs tick_def Let_def exec_def q_outbox_Insert_def demo_outbox)
qed

lemma demo_accept:
  "\<exists>w'. Store_AcceptInvite demo_env (uuid_text 5) (uuid_text 9) (uuid_text 1) (demo_start + Second) (invited_world\<lparr>w_tick := Suc (Suc (Suc 0))\<rparr>) = (Inr (), w')"
proof -
  let ?tx = "accept_invite_tx demo_env (uuid_text 9) (uuid_text 1) (demo_start + Second) 9 5 1"
  let ?w = "invited_world\<lparr>w_tick := Suc (Suc (Suc (Suc 0))), w_tx := Some (db_clock demo_env (Suc (Suc (Suc 0))))\<rparr>"
  obtain f where f: "\<And>w. emitEvents demo_env [NewMembershipAddedEvent (uuid_text 9) (uuid_text 1) MembershipActive (demo_start + Second)] w = (Inr (), f w)"
    using demo_emit by metis
  have "\<exists>c w'. ?tx ?w = (Inr (Commit c ()), w')"
    by (simp add: f accept_invite_tx_def effect_defs exec_def Let_def
      lockOrganization_def q_LockOrganization_def getMembership_def q_GetOrganizationMembership_def one_def scan_def is_member_def
      q_AcceptOrganizationInvite_def q_AddActiveOrganizationMembership_def insert_member_def affected_def membership_statuses_def
      invited_world_def invited_db_def start_world_def empty_db_def new_user_row_def InvitePending_def)
  then show ?thesis
    by (auto simp: Store_AcceptInvite_def inviteIDs_def parse_uuid_def effect_defs in_tx_def Let_def invited_world_def)
qed

lemma demo_AcceptInvite:
  "\<exists>iv w'. Service_AcceptInvite (env_unicode demo_env) plain_service (uuid_text 1) ''t'' invited_world = (Inr iv, w')"
proof -
  obtain iv where iv: "Store_FindInviteByTokenHash demo_env (HashInviteToken ''t'') invited_world = (Inr iv, invited_world\<lparr>w_tick := Suc 0\<rparr>)"
    "Invite_ID iv = uuid_text 5" "Invite_OrgID iv = uuid_text 9" "Invite_Email iv = ''a@x.io''" "Invite_Status iv = InvitePending"
    "Invite_ExpiresAt iv = demo_start + Hour"
    using demo_find_invite by blast
  have "TrimSpace ''t'' = ''t''" by (rule TrimSpace_visible) (simp add: visible_def byte_def)
  moreover have "list_all is_ascii ''a@x.io''" by code_simp
  then have "EqualFold (env_unicode demo_env) ''a@x.io'' ''a@x.io''" by (rule EqualFold_ascii_refl)
  moreover have "TrimSpace (uuid_text 1) = uuid_text 1" by (simp add: TrimSpace_visible uuid_text_visible)
  moreover have "Second < Hour" by (simp add: Hour_def Minute_def Second_def)
  ultimately show ?thesis
    unfolding plain_service_def using iv demo_find_user demo_accept
    by (auto simp: Service_AcceptInvite_def Let_def store_Invites_def store_Users_def effect_defs Clock_Now_def time_Now_def tick_def
        inviteRecipientMatches_def user_of_row_def find_user_row_def new_user_row_def coalesce_def UserActive_def)
qed

theorem invite_accepted_once_witness:
  "\<exists>iv w'. Service_AcceptInvite (env_unicode demo_env) plain_service (uuid_text 1) ''t'' invited_world = (Inr iv, w') \<and>
     (\<exists>e. fst (Service_AcceptInvite (env_unicode demo_env) plain_service (uuid_text 1) ''t'' w') = Inl e)"
proof -
  obtain iv w' where acc: "Service_AcceptInvite (env_unicode demo_env) plain_service (uuid_text 1) ''t'' invited_world = (Inr iv, w')"
    using demo_AcceptInvite by blast
  have "schema_ok demo_env (w_db invited_world)"
    by (simp add: invited_world_def invited_db_def empty_db_def schema_ok_def users_ok_def members_ok_def tokens_ok_def invites_ok_def
        uniq_def new_user_row_def membership_statuses_def MembershipActive_def invite_statuses_def InvitePending_def)
  from invite_accepted_once [OF demo_laws(1) this plain_service_def acc, of "[]"] acc show ?thesis
    by (auto simp: use_runs_def)
qed

end
