(* ===== verification/Relay.thy ===== *)
theory Relay
  imports Database
begin

text \<open>
  The outbox relay of \<open>cmd/auth/main.go\<close>: \<open>runEventRelay\<close> polls the outbox until its context is cancelled,
  at once again while there is something to publish, after a pause when there is not, and with an
  exponential backoff after a failure. \<open>outbox.Relay.RunOnce\<close> is code of the message bus and a parameter.
  The loop need not end, so it is a partial function; the properties show when it returns and what it
  has done by then.
\<close>

section \<open>The loop\<close>

definition idleInterval :: int where "idleInterval = Second div 2"
definition minBackoff :: int where "minBackoff = Second"
definition maxBackoff :: int where "maxBackoff = 30 * Second"

text \<open>
  What the loop is given: one poll of the relay, what the rest of the process does to the world before poll number \<open>n\<close>,
  whether the context is cancelled when that poll has returned, and whether the pause after it ends
  because the context is cancelled.
\<close>

record 'w relay =
  relay_RunOnce :: "('w, int) M"
  relay_meanwhile :: "nat \<Rightarrow> 'w \<Rightarrow> 'w"
  ctx_Err_after :: "nat \<Rightarrow> bool"
  ctx_Done_first :: "nat \<Rightarrow> bool"

datatype relay_event = RelayFailed gerr | EventsRelayed int | Waited int

text \<open>
  The switch on the result of a poll: the pause that follows, if any, the next backoff, and the line that
  is logged.
\<close>

fun relay_next :: "int \<Rightarrow> gerr + int \<Rightarrow> int option \<times> int \<times> relay_event list" where
  "relay_next backoff (Inl err) =
     (Some backoff,
      (if backoff < maxBackoff then (let doubled = backoff * 2 in if doubled > maxBackoff then maxBackoff else doubled)
       else backoff),
      [RelayFailed err])"
| "relay_next backoff (Inr published) =
     (if published > 0 then (None, minBackoff, [EventsRelayed published]) else (Some idleInterval, minBackoff, []))"

partial_function (option) relay_loop ::
  "'w relay \<Rightarrow> nat \<Rightarrow> int \<Rightarrow> relay_event list \<Rightarrow> 'w \<Rightarrow> (relay_event list \<times> 'w) option" where
  "relay_loop R n backoff trace w =
     (case relay_RunOnce R (relay_meanwhile R n w) of (res, w') \<Rightarrow>
        if ctx_Err_after R n then Some (trace, w')
        else
          (case relay_next backoff res of (wait, next, logged) \<Rightarrow>
             (case wait of
                None \<Rightarrow> relay_loop R (Suc n) next (trace @ logged) w'
              | Some d \<Rightarrow>
                  if ctx_Done_first R n then Some (trace @ logged @ [Waited d], w')
                  else relay_loop R (Suc n) next (trace @ logged @ [Waited d]) w')))"

definition runEventRelay :: "'w relay \<Rightarrow> 'w \<Rightarrow> (relay_event list \<times> 'w) option" where
  "runEventRelay R w = relay_loop R 0 minBackoff [] w"

section \<open>The schedule of the pauses\<close>

text \<open>
  What the loop is meant to do, without a running backoff: after a poll that published something there is no
  pause, after one that had nothing to publish half a second, and after the last of \<open>f\<close> failures in a row
  \<open>2\<^sup>f\<^sup>-\<^sup>1\<close> seconds, at most thirty. The results of the polls so far are given, the last one last.
\<close>

definition failed :: "gerr + int \<Rightarrow> bool" where
  "failed r = (case r of Inl _ \<Rightarrow> True | Inr _ \<Rightarrow> False)"

definition failures :: "(gerr + int) list \<Rightarrow> nat" where
  "failures rs = length (takeWhile failed (rev rs))"

definition pause_after :: "(gerr + int) list \<Rightarrow> int option" where
  "pause_after rs =
     (case last rs of
        Inl _ \<Rightarrow> Some (min (2 ^ (failures rs - 1) * Second) (30 * Second))
      | Inr published \<Rightarrow> if 0 < published then None else Some (Second div 2))"

definition schedule :: "(gerr + int) list \<Rightarrow> int list" where
  "schedule rs = concat (map (\<lambda>i. case pause_after (take (Suc i) rs) of None \<Rightarrow> [] | Some d \<Rightarrow> [d]) [0..<length rs])"

lemma failures_snoc: "failures (rs @ [r]) = (if failed r then Suc (failures rs) else 0)"
  by (simp add: failures_def)

lemma schedule_snoc: "schedule (rs @ [r]) = schedule rs @ (case pause_after (rs @ [r]) of None \<Rightarrow> [] | Some d \<Rightarrow> [d])"
proof -
  have m: "map (\<lambda>i. case pause_after (take (Suc i) (rs @ [r])) of None \<Rightarrow> [] | Some d \<Rightarrow> [d]) [0..<length rs] =
        map (\<lambda>i. case pause_after (take (Suc i) rs) of None \<Rightarrow> [] | Some d \<Rightarrow> [d]) [0..<length rs]"
    by (rule map_cong) simp_all
  show ?thesis unfolding schedule_def length_append_singleton upt_Suc_append [OF le0] map_append concat_append m by simp
qed

text \<open>The backoff of the code after the results so far.\<close>

definition backoff_after :: "(gerr + int) list \<Rightarrow> int" where
  "backoff_after rs = min (2 ^ failures rs * Second) (30 * Second)"

lemmas backoff_defs = idleInterval_def minBackoff_def maxBackoff_def Second_def

lemma relay_next_meets:
  "\<exists>logged. relay_next (backoff_after rs) r = (pause_after (rs @ [r]), backoff_after (rs @ [r]), logged) \<and>
            list_all (\<lambda>x. case x of Waited _ \<Rightarrow> False | _ \<Rightarrow> True) logged"
  by (cases r) (auto simp: backoff_after_def pause_after_def failures_snoc failed_def backoff_defs Let_def min_def)

section \<open>Runs\<close>

text \<open>The results of \<open>n\<close> polls from poll number \<open>k\<close> on, and the world after them.\<close>

fun polls :: "'w relay \<Rightarrow> nat \<Rightarrow> nat \<Rightarrow> 'w \<Rightarrow> (gerr + int) list \<times> 'w" where
  "polls R k 0 w = ([], w)"
| "polls R k (Suc n) w =
     (case relay_RunOnce R (relay_meanwhile R k w) of (r, w') \<Rightarrow> (case polls R (Suc k) n w' of (rs, w'') \<Rightarrow> (r # rs, w'')))"

abbreviation results :: "'w relay \<Rightarrow> nat \<Rightarrow> 'w \<Rightarrow> (gerr + int) list" where
  "results R n w \<equiv> fst (polls R 0 n w)"

abbreviation world_after :: "'w relay \<Rightarrow> nat \<Rightarrow> 'w \<Rightarrow> 'w" where
  "world_after R n w \<equiv> snd (polls R 0 n w)"

lemma polls_snoc:
  "polls R k (Suc n) w = (case polls R k n w of (rs, w') \<Rightarrow> (case relay_RunOnce R (relay_meanwhile R (k + n) w') of (r, w'') \<Rightarrow> (rs @ [r], w'')))"
proof (induction n arbitrary: k w)
  case (Suc n)
  obtain r w1 where "relay_RunOnce R (relay_meanwhile R k w) = (r, w1)" by (cases "relay_RunOnce R (relay_meanwhile R k w)")
  then show ?case using Suc [of "Suc k" w1] by (cases "polls R (Suc k) n w1") (simp split: prod.splits)
qed (simp split: prod.splits)

fun waited :: "relay_event list \<Rightarrow> int list" where
  "waited [] = []"
| "waited (Waited d # xs) = d # waited xs"
| "waited (_ # xs) = waited xs"

lemma waited_append [simp]: "waited (xs @ ys) = waited xs @ waited ys"
  by (induction xs rule: waited.induct) simp_all

lemma waited_logged: "list_all (\<lambda>x. case x of Waited _ \<Rightarrow> False | _ \<Rightarrow> True) xs \<Longrightarrow> waited xs = []"
  by (induction xs rule: waited.induct) simp_all

text \<open>Where the loop ends: the context is cancelled when the poll returns, or while the loop pauses after it.\<close>

definition ends_at :: "'w relay \<Rightarrow> 'w \<Rightarrow> nat \<Rightarrow> bool" where
  "ends_at R w m \<longleftrightarrow> ctx_Err_after R m \<or> (ctx_Done_first R m \<and> pause_after (results R (Suc m) w) \<noteq> None)"

text \<open>The loop before poll number \<open>n\<close>, when it has not ended earlier.\<close>

definition loop_at :: "'w relay \<Rightarrow> 'w \<Rightarrow> nat \<Rightarrow> relay_event list \<Rightarrow> (relay_event list \<times> 'w) option" where
  "loop_at R w n t = relay_loop R n (backoff_after (results R n w)) t (world_after R n w)"

lemma loop_step:
  assumes "waited t = schedule (results R n w)"
  shows "ends_at R w n \<Longrightarrow> \<exists>t'. loop_at R w n t = Some (t', world_after R (Suc n) w) \<and>
           waited t' = schedule (results R (if ctx_Err_after R n then n else Suc n) w)"
    and "\<not> ends_at R w n \<Longrightarrow> \<exists>t'. loop_at R w n t = loop_at R w (Suc n) t' \<and> waited t' = schedule (results R (Suc n) w)"
proof -
  obtain rs w1 where p: "polls R 0 n w = (rs, w1)" by (cases "polls R 0 n w")
  obtain r w2 where poll: "relay_RunOnce R (relay_meanwhile R n w1) = (r, w2)" by (cases "relay_RunOnce R (relay_meanwhile R n w1)")
  have p': "polls R 0 (Suc n) w = (rs @ [r], w2)" using polls_snoc [of R 0 n w] p poll by simp
  obtain l where nxt: "relay_next (backoff_after rs) r = (pause_after (rs @ [r]), backoff_after (rs @ [r]), l)" and l: "waited l = []"
    using relay_next_meets [of rs r] waited_logged by blast
  show "\<exists>t'. loop_at R w n t = Some (t', world_after R (Suc n) w) \<and>
      waited t' = schedule (results R (if ctx_Err_after R n then n else Suc n) w)" if e: "ends_at R w n"
  proof (cases "ctx_Err_after R n")
    case True
    then have "loop_at R w n t = Some (t, w2)" unfolding loop_at_def p by (subst relay_loop.simps) (simp add: poll)
    then show ?thesis using True assms p p' by (auto simp del: polls.simps(2))
  next
    case False
    then obtain d where d: "pause_after (rs @ [r]) = Some d" "ctx_Done_first R n"
      using e p' by (auto simp: ends_at_def simp del: polls.simps(2))
    then have "loop_at R w n t = Some (t @ l @ [Waited d], w2)"
      unfolding loop_at_def p using False by (subst relay_loop.simps) (simp add: poll nxt)
    then show ?thesis using False assms p p' l d by (auto simp: schedule_snoc simp del: polls.simps(2))
  qed
  show "\<exists>t'. loop_at R w n t = loop_at R w (Suc n) t' \<and> waited t' = schedule (results R (Suc n) w)" if "\<not> ends_at R w n"
  proof (cases "pause_after (rs @ [r])")
    case None
    then have "loop_at R w n t = loop_at R w (Suc n) (t @ l)"
      using that unfolding loop_at_def ends_at_def p p' by (subst relay_loop.simps) (simp add: poll nxt)
    then show ?thesis using None assms p p' l by (auto simp: schedule_snoc simp del: polls.simps(2) intro!: exI [of _ "t @ l"])
  next
    case (Some d)
    then have "loop_at R w n t = loop_at R w (Suc n) (t @ l @ [Waited d])"
      using that unfolding loop_at_def ends_at_def p p' by (subst relay_loop.simps) (simp add: poll nxt)
    then show ?thesis using Some assms p p' l
      by (auto simp: schedule_snoc simp del: polls.simps(2) intro!: exI [of _ "t @ l @ [Waited d]"])
  qed
qed

lemma loop_reaches:
  assumes "\<forall>i<n. \<not> ends_at R w i"
  shows "\<exists>t. runEventRelay R w = loop_at R w n t \<and> waited t = schedule (results R n w)"
  using assms
proof (induction n)
  case 0
  then show ?case by (auto simp: runEventRelay_def loop_at_def backoff_after_def failures_def schedule_def backoff_defs)
next
  case (Suc n)
  then obtain t where "runEventRelay R w = loop_at R w n t" "waited t = schedule (results R n w)" by auto
  then show ?case using loop_step(2) [of t R n w] Suc.prems by auto
qed

lemma relay_ends:
  assumes "ends_at R w m" and "\<forall>i<m. \<not> ends_at R w i"
  shows "\<exists>trace. runEventRelay R w = Some (trace, world_after R (Suc m) w) \<and>
           waited trace = schedule (results R (if ctx_Err_after R m then m else Suc m) w)"
proof -
  from loop_reaches [OF assms(2)] obtain t where "runEventRelay R w = loop_at R w m t" "waited t = schedule (results R m w)" by blast
  then show ?thesis using loop_step(1) [OF _ assms(1)] by metis
qed

section \<open>Properties\<close>

text \<open>
  C29. The relay stops when it is told to, and waits as it should until then: if the context is cancelled by the
  time poll number \<open>n\<close> returns, the loop returns, with exactly the polls up to the first one after which it finds the
  context cancelled, be it at once or during the pause that follows, and no poll after that. The pauses are those of
  the schedule for the results of the polls: half a second after an idle poll, none after one that
  published events, and 1, 2, 4, 8, 16 and then 30 seconds for failures in a row; the pause that was cut short is the last one.
\<close>

theorem relay_stops:
  assumes "ctx_Err_after R n"
  shows "\<exists>m trace. m \<le> n \<and> ends_at R w m \<and> (\<forall>i. i < m \<longrightarrow> \<not> ends_at R w i) \<and>
           runEventRelay R w = Some (trace, world_after R (Suc m) w) \<and>
           waited trace = schedule (results R (if ctx_Err_after R m then m else Suc m) w)"
proof -
  have "ends_at R w n" using assms by (simp add: ends_at_def)
  then obtain m where m: "ends_at R w m" "\<forall>i<m. \<not> ends_at R w i" "m \<le> n"
    by (metis exists_least_iff not_le_imp_less)
  then show ?thesis using relay_ends [OF m(1,2)] by blast
qed

text \<open>Witness of C29: a bus that is down, and a shutdown in the pause after the third poll.\<close>

definition broken_relay :: "unit relay" where
  "broken_relay = \<lparr>relay_RunOnce = fail PanicError, relay_meanwhile = (\<lambda>n w. w), ctx_Err_after = (\<lambda>n. 3 \<le> n),
     ctx_Done_first = (\<lambda>n. 2 \<le> n)\<rparr>"

theorem relay_stops_witness:
  "\<exists>trace. runEventRelay broken_relay () = Some (trace, ()) \<and> waited trace = [Second, 2 * Second, 4 * Second]"
proof -
  have ends: "ends_at broken_relay () i \<longleftrightarrow> 2 \<le> i" for i
  proof -
    have "fst (polls broken_relay k n ()) = replicate n (Inl PanicError)" for k n
      by (induction n arbitrary: k) (simp_all add: broken_relay_def fail_def split_beta)
    then show ?thesis by (auto simp: ends_at_def pause_after_def broken_relay_def simp del: polls.simps(2) split: sum.splits)
  qed
  obtain m trace where m: "ends_at broken_relay () m" "\<forall>i. i < m \<longrightarrow> \<not> ends_at broken_relay () i"
    and run: "runEventRelay broken_relay () = Some (trace, world_after broken_relay (Suc m) ())"
      "waited trace = schedule (results broken_relay (if ctx_Err_after broken_relay m then m else Suc m) ())"
    using relay_stops [of broken_relay 3 "()"] by (auto simp: broken_relay_def simp del: polls.simps(2))
  have "m = 2" using m ends by (metis le_antisym le_refl not_less)
  then show ?thesis
    using run by (simp add: broken_relay_def fail_def schedule_def pause_after_def failures_def failed_def
        numeral_3_eq_3 numeral_2_eq_2 upt_rec Second_def)
qed

end
