(* ===== verification/Delivery.thy ===== *)
theory Delivery
  imports Relay Settled
begin

text \<open>
  The relay and the service together: while \<open>runEventRelay\<close> polls the outbox, the use cases of the deployed
  service go on and add events to it. What was in the outbox when the relay started is published nevertheless.
\<close>

section \<open>The service only appends to the outbox\<close>

definition extends :: "OutboxEvent list \<Rightarrow> env \<Rightarrow> db \<Rightarrow> bool" where
  "extends xs E d \<longleftrightarrow> (outbox_laws E \<longrightarrow> (\<exists>ys. outbox d = xs @ ys))"

lemma extends_frame: "(\<And>now rank d a d'. q now rank d = Inr (a, d') \<Longrightarrow> outbox d' = outbox d) \<Longrightarrow> stmt_keeps (extends xs E) q"
  unfolding stmt_keeps_def extends_def by metis

lemma extends_insert: "stmt_keeps (extends xs E) (q_outbox_Insert E s en)"
  unfolding stmt_keeps_def extends_def q_outbox_Insert_def outbox_laws_def by (fastforce split: sum.splits)

interpretation pg_appends: statements "extends xs E" E for xs E
  by unfold_locales
     (rule extends_insert | rule extends_frame,
       auto simp: q_CreateSignupUser_def q_CreateUserWithEmail_def q_CreateUserWithMobile_def q_ReissueSignupUser_def q_UpdateLastLogin_def
         q_VerifySignupUser_def q_UpsertDemoUserByEmail_def q_UpsertDemoUserByMobile_def upsert_demo_def q_ConsumeChallenge_def
         q_DeleteChallengesForIdentifier_def q_DeleteExpiredChallenges_def q_IncrementChallengeAttempts_def q_UpsertChallenge_def
         q_RevokeRefreshToken_def q_StoreRefreshToken_def q_CreateAPIToken_def q_RevokeAPIToken_def q_CreateOrganization_def
         q_AddOrganizationMembership_def q_AddActiveOrganizationMembership_def q_UpdateOrganizationMembershipStatus_def
         q_DeleteOrganizationMembership_def q_CreateOrganizationInvite_def q_AcceptOrganizationInvite_def q_RevokeOrganizationInvite_def
         q_RevokePendingOrganizationInvitesForEmail_def update_users_def insert_member_Inr affected_Inr one_Inr Let_def
         dest!: insert_user_frame split: if_splits option.splits sum.splits)+

lemma extends_purge [keep]: "keeps (on_db (extends xs E)) (Store_PurgeUnverifiedSignups E before)"
proof -
  have "stmt_keeps (extends xs E) (q_PurgeUnverifiedSignups at)" "stmt_keeps (extends xs E) q_DeleteEmptyOrganizations" for at
    by (rule extends_frame, auto simp: q_PurgeUnverifiedSignups_def q_DeleteEmptyOrganizations_def delete_users_def Let_def split: if_splits option.splits)+
  then show ?thesis unfolding Store_PurgeUnverifiedSignups_def purge_tx_def by (intro keep)
qed

interpretation pg_outbox: ports_purge "on_db (extends xs E)" "deployed E J signer F ev du getenv"
  for xs E J signer F ev du getenv
  by unfold_locales (clarsimp simp: store_ports; rule pg_appends.methods keep)+

lemma uses_append:
  assumes "outbox_laws E"
  shows "\<exists>ys. outbox (w_db (use_runs U (deployed E J signer F ev du getenv) cs w)) = outbox (w_db w) @ ys"
  using pg_outbox.keeps_every_run [of "outbox (w_db w)" E w U J signer F ev du getenv cs] assms by (simp add: extends_def)

section \<open>Polls\<close>

definition published :: "OutboxEvent \<Rightarrow> bool" where
  "published e \<longleftrightarrow> OutboxEvent_PublishedAt e \<noteq> None"

definition pending :: "OutboxEvent list \<Rightarrow> nat" where
  "pending xs = length (filter (\<lambda>e. \<not> published e) xs)"

text \<open>Rows are only added, keep their event, and stay published.\<close>

definition later :: "OutboxEvent list \<Rightarrow> OutboxEvent list \<Rightarrow> bool" where
  "later xs ys \<longleftrightarrow> length xs \<le> length ys \<and>
     (\<forall>i<length xs. OutboxEvent_Envelope (ys ! i) = OutboxEvent_Envelope (xs ! i) \<and> (published (xs ! i) \<longrightarrow> published (ys ! i)))"

text \<open>
  What the loop relies on of \<open>outbox.Relay.RunOnce\<close>, whose use the integration tests of the outbox show: it
  works on the rows of the outbox that are there, publishes rows that are pending and marks them, returns how many it
  has published, and returns none only when none was pending. A failing poll may have published some.
\<close>

definition relay_laws :: "world relay \<Rightarrow> bool" where
  "relay_laws R \<longleftrightarrow>
     (\<forall>w r w'. relay_RunOnce R w = (r, w') \<longrightarrow>
        later (outbox (w_db w)) (outbox (w_db w')) \<and> length (outbox (w_db w')) = length (outbox (w_db w)) \<and>
        (\<forall>k. r = Inr k \<longrightarrow>
           k = int (pending (outbox (w_db w))) - int (pending (outbox (w_db w'))) \<and> (k = 0 \<longrightarrow> pending (outbox (w_db w)) = 0)))"

definition successes :: "(gerr + int) list \<Rightarrow> nat" where
  "successes rs = length (filter (\<lambda>r. \<not> failed r) rs)"

lemma later_refl: "later xs xs"
  by (simp add: later_def)

lemma later_trans: "later xs ys \<Longrightarrow> later ys zs \<Longrightarrow> later xs zs"
  unfolding later_def by (auto dest: order_trans)

lemma later_append: "later xs (xs @ ys)"
  by (simp add: later_def nth_append)

lemma pending_nth: "pending xs = card {i. i < length xs \<and> \<not> published (xs ! i)}"
  by (simp add: pending_def length_filter_conv_card)

lemma pending_later: "later xs ys \<Longrightarrow> length ys = length xs \<Longrightarrow> pending ys \<le> pending xs"
  unfolding pending_nth later_def by (rule card_mono) auto

lemma pending_append: "pending (xs @ ys) \<le> pending xs + length ys"
  by (simp add: pending_def)

lemma pending_none: "pending xs = 0 \<Longrightarrow> i < length xs \<Longrightarrow> published (xs ! i)"
  by (auto simp: pending_def filter_empty_conv)

definition appends :: "world relay \<Rightarrow> bool" where
  "appends R \<longleftrightarrow> (\<forall>n w. \<exists>ys. outbox (w_db (relay_meanwhile R n w)) = outbox (w_db w) @ ys)"

lemma one_poll:
  assumes "relay_laws R" and "appends R" and "relay_RunOnce R (relay_meanwhile R k w) = (r, w')"
  shows "later (outbox (w_db w)) (outbox (w_db w'))"
    and "r \<noteq> Inr 0 \<Longrightarrow> pending (outbox (w_db w')) + successes [r] \<le>
           pending (outbox (w_db w)) + (length (outbox (w_db w')) - length (outbox (w_db w)))"
    and "r = Inr 0 \<Longrightarrow> i < length (outbox (w_db w)) \<Longrightarrow> published (outbox (w_db w') ! i)"
proof -
  let ?v = "relay_meanwhile R k w"
  obtain ys where ys: "outbox (w_db ?v) = outbox (w_db w) @ ys" using assms(2) by (auto simp: appends_def)
  have law: "later (outbox (w_db ?v)) (outbox (w_db w'))" "length (outbox (w_db w')) = length (outbox (w_db ?v))"
    and res: "\<And>k. r = Inr k \<Longrightarrow> k = int (pending (outbox (w_db ?v))) - int (pending (outbox (w_db w'))) \<and>
      (k = 0 \<longrightarrow> pending (outbox (w_db ?v)) = 0)"
    using assms(1,3) unfolding relay_laws_def by blast+
  show "later (outbox (w_db w)) (outbox (w_db w'))" using later_trans [OF later_append law(1) [unfolded ys]] .
  have v: "pending (outbox (w_db ?v)) \<le> pending (outbox (w_db w)) + (length (outbox (w_db w')) - length (outbox (w_db w)))"
    using pending_append [of "outbox (w_db w)" ys] law(2) ys by simp
  show "pending (outbox (w_db w')) + successes [r] \<le>
      pending (outbox (w_db w)) + (length (outbox (w_db w')) - length (outbox (w_db w)))" if "r \<noteq> Inr 0"
    using v pending_later [OF law] res that by (cases r) (fastforce simp: successes_def failed_def)+
  show "published (outbox (w_db w') ! i)" if "r = Inr 0" "i < length (outbox (w_db w))"
  proof -
    have i: "i < length (outbox (w_db ?v))" using that(2) ys by simp
    then have "published (outbox (w_db ?v) ! i)" using res [OF that(1)] pending_none by blast
    then show ?thesis using law(1) i by (simp add: later_def)
  qed
qed

lemma polls_later: "relay_laws R \<Longrightarrow> appends R \<Longrightarrow> later (outbox (w_db w)) (outbox (w_db (snd (polls R k n w))))"
proof (induction n arbitrary: k w)
  case (Suc n)
  obtain r w1 where poll: "relay_RunOnce R (relay_meanwhile R k w) = (r, w1)" by (cases "relay_RunOnce R (relay_meanwhile R k w)")
  then show ?case using one_poll(1) [OF Suc.prems poll] Suc.IH [OF Suc.prems, of w1 "Suc k"] later_trans by (auto simp: split_beta)
qed (simp add: later_refl)

lemma polls_idle:
  assumes "relay_laws R" and "appends R" and "Inr 0 \<in> set (fst (polls R k n w))" and "i < length (outbox (w_db w))"
  shows "published (outbox (w_db (snd (polls R k n w))) ! i)"
  using assms(3,4)
proof (induction n arbitrary: k w)
  case (Suc n)
  obtain r w1 where poll: "relay_RunOnce R (relay_meanwhile R k w) = (r, w1)" by (cases "relay_RunOnce R (relay_meanwhile R k w)")
  have len: "i < length (outbox (w_db w1))" using one_poll(1) [OF assms(1,2) poll] Suc.prems(2) by (simp add: later_def)
  show ?case
  proof (cases "r = Inr 0")
    case True
    then have "published (outbox (w_db w1) ! i)" using one_poll(3) [OF assms(1,2) poll] Suc.prems(2) by blast
    then show ?thesis using polls_later [OF assms(1,2), of w1 "Suc k" n] len poll by (simp add: later_def split_beta)
  next
    case False
    then show ?thesis using Suc.IH [of "Suc k" w1] Suc.prems(1) len poll by (auto simp: split_beta)
  qed
qed simp

lemma polls_busy:
  assumes "relay_laws R" and "appends R" and "Inr 0 \<notin> set (fst (polls R k n w))"
  shows "pending (outbox (w_db (snd (polls R k n w)))) + successes (fst (polls R k n w)) \<le>
    pending (outbox (w_db w)) + (length (outbox (w_db (snd (polls R k n w)))) - length (outbox (w_db w)))"
  using assms(3)
proof (induction n arbitrary: k w)
  case (Suc n)
  obtain r w1 where poll: "relay_RunOnce R (relay_meanwhile R k w) = (r, w1)" by (cases "relay_RunOnce R (relay_meanwhile R k w)")
  obtain rs w2 where rest: "polls R (Suc k) n w1 = (rs, w2)" by (cases "polls R (Suc k) n w1")
  have eq: "polls R k (Suc n) w = (r # rs, w2)" using poll rest by simp
  have "r \<noteq> Inr 0" "Inr 0 \<notin> set rs" using Suc.prems unfolding eq by auto
  then have "pending (outbox (w_db w1)) + successes [r] \<le> pending (outbox (w_db w)) + (length (outbox (w_db w1)) - length (outbox (w_db w)))"
    and "pending (outbox (w_db w2)) + successes rs \<le> pending (outbox (w_db w1)) + (length (outbox (w_db w2)) - length (outbox (w_db w1)))"
    using one_poll(2) [OF assms(1,2) poll] Suc.IH [of "Suc k" w1] rest by simp_all
  moreover have "length (outbox (w_db w)) \<le> length (outbox (w_db w1))" "length (outbox (w_db w1)) \<le> length (outbox (w_db w2))"
    using one_poll(1) [OF assms(1,2) poll] polls_later [OF assms(1,2), of w1 "Suc k" n] rest by (simp_all add: later_def)
  moreover have "successes (r # rs) = successes [r] + successes rs" by (simp add: successes_def)
  ultimately show ?case unfolding eq by simp
qed (simp add: successes_def)

section \<open>Properties\<close>

text \<open>
  C30. Announced events are delivered although the service goes on: while the relay polls, the deployed service performs any use cases,
  with any faults, between the polls. When the relay is shut down only after more polls have succeeded than events were pending
  at the start or have been added since, however many others failed, then it returns, and every event that was
  in the outbox at the start is published. Hypotheses: \<open>RunOnce\<close> publishes pending rows, reports how many, and reports
  none only when none is pending; \<open>Insert\<close> of the message bus appends a row.
\<close>

theorem outbox_delivered:
  assumes "outbox_laws E" and "relay_laws R"
    and "relay_meanwhile R = (\<lambda>n. use_runs U (deployed E J signer F ev du getenv) (cs n))"
    and "ctx_Err_after R n" and "\<forall>i<n. \<not> ctx_Err_after R i \<and> \<not> ctx_Done_first R i"
    and "pending (outbox (w_db w)) + (length (outbox (w_db (world_after R (Suc n) w))) - length (outbox (w_db w))) <
         successes (results R (Suc n) w)"
  shows "\<exists>trace w'. runEventRelay R w = Some (trace, w') \<and>
           (\<forall>i<length (outbox (w_db w)). published (outbox (w_db w') ! i) \<and>
              OutboxEvent_Envelope (outbox (w_db w') ! i) = OutboxEvent_Envelope (outbox (w_db w) ! i))"
proof -
  have app: "appends R" using uses_append [OF assms(1)] by (simp add: appends_def assms(3))
  have "ends_at R w n" "\<forall>i<n. \<not> ends_at R w i" using assms(4,5) by (simp_all add: ends_at_def)
  from relay_ends [OF this] obtain trace where "runEventRelay R w = Some (trace, world_after R (Suc n) w)" by blast
  moreover have "Inr 0 \<in> set (results R (Suc n) w)" using polls_busy [OF assms(2) app, of 0 "Suc n" w] assms(6) by fastforce
  ultimately show ?thesis
    using polls_idle [OF assms(2) app] polls_later [OF assms(2) app, of w 0 "Suc n"] by (auto simp: later_def simp del: polls.simps(2))
qed

text \<open>Witness of C30: the first poll fails, the second one publishes the two pending events, and two more find nothing.\<close>

definition demo_relay :: "world relay" where
  "demo_relay =
     \<lparr>relay_RunOnce = (\<lambda>w.
        if w_tick w = 0 then (Inl PanicError, w\<lparr>w_tick := 1\<rparr>)
        else (Inr (int (pending (outbox (w_db w)))),
              w\<lparr>w_db := (w_db w)\<lparr>outbox := map (\<lambda>e. e\<lparr>OutboxEvent_PublishedAt := Some 0\<rparr>) (outbox (w_db w))\<rparr>\<rparr>)),
      relay_meanwhile = (\<lambda>n. use_runs (env_unicode demo_env) demo_service []),
      ctx_Err_after = (\<lambda>n. 3 \<le> n), ctx_Done_first = (\<lambda>n. False)\<rparr>"

definition demo_event :: OutboxEvent where
  "demo_event = \<lparr>OutboxEvent_Subject = ''s'',
     OutboxEvent_Envelope = \<lparr>Envelope_Subject = ''s'', Envelope_Payload = UserCreatedPayload ''u'' 0, Envelope_Source = [],
       Envelope_Version = [], Envelope_Timestamp = 0\<rparr>,
     OutboxEvent_CreatedAt = 0, OutboxEvent_PublishedAt = None, OutboxEvent_Attempts = 0, OutboxEvent_LastError = None\<rparr>"

definition backlog_world :: world where
  "backlog_world = (start_world [] 0)\<lparr>w_db := (empty_db [])\<lparr>outbox := [demo_event, demo_event]\<rparr>\<rparr>"

lemma demo_relay_laws: "relay_laws demo_relay"
  by (auto simp: relay_laws_def demo_relay_def later_def published_def pending_def split: if_splits)

theorem outbox_delivered_witness:
  "\<exists>trace w'. runEventRelay demo_relay backlog_world = Some (trace, w') \<and>
     published (outbox (w_db w') ! 0) \<and> published (outbox (w_db w') ! 1)"
proof -
  have enough: "pending (outbox (w_db backlog_world)) + (length (outbox (w_db (world_after demo_relay (Suc 3) backlog_world))) -
      length (outbox (w_db backlog_world))) < successes (results demo_relay (Suc 3) backlog_world)"
    by (simp add: numeral_3_eq_3 demo_relay_def backlog_world_def start_world_def pending_def published_def successes_def failed_def
        demo_event_def use_runs_def)
  have "relay_meanwhile demo_relay = (\<lambda>n. use_runs (env_unicode demo_env) demo_service [])"
    "ctx_Err_after demo_relay 3" "\<forall>i<3. \<not> ctx_Err_after demo_relay i \<and> \<not> ctx_Done_first demo_relay i"
    by (simp_all add: demo_relay_def)
  from outbox_delivered [OF demo_laws(2) demo_relay_laws this(1) [unfolded demo_service_def] this(2,3) enough]
  show ?thesis by (auto simp: backlog_world_def)
qed

end
