(* ===== verification/HttpApi.thy ===== *)
theory HttpApi
  imports Flags
begin

text \<open>
  \<open>internal/infrastructure/httpapi\<close>: the HTTP surface of the service. The request multiplexer is the one
  of \<open>net/http\<close>, as far as the three patterns of the service use it: none of them has a host, a wildcard
  or a trailing slash. The probes and the middleware of the observability package and the Fiber server are parameters.
\<close>

section \<open>Paths\<close>

text \<open>The elements of a path between its slashes.\<close>

fun split_path :: "string \<Rightarrow> string list" where
  "split_path [] = [[]]"
| "split_path (c # cs) =
     (if c = CHR ''/'' then [] # split_path cs
      else case split_path cs of s # ss \<Rightarrow> (c # s) # ss | [] \<Rightarrow> [[c]])"









text \<open>\<open>URL.String\<close> of a URL with a rooted path and a query: the path is escaped.\<close>

definition shouldEscape :: "char \<Rightarrow> bool" where
  "shouldEscape c =
     (let n = byte c in
      \<not> (97 \<le> n \<and> n \<le> 122 \<or> 65 \<le> n \<and> n \<le> 90 \<or> 48 \<le> n \<and> n \<le> 57) \<and> c \<notin> set ''-_.~$&+,/:;=@'')"

definition escape1 :: "char \<Rightarrow> string" where
  "escape1 c =
     (if shouldEscape c then [CHR ''%'', ''0123456789ABCDEF'' ! (byte c div 16), ''0123456789ABCDEF'' ! (byte c mod 16)] else [c])"

definition escape :: "string \<Rightarrow> string" where
  "escape s = concat (map escape1 s)"




section \<open>The multiplexer\<close>

text \<open>The path of a request is the escaped one.\<close>

record request =
  req_Method :: string
  req_RequestURI :: string
  req_Path :: string
  req_RawQuery :: string








section \<open>The server\<close>

text \<open>What a request is answered with; the answers of the probes are those of the observability package.\<close>

datatype 'x answer =
    FlagsAnswer http_response
  | ProbeAnswer 'x
  | MovedPermanently string
  | MethodNotAllowed "string list"
  | NotFoundPage
  | BadRequestPage

type_synonym ('w, 'x) handler = "request \<Rightarrow> ('w, 'x answer) M"



record fiber_config =
  ReadTimeout :: int
  WriteTimeout :: int
  IdleTimeout :: int

record ('w, 'x) Server =
  server_config :: fiber_config
  server_quiet :: bool
  server_handler :: "('w, 'x) handler"


text \<open>Starting and stopping are calls of the Fiber package on the server.\<close>

record ('w, 'x) fiber =
  app_Listen :: "('w, 'x) Server \<Rightarrow> string \<Rightarrow> gerr option"
  app_ShutdownWithContext :: "('w, 'x) Server \<Rightarrow> Context \<Rightarrow> gerr option"

definition Server_Listen :: "('w, 'x) fiber \<Rightarrow> ('w, 'x) Server \<Rightarrow> string \<Rightarrow> gerr option" where
  "Server_Listen F s addr = app_Listen F s addr"

definition Server_Shutdown :: "('w, 'x) fiber \<Rightarrow> ('w, 'x) Server \<Rightarrow> Context \<Rightarrow> gerr option" where
  "Server_Shutdown F s ctx = app_ShutdownWithContext F s ctx"

section \<open>A cleaned path is clean\<close>



lemma split_path_neq_Nil [simp]: "split_path p \<noteq> []"
  by (cases p) (auto split: list.splits)













section \<open>Escaped paths\<close>






lemma escape_simps [simp]:
  "escape [] = []" "escape (c # s) = escape1 c @ escape s" "escape (s @ t) = escape s @ escape t"
  by (simp_all add: escape_def)

lemma escape_slash [simp]: "escape1 CHR ''/'' = ''/''"
  by code_simp








section \<open>Routing\<close>














section \<open>Properties\<close>




end
