(* ===== verification/Locking.thy ===== *)
theory Locking
  imports StoreContract StoreRuns
begin

text \<open>
  Why the transactions that demote a member lock the organization first. Elsewhere in the development a
  transaction is one step; here \<open>UpdateMemberStatus\<close> and \<open>RemoveMember\<close> of \<open>organizations.go\<close> run statement
  by statement, any number of them at once. A transaction is written as a script, the tree of the calls it makes; the
  transactions of the store are the runs of their scripts, and the server below knows nothing of them but
  their scripts: it takes a lock where the script asks for one and nowhere else. As PostgreSQL documents for the isolation level of the store,
  which is the default READ COMMITTED, a statement reads the committed tables and the writes of its own transaction, these
  become visible to the others when it commits, and a row lock of \<open>SELECT ... FOR UPDATE\<close> is held to the end of the
  transaction, while another transaction that asks for it waits. Every other method of the store, except the
  purge of unverified sign-ups that the service never schedules, commits its own changes in between, at any time.
\<close>

section \<open>The two transactions\<close>

text \<open>The calls of a transaction in the order it makes them, each with what follows its result.\<close>

datatype tx_script =
    Fails gerr
  | Commits
  | LockThen uuid tx_script
  | ReadThen uuid uuid "Membership \<Rightarrow> tx_script"
  | CountThen uuid "int \<Rightarrow> tx_script"
  | WriteThen "unit stmt" tx_script
  | EmitThen "Time \<Rightarrow> Event list" tx_script

primrec run_script :: "env \<Rightarrow> string \<Rightarrow> tx_script \<Rightarrow> (world, unit outcome) M" where
  "run_script E cmsg (Fails e) = fail e"
| "run_script E cmsg Commits = ret (Commit cmsg ())"
| "run_script E cmsg (LockThen g k) = bindE (lockOrganization E g) (\<lambda>_. run_script E cmsg k)"
| "run_script E cmsg (ReadThen g u k) = bindE (getMembership E g u) (\<lambda>m. run_script E cmsg (k m))"
| "run_script E cmsg (CountThen g k) = bindE (exec E (q_CountActiveOrganizationMembers g)) (\<lambda>n. run_script E cmsg (k n))"
| "run_script E cmsg (WriteThen q k) = bindE (exec E q) (\<lambda>_. run_script E cmsg k)"
| "run_script E cmsg (EmitThen evs k) = bindE (time_Now E) (\<lambda>now. bindE (emitEvents E (evs now)) (\<lambda>_. run_script E cmsg k))"

datatype member_tx =
    TxUpdate string string uuid uuid MembershipStatus
  | TxRemove string string uuid uuid

fun tx_org :: "member_tx \<Rightarrow> uuid" where
  "tx_org (TxUpdate orgID userID g u st) = g"
| "tx_org (TxRemove orgID userID g u) = g"

fun tx_user :: "member_tx \<Rightarrow> uuid" where
  "tx_user (TxUpdate orgID userID g u st) = u"
| "tx_user (TxRemove orgID userID g u) = u"

text \<open>The condition under which the active members are counted, the statement that writes, and the event.\<close>

fun tx_guard :: "member_tx \<Rightarrow> MembershipStatus \<Rightarrow> bool" where
  "tx_guard (TxUpdate orgID userID g u st) current = (st \<noteq> MembershipActive \<and> current = MembershipActive)"
| "tx_guard (TxRemove orgID userID g u) current = (current = MembershipActive)"

fun tx_write :: "member_tx \<Rightarrow> unit stmt" where
  "tx_write (TxUpdate orgID userID g u st) = q_UpdateOrganizationMembershipStatus st g u"
| "tx_write (TxRemove orgID userID g u) = q_DeleteOrganizationMembership g u"

fun tx_emit :: "member_tx \<Rightarrow> MembershipStatus \<Rightarrow> tx_script" where
  "tx_emit (TxUpdate orgID userID g u st) current =
     (if st = MembershipSuspended \<and> current \<noteq> MembershipSuspended
      then EmitThen (\<lambda>now. [NewMembershipSuspendedEvent orgID userID st now]) Commits else Commits)"
| "tx_emit (TxRemove orgID userID g u) current = EmitThen (\<lambda>now. [NewMembershipRemovedEvent orgID userID current now]) Commits"

definition tx_tail :: "member_tx \<Rightarrow> Membership \<Rightarrow> tx_script" where
  "tx_tail op current = WriteThen (tx_write op) (tx_emit op (Membership_Status current))"

definition tx_guarded :: "member_tx \<Rightarrow> Membership \<Rightarrow> tx_script" where
  "tx_guarded op current =
     (if tx_guard op (Membership_Status current)
      then CountThen (tx_org op) (\<lambda>count. if count \<le> 1 then Fails ErrLastActiveMember else tx_tail op current)
      else tx_tail op current)"

definition member_script :: "member_tx \<Rightarrow> tx_script" where
  "member_script op = LockThen (tx_org op) (ReadThen (tx_org op) (tx_user op) (tx_guarded op))"

section \<open>The server\<close>

text \<open>A connection is idle, or has the writes of its transaction and the rest of the script.\<close>

type_synonym effect = "db \<Rightarrow> gerr + unit \<times> db"

datatype session = Idle | Running "effect list" tx_script

fun apply_writes :: "effect list \<Rightarrow> db \<Rightarrow> gerr + db" where
  "apply_writes [] d = Inr d"
| "apply_writes (f # fs) d = (case f d of Inl e \<Rightarrow> Inl e | Inr (_, d') \<Rightarrow> apply_writes fs d')"

record server =
  committed :: db
  row_lock :: "uuid \<Rightarrow> nat option"
  conn :: "nat \<Rightarrow> session"

definition release :: "nat \<Rightarrow> (uuid \<Rightarrow> nat option) \<Rightarrow> uuid \<Rightarrow> nat option" where
  "release t locks g = (if locks g = Some t then None else locks g)"

definition goto :: "nat \<Rightarrow> session \<Rightarrow> server \<Rightarrow> server" where
  "goto t p s = s\<lparr>conn := (conn s)(t := p)\<rparr>"

definition finish :: "nat \<Rightarrow> server \<Rightarrow> server" where
  "finish t s = goto t Idle (s\<lparr>row_lock := release t (row_lock s)\<rparr>)"

fun is_demotion :: "store_call \<Rightarrow> bool" where
  "is_demotion (Call_UpdateMemberStatus g u st) = True"
| "is_demotion (Call_RemoveMember g u) = True"
| "is_demotion c = False"

definition only_outbox :: "effect \<Rightarrow> bool" where
  "only_outbox f \<longleftrightarrow> (\<forall>d. \<exists>d'. f d = Inr ((), d') \<and> upto_outbox d d')"

text \<open>
  One step of one connection, or of another method. A transaction ends without a commit for any reason at any
  time: a statement that fails, a refusal, a connection that is lost.
\<close>

inductive server_step :: "env \<Rightarrow> server \<Rightarrow> server \<Rightarrow> bool" for E where
  begin_step: "conn s t = Idle \<Longrightarrow> server_step E s (goto t (Running [] (member_script op)) s)"
| lock_step: "conn s t = Running ws (LockThen g k) \<Longrightarrow> row_lock s g = None \<or> row_lock s g = Some t \<Longrightarrow>
    apply_writes ws (committed s) = Inr d \<Longrightarrow> q_LockOrganization g now rank d = Inr (x, d') \<Longrightarrow>
    server_step E s (goto t (Running ws k) (s\<lparr>row_lock := (row_lock s)(g := Some t)\<rparr>))"
| read_step: "conn s t = Running ws (ReadThen g u k) \<Longrightarrow>
    apply_writes ws (committed s) = Inr d \<Longrightarrow> q_GetOrganizationMembership g u now rank d = Inr (row, d') \<Longrightarrow>
    server_step E s (goto t (Running ws (k (membership_of_row row))) s)"
| count_step: "conn s t = Running ws (CountThen g k) \<Longrightarrow>
    apply_writes ws (committed s) = Inr d \<Longrightarrow> q_CountActiveOrganizationMembers g now rank d = Inr (n, d') \<Longrightarrow>
    server_step E s (goto t (Running ws (k n)) s)"
| write_step: "conn s t = Running ws (WriteThen q k) \<Longrightarrow>
    apply_writes ws (committed s) = Inr d \<Longrightarrow> q now rank d = Inr (x, d') \<Longrightarrow>
    server_step E s (goto t (Running (ws @ [q now rank]) k) s)"
| emit_step: "conn s t = Running ws (EmitThen evs k) \<Longrightarrow> only_outbox f \<Longrightarrow>
    server_step E s (goto t (Running (ws @ [f]) k) s)"
| commit_step: "conn s t = Running ws Commits \<Longrightarrow> apply_writes ws (committed s) = Inr d \<Longrightarrow>
    server_step E s (finish t (s\<lparr>committed := d\<rparr>))"
| abort_step: "server_step E s (finish t s)"
| other_step: "w_db w = committed s \<Longrightarrow> \<not> is_demotion c \<Longrightarrow> \<not> is_purge c \<Longrightarrow>
    server_step E s (s\<lparr>committed := w_db (store_apply E c w)\<rparr>)"

definition idle_server :: "db \<Rightarrow> server" where
  "idle_server d = \<lparr>committed = d, row_lock = (\<lambda>g. None), conn = (\<lambda>t. Idle)\<rparr>"

section \<open>What the other methods leave alone\<close>

definition active_in :: "uuid \<Rightarrow> uuid \<Rightarrow> db \<Rightarrow> bool" where
  "active_in g u d \<longleftrightarrow> (\<exists>m \<in> set (memberships d). is_member g u m \<and> m_Status m = ''active'')"

lemma active_frame: "(\<And>now rank d a d'. q now rank d = Inr (a, d') \<Longrightarrow> memberships d' = memberships d) \<Longrightarrow> stmt_keeps (active_in g u) q"
  unfolding stmt_keeps_def active_in_def by metis

lemma active_inserts:
  "stmt_keeps (active_in g u) (q_AddOrganizationMembership g' u' st)" "stmt_keeps (active_in g u) (q_AddActiveOrganizationMembership g' u')"
  by (auto simp: stmt_keeps_def active_in_def q_AddOrganizationMembership_def q_AddActiveOrganizationMembership_def affected_Inr
      insert_member_Inr split: if_splits)

interpretation actives: growing_statements "active_in g u" E for g u E
  by unfold_locales
     (rule active_inserts | rule active_frame,
       auto simp: q_CreateSignupUser_def q_CreateUserWithEmail_def q_CreateUserWithMobile_def q_ReissueSignupUser_def q_UpdateLastLogin_def
         q_VerifySignupUser_def q_UpsertDemoUserByEmail_def q_UpsertDemoUserByMobile_def upsert_demo_def q_ConsumeChallenge_def
         q_DeleteChallengesForIdentifier_def q_DeleteExpiredChallenges_def q_IncrementChallengeAttempts_def q_UpsertChallenge_def
         q_RevokeRefreshToken_def q_StoreRefreshToken_def q_CreateAPIToken_def q_RevokeAPIToken_def q_CreateOrganization_def
         q_CreateOrganizationInvite_def q_AcceptOrganizationInvite_def q_RevokeOrganizationInvite_def
         q_RevokePendingOrganizationInvitesForEmail_def q_outbox_Insert_def affected_Inr one_Inr Let_def
         dest!: insert_user_frame split: if_splits option.splits sum.splits)+

lemma active_other: "active_in g u (w_db w) \<Longrightarrow> \<not> is_demotion c \<Longrightarrow> \<not> is_purge c \<Longrightarrow> active_in g u (w_db (store_apply E c w))"
  by (cases c) (simp_all, (rule keeps_snd, rule actives.growing_methods, assumption)+)

section \<open>The writes\<close>

definition demotes :: "member_tx \<Rightarrow> bool" where
  "demotes op \<longleftrightarrow> (case op of TxUpdate _ _ g u st \<Rightarrow> st \<noteq> ''active'' | TxRemove _ _ g u \<Rightarrow> True)"

text \<open>Someone else is active, or nobody is demoted.\<close>

definition covered :: "member_tx \<Rightarrow> db \<Rightarrow> bool" where
  "covered op d \<longleftrightarrow> demotes op \<longrightarrow> (\<exists>v. v \<noteq> tx_user op \<and> active_in (tx_org op) v d)"

lemma write_active:
  assumes "tx_write op now rank d = Inr (x, d')" and "active_in g v d"
    and "\<not> demotes op \<or> (g, v) \<noteq> (tx_org op, tx_user op)"
  shows "active_in g v d'"
proof -
  from assms(2) obtain m where m: "m \<in> set (memberships d)" "is_member g v m" "m_Status m = ''active''" by (auto simp: active_in_def)
  show ?thesis
  proof (cases op)
    case (TxUpdate _ _ g' u st)
    let ?f = "\<lambda>m. if is_member g' u m then m\<lparr>m_Status := st, m_UpdatedAt := now\<rparr> else m"
    have "?f m \<in> set (memberships d')" using assms(1) m(1) TxUpdate by (auto simp: q_UpdateOrganizationMembershipStatus_def split: if_splits)
    moreover have "is_member g v (?f m) \<and> m_Status (?f m) = ''active''" using m assms(3) TxUpdate by (auto simp: is_member_def demotes_def)
    ultimately show ?thesis unfolding active_in_def by blast
  next
    case (TxRemove _ _ g' u)
    then show ?thesis using assms(1,3) m by (auto simp: q_DeleteOrganizationMembership_def demotes_def active_in_def is_member_def)
  qed
qed

lemma write_frame: "tx_write op now rank d = Inr (x, d') \<Longrightarrow> organizations d' = organizations d"
  by (cases op) (auto simp: q_UpdateOrganizationMembershipStatus_def q_DeleteOrganizationMembership_def split: if_splits)

lemma write_schema: "tx_write op now rank d = Inr (x, d') \<Longrightarrow> schema_ok E d \<Longrightarrow> schema_ok E d'"
proof (cases op)
  case (TxUpdate _ _ g u st)
  have "stmt_keeps (schema_ok E) (q_UpdateOrganizationMembershipStatus st g u)" by (rule keep)
  then show "tx_write op now rank d = Inr (x, d') \<Longrightarrow> schema_ok E d \<Longrightarrow> ?thesis" unfolding stmt_keeps_def TxUpdate tx_write.simps by blast
next
  case (TxRemove _ _ g u)
  have "stmt_keeps (schema_ok E) (q_DeleteOrganizationMembership g u)" by (rule keep)
  then show "tx_write op now rank d = Inr (x, d') \<Longrightarrow> schema_ok E d \<Longrightarrow> ?thesis" unfolding stmt_keeps_def TxRemove tx_write.simps by blast
qed

lemma active_in_org: "every_org_active d \<longleftrightarrow> (\<forall>g \<in> org_ids d. \<exists>v. active_in g v d)"
  unfolding every_org_active_def active_in_def is_member_def by blast

lemma write_tenancy:
  assumes "tx_write op now rank d = Inr (x, d')" and "tenancy_ok E d" and "covered op d"
  shows "tenancy_ok E d'"
proof -
  have "\<exists>v. active_in g v d'" if "g \<in> org_ids d'" for g
  proof -
    from that assms obtain v where v: "active_in g v d" "\<not> demotes op \<or> (g, v) \<noteq> (tx_org op, tx_user op)"
      by (cases "g = tx_org op") (auto simp: tenancy_ok_def active_in_org covered_def write_frame)
    then show ?thesis using write_active [OF assms(1)] by blast
  qed
  then show ?thesis using assms(2) write_schema [OF assms(1)] by (auto simp: tenancy_ok_def active_in_org)
qed

section \<open>The invariant\<close>

text \<open>
  A connection holds the lock of its organization from the second statement on and no other lock; once it has passed the
  guard, someone else is active in that organization.
\<close>

definition only_lock :: "server \<Rightarrow> nat \<Rightarrow> member_tx \<Rightarrow> bool" where
  "only_lock s t op \<longleftrightarrow> (\<forall>g. row_lock s g = Some t \<longleftrightarrow> g = tx_org op)"

inductive session_ok :: "server \<Rightarrow> nat \<Rightarrow> session \<Rightarrow> bool" for s t where
  idle: "(\<And>g. row_lock s g \<noteq> Some t) \<Longrightarrow> session_ok s t Idle"
| started: "(\<And>g. row_lock s g \<noteq> Some t) \<Longrightarrow> session_ok s t (Running [] (member_script op))"
| locked: "only_lock s t op \<Longrightarrow> session_ok s t (Running [] (ReadThen (tx_org op) (tx_user op) (tx_guarded op)))"
| was_read: "only_lock s t op \<Longrightarrow> Membership_Status c \<noteq> ''active'' \<longrightarrow> covered op (committed s) \<Longrightarrow>
    session_ok s t (Running [] (tx_guarded op c))"
| refused: "only_lock s t op \<Longrightarrow> session_ok s t (Running [] (Fails e))"
| guarded: "only_lock s t op \<Longrightarrow> covered op (committed s) \<Longrightarrow> session_ok s t (Running [] (tx_tail op c))"
| written: "only_lock s t op \<Longrightarrow> covered op (committed s) \<Longrightarrow>
    session_ok s t (Running [tx_write op now rank] (tx_emit op st))"
| emitted: "only_lock s t op \<Longrightarrow> covered op (committed s) \<Longrightarrow> only_outbox f \<Longrightarrow>
    session_ok s t (Running [tx_write op now rank, f] Commits)"

definition server_ok :: "env \<Rightarrow> server \<Rightarrow> bool" where
  "server_ok E s \<longleftrightarrow> tenancy_ok E (committed s) \<and> (\<forall>t. session_ok s t (conn s t))"

lemma server_okD: "server_ok E s \<Longrightarrow> conn s t = p \<Longrightarrow> session_ok s t p \<and> tenancy_ok E (committed s) \<and> schema_ok E (committed s)"
  unfolding server_ok_def tenancy_ok_def by blast

lemma session_ok_stable:
  assumes "session_ok s t p" and "\<And>g. row_lock s' g = Some t \<longleftrightarrow> row_lock s g = Some t"
    and "\<And>op. row_lock s (tx_org op) = Some t \<Longrightarrow> covered op (committed s) \<Longrightarrow> covered op (committed s')"
  shows "session_ok s' t p"
proof -
  have "only_lock s' t op \<longleftrightarrow> only_lock s t op" for op by (simp add: only_lock_def assms(2))
  moreover have "covered op (committed s')" if "only_lock s t op" "covered op (committed s)" for op
    using that assms(3) by (simp add: only_lock_def)
  note kept = calculation this
  from assms(1) show ?thesis by cases (auto intro: session_ok.intros simp: assms(2) kept)
qed

lemma server_okI:
  assumes "server_ok E s" and "tenancy_ok E (committed s')" and "session_ok s' t (conn s' t)"
    and "\<And>t'. t' \<noteq> t \<Longrightarrow> conn s' t' = conn s t'"
    and "\<And>t' g. t' \<noteq> t \<Longrightarrow> row_lock s' g = Some t' \<longleftrightarrow> row_lock s g = Some t'"
    and "\<And>t' op. t' \<noteq> t \<Longrightarrow> row_lock s (tx_org op) = Some t' \<Longrightarrow> covered op (committed s) \<Longrightarrow> covered op (committed s')"
  shows "server_ok E s'"
  unfolding server_ok_def
proof (intro conjI allI assms(2))
  fix t'
  show "session_ok s' t' (conn s' t')"
  proof (cases "t' = t")
    case False
    then have "session_ok s t' (conn s' t')" using assms(1,4) by (simp add: server_ok_def)
    then show ?thesis by (rule session_ok_stable) (use False assms(5,6) in blast)+
  qed (use assms(3) in simp)
qed

text \<open>A step that leaves the tables and the locks of the others alone.\<close>

lemma local_step:
  assumes "server_ok E s" and "committed s' = committed s" and "session_ok s' t p"
    and "\<And>t' g. t' \<noteq> t \<Longrightarrow> row_lock s' g = Some t' \<longleftrightarrow> row_lock s g = Some t'" and "conn s' = conn s"
  shows "server_ok E (goto t p s')"
proof -
  have "session_ok (goto t p s') t p" by (rule session_ok_stable [OF assms(3)]) (simp_all add: goto_def)
  with assms(1) show ?thesis
    by (intro server_okI [OF assms(1), of _ t]) (auto simp: goto_def server_ok_def assms(2,4,5))
qed

lemma read_covers:
  assumes "q_GetOrganizationMembership (tx_org op) (tx_user op) now rank d = Inr (row, d')" and "tenancy_ok E d"
    and "Membership_Status (membership_of_row row) \<noteq> ''active''"
  shows "covered op d"
proof -
  from assms(1,3) obtain r where r: "r \<in> set (memberships d)" "is_member (tx_org op) (tx_user op) r" "m_Status r \<noteq> ''active''"
    by (auto simp: q_GetOrganizationMembership_def stmt_inv dest!: filter_scan_Cons)
  have "m_OrgID ` set (memberships d) \<subseteq> org_ids d" using assms(2) by (simp add: tenancy_ok_def schema_ok_def members_ok_def)
  from subsetD [OF this imageI [OF r(1)]] have "tx_org op \<in> org_ids d" using r(2) by (simp add: is_member_def)
  then obtain v where v: "active_in (tx_org op) v d" using assms(2) unfolding tenancy_ok_def active_in_org by blast
  moreover have "v \<noteq> tx_user op"
  proof
    assume "v = tx_user op"
    with v obtain m where "m \<in> set (memberships d)" "is_member (tx_org op) (tx_user op) m" "m_Status m = ''active''"
      unfolding active_in_def by blast
    with unique_member [of E d m r] r assms(2) show False unfolding tenancy_ok_def by blast
  qed
  ultimately show ?thesis by (auto simp: covered_def)
qed

lemma count_covers:
  assumes "q_CountActiveOrganizationMembers (tx_org op) now rank d = Inr (n, d')" and "\<not> n \<le> 1" and "schema_ok E d"
  shows "covered op d"
proof -
  have "distinct (map (\<lambda>m. (m_OrgID m, m_UserID m)) (memberships d))" using assms(3) by (simp add: schema_ok_def members_ok_def)
  moreover have "\<not> length (filter (\<lambda>m. m_OrgID m = tx_org op \<and> m_Status m = ''active'') (memberships d)) \<le> Suc 0"
    using assms(1,2) by (auto simp: q_CountActiveOrganizationMembers_def)
  ultimately obtain m where "m \<in> set (memberships d)" "m_OrgID m = tx_org op" "m_Status m = ''active''" "m_UserID m \<noteq> tx_user op"
    using two_active [of "memberships d" "tx_org op" "tx_user op"] by blast
  then show ?thesis by (auto simp: covered_def active_in_def is_member_def)
qed

lemma unguarded_covers: "\<not> tx_guard op st \<Longrightarrow> st \<noteq> ''active'' \<longrightarrow> covered op d \<Longrightarrow> covered op d"
  by (cases op) (auto simp: covered_def demotes_def MembershipActive_def)

text \<open>What a script can be about to do.\<close>

lemma tx_emit_cases: "k = tx_emit op st \<Longrightarrow> k = Commits \<or> (\<exists>evs. k = EmitThen evs Commits)"
  by (cases op) simp_all

lemmas script_defs = member_script_def tx_guarded_def tx_tail_def

lemma before_lock:
  assumes "session_ok s t (Running ws (LockThen g k))"
  shows "\<exists>op. ws = [] \<and> g = tx_org op \<and> k = ReadThen (tx_org op) (tx_user op) (tx_guarded op) \<and> (\<forall>g. row_lock s g \<noteq> Some t)"
  using assms by cases (auto simp: script_defs dest: tx_emit_cases split: if_splits)

lemma before_read:
  assumes "session_ok s t (Running ws (ReadThen g u k))"
  shows "\<exists>op. ws = [] \<and> g = tx_org op \<and> u = tx_user op \<and> k = tx_guarded op \<and> only_lock s t op"
  using assms by cases (auto simp: script_defs dest: tx_emit_cases split: if_splits)

lemma before_count:
  assumes "session_ok s t (Running ws (CountThen g k))"
  shows "\<exists>op c. ws = [] \<and> g = tx_org op \<and> only_lock s t op \<and> k = (\<lambda>n. if n \<le> 1 then Fails ErrLastActiveMember else tx_tail op c)"
  using assms by cases (auto simp: script_defs dest: tx_emit_cases split: if_splits)

lemma before_write:
  assumes "session_ok s t (Running ws (WriteThen q k))"
  shows "\<exists>op st. ws = [] \<and> only_lock s t op \<and> covered op (committed s) \<and> q = tx_write op \<and> k = tx_emit op st"
  using assms
proof cases
  case (was_read op c)
  then have g: "\<not> tx_guard op (Membership_Status c)" "tx_tail op c = WriteThen q k" by (simp_all add: tx_guarded_def split: if_splits)
  then have "covered op (committed s)" using unguarded_covers was_read(4) by blast
  moreover have "q = tx_write op" "k = tx_emit op (Membership_Status c)" using g(2) by (simp_all add: tx_tail_def)
  ultimately show ?thesis using was_read(1,3) by blast
qed (auto simp: script_defs dest: tx_emit_cases split: if_splits)

lemma before_emit:
  assumes "session_ok s t (Running ws (EmitThen evs k))"
  shows "\<exists>op now rank. ws = [tx_write op now rank] \<and> only_lock s t op \<and> covered op (committed s) \<and> k = Commits"
  using assms by cases (auto simp: script_defs dest: tx_emit_cases split: if_splits)

lemma before_commit:
  assumes "session_ok s t (Running ws Commits)"
  shows "\<exists>op now rank. only_lock s t op \<and> covered op (committed s) \<and>
    (ws = [tx_write op now rank] \<or> (\<exists>f. only_outbox f \<and> ws = [tx_write op now rank, f]))"
  using assms by cases (auto simp: script_defs dest: tx_emit_cases split: if_splits)

lemma written_effect:
  assumes "ws = [q] \<or> (\<exists>f. only_outbox f \<and> ws = [q, f])" and "apply_writes ws d0 = Inr d'"
  shows "\<exists>x d. q d0 = Inr (x, d) \<and> upto_outbox d d'"
proof (cases "q d0")
  case (Inr y)
  obtain x d where y: "y = (x, d)" by (cases y)
  have "upto_outbox d d'" if "only_outbox f" "f d = Inr (z, d')" for f z
    using that unfolding only_outbox_def by (metis Inr_inject prod.inject)
  then show ?thesis using assms Inr y by (auto split: sum.splits)
qed (use assms in auto)

lemma commit_ok:
  assumes "server_ok E s" and "conn s t = Running ws Commits" and "apply_writes ws (committed s) = Inr d'"
  shows "server_ok E (finish t (s\<lparr>committed := d'\<rparr>))"
proof (rule server_okI [OF assms(1), of _ t])
  note ok = server_okD [OF assms(1,2)]
  obtain op now rank where t: "only_lock s t op" "covered op (committed s)"
    and ws: "ws = [tx_write op now rank] \<or> (\<exists>f. only_outbox f \<and> ws = [tx_write op now rank, f])" using before_commit ok by blast
  obtain x d where d: "tx_write op now rank (committed s) = Inr (x, d)" "upto_outbox d d'" using written_effect [OF ws assms(3)] by blast
  show "tenancy_ok E (committed (finish t (s\<lparr>committed := d'\<rparr>)))"
    using write_tenancy [OF d(1)] ok t(2) d(2) by (simp add: finish_def goto_def tenancy_upto_outbox)
  fix t' op' assume other: "t' \<noteq> t" "row_lock s (tx_org op') = Some t'" "covered op' (committed s)"
  have "tx_org op' \<noteq> tx_org op" using other(1,2) t(1) unfolding only_lock_def by (metis option.inject)
  then have "active_in (tx_org op') v d" if "active_in (tx_org op') v (committed s)" for v
    using write_active [OF d(1) that] by simp
  moreover have "active_in g v d' = active_in g v d" for g v using d(2) by (simp add: active_in_def upto_outbox_fields)
  ultimately show "covered op' (committed (finish t (s\<lparr>committed := d'\<rparr>)))"
    using other(3) by (auto simp: covered_def finish_def goto_def)
qed (auto simp: finish_def goto_def release_def intro!: idle split: if_splits)

lemma other_ok:
  assumes "server_ok E s" and "w_db w = committed s" and "\<not> is_demotion c" and "\<not> is_purge c"
  shows "server_ok E (s\<lparr>committed := w_db (store_apply E c w)\<rparr>)"
  unfolding server_ok_def
proof (intro conjI allI)
  show "tenancy_ok E (committed (s\<lparr>committed := w_db (store_apply E c w)\<rparr>))"
    using tenancy_store_apply [of E w c] assms by (simp add: server_ok_def)
  fix t
  have "session_ok s t (conn s t)" using assms(1) by (simp add: server_ok_def)
  then have "session_ok (s\<lparr>committed := w_db (store_apply E c w)\<rparr>) t (conn s t)"
    by (rule session_ok_stable) (use active_other [of _ _ w c E] assms(2-4) in \<open>auto simp: covered_def\<close>)
  then show "session_ok (s\<lparr>committed := w_db (store_apply E c w)\<rparr>) t (conn (s\<lparr>committed := w_db (store_apply E c w)\<rparr>) t)" by simp
qed

lemma server_step_ok: "server_step E s s' \<Longrightarrow> server_ok E s \<Longrightarrow> server_ok E s'"
proof (induction rule: server_step.induct)
  case (begin_step s t op)
  then have "session_ok s t Idle" using server_okD by metis
  then have "session_ok s t (Running [] (member_script op))" by cases (simp add: started)
  then show ?case using begin_step by (intro local_step) simp_all
next
  case (lock_step s t ws g k d now rank x d')
  then obtain op where op: "ws = []" "g = tx_org op" "k = ReadThen (tx_org op) (tx_user op) (tx_guarded op)" "\<forall>g. row_lock s g \<noteq> Some t"
    using before_lock server_okD by metis
  then have "session_ok (s\<lparr>row_lock := (row_lock s)(g := Some t)\<rparr>) t (Running ws k)" by (simp add: locked only_lock_def)
  then show ?case using lock_step op by (intro local_step [OF lock_step.prems]) auto
next
  case (read_step s t ws g u k d now rank row d')
  then obtain op where op: "ws = []" "g = tx_org op" "u = tx_user op" "k = tx_guarded op" "only_lock s t op"
    using before_read server_okD by metis
  have "session_ok s t (Running ws (k (membership_of_row row)))"
    unfolding op(1,4) using read_covers [of op] read_step op server_okD by (intro was_read) fastforce+
  then show ?case by (intro local_step [OF read_step.prems]) simp_all
next
  case (count_step s t ws g k d now rank n d')
  then obtain op c where op: "ws = []" "g = tx_org op" "only_lock s t op"
      "k = (\<lambda>n. if n \<le> 1 then Fails ErrLastActiveMember else tx_tail op c)"
    using before_count server_okD by metis
  have "session_ok s t (Running ws (k n))"
  proof (cases "n \<le> 1")
    case False
    then have "covered op (committed s)" using count_covers [of op] count_step op server_okD by fastforce
    then show ?thesis using False op by (simp add: guarded)
  qed (use op in \<open>simp add: refused\<close>)
  then show ?case by (intro local_step [OF count_step.prems]) simp_all
next
  case (write_step s t ws q k d now rank x d')
  then obtain op st where op: "ws = []" "only_lock s t op" "covered op (committed s)" "q = tx_write op" "k = tx_emit op st"
    using before_write server_okD by metis
  then have "session_ok s t (Running (ws @ [q now rank]) k)" by (simp add: written)
  then show ?case by (intro local_step [OF write_step.prems]) simp_all
next
  case (emit_step s t ws evs k f)
  then obtain op now rank where op: "ws = [tx_write op now rank]" "only_lock s t op" "covered op (committed s)" "k = Commits"
    using before_emit server_okD by metis
  then have "session_ok s t (Running (ws @ [f]) k)" using emit_step by (simp add: emitted)
  then show ?case by (intro local_step [OF emit_step.prems]) simp_all
next
  case (abort_step s t)
  have "session_ok (s\<lparr>row_lock := release t (row_lock s)\<rparr>) t Idle" by (rule idle) (simp add: release_def)
  then show ?case unfolding finish_def using abort_step by (intro local_step) (auto simp: release_def)
qed (blast intro: commit_ok other_ok)+

lemma server_steps_ok: "(server_step E)\<^sup>*\<^sup>* s s' \<Longrightarrow> server_ok E s \<Longrightarrow> server_ok E s'"
  by (induction rule: rtranclp_induct) (auto intro: server_step_ok)

lemma idle_ok: "tenancy_ok E d \<Longrightarrow> server_ok E (idle_server d)"
  by (simp add: server_ok_def idle_server_def idle)

text \<open>A connection that holds a lock is past waiting for one.\<close>

lemma holder_moves:
  assumes "server_ok E s" and "row_lock s g = Some t"
  shows "\<exists>ws k. conn s t = Running ws k \<and> (\<forall>g' k'. k \<noteq> LockThen g' k')"
proof -
  have ok: "session_ok s t (conn s t)" using assms(1) by (simp add: server_ok_def)
  show ?thesis
  proof (cases "conn s t")
    case Idle
    then show ?thesis using ok assms(2) by (auto elim: session_ok.cases)
  next
    case (Running ws k)
    then show ?thesis using ok before_lock [of s t ws] assms(2) by (cases k) auto
  qed
qed

section \<open>The transactions of the store are runs of the server\<close>

lemma reads_same: "reads q \<Longrightarrow> q now rank d = Inr (a, d') \<Longrightarrow> d' = d"
  unfolding reads_def by metis

lemma yields_lock_stmt: "yields (lockOrganization E g) d a d' \<Longrightarrow> d' = d \<and> (\<exists>now rank x. q_LockOrganization g now rank d = Inr (x, d))"
  unfolding lockOrganization_def by (blast dest: yields_bindE yields_mapErr yields_exec yields_ret reads_same [OF reads_queries(13)])

lemma yields_get_stmt:
  "yields (getMembership E g u) d m d' \<Longrightarrow>
     d' = d \<and> (\<exists>now rank row. q_GetOrganizationMembership g u now rank d = Inr (row, d) \<and> m = membership_of_row row)"
  unfolding getMembership_def by (blast dest: yields_bindE yields_mapErr yields_exec yields_ret reads_same [OF reads_queries(10)])

lemma apply_writes_append: "apply_writes ws d = Inr e \<Longrightarrow> f e = Inr (x, e') \<Longrightarrow> apply_writes (ws @ [f]) d = Inr e'"
  by (induction ws arbitrary: d) (auto split: sum.splits)

text \<open>A script that the store runs alone is a run of one connection.\<close>

definition concluded :: "nat \<Rightarrow> db \<Rightarrow> server \<Rightarrow> server" where
  "concluded t d s = \<lparr>committed = d, row_lock = (\<lambda>g. None), conn = (conn s)(t := Idle)\<rparr>"

lemma concluded_goto [simp]: "concluded t d (goto t p s) = concluded t d s" "concluded t d (s\<lparr>row_lock := l\<rparr>) = concluded t d s"
  by (simp_all add: concluded_def goto_def)

lemma solo_run:
  assumes "yields (run_script E cmsg k) e x d'" and "conn s t = Running ws k" and "apply_writes ws (committed s) = Inr e"
    and "\<And>g. row_lock s g = None \<or> row_lock s g = Some t"
  shows "(server_step E)\<^sup>*\<^sup>* s (concluded t d' s)"
  using assms
proof (induction k arbitrary: s ws e)
  case (Fails err)
  then show ?case by (auto dest: yields_fail)
next
  case Commits
  then have "d' = e" by (auto dest: yields_ret)
  moreover have "release t (row_lock s) = (\<lambda>g. None)" using Commits(4) by (auto simp: release_def fun_eq_iff)
  ultimately have "finish t (s\<lparr>committed := e\<rparr>) = concluded t d' s" by (simp add: finish_def goto_def concluded_def)
  then show ?case using commit_step [OF Commits(2,3), of E] by (simp add: r_into_rtranclp)
next
  case (LockThen g k)
  from LockThen.prems(1) obtain now rank y where lock: "q_LockOrganization g now rank e = Inr (y, e)" and k: "yields (run_script E cmsg k) e x d'"
    using yields_lock_stmt by (fastforce dest: yields_bindE)
  let ?s = "goto t (Running ws k) (s\<lparr>row_lock := (row_lock s)(g := Some t)\<rparr>)"
  have "server_step E s ?s" by (rule lock_step [OF LockThen.prems(2,4,3) lock])
  moreover have "(server_step E)\<^sup>*\<^sup>* ?s (concluded t d' ?s)"
    by (rule LockThen.IH [OF k]) (use LockThen.prems in \<open>simp_all add: goto_def\<close>)
  ultimately show ?case by (simp add: converse_rtranclp_into_rtranclp)
next
  case (ReadThen g u k)
  from ReadThen.prems(1) obtain now rank row where get: "q_GetOrganizationMembership g u now rank e = Inr (row, e)"
      and k: "yields (run_script E cmsg (k (membership_of_row row))) e x d'"
    using yields_get_stmt by (fastforce dest: yields_bindE)
  let ?s = "goto t (Running ws (k (membership_of_row row))) s"
  have "server_step E s ?s" by (rule read_step [OF ReadThen.prems(2,3) get])
  moreover have "(server_step E)\<^sup>*\<^sup>* ?s (concluded t d' ?s)"
    by (rule ReadThen.IH [OF _ k]) (use ReadThen.prems in \<open>simp_all add: goto_def\<close>)
  ultimately show ?case by (simp add: converse_rtranclp_into_rtranclp)
next
  case (CountThen g k)
  from CountThen.prems(1) obtain now rank n where count: "q_CountActiveOrganizationMembers g now rank e = Inr (n, e)"
      and k: "yields (run_script E cmsg (k n)) e x d'"
    by (fastforce simp: q_CountActiveOrganizationMembers_def dest: yields_bindE yields_exec)
  let ?s = "goto t (Running ws (k n)) s"
  have "server_step E s ?s" by (rule count_step [OF CountThen.prems(2,3) count])
  moreover have "(server_step E)\<^sup>*\<^sup>* ?s (concluded t d' ?s)"
    by (rule CountThen.IH [OF _ k]) (use CountThen.prems in \<open>simp_all add: goto_def\<close>)
  ultimately show ?case by (simp add: converse_rtranclp_into_rtranclp)
next
  case (WriteThen q k)
  from WriteThen.prems(1) obtain now rank y e' where stmt: "q now rank e = Inr (y, e')" and k: "yields (run_script E cmsg k) e' x d'"
    by (fastforce dest: yields_bindE yields_exec)
  let ?s = "goto t (Running (ws @ [q now rank]) k) s"
  have "server_step E s ?s" by (rule write_step [OF WriteThen.prems(2,3) stmt])
  moreover have "(server_step E)\<^sup>*\<^sup>* ?s (concluded t d' ?s)"
    by (rule WriteThen.IH [OF k])
       (use WriteThen.prems apply_writes_append [of ws "committed s" e "q now rank", OF _ stmt] in \<open>simp_all add: goto_def\<close>)
  ultimately show ?case by (simp add: converse_rtranclp_into_rtranclp)
next
  case (EmitThen evs k)
  from EmitThen.prems(1) obtain e' where "upto_outbox e e'" and k: "yields (run_script E cmsg k) e' x d'"
    by (fastforce dest: yields_bindE yields_time_Now yields_emitEvents_frame)
  then obtain o' where e': "e' = e\<lparr>outbox := o'\<rparr>" by (auto simp: upto_outbox_def)
  let ?f = "\<lambda>d. Inr ((), d\<lparr>outbox := o'\<rparr>)"
  let ?s = "goto t (Running (ws @ [?f]) k) s"
  have "server_step E s ?s" by (rule emit_step [OF EmitThen.prems(2)]) (auto simp: only_outbox_def upto_outbox_def)
  moreover have "(server_step E)\<^sup>*\<^sup>* ?s (concluded t d' ?s)"
    by (rule EmitThen.IH [OF k])
       (use EmitThen.prems apply_writes_append [of ws "committed s" e ?f "()" e'] e' in \<open>simp_all add: goto_def\<close>)
  ultimately show ?case by (simp add: converse_rtranclp_into_rtranclp)
qed

lemma script_runs:
  assumes "yields (run_script E cmsg (member_script op)) d x d'"
  shows "(server_step E)\<^sup>*\<^sup>* (idle_server d) (idle_server d')"
proof -
  let ?s = "goto 0 (Running [] (member_script op)) (idle_server d)"
  have "server_step E (idle_server d) ?s" by (rule begin_step) (simp add: idle_server_def)
  moreover have "(server_step E)\<^sup>*\<^sup>* ?s (concluded 0 d' ?s)"
    by (rule solo_run [OF assms, where ws = "[]"]) (simp_all add: goto_def idle_server_def)
  moreover have "concluded 0 d' ?s = idle_server d'" by (simp add: concluded_def idle_server_def goto_def fun_eq_iff)
  ultimately show ?thesis by (simp add: converse_rtranclp_into_rtranclp)
qed

text \<open>The transactions of the store are the runs of their scripts.\<close>

lemma run_script_if: "run_script E cmsg (if c then k else k') = (if c then run_script E cmsg k else run_script E cmsg k')"
  by simp

lemma update_script: "update_member_tx E orgID userID st g u =
    run_script E ''postgres: commit update membership: %w'' (member_script (TxUpdate orgID userID g u st))"
  by (auto simp: update_member_tx_def script_defs run_script_if fun_eq_iff bindE_def ret_def fail_def
      split: sum.splits prod.splits if_splits)

lemma remove_script: "remove_member_tx E orgID userID g u =
    run_script E ''postgres: commit remove membership: %w'' (member_script (TxRemove orgID userID g u))"
  by (auto simp: remove_member_tx_def script_defs run_script_if fun_eq_iff bindE_def ret_def fail_def
      split: sum.splits prod.splits if_splits)

section \<open>Properties\<close>

text \<open>
  C2. The lock is enough: with any number of membership updates and removals running at once, statement by statement in any order, and
  every other method of the store but the purge of unverified sign-ups in between, every organization of the committed tables keeps an active member;
  a transaction only ever waits for one that is not waiting itself, so there is no deadlock; the scripts that the server interleaves
  are the two transactions of the store, call by call, and each of them, run alone, is a run of this server that ends with the same tables.
\<close>

theorem demotions_interleave_safely:
  assumes "tenancy_ok E d"
  shows "(\<forall>s. (server_step E)\<^sup>*\<^sup>* (idle_server d) s \<longrightarrow>
            every_org_active (committed s) \<and>
            (\<forall>g t. row_lock s g = Some t \<longrightarrow> (\<exists>ws k. conn s t = Running ws k \<and> (\<forall>g' k'. k \<noteq> LockThen g' k')))) \<and>
         update_member_tx E orgID userID st g u =
           run_script E ''postgres: commit update membership: %w'' (member_script (TxUpdate orgID userID g u st)) \<and>
         remove_member_tx E orgID userID g u =
           run_script E ''postgres: commit remove membership: %w'' (member_script (TxRemove orgID userID g u)) \<and>
         (yields (update_member_tx E orgID userID st g u) d x d' \<or> yields (remove_member_tx E orgID userID g u) d x d' \<longrightarrow>
            (server_step E)\<^sup>*\<^sup>* (idle_server d) (idle_server d'))"
proof (intro conjI allI impI)
  fix s assume "(server_step E)\<^sup>*\<^sup>* (idle_server d) s"
  then have ok: "server_ok E s" using assms by (blast intro: server_steps_ok idle_ok)
  then show "every_org_active (committed s)" by (simp add: server_ok_def tenancy_ok_def)
  show "\<exists>ws k. conn s t = Running ws k \<and> (\<forall>g' k'. k \<noteq> LockThen g' k')" if "row_lock s g = Some t" for g t
    by (rule holder_moves [OF ok that])
qed (auto simp only: update_script remove_script intro: script_runs)

text \<open>
  Witness of C2: the two members of an organization remove each other at the same time. One transaction commits; the other one, which
  had to wait for the lock, then counts one active member and is refused.
\<close>

definition race_db :: db where
  "race_db = (empty_db [])
     \<lparr>users := [new_user_row 1 demo_start, new_user_row 2 demo_start],
      organizations := [\<lparr>o_ID = 9, o_Name = ''o'', o_CreatedAt = demo_start, o_UpdatedAt = demo_start\<rparr>],
      memberships := [\<lparr>m_OrgID = 9, m_UserID = 1, m_Status = ''active'', m_CreatedAt = demo_start, m_UpdatedAt = demo_start\<rparr>,
                      \<lparr>m_OrgID = 9, m_UserID = 2, m_Status = ''active'', m_CreatedAt = demo_start, m_UpdatedAt = demo_start\<rparr>]\<rparr>"

definition raced_db :: db where
  "raced_db = race_db\<lparr>memberships := [\<lparr>m_OrgID = 9, m_UserID = 2, m_Status = ''active'', m_CreatedAt = demo_start, m_UpdatedAt = demo_start\<rparr>]\<rparr>"

definition race :: "db \<Rightarrow> nat option \<Rightarrow> session \<Rightarrow> session \<Rightarrow> server" where
  "race d l p0 p1 = \<lparr>committed = d, row_lock = (\<lambda>g. None)(9 := l), conn = (\<lambda>t. Idle)(2 := p1, 0 := p0)\<rparr>"

abbreviation "racer u \<equiv> TxRemove ''o'' ''u'' 9 u"

lemma race_simps:
  "committed (race d l p0 p1) = d" "row_lock (race d l p0 p1) 9 = l" "conn (race d l p0 p1) 0 = p0" "conn (race d l p0 p1) 2 = p1"
  "goto 0 p (race d l p0 p1) = race d l p p1" "goto 2 p (race d l p0 p1) = race d l p0 p"
  "(race d l p0 p1)\<lparr>row_lock := (row_lock (race d l p0 p1))(9 := l')\<rparr> = race d l' p0 p1"
  "finish 0 ((race d (Some 0) p0 p1)\<lparr>committed := d'\<rparr>) = race d' None Idle p1"
  "idle_server d = race d None Idle Idle"
  by (simp_all add: race_def goto_def finish_def release_def idle_server_def fun_eq_iff)

lemma race_stmts:
  "q_LockOrganization 9 0 (\<lambda>i. i) race_db = Inr (9, race_db)" "q_LockOrganization 9 0 (\<lambda>i. i) raced_db = Inr (9, raced_db)"
  "\<exists>row. q_GetOrganizationMembership 9 1 0 (\<lambda>i. i) race_db = Inr (row, race_db) \<and> Membership_Status (membership_of_row row) = ''active''"
  "\<exists>row. q_GetOrganizationMembership 9 2 0 (\<lambda>i. i) raced_db = Inr (row, raced_db) \<and> Membership_Status (membership_of_row row) = ''active''"
  "q_CountActiveOrganizationMembers 9 0 (\<lambda>i. i) race_db = Inr (2, race_db)" "q_CountActiveOrganizationMembers 9 0 (\<lambda>i. i) raced_db = Inr (1, raced_db)"
  "q_DeleteOrganizationMembership 9 1 0 (\<lambda>i. i) race_db = Inr ((), raced_db)"
  by (simp_all add: race_db_def raced_db_def q_LockOrganization_def q_GetOrganizationMembership_def q_CountActiveOrganizationMembers_def
      q_DeleteOrganizationMembership_def one_def scan_def is_member_def membership_of_row_def membership_row_def)

lemma race_won:
  "(server_step demo_env)\<^sup>*\<^sup>* (idle_server race_db) (race raced_db None Idle (Running [] (member_script (racer 2))))"
proof -
  let ?k = "\<lambda>u. ReadThen 9 u (tx_guarded (racer u))" and ?p = "Running [] (member_script (racer 2))" and ?E = demo_env
  let ?w = "q_DeleteOrganizationMembership 9 1 0 (\<lambda>i. i)" and ?f = "\<lambda>d. Inr ((), d)"
  obtain row where row: "q_GetOrganizationMembership 9 1 0 (\<lambda>i. i) race_db = Inr (row, race_db)"
    "Membership_Status (membership_of_row row) = ''active''" using race_stmts(3) by blast
  let ?c = "membership_of_row row"
  have 1: "server_step ?E (idle_server race_db) (race race_db None Idle ?p)"
    using begin_step [of "race race_db None Idle Idle" 2 ?E] by (simp add: race_simps)
  have 2: "server_step ?E (race race_db None Idle ?p) (race race_db None (Running [] (member_script (racer 1))) ?p)"
    using begin_step [of "race race_db None Idle ?p" 0 ?E] by (simp add: race_simps)
  have 3: "server_step ?E (race race_db None (Running [] (member_script (racer 1))) ?p) (race race_db (Some 0) (Running [] (?k 1)) ?p)"
    using lock_step [of "race race_db None (Running [] (LockThen 9 (?k 1))) ?p" 0 "[]" 9 "?k 1" race_db 0 "\<lambda>i. i" 9 race_db ?E] race_stmts(1)
    by (simp add: race_simps member_script_def)
  have 4: "server_step ?E (race race_db (Some 0) (Running [] (?k 1)) ?p) (race race_db (Some 0) (Running [] (tx_guarded (racer 1) ?c)) ?p)"
    using read_step [of "race race_db (Some 0) (Running [] (?k 1)) ?p" 0 "[]" 9 1 "tx_guarded (racer 1)" race_db 0 "\<lambda>i. i" row race_db ?E] row
    by (simp add: race_simps)
  have 5: "server_step ?E (race race_db (Some 0) (Running [] (tx_guarded (racer 1) ?c)) ?p) (race race_db (Some 0) (Running [] (tx_tail (racer 1) ?c)) ?p)"
    using count_step [of "race race_db (Some 0) (Running [] (tx_guarded (racer 1) ?c)) ?p" 0 "[]" 9 _ race_db 0 "\<lambda>i. i" 2 race_db ?E] row race_stmts(5)
    by (simp add: race_simps tx_guarded_def MembershipActive_def)
  have 6: "server_step ?E (race race_db (Some 0) (Running [] (tx_tail (racer 1) ?c)) ?p) (race race_db (Some 0) (Running [?w] (tx_emit (racer 1) ''active'')) ?p)"
    using write_step [of "race race_db (Some 0) (Running [] (tx_tail (racer 1) ?c)) ?p" 0 "[]" _ _ race_db 0 "\<lambda>i. i" "()" raced_db ?E] row race_stmts(7)
    by (simp add: race_simps tx_tail_def)
  have 7: "server_step ?E (race race_db (Some 0) (Running [?w] (tx_emit (racer 1) ''active'')) ?p) (race race_db (Some 0) (Running [?w, ?f] Commits) ?p)"
    using emit_step [of "race race_db (Some 0) (Running [?w] (tx_emit (racer 1) ''active'')) ?p" 0 "[?w]" _ Commits ?f ?E]
    by (simp add: race_simps only_outbox_def)
  have 8: "server_step ?E (race race_db (Some 0) (Running [?w, ?f] Commits) ?p) (race raced_db None Idle ?p)"
    using commit_step [of "race race_db (Some 0) (Running [?w, ?f] Commits) ?p" 0 "[?w, ?f]" raced_db ?E] race_stmts(7) by (simp add: race_simps)
  show ?thesis using 1 2 3 4 5 6 7 8 by (meson converse_rtranclp_into_rtranclp r_into_rtranclp)
qed

lemma race_lost:
  "(server_step demo_env)\<^sup>*\<^sup>* (race raced_db None Idle (Running [] (member_script (racer 2))))
     (race raced_db (Some 2) Idle (Running [] (Fails ErrLastActiveMember)))"
proof -
  let ?k = "ReadThen 9 2 (tx_guarded (racer 2))" and ?E = demo_env
  obtain row where row: "q_GetOrganizationMembership 9 2 0 (\<lambda>i. i) raced_db = Inr (row, raced_db)"
    "Membership_Status (membership_of_row row) = ''active''" using race_stmts(4) by blast
  let ?c = "membership_of_row row"
  have 1: "server_step ?E (race raced_db None Idle (Running [] (member_script (racer 2)))) (race raced_db (Some 2) Idle (Running [] ?k))"
    using lock_step [of "race raced_db None Idle (Running [] (LockThen 9 ?k))" 2 "[]" 9 ?k raced_db 0 "\<lambda>i. i" 9 raced_db ?E] race_stmts(2)
    by (simp add: race_simps member_script_def)
  have 2: "server_step ?E (race raced_db (Some 2) Idle (Running [] ?k)) (race raced_db (Some 2) Idle (Running [] (tx_guarded (racer 2) ?c)))"
    using read_step [of "race raced_db (Some 2) Idle (Running [] ?k)" 2 "[]" 9 2 "tx_guarded (racer 2)" raced_db 0 "\<lambda>i. i" row raced_db ?E] row
    by (simp add: race_simps)
  have 3: "server_step ?E (race raced_db (Some 2) Idle (Running [] (tx_guarded (racer 2) ?c)))
      (race raced_db (Some 2) Idle (Running [] (Fails ErrLastActiveMember)))"
    using count_step [of "race raced_db (Some 2) Idle (Running [] (tx_guarded (racer 2) ?c))" 2 "[]" 9 _ raced_db 0 "\<lambda>i. i" 1 raced_db ?E] row race_stmts(6)
    by (simp add: race_simps tx_guarded_def MembershipActive_def)
  show ?thesis using 1 2 3 by (meson converse_rtranclp_into_rtranclp r_into_rtranclp)
qed

theorem demotions_interleave_safely_witness:
  "tenancy_ok demo_env race_db \<and>
   (server_step demo_env)\<^sup>*\<^sup>* (idle_server race_db) (race raced_db (Some 2) Idle (Running [] (Fails ErrLastActiveMember))) \<and>
   every_org_active raced_db"
proof -
  have ok: "tenancy_ok demo_env race_db"
    by (simp add: race_db_def tenancy_ok_def every_org_active_def empty_db_def schema_ok_def users_ok_def members_ok_def tokens_ok_def
        invites_ok_def uniq_def new_user_row_def membership_statuses_def)
  have run: "(server_step demo_env)\<^sup>*\<^sup>* (idle_server race_db) (race raced_db (Some 2) Idle (Running [] (Fails ErrLastActiveMember)))"
    using race_won race_lost by (rule rtranclp_trans)
  from demotions_interleave_safely [OF ok] run have "every_org_active (committed (race raced_db (Some 2) Idle (Running [] (Fails ErrLastActiveMember))))" by blast
  then show ?thesis using ok run by (simp add: race_simps)
qed

end
