(* ===== verification/Shutdown.thy ===== *)
theory Shutdown
  imports Relay HttpApi
begin

text \<open>
  The hooks that \<open>main\<close> hands to the observability package for the end of the process, and what their order gives:
  the relay is told to stop, and has returned or has used up the time of the context, before the bus it
  publishes to and the pool it reads from are closed.
\<close>

record stopping =
  relay_cancelled :: bool
  relay_returned :: bool
  bus_closed :: bool
  http_stopped :: bool
  pool_closed :: bool

text \<open>
  The first hook waits for the goroutine of the relay or for the end of the context, whichever comes first;
  \<open>drained\<close> says that it was the relay.
\<close>

definition stop_relay :: "bool \<Rightarrow> (stopping, unit) M" where
  "stop_relay drained st = (Inr (), st\<lparr>relay_cancelled := True, relay_returned := drained\<rparr>)"

definition close_bus :: "gerr option \<Rightarrow> (stopping, unit) M" where
  "close_bus err st = (case err of Some e \<Rightarrow> Inl e | None \<Rightarrow> Inr (), st\<lparr>bus_closed := True\<rparr>)"

definition stop_http :: "('w, 'x) fiber \<Rightarrow> ('w, 'x) Server \<Rightarrow> Context \<Rightarrow> (stopping, unit) M" where
  "stop_http F health ctx st = (case Server_Shutdown F health ctx of Some e \<Rightarrow> Inl e | None \<Rightarrow> Inr (), st\<lparr>http_stopped := True\<rparr>)"

definition close_pool :: "(stopping, unit) M" where
  "close_pool st = (Inr (), st\<lparr>pool_closed := True\<rparr>)"

definition OnShutdown :: "('w, 'x) fiber \<Rightarrow> ('w, 'x) Server \<Rightarrow> gerr option \<Rightarrow> bool \<Rightarrow> Context \<Rightarrow> (stopping, unit) M list" where
  "OnShutdown F health bus_Close drained ctx = [stop_relay drained, close_bus bus_Close, stop_http F health ctx, close_pool]"

text \<open>Hooks called in the order of the list, a failing one included.\<close>

definition call_hooks :: "(stopping, unit) M list \<Rightarrow> stopping \<Rightarrow> stopping" where
  "call_hooks hooks st = foldl (\<lambda>st hook. snd (hook st)) st hooks"

definition relay_first :: "bool \<Rightarrow> stopping \<Rightarrow> bool" where
  "relay_first drained st \<longleftrightarrow> bus_closed st \<or> pool_closed st \<longrightarrow> relay_cancelled st \<and> (relay_returned st \<or> \<not> drained)"

lemmas hook_defs = OnShutdown_def call_hooks_def stop_relay_def close_bus_def stop_http_def close_pool_def

lemma relay_before_bus:
  assumes "\<not> bus_closed st" and "\<not> pool_closed st"
  shows "relay_first drained (call_hooks (take n (OnShutdown F health err drained ctx)) st)"
proof -
  consider "n = 0" | "n = 1" | "n = 2" | "n = 3" | "4 \<le> n" by linarith
  then show ?thesis using assms by cases (auto simp: relay_first_def hook_defs numeral_2_eq_2 numeral_3_eq_3)
qed

text \<open>Every hook runs, also when closing the bus or stopping the HTTP server fails.\<close>

lemma all_released:
  "call_hooks (OnShutdown F health err drained ctx) st =
     \<lparr>relay_cancelled = True, relay_returned = drained, bus_closed = True, http_stopped = True, pool_closed = True,
      \<dots> = stopping.more st\<rparr>"
  by (simp add: hook_defs)

end
