(* ===== verification/Spec2Isabelle.thy ===== *)
theory Spec2Isabelle
  imports Memstore Verifier Startup Roster Credentials Invites Delivery HttpApi OneTimeCodes Locking Shutdown
begin

text \<open>
  \<^bold>\<open>Verification of orbit-auth.\<close> The repository is the authentication service of a platform: one-time codes,
  passwords, sessions, API tokens, organizations with members and invitations, and self-serve sign-up, over gRPC
  and PostgreSQL; and three packages that other services import: \<open>token\<close> (access tokens), \<open>tenancy\<close> (the
  organization of a request) and \<open>authorization\<close> (role based access control). This development models all of it
  that is written by hand, and proves what makes it correct. Paths below are relative to \<open>src/\<close>.

  \<^bold>\<open>How the parts interact.\<close> A gRPC call passes the access-token interceptor, a handler of
  \<open>internal/infrastructure/grpc\<close> and a use case of \<open>internal/application\<close>. The use case talks to ports, the
  interfaces of \<open>internal/domain/ports.go\<close>. \<open>cmd/auth/main.go\<close> fills the ports with the adapters of
  \<open>internal/infrastructure\<close>, the Postgres store first of all. The store writes lifecycle events to an outbox table
  in the transaction of the change, and the relay of \<open>main.go\<close> publishes them. An HTTP server publishes the
  feature flags and the health probes. The theories follow this structure.

  \<^bold>\<open>Modelling.\<close> A function that has effects and may fail is a function from a world to an error or a result, and
  the next world (\<open>Prelude\<close>); every error return of the source is a branch. A Go interface is a record of its
  methods; one that may be nil is an option, and a call on nil is a panic. Strings are byte strings, a UUID is a
  128-bit word, a time is a number of nanoseconds. Every request to the outside takes a tick, and what the outside
  answers is a function of the tick, so a theorem holds for every stream of clock readings, random numbers, row
  orders and faults.
\<close>

text \<open>
  \<^bold>\<open>Foundations.\<close>
  \<^item> \<open>Prelude\<close>: the monad, its rules, and the collections \<open>keep\<close> (invariants through the combinators) and \<open>run\<close>
    (inversion of successful runs).
  \<^item> \<open>GoStrings\<close>, \<open>GoTime\<close>, \<open>GoContext\<close>, \<open>Sha256\<close>: the parts of the Go standard library that the code computes with.
  \<^item> \<open>Domain\<close>: \<open>internal/domain\<close>, its value types, validators, hashes, events and ports.
  \<^item> \<open>Database\<close>: the tables, the statements as functions on them, and transactions with failing statements, rollbacks
    and lost commit acknowledgements. \<open>DemoEnv\<close>: a concrete environment for the witnesses.

  \<^bold>\<open>Authorization\<close> (\<open>authorization\<close>). \<open>Policy\<close> has \<open>policy.go\<close> and \<open>catalog.go\<close>; \<open>Rbac\<close> has \<open>Check\<close>,
  \<open>AllowedScopes\<close> and \<open>CanGrant\<close> with a declarative relation they are proved against, including that a grant
  cannot escalate; \<open>Memstore\<close> has the in-memory store, which is an instance of the contracts \<open>authz_store\<close> and \<open>authz_updates\<close>.

  \<^bold>\<open>Tokens\<close> (\<open>token\<close>, \<open>internal/infrastructure/jwt\<close>). \<open>Token\<close> has keys, JWKS documents, signing and parsing with
  their round trips; \<open>Verifier\<close> has the remote verifier, with the rate of its requests, the age of the keys it
  accepts, its behaviour in an outage and the acceptance of rotated keys.

  \<^bold>\<open>Tenancy\<close> (\<open>tenancy\<close>). \<open>Tenancy\<close> has both middlewares, which agree, and the way of the organization from the claim
  to the database transaction.

  \<^bold>\<open>Store\<close> (\<open>internal/infrastructure/postgres\<close>).
  \<^item> \<open>SchemaChanges\<close>: the nine migration files, the schema they add to any database and how they roll back. \<open>Migrations\<close>:
    \<open>migrations.go\<close>, in particular the adoption of the versions of an older runner, which implements its specification under
    any faults; goose may create its own table of versions in any call, a status query included.
  \<^item> \<open>Queries\<close>: every statement of \<open>sqlcgen\<close>. \<open>Schema\<close>: the constraints, kept by every statement.
  \<^item> \<open>Store\<close>, \<open>StoreOrgs\<close>, \<open>StoreSignup\<close>: every method of the store as a transaction over the statements.
  \<^item> \<open>OrgInvariant\<close>, \<open>Recorded\<close>: the invariants of the methods, that every organization has an active member and that
    every row is announced by an event. \<open>StoreRuns\<close>: they hold after every sequence of calls.
  \<^item> \<open>StoreContract\<close>: the contracts \<open>lasting_statements\<close>, \<open>growing_statements\<close>, \<open>demoting_statements\<close> and \<open>statements\<close>, by which
    what all statements, or all but a revocation or a demotion, keep, the methods that use them keep.
  \<^item> \<open>Roster\<close>: an abstract specification of the membership methods, and that they refine it.
  \<^item> \<open>Locking\<close>: the two transactions that demote a member as scripts of calls, which are proved to be the transactions of
    \<open>StoreOrgs\<close>, and a server that interleaves any number of them, statement by statement.
\<close>

text \<open>
  \<^bold>\<open>Application and adapters.\<close>
  \<^item> \<open>Service\<close>: every use case of \<open>internal/application\<close>. \<open>UseCases\<close>: the contracts \<open>lasting_ports\<close>, \<open>ports\<close> and
    \<open>ports_purge\<close>, by which an invariant of the ports is one of all sequences of use cases.
  \<^item> \<open>Adapters\<close>: credentials, clock, identifiers, signer, notifications, and the wiring of \<open>main.go\<close>. \<open>Flags\<close>: the
    feature-flag endpoint and the OpenFeature provider. \<open>HttpApi\<close>: the HTTP server, the routing of its mux
    and the escaped locations it redirects to.
  \<^item> \<open>Deployment\<close>: the use cases on the Postgres store, with the contracts interpreted on it. \<open>Settled\<close>: final states
    stay. \<open>Sessions\<close>, \<open>OneTimeCodes\<close>, \<open>Credentials\<close>, \<open>Invites\<close>: what a session, a code, an API token and an
    invitation are worth, and that each is spent or revoked for good.
  \<^item> \<open>Grpc\<close>: the interceptor and the handlers. \<open>OrgAccess\<close>: who reaches the data of an organization.

  \<^bold>\<open>Process\<close> (\<open>cmd/auth/main.go\<close>). \<open>Startup\<close> has \<open>main\<close> up to serving or an exit and the migrate subcommand, \<open>Relay\<close>
  the outbox relay with its polls and pauses, \<open>Delivery\<close> that it delivers while the service goes on writing, \<open>Shutdown\<close> the
  hooks for the end.

  \<^bold>\<open>Parameters and their laws.\<close> Code outside the repository is a parameter, with its documented behaviour as a named
  hypothesis: \<open>uuid_laws\<close>, \<open>outbox_laws\<close>, \<open>bcrypt_laws\<close> and \<open>rand_laws\<close> of the environment, \<open>jwt_laws\<close>, \<open>goose_laws\<close>,
  \<open>openfeature_laws\<close>, \<open>relay_laws\<close> and \<open>observability_laws\<close>. Each has an instance that the witnesses use.

  \<^bold>\<open>Loops.\<close> No definition uses fuel. The loops over data are structural recursion or have a termination proof. The relay
  need not end: it is a partial function into options, and it is proved to return after its context is cancelled.

  \<^bold>\<open>Concurrency.\<close> A method of the store is one step of a run, and a run is an arbitrary sequence of such steps, so
  handlers interleave between their store calls in the invariants of \<open>StoreRuns\<close>. That a transaction may be one step is
  not obvious for the two that count before they write; \<open>Locking\<close> shows that the row lock they take makes it safe. The relay
  and the use cases alternate in \<open>Delivery\<close>. The
  mutexes of the in-memory store and of the remote verifier make their methods one step.

  \<^bold>\<open>Not modelled.\<close> The generated protobuf messages and service registration (\<open>api/auth/v1\<close>), apart from the names of
  the methods; the runtimes of gRPC and Fiber; the wait for a signal, which is the observability package; log lines;
  \<open>internal/testutil\<close>, which starts a database for tests; and \<open>scripts\<close>. The operator's \<open>PurgeUnverifiedSignups\<close>, which the
  service never calls, is modelled, keeps the schema and the announcements, and is excluded where a property does not survive it.
\<close>

end
